(* ===== verification/Prelude.thy ===== *)
theory Prelude
  imports Main "HOL-Library.List_Lexorder" "HOL-Library.Char_ord"
begin

text \<open>
  Shared vocabulary of the development.

  A Go \<open>string\<close> or \<open>[]byte\<close> is a HOL \<open>string\<close>: a list of 8-bit characters, that is of
  bytes, ordered byte by byte as Go's \<open><\<close> and SQLite's BINARY collation order text.

  A Go error is the tree that \<open>errors.Is\<close> and \<open>errors.Unwrap\<close> see: a sentinel variable
  (\<open>Leaf\<close>), a message without causes (\<open>Opaque\<close>), \<open>fmt.Errorf\<close> with one \<open>%w\<close>
  (\<open>Wrap\<close>), and \<open>errors.Join\<close> or \<open>fmt.Errorf\<close> with several \<open>%w\<close>
  (\<open>Joined\<close>), and a database driver's error with its result code (\<open>DriverError\<close>). A nil error is \<open>None\<close>. A Go function returning \<open>(T, error)\<close> is a function
  into \<open>error + 'a\<close>; a function returning only \<open>error\<close> is one into \<open>error option\<close>.
\<close>

named_theorems go_check \<open>characteristic facts of validators\<close>
named_theorems go_simps \<open>unfolding of monadic plumbing\<close>

section \<open>Errors\<close>

text \<open>A sentinel is a package-level error variable, identified by its name.\<close>

datatype sentinel = Sentinel string

abbreviation ErrStopAlreadyRequested :: sentinel where "ErrStopAlreadyRequested \<equiv> Sentinel ''StopAlreadyRequested''"
abbreviation ErrTerminalTask :: sentinel where "ErrTerminalTask \<equiv> Sentinel ''TerminalTask''"
abbreviation ErrInvalidTaskID :: sentinel where "ErrInvalidTaskID \<equiv> Sentinel ''InvalidTaskID''"
abbreviation ErrInvalidRootID :: sentinel where "ErrInvalidRootID \<equiv> Sentinel ''InvalidRootID''"
abbreviation ErrUnsupportedSchema :: sentinel where "ErrUnsupportedSchema \<equiv> Sentinel ''UnsupportedSchema''"
abbreviation ErrDuplicateKey :: sentinel where "ErrDuplicateKey \<equiv> Sentinel ''DuplicateKey''"
abbreviation ErrTrailingJSON :: sentinel where "ErrTrailingJSON \<equiv> Sentinel ''TrailingJSON''"
abbreviation ErrControlRecordTooBig :: sentinel where "ErrControlRecordTooBig \<equiv> Sentinel ''ControlRecordTooBig''"
abbreviation ErrIdentityMismatch :: sentinel where "ErrIdentityMismatch \<equiv> Sentinel ''IdentityMismatch''"
abbreviation ErrInvalidEnum :: sentinel where "ErrInvalidEnum \<equiv> Sentinel ''InvalidEnum''"
abbreviation ErrRequestConflict :: sentinel where "ErrRequestConflict \<equiv> Sentinel ''RequestConflict''"
abbreviation ErrOutcomeConflict :: sentinel where "ErrOutcomeConflict \<equiv> Sentinel ''OutcomeConflict''"
abbreviation ErrInvariantFault :: sentinel where "ErrInvariantFault \<equiv> Sentinel ''InvariantFault''"
abbreviation ErrUncertainDurability :: sentinel where "ErrUncertainDurability \<equiv> Sentinel ''UncertainDurability''"
abbreviation ErrLockBusy :: sentinel where "ErrLockBusy \<equiv> Sentinel ''LockBusy''"
abbreviation ErrSessionBusy :: sentinel where "ErrSessionBusy \<equiv> Sentinel ''SessionBusy''"
abbreviation ErrAlreadySubmitted :: sentinel where "ErrAlreadySubmitted \<equiv> Sentinel ''AlreadySubmitted''"
abbreviation ErrAlreadyStarted :: sentinel where "ErrAlreadyStarted \<equiv> Sentinel ''AlreadyStarted''"
abbreviation ErrPermitAlreadyUsed :: sentinel where "ErrPermitAlreadyUsed \<equiv> Sentinel ''PermitAlreadyUsed''"
abbreviation ErrInvalidPermit :: sentinel where "ErrInvalidPermit \<equiv> Sentinel ''InvalidPermit''"
abbreviation ErrNoSeal :: sentinel where "ErrNoSeal \<equiv> Sentinel ''NoSeal''"
abbreviation ErrIncompatiblePredicate :: sentinel where "ErrIncompatiblePredicate \<equiv> Sentinel ''IncompatiblePredicate''"
abbreviation ErrEvidenceFault :: sentinel where "ErrEvidenceFault \<equiv> Sentinel ''EvidenceFault''"
abbreviation ErrInvalidTeamSelection :: sentinel where "ErrInvalidTeamSelection \<equiv> Sentinel ''InvalidTeamSelection''"
abbreviation ErrInvalidBudget :: sentinel where "ErrInvalidBudget \<equiv> Sentinel ''InvalidBudget''"
abbreviation ErrInvalidMode :: sentinel where "ErrInvalidMode \<equiv> Sentinel ''InvalidMode''"
abbreviation ErrUnsupportedProvider :: sentinel where "ErrUnsupportedProvider \<equiv> Sentinel ''UnsupportedProvider''"
abbreviation ErrNativeTimeoutBounds :: sentinel where "ErrNativeTimeoutBounds \<equiv> Sentinel ''NativeTimeoutBounds''"
abbreviation ErrConflict :: sentinel where "ErrConflict \<equiv> Sentinel ''Conflict''"
abbreviation ErrEmptyHistoryEntry :: sentinel where "ErrEmptyHistoryEntry \<equiv> Sentinel ''EmptyHistoryEntry''"
abbreviation ErrInvalidExpression :: sentinel where "ErrInvalidExpression \<equiv> Sentinel ''InvalidExpression''"
abbreviation ErrInvalidTimezone :: sentinel where "ErrInvalidTimezone \<equiv> Sentinel ''InvalidTimezone''"
abbreviation ErrLocalTimezone :: sentinel where "ErrLocalTimezone \<equiv> Sentinel ''LocalTimezone''"
abbreviation ErrRangeExhausted :: sentinel where "ErrRangeExhausted \<equiv> Sentinel ''RangeExhausted''"
abbreviation ErrLookup :: sentinel where "ErrLookup \<equiv> Sentinel ''Lookup''"
abbreviation ErrCronJobParse :: sentinel where "ErrCronJobParse \<equiv> Sentinel ''CronJobParse''"
abbreviation ErrCronJobInvalid :: sentinel where "ErrCronJobInvalid \<equiv> Sentinel ''CronJobInvalid''"
abbreviation ErrRootIdentity :: sentinel where "ErrRootIdentity \<equiv> Sentinel ''RootIdentity''"
abbreviation ErrTaskCleanupUnresolved :: sentinel where "ErrTaskCleanupUnresolved \<equiv> Sentinel ''TaskCleanupUnresolved''"
abbreviation ErrSkipConflict :: sentinel where "ErrSkipConflict \<equiv> Sentinel ''SkipConflict''"
abbreviation ErrCommitOutcomeUnknown :: sentinel where "ErrCommitOutcomeUnknown \<equiv> Sentinel ''CommitOutcomeUnknown''"
abbreviation ErrClosed :: sentinel where "ErrClosed \<equiv> Sentinel ''Closed''"
abbreviation ErrNotExist :: sentinel where "ErrNotExist \<equiv> Sentinel ''NotExist''"
abbreviation ErrPermission :: sentinel where "ErrPermission \<equiv> Sentinel ''Permission''"
abbreviation ErrCanceled :: sentinel where "ErrCanceled \<equiv> Sentinel ''Canceled''"
abbreviation ErrDeadlineExceeded :: sentinel where "ErrDeadlineExceeded \<equiv> Sentinel ''DeadlineExceeded''"
abbreviation ErrBadConn :: sentinel where "ErrBadConn \<equiv> Sentinel ''BadConn''"
abbreviation ErrConnDone :: sentinel where "ErrConnDone \<equiv> Sentinel ''ConnDone''"
abbreviation ErrTxDone :: sentinel where "ErrTxDone \<equiv> Sentinel ''TxDone''"
abbreviation ErrNoRows :: sentinel where "ErrNoRows \<equiv> Sentinel ''NoRows''"

datatype error =
    Leaf sentinel
  | Opaque string
  | Wrap string error
  | Joined "error list"
  | DriverError int

text \<open>\<open>errors.Is(err, target)\<close> for a sentinel target.\<close>

fun errors_is :: "error \<Rightarrow> sentinel \<Rightarrow> bool" where
  "errors_is (Leaf s) t = (s = t)"
| "errors_is (Opaque m) t = False"
| "errors_is (Wrap m e) t = errors_is e t"
| "errors_is (Joined es) t = list_ex (\<lambda>e. errors_is e t) es"
| "errors_is (DriverError c) t = False"

definition error_is :: "error option \<Rightarrow> sentinel \<Rightarrow> bool" where
  "error_is e t = (case e of None \<Rightarrow> False | Some x \<Rightarrow> errors_is x t)"

lemma error_is_simps [simp]:
  "error_is None t = False"
  "error_is (Some e) t = errors_is e t"
  by (simp_all add: error_is_def)

text \<open>\<open>errors.Join\<close>: nil arguments are dropped, and a join of nothing is nil.\<close>

definition errors_join :: "error option list \<Rightarrow> error option" where
  "errors_join es =
     (let present = List.map_filter (\<lambda>e. e) es
      in if present = [] then None else Some (Joined present))"

lemma errors_join_None_iff: "errors_join es = None \<longleftrightarrow> set es \<subseteq> {None}"
  by (induction es) (auto simp: errors_join_def map_filter_simps Let_def split: option.splits)

lemma errors_join_is:
  "error_is (errors_join es) t \<longleftrightarrow> (\<exists>e. Some e \<in> set es \<and> errors_is e t)"
  by (induction es) (auto simp: errors_join_def map_filter_simps Let_def split: option.splits if_splits)

section \<open>Results\<close>

text \<open>Sequencing of calls that return early on a non-nil error.\<close>

definition bind_result :: "error + 'a \<Rightarrow> ('a \<Rightarrow> error + 'b) \<Rightarrow> error + 'b" where
  "bind_result r f = (case r of Inl e \<Rightarrow> Inl e | Inr x \<Rightarrow> f x)"

definition check_then :: "error option \<Rightarrow> error + 'b \<Rightarrow> error + 'b" where
  "check_then c r = (case c of Some e \<Rightarrow> Inl e | None \<Rightarrow> r)"

text \<open>A sequence of pure checks: the first non-nil error, evaluated in the order of the source.\<close>

fun first_error :: "error option list \<Rightarrow> error option" where
  "first_error [] = None"
| "first_error (Some e # es) = Some e"
| "first_error (None # es) = first_error es"

definition require :: "bool \<Rightarrow> error \<Rightarrow> error option" where
  "require ok e = (if ok then None else Some e)"

definition wrap_error :: "string \<Rightarrow> error option \<Rightarrow> error option" where
  "wrap_error m e = map_option (Wrap m) e"

definition error_of :: "error + 'a \<Rightarrow> error option" where
  "error_of r = (case r of Inl e \<Rightarrow> Some e | Inr x \<Rightarrow> None)"

lemma bind_result_simps [simp]:
  "bind_result (Inl e) f = Inl e"
  "bind_result (Inr x) f = f x"
  by (simp_all add: bind_result_def)

lemma bind_result_Inr_iff: "bind_result r f = Inr y \<longleftrightarrow> (\<exists>x. r = Inr x \<and> f x = Inr y)"
  by (cases r) auto

lemma bind_result_Inl_iff:
  "bind_result r f = Inl e \<longleftrightarrow> r = Inl e \<or> (\<exists>x. r = Inr x \<and> f x = Inl e)"
  by (cases r) auto

lemma check_then_simps [simp]:
  "check_then None r = r"
  "check_then (Some e) r = Inl e"
  by (simp_all add: check_then_def)

lemma check_then_Inr_iff: "check_then c r = Inr y \<longleftrightarrow> c = None \<and> r = Inr y"
  by (cases c) auto

lemma check_then_Inl_iff:
  "check_then c r = Inl e \<longleftrightarrow> c = Some e \<or> c = None \<and> r = Inl e"
  by (cases c) auto

lemma first_error_None_iff: "first_error es = None \<longleftrightarrow> set es \<subseteq> {None}"
  by (induction es rule: first_error.induct) auto

lemma first_error_map_None: "first_error (map g xs) = None \<longleftrightarrow> (\<forall>x \<in> set xs. g x = None)"
  by (auto simp: first_error_None_iff)

lemma first_error_Cons: "first_error (c # cs) = (case c of Some e \<Rightarrow> Some e | None \<Rightarrow> first_error cs)"
  by (cases c) auto

lemma require_None_iff [simp]: "require ok e = None \<longleftrightarrow> ok"
  by (simp add: require_def)

lemma require_simps [simp]: "require True e = None" "require False e = Some e"
  by (simp_all add: require_def)

lemma require_Some_iff: "require ok e = Some x \<longleftrightarrow> \<not> ok \<and> x = e"
  by (auto simp: require_def)

lemma wrap_error_None_iff [simp]: "wrap_error m e = None \<longleftrightarrow> e = None"
  by (simp add: wrap_error_def)

lemma wrap_error_simps [simp]:
  "wrap_error m None = None"
  "wrap_error m (Some e) = Some (Wrap m e)"
  by (simp_all add: wrap_error_def)

lemma error_of_simps [simp]: "error_of (Inl e) = Some e" "error_of (Inr x) = None"
  by (simp_all add: error_of_def)

lemma error_of_None_iff: "error_of r = None \<longleftrightarrow> (\<exists>x. r = Inr x)"
  by (cases r) auto

lemmas [go_simps] =
  bind_result_Inr_iff bind_result_Inl_iff check_then_Inr_iff check_then_Inl_iff
  first_error_None_iff error_of_None_iff

text \<open>A failing call's error under a transformation, its value unchanged.\<close>

definition map_err :: "(error \<Rightarrow> error) \<Rightarrow> error + 'a \<Rightarrow> error + 'a" where
  "map_err f r = (case r of Inl e \<Rightarrow> Inl (f e) | Inr x \<Rightarrow> Inr x)"

lemma map_err_simps [simp]: "map_err f (Inl e) = Inl (f e)" "map_err f (Inr x) = Inr x"
  by (simp_all add: map_err_def)

lemma map_err_Inr_iff [go_simps]: "map_err f r = Inr x \<longleftrightarrow> r = Inr x"
  by (cases r) auto

section \<open>Lists kept sorted by a key\<close>

text \<open>
  The pages and histories of the store are filtered, sorted and truncated row lists: these are
  the facts about them that more than one component uses.
\<close>

lemma sorted_key_distinct_strict:
  "sorted (map f xs) \<Longrightarrow> distinct (map f xs) \<Longrightarrow> sorted_wrt (<) (map f xs)"
  by (simp add: strict_sorted_iff)

lemma take_drop_order:
  assumes "sorted_wrt P xs" "x \<in> set (take n xs)" "y \<in> set (drop n xs)"
  shows "P x y"
  using assms by (metis append_take_drop_id sorted_wrt_append)

lemma filter_unique_length:
  assumes "distinct (map f xs)"
  shows "length (filter (\<lambda>x. f x = k) xs) \<le> 1"
  using assms
proof (induction xs)
  case (Cons a xs)
  show ?case
  proof (cases "f a = k")
    case True
    with Cons.prems have "filter (\<lambda>x. f x = k) xs = []"
      by (simp add: filter_empty_conv image_iff) metis
    with True show ?thesis by simp
  next
    case False
    with Cons show ?thesis by simp
  qed
qed simp

lemma distinct_map_eqD:
  "distinct (map f xs) \<Longrightarrow> x \<in> set xs \<Longrightarrow> y \<in> set xs \<Longrightarrow> f x = f y \<Longrightarrow> x = y"
  by (meson distinct_map inj_onD)

end
