(* ===== verification/Go_Text.thy ===== *)
theory Go_Text
  imports Prelude
begin

text \<open>
  What the modelled sources use of Go's \<open>unicode/utf8\<close>, \<open>unicode\<close>, \<open>strings\<close> and
  \<open>path/filepath\<close> packages, on byte strings. Runes are natural numbers.
\<close>

section \<open>UTF-8\<close>

abbreviation byte :: "char \<Rightarrow> nat" where "byte \<equiv> of_char"

definition rune_error :: nat where "rune_error = 65533"

definition cont_byte :: "nat \<Rightarrow> bool" where "cont_byte b \<longleftrightarrow> 128 \<le> b \<and> b \<le> 191"

text \<open>The accepted range of the second byte, from the first.\<close>

definition second_ok :: "nat \<Rightarrow> nat \<Rightarrow> bool" where
  "second_ok b0 b1 \<longleftrightarrow>
     (if b0 = 224 then 160 \<le> b1 \<and> b1 \<le> 191
      else if b0 = 237 then 128 \<le> b1 \<and> b1 \<le> 159
      else if b0 = 240 then 144 \<le> b1 \<and> b1 \<le> 191
      else if b0 = 244 then 128 \<le> b1 \<and> b1 \<le> 143
      else cont_byte b1)"

text \<open>
  \<open>utf8.DecodeRune\<close>: the first rune and its width; an invalid or truncated encoding is
  \<open>(RuneError, 1)\<close> and the empty string \<open>(RuneError, 0)\<close>.
\<close>

definition rune2 :: "nat \<Rightarrow> nat \<Rightarrow> nat" where
  "rune2 b0 b1 = (b0 - 192) * 64 + (b1 - 128)"
definition rune3 :: "nat \<Rightarrow> nat \<Rightarrow> nat \<Rightarrow> nat" where
  "rune3 b0 b1 b2 = (b0 - 224) * 4096 + (b1 - 128) * 64 + (b2 - 128)"
definition rune4 :: "nat \<Rightarrow> nat \<Rightarrow> nat \<Rightarrow> nat \<Rightarrow> nat" where
  "rune4 b0 b1 b2 b3 = (b0 - 240) * 262144 + (b1 - 128) * 4096 + (b2 - 128) * 64 + (b3 - 128)"

definition decode_rune :: "string \<Rightarrow> nat \<times> nat" where
  "decode_rune s = (case map byte (take 4 s) of
     [] \<Rightarrow> (rune_error, 0)
   | b0 # bs \<Rightarrow>
       if b0 < 128 then (b0, 1)
       else if 194 \<le> b0 \<and> b0 \<le> 223 then
         (case bs of b1 # _ \<Rightarrow> if cont_byte b1 then (rune2 b0 b1, 2) else (rune_error, 1)
          | _ \<Rightarrow> (rune_error, 1))
       else if 224 \<le> b0 \<and> b0 \<le> 239 then
         (case bs of b1 # b2 # _ \<Rightarrow>
            if second_ok b0 b1 \<and> cont_byte b2 then (rune3 b0 b1 b2, 3) else (rune_error, 1)
          | _ \<Rightarrow> (rune_error, 1))
       else if 240 \<le> b0 \<and> b0 \<le> 244 then
         (case bs of b1 # b2 # b3 # _ \<Rightarrow>
            if second_ok b0 b1 \<and> cont_byte b2 \<and> cont_byte b3
            then (rune4 b0 b1 b2 b3, 4) else (rune_error, 1)
          | _ \<Rightarrow> (rune_error, 1))
       else (rune_error, 1))"

text \<open>The accepted encodings: the forms of \<open>(r, k)\<close> that are not an error.\<close>

lemma decode_rune_ok_cases:
  assumes "decode_rune s = (r, k)" "\<not> (r = rune_error \<and> k \<le> 1)"
  obtains (one) a t where "s = a # t" "byte a < 128" "r = byte a" "k = 1"
  | (two) a b t where "s = a # b # t" "194 \<le> byte a" "byte a \<le> 223" "cont_byte (byte b)"
      "r = rune2 (byte a) (byte b)" "k = 2"
  | (three) a b c t where "s = a # b # c # t" "224 \<le> byte a" "byte a \<le> 239"
      "second_ok (byte a) (byte b)" "cont_byte (byte c)" "r = rune3 (byte a) (byte b) (byte c)" "k = 3"
  | (four) a b c d t where "s = a # b # c # d # t" "240 \<le> byte a" "byte a \<le> 244"
      "second_ok (byte a) (byte b)" "cont_byte (byte c)" "cont_byte (byte d)"
      "r = rune4 (byte a) (byte b) (byte c) (byte d)" "k = 4"
proof -
  consider "s = []" | a where "s = [a]" | a b where "s = [a, b]" | a b c where "s = [a, b, c]"
    | a b c d u where "s = a # b # c # d # u"
    by (metis list.exhaust)
  then show ?thesis
    using assms that by cases (auto simp: decode_rune_def split: if_splits)
qed

lemma decode_rune_width: "s \<noteq> [] \<Longrightarrow> 0 < snd (decode_rune s)"
  by (cases s) (auto simp: decode_rune_def split: list.splits)

text \<open>\<open>range\<close> over a string: its runes, each with the bytes it was decoded from.\<close>

function split_runes :: "string \<Rightarrow> (nat \<times> string) list" where
  "split_runes s =
     (if s = [] then []
      else (fst (decode_rune s), take (snd (decode_rune s)) s)
           # split_runes (drop (snd (decode_rune s)) s))"
  by pat_completeness auto
termination
  by (relation "measure length") (auto simp: decode_rune_width)

declare split_runes.simps [simp del]

lemma split_runes_Nil [simp]: "split_runes [] = []"
  by (simp add: split_runes.simps)

lemma split_runes_Cons:
  "split_runes (c # s) =
     (fst (decode_rune (c # s)), take (snd (decode_rune (c # s))) (c # s))
     # split_runes (drop (snd (decode_rune (c # s))) (c # s))"
  by (subst split_runes.simps) simp

lemma decode_rune_ascii: "byte c < 128 \<Longrightarrow> decode_rune (c # s) = (byte c, 1)"
  by (simp add: decode_rune_def)

lemma split_runes_ascii:
  "byte c < 128 \<Longrightarrow> split_runes (c # s) = (byte c, [c]) # split_runes s"
  by (simp add: split_runes_Cons decode_rune_ascii)

lemma split_runes_concat: "concat (map snd (split_runes s)) = s"
proof (induction s rule: split_runes.induct)
  case (1 s)
  then show ?case by (cases "s = []") (simp_all add: split_runes.simps [of s])
qed

definition runes :: "string \<Rightarrow> nat list" where "runes s = map fst (split_runes s)"

definition valid_string :: "string \<Rightarrow> bool" where
  "valid_string s \<longleftrightarrow> list_all (\<lambda>(r, bs). \<not> (r = rune_error \<and> length bs \<le> 1)) (split_runes s)"

definition is_ascii :: "string \<Rightarrow> bool" where "is_ascii s \<longleftrightarrow> list_all (\<lambda>c. byte c < 128) s"

lemma runes_ascii: "is_ascii s \<Longrightarrow> runes s = map byte s"
  by (induction s) (simp_all add: runes_def is_ascii_def split_runes_ascii)

lemma valid_string_ascii: "is_ascii s \<Longrightarrow> valid_string s"
  by (induction s) (simp_all add: valid_string_def is_ascii_def split_runes_ascii rune_error_def)

text \<open>\<open>utf8.AppendRune\<close> of a rune that is a Unicode scalar value.\<close>

definition encode_rune :: "nat \<Rightarrow> string" where
  "encode_rune r =
     (if r < 128 then [char_of r]
      else if r < 2048 then [char_of (192 + r div 64), char_of (128 + r mod 64)]
      else if r < 65536 then
        [char_of (224 + r div 4096), char_of (128 + r div 64 mod 64), char_of (128 + r mod 64)]
      else [char_of (240 + r div 262144), char_of (128 + r div 4096 mod 64),
            char_of (128 + r div 64 mod 64), char_of (128 + r mod 64)])"

section \<open>Character classes\<close>

text \<open>\<open>unicode.IsControl\<close>: every control character is in Latin-1.\<close>

definition is_control :: "nat \<Rightarrow> bool" where
  "is_control r \<longleftrightarrow> r < 32 \<or> 127 \<le> r \<and> r < 160"

text \<open>\<open>unicode.IsSpace\<close>: the White_Space property.\<close>

definition is_space :: "nat \<Rightarrow> bool" where
  "is_space r \<longleftrightarrow> 9 \<le> r \<and> r \<le> 13 \<or> r = 32 \<or> r = 133 \<or> r = 160 \<or> r = 5760
     \<or> 8192 \<le> r \<and> r \<le> 8202 \<or> r = 8232 \<or> r = 8233 \<or> r = 8239 \<or> r = 8287 \<or> r = 12288"

definition contains_control :: "string \<Rightarrow> bool" where
  "contains_control s \<longleftrightarrow> list_ex is_control (runes s)"

definition contains_space :: "string \<Rightarrow> bool" where
  "contains_space s \<longleftrightarrow> list_ex is_space (runes s)"

definition contains_char :: "char \<Rightarrow> string \<Rightarrow> bool" where
  "contains_char c s \<longleftrightarrow> list_ex (\<lambda>d. d = c) s"

section \<open>Trimming and splitting\<close>

definition trim_space :: "string \<Rightarrow> string" where
  "trim_space s =
     concat (map snd (rev (dropWhile (is_space \<circ> fst) (rev (dropWhile (is_space \<circ> fst) (split_runes s))))))"

text \<open>\<open>strings.Fields\<close>: maximal runs of non-space runes.\<close>

fun fields_of :: "(nat \<times> string) list \<Rightarrow> string \<Rightarrow> string list" where
  "fields_of [] acc = (if acc = [] then [] else [acc])"
| "fields_of ((r, bs) # cs) acc =
     (if is_space r then (if acc = [] then fields_of cs [] else acc # fields_of cs [])
      else fields_of cs (acc @ bs))"

definition fields :: "string \<Rightarrow> string list" where
  "fields s = fields_of (split_runes s) []"

text \<open>\<open>strings.Split\<close> on a one-byte separator.\<close>

fun split_on :: "char \<Rightarrow> string \<Rightarrow> string list" where
  "split_on c [] = [[]]"
| "split_on c (x # xs) =
     (if x = c then [] # split_on c xs
      else (case split_on c xs of [] \<Rightarrow> [[x]] | y # ys \<Rightarrow> (x # y) # ys))"

lemma split_on_nonempty [simp]: "split_on c s \<noteq> []"
  by (induction s) (auto split: list.splits)

text \<open>\<open>strings.Cut\<close> on a one-byte separator: before, after, found.\<close>

definition cut :: "char \<Rightarrow> string \<Rightarrow> string \<times> string \<times> bool" where
  "cut c s = (if contains_char c s
              then (takeWhile (\<lambda>d. d \<noteq> c) s, tl (dropWhile (\<lambda>d. d \<noteq> c) s), True)
              else (s, [], False))"

definition has_prefix :: "string \<Rightarrow> string \<Rightarrow> bool" where
  "has_prefix p s \<longleftrightarrow> take (length p) s = p"

section \<open>Character sets of regular expressions\<close>

definition digit :: "char \<Rightarrow> bool" where "digit c \<longleftrightarrow> CHR ''0'' \<le> c \<and> c \<le> CHR ''9''"
definition lower :: "char \<Rightarrow> bool" where "lower c \<longleftrightarrow> CHR ''a'' \<le> c \<and> c \<le> CHR ''z''"
definition letter :: "char \<Rightarrow> bool" where
  "letter c \<longleftrightarrow> lower c \<or> CHR ''A'' \<le> c \<and> c \<le> CHR ''Z''"
definition lower_hex :: "char \<Rightarrow> bool" where
  "lower_hex c \<longleftrightarrow> digit c \<or> CHR ''a'' \<le> c \<and> c \<le> CHR ''f''"

section \<open>Slash-separated paths\<close>

text \<open>
  \<open>filepath.Clean\<close> on Unix: empty and \<open>.\<close> elements vanish, \<open>..\<close> removes its parent, a
  rooted path drops leading \<open>..\<close>, and the empty result is \<open>.\<close>.
\<close>

fun clean_parts :: "bool \<Rightarrow> string list \<Rightarrow> string list \<Rightarrow> string list" where
  "clean_parts rooted out [] = rev out"
| "clean_parts rooted out (p # ps) =
     (if p = [] \<or> p = ''.'' then clean_parts rooted out ps
      else if p = ''..'' then
        (case out of
           [] \<Rightarrow> if rooted then clean_parts rooted [] ps else clean_parts rooted [''..''] ps
         | q # qs \<Rightarrow> if q = ''..'' then clean_parts rooted (p # out) ps
                     else clean_parts rooted qs ps)
      else clean_parts rooted (p # out) ps)"

fun join_slash :: "string list \<Rightarrow> string" where
  "join_slash [] = []"
| "join_slash [p] = p"
| "join_slash (p # q # ps) = p @ CHR ''/'' # join_slash (q # ps)"

definition is_abs :: "string \<Rightarrow> bool" where "is_abs s \<longleftrightarrow> has_prefix ''/'' s"

definition path_clean :: "string \<Rightarrow> string" where
  "path_clean s =
     (let body = join_slash (clean_parts (is_abs s) [] (split_on CHR ''/'' s))
      in if is_abs s then CHR ''/'' # body else if body = [] then ''.'' else body)"

text \<open>\<open>filepath.Join\<close> of two elements: empty ones are ignored.\<close>

definition filepath_join :: "string \<Rightarrow> string \<Rightarrow> string" where
  "filepath_join a b =
     (if a = [] \<and> b = [] then []
      else if a = [] then path_clean b
      else if b = [] then path_clean a
      else path_clean (a @ CHR ''/'' # b))"

text \<open>\<open>path.Dir\<close>: all but the last element, cleaned.\<close>

definition path_dir :: "string \<Rightarrow> string" where
  "path_dir s = path_clean (rev (dropWhile (\<lambda>c. c \<noteq> CHR ''/'') (rev s)))"

section \<open>Prefixes, suffixes and repeated cuts\<close>

definition has_suffix :: "string \<Rightarrow> string \<Rightarrow> bool" where
  "has_suffix p s \<longleftrightarrow> has_prefix (rev p) (rev s)"

definition trim_prefix :: "string \<Rightarrow> string \<Rightarrow> string" where
  "trim_prefix p s = (if has_prefix p s then drop (length p) s else s)"

definition cut_prefix :: "string \<Rightarrow> string \<Rightarrow> string option" where
  "cut_prefix p s = (if has_prefix p s then Some (drop (length p) s) else None)"

text \<open>\<open>strings.SplitN\<close> on a one-byte separator: the first argument counts the cuts allowed.\<close>

fun split_cuts :: "nat \<Rightarrow> char \<Rightarrow> string \<Rightarrow> string list" where
  "split_cuts 0 c s = [s]"
| "split_cuts (Suc n) c s = (case cut c s of (a, b, found) \<Rightarrow> if found then a # split_cuts n c b else [a])"

text \<open>
  \<open>bufio.Scanner\<close> over lines, with the given token limit: the lines before the first that does not fit,
  and whether there is none. A carriage return before the newline is dropped.
\<close>

definition line_text :: "string \<Rightarrow> string" where
  "line_text l = (if l \<noteq> [] \<and> last l = CHR 0x0D then butlast l else l)"

definition scan_lines :: "nat \<Rightarrow> string \<Rightarrow> string list \<times> bool" where
  "scan_lines limit s =
     (let ls = split_on CHR 0x0A s; ls = (if last ls = [] then butlast ls else ls);
          fitting = takeWhile (\<lambda>l. length l < limit) ls
      in (map line_text fitting, length fitting = length ls))"

section \<open>Numbers (\<open>strconv\<close>)\<close>

definition digits_value :: "string \<Rightarrow> int" where
  "digits_value s = foldl (\<lambda>n c. 10 * n + (of_char c - 48)) 0 s"

definition number_syntax :: error where "number_syntax = Opaque ''invalid syntax''"
definition number_range :: error where "number_range = Opaque ''value out of range''"

text \<open>\<open>ParseUint\<close> in base ten at 64 bits, and \<open>Atoi\<close>.\<close>

definition parse_uint64 :: "string \<Rightarrow> error + int" where
  "parse_uint64 s =
     (if s = [] \<or> \<not> list_all digit s then Inl number_syntax
      else if digits_value s \<ge> 18446744073709551616 then Inl number_range
      else Inr (digits_value s))"

definition atoi :: "string \<Rightarrow> error + int" where
  "atoi s =
     (let sign = (if s \<noteq> [] \<and> hd s = CHR ''-'' then - 1 else 1 :: int);
          ds = (if s \<noteq> [] \<and> (hd s = CHR ''-'' \<or> hd s = CHR ''+'') then tl s else s)
      in if ds = [] \<or> \<not> list_all digit ds then Inl number_syntax
         else let v = sign * digits_value ds in
           if v < - 9223372036854775808 \<or> v > 9223372036854775807 then Inl number_range else Inr v)"

end
