(* ===== verification/Go_Duration.thy ===== *)
theory Go_Duration
  imports Go_Text
begin

text \<open>
  \<open>time.ParseDuration\<close> and \<open>time.Duration.String\<close>. The parser accumulates in \<open>uint64\<close> with
  explicit overflow tests, so its integers never exceed \<open>2^63\<close> and are naturals here. A fraction is
  scaled with two \<open>float64\<close> operations; both roundings are written out.
\<close>

section \<open>Binary64 rounding of a positive rational\<close>

text \<open>A double is \<open>m * 2^e\<close> with a 53-bit significand; round to nearest, ties to even.\<close>

fun bit_length :: "nat \<Rightarrow> nat" where
  "bit_length n = (if n = 0 then 0 else Suc (bit_length (n div 2)))"

declare bit_length.simps [simp del]

definition scale_ratio :: "nat \<Rightarrow> nat \<Rightarrow> int \<Rightarrow> nat \<times> nat" where
  "scale_ratio p q e = (if e \<ge> 0 then (p, q * 2 ^ nat e) else (p * 2 ^ nat (- e), q))"

definition round_half_even :: "nat \<Rightarrow> nat \<Rightarrow> nat" where
  "round_half_even p q =
     (let d = p div q; r = p mod q
      in if 2 * r < q then d else if 2 * r > q then Suc d else if even d then d else Suc d)"

definition round_double :: "nat \<Rightarrow> nat \<Rightarrow> nat \<times> int" where
  "round_double p q =
     (if p = 0 then (0, 0)
      else let e0 = int (bit_length p) - int (bit_length q) - 53;
               (p0, q0) = scale_ratio p q e0;
               e = (if p0 div q0 \<ge> 2 ^ 53 then e0 + 1 else if p0 div q0 < 2 ^ 52 then e0 - 1 else e0);
               (p1, q1) = scale_ratio p q e
           in (round_half_even p1 q1, e))"

text \<open>The ratio a double stands for, and its truncation to an integer.\<close>

definition double_ratio :: "nat \<times> int \<Rightarrow> nat \<times> nat" where
  "double_ratio d = (case d of (m, e) \<Rightarrow> if e \<ge> 0 then (m * 2 ^ nat e, 1) else (m, 2 ^ nat (- e)))"

definition double_trunc :: "nat \<times> int \<Rightarrow> nat" where
  "double_trunc d = (case double_ratio d of (p, q) \<Rightarrow> p div q)"

text \<open>\<open>uint64(float64(f) * (float64(unit) / scale))\<close>; the powers of ten in \<open>scale\<close> are exact doubles.\<close>

definition scaled_fraction :: "nat \<Rightarrow> nat \<Rightarrow> nat \<Rightarrow> nat" where
  "scaled_fraction f unit scale =
     (let (fp, fq) = double_ratio (round_double f 1);
          (up, uq) = double_ratio (round_double unit scale)
      in double_trunc (round_double (fp * up) (fq * uq)))"

section \<open>Parsing\<close>

definition duration_error :: error where "duration_error = Opaque ''time: invalid duration''"

definition max_mantissa :: nat where "max_mantissa = 9223372036854775808"

definition digit_value :: "char \<Rightarrow> nat" where "digit_value c = byte c - 48"

text \<open>\<open>leadingInt\<close>: the value of the leading digits, or an overflow.\<close>

fun leadingInt :: "nat \<Rightarrow> string \<Rightarrow> (nat \<times> string) option" where
  "leadingInt x [] = Some (x, [])"
| "leadingInt x (c # s) =
     (if \<not> digit c then Some (x, c # s)
      else if x > max_mantissa div 10 then None
      else let y = x * 10 + digit_value c in if y > max_mantissa then None else leadingInt y s)"

text \<open>\<open>leadingFraction\<close>: digits beyond the precision are dropped.\<close>

fun leadingFraction :: "bool \<Rightarrow> nat \<Rightarrow> nat \<Rightarrow> string \<Rightarrow> nat \<times> nat \<times> string" where
  "leadingFraction overflow x scale [] = (x, scale, [])"
| "leadingFraction overflow x scale (c # s) =
     (if \<not> digit c then (x, scale, c # s)
      else if overflow then leadingFraction True x scale s
      else if x > (max_mantissa - 1) div 10 then leadingFraction True x scale s
      else let y = x * 10 + digit_value c
           in if y > max_mantissa then leadingFraction True x scale s
              else leadingFraction False y (scale * 10) s)"

definition unitMap :: "string \<Rightarrow> nat option" where
  "unitMap u =
     (if u = ''ns'' then Some 1
      else if u = ''us'' \<or> u = [CHR 0xC2, CHR 0xB5, CHR ''s''] \<or> u = [CHR 0xCE, CHR 0xBC, CHR ''s'']
        then Some 1000
      else if u = ''ms'' then Some 1000000
      else if u = ''s'' then Some 1000000000
      else if u = ''m'' then Some 60000000000
      else if u = ''h'' then Some 3600000000000
      else None)"

definition unit_stop :: "char \<Rightarrow> bool" where "unit_stop c \<longleftrightarrow> c = CHR ''.'' \<or> digit c"

text \<open>The optional \<open>.[0-9]*\<close>: fraction, scale, remaining text, and whether it had a digit.\<close>

definition fraction_part :: "string \<Rightarrow> nat \<times> nat \<times> string \<times> bool" where
  "fraction_part s = (case s of
     [] \<Rightarrow> (0, 1, s, False)
   | c # t \<Rightarrow>
       if c = CHR ''.'' then
         (case leadingFraction False 0 1 t of (f, scale, r) \<Rightarrow> (f, scale, r, length r \<noteq> length t))
       else (0, 1, s, False))"

text \<open>\<open>v * unit\<close> plus the scaled fraction, or an overflow.\<close>

definition group_value :: "nat \<Rightarrow> nat \<Rightarrow> nat \<Rightarrow> nat \<Rightarrow> nat option" where
  "group_value v f scale unit =
     (if v > max_mantissa div unit then None
      else if f > 0 then
        (let w = v * unit + scaled_fraction f unit scale
         in if w > max_mantissa then None else Some w)
      else Some (v * unit))"

text \<open>
  One \<open>[0-9]*(.[0-9]*)?unit\<close> group: its nanoseconds and the remaining text, \<open>None\<close> on every
  error.
\<close>

definition duration_group :: "string \<Rightarrow> (nat \<times> string) option" where
  "duration_group s =
     (if s = [] \<or> \<not> unit_stop (hd s) then None
      else case leadingInt 0 s of
        None \<Rightarrow> None
      | Some (v, s1) \<Rightarrow> (case fraction_part s1 of (f, scale, s2, post) \<Rightarrow>
          if length s1 = length s \<and> \<not> post then None
          else if takeWhile (\<lambda>x. \<not> unit_stop x) s2 = [] then None
          else (case unitMap (takeWhile (\<lambda>x. \<not> unit_stop x) s2) of
              None \<Rightarrow> None
            | Some unit \<Rightarrow> (case group_value v f scale unit of
                None \<Rightarrow> None
              | Some w \<Rightarrow> Some (w, dropWhile (\<lambda>x. \<not> unit_stop x) s2)))))"

lemma takeWhile_drop_shorter: "takeWhile P s \<noteq> [] \<Longrightarrow> length (dropWhile P s) < length s"
  by (cases s) (auto simp: length_dropWhile_le le_imp_less_Suc split: if_splits)

lemma leadingInt_length: "leadingInt x s = Some (v, r) \<Longrightarrow> length r \<le> length s"
  by (induction x s rule: leadingInt.induct) (auto simp: Let_def split: if_splits)

lemma leadingFraction_length: "leadingFraction b x k s = (f, j, r) \<Longrightarrow> length r \<le> length s"
  by (induction b x k s rule: leadingFraction.induct) (auto simp: Let_def split: if_splits)

lemma fraction_part_length: "fraction_part s = (f, k, r, post) \<Longrightarrow> length r \<le> length s"
  by (auto simp: fraction_part_def dest!: leadingFraction_length
      split: list.splits if_splits prod.splits)

lemma duration_group_shorter:
  assumes "duration_group s = Some (v, r)"
  shows "length r < length s"
  using assms
  by (auto simp: duration_group_def dest!: leadingInt_length fraction_part_length
      dest: takeWhile_drop_shorter split: if_splits option.splits prod.splits)

text \<open>
  The sum is a \<open>uint64\<close>: two groups of exactly \<open>2^63\<close> nanoseconds wrap to zero before the
  overflow test sees them.
\<close>

function duration_groups :: "nat \<Rightarrow> string \<Rightarrow> nat option" where
  "duration_groups d s =
     (if s = [] then Some d
      else case duration_group s of
        None \<Rightarrow> None
      | Some (v, r) \<Rightarrow>
          if (d + v) mod 2 ^ 64 > max_mantissa then None else duration_groups ((d + v) mod 2 ^ 64) r)"
  by pat_completeness auto
termination
  by (relation "measure (length \<circ> snd)") (auto simp: duration_group_shorter)

declare duration_groups.simps [simp del]

definition ParseDuration :: "string \<Rightarrow> error + int" where
  "ParseDuration s =
     (let (neg, body) = (case s of
            c # t \<Rightarrow> if c = CHR ''-'' \<or> c = CHR ''+'' then (c = CHR ''-'', t) else (False, s)
          | [] \<Rightarrow> (False, s))
      in if body = ''0'' then Inr 0
         else if body = [] then Inl duration_error
         else (case duration_groups 0 body of
             None \<Rightarrow> Inl duration_error
           | Some d \<Rightarrow>
               if neg then Inr (- int d)
               else if d > max_mantissa - 1 then Inl duration_error
               else Inr (int d)))"

text \<open>A parsed duration is an \<open>int64\<close>.\<close>

lemma duration_groups_bound:
  "d \<le> max_mantissa \<Longrightarrow> duration_groups d s = Some n \<Longrightarrow> n \<le> max_mantissa"
proof (induction d s rule: duration_groups.induct)
  case (1 d s)
  from 1(2,3) show ?case
    by (subst (asm) duration_groups.simps)
      (auto split: if_splits option.splits prod.splits intro: 1(1) simp: not_less)
qed

lemma ParseDuration_int64:
  assumes "ParseDuration s = Inr d"
  shows "- 9223372036854775808 \<le> d \<and> d \<le> 9223372036854775807"
proof -
  have "n \<le> max_mantissa" if "duration_groups 0 t = Some n" for t n
    using duration_groups_bound [OF _ that] by simp
  with assms show ?thesis
    by (fastforce simp: ParseDuration_def Let_def max_mantissa_def
        split: if_splits option.splits list.splits prod.splits)
qed

section \<open>Printing\<close>

fun decimal_digits :: "nat \<Rightarrow> string" where
  "decimal_digits n =
     (if n < 10 then [char_of (48 + n)] else decimal_digits (n div 10) @ [char_of (48 + n mod 10)])"

declare decimal_digits.simps [simp del]

text \<open>\<open>fmtFrac\<close>: the fraction of \<open>v / 10^prec\<close> without trailing zeros, with its point.\<close>

fun pad_digits :: "nat \<Rightarrow> nat \<Rightarrow> string" where
  "pad_digits 0 v = []"
| "pad_digits (Suc k) v = pad_digits k (v div 10) @ [char_of (48 + v mod 10)]"

definition fmtFrac :: "nat \<Rightarrow> nat \<Rightarrow> string" where
  "fmtFrac v prec =
     (let ds = rev (dropWhile (\<lambda>c. c = CHR ''0'') (rev (pad_digits prec (v mod 10 ^ prec))))
      in if ds = [] then [] else CHR ''.'' # ds)"

definition duration_string :: "int \<Rightarrow> string" where
  "duration_string d =
     (let u = nat (abs d);
          sign = (if d < 0 then ''-'' else []);
          frac = (\<lambda>prec. decimal_digits (u div 10 ^ prec) @ fmtFrac u prec)
      in if u = 0 then ''0s''
         else sign @
          (if u < 1000 then decimal_digits u @ ''ns''
           else if u < 1000000 then frac 3 @ [CHR 0xC2, CHR 0xB5, CHR ''s'']
           else if u < 1000000000 then frac 6 @ ''ms''
           else let secs = u div 1000000000;
                    mins = secs div 60;
                    s_text = decimal_digits (secs mod 60) @ fmtFrac u 9 @ ''s''
                in if mins = 0 then s_text
                   else if mins div 60 = 0 then decimal_digits mins @ ''m'' @ s_text
                   else decimal_digits (mins div 60) @ ''h'' @ decimal_digits (mins mod 60) @ ''m'' @ s_text))"

end
