(* ===== verification/Sha256.thy ===== *)
theory Sha256
  imports Go_Text "HOL-Library.Word"
begin

text \<open>
  \<open>crypto/sha256\<close> (FIPS 180-4) and \<open>encoding/hex\<close> on byte strings, so that digests of the
  development are the real ones.
\<close>

unbundle bit_operations_syntax

type_synonym w32 = "32 word"

text \<open>The round constants, in decimal.\<close>

definition sha_k :: "w32 list" where
  "sha_k = [
  1116352408, 1899447441, 3049323471, 3921009573, 961987163, 1508970993, 2453635748, 2870763221,
  3624381080, 310598401, 607225278, 1426881987, 1925078388, 2162078206, 2614888103, 3248222580,
  3835390401, 4022224774, 264347078, 604807628, 770255983, 1249150122, 1555081692, 1996064986,
  2554220882, 2821834349, 2952996808, 3210313671, 3336571891, 3584528711, 113926993, 338241895,
  666307205, 773529912, 1294757372, 1396182291, 1695183700, 1986661051, 2177026350, 2456956037,
  2730485921, 2820302411, 3259730800, 3345764771, 3516065817, 3600352804, 4094571909, 275423344,
  430227734, 506948616, 659060556, 883997877, 958139571, 1322822218, 1537002063, 1747873779,
  1955562222, 2024104815, 2227730452, 2361852424, 2428436474, 2756734187, 3204031479, 3329325298]"

type_synonym sha_state = "w32 \<times> w32 \<times> w32 \<times> w32 \<times> w32 \<times> w32 \<times> w32 \<times> w32"

definition sha_init :: sha_state where
  "sha_init = (0x6a09e667, 0xbb67ae85, 0x3c6ef372, 0xa54ff53a,
               0x510e527f, 0x9b05688c, 0x1f83d9ab, 0x5be0cd19)"

definition big_endian :: "nat \<Rightarrow> nat \<Rightarrow> nat list" where
  "big_endian k n = rev (map (\<lambda>i. n div 256 ^ i mod 256) [0..<k])"

definition sha_pad :: "nat list \<Rightarrow> nat list" where
  "sha_pad m =
     m @ [128] @ replicate ((119 - length m mod 64) mod 64) 0 @ big_endian 8 (8 * length m)"

fun words_of :: "nat list \<Rightarrow> w32 list" where
  "words_of (a # b # c # d # r) =
     word_of_nat (a * 16777216 + b * 65536 + c * 256 + d) # words_of r"
| "words_of _ = []"

definition rotr32 :: "nat \<Rightarrow> w32 \<Rightarrow> w32" where
  "rotr32 n x = drop_bit n x OR push_bit (32 - n) x"

definition small_sigma0 :: "w32 \<Rightarrow> w32" where
  "small_sigma0 x = (rotr32 7 x XOR rotr32 18 x) XOR drop_bit 3 x"
definition small_sigma1 :: "w32 \<Rightarrow> w32" where
  "small_sigma1 x = (rotr32 17 x XOR rotr32 19 x) XOR drop_bit 10 x"
definition big_sigma0 :: "w32 \<Rightarrow> w32" where
  "big_sigma0 x = (rotr32 2 x XOR rotr32 13 x) XOR rotr32 22 x"
definition big_sigma1 :: "w32 \<Rightarrow> w32" where
  "big_sigma1 x = (rotr32 6 x XOR rotr32 11 x) XOR rotr32 25 x"

text \<open>The message schedule, kept newest first.\<close>

fun sha_schedule :: "nat \<Rightarrow> w32 list \<Rightarrow> w32 list" where
  "sha_schedule 0 w = rev w"
| "sha_schedule (Suc n) w =
     sha_schedule n ((small_sigma1 (w ! 1) + w ! 6 + small_sigma0 (w ! 14) + w ! 15) # w)"

definition sha_round :: "sha_state \<Rightarrow> w32 \<times> w32 \<Rightarrow> sha_state" where
  "sha_round st kw =
     (case st of (a, b, c, d, e, f, g, h) \<Rightarrow>
       let t1 = h + big_sigma1 e + ((e AND f) XOR (NOT e AND g)) + fst kw + snd kw;
           t2 = big_sigma0 a + (((a AND b) XOR (a AND c)) XOR (b AND c))
       in (t1 + t2, a, b, c, d + t1, e, f, g))"

definition sha_add :: "sha_state \<Rightarrow> sha_state \<Rightarrow> sha_state" where
  "sha_add x y =
     (case x of (a, b, c, d, e, f, g, h) \<Rightarrow> case y of (a', b', c', d', e', f', g', h') \<Rightarrow>
       (a + a', b + b', c + c', d + d', e + e', f + f', g + g', h + h'))"

definition sha_words :: "sha_state \<Rightarrow> w32 list" where
  "sha_words st = (case st of (a, b, c, d, e, f, g, h) \<Rightarrow> [a, b, c, d, e, f, g, h])"

definition sha_block :: "sha_state \<Rightarrow> nat list \<Rightarrow> sha_state" where
  "sha_block h block =
     sha_add h (foldl sha_round h (zip sha_k (sha_schedule 48 (rev (words_of block)))))"

function sha_blocks :: "sha_state \<Rightarrow> nat list \<Rightarrow> sha_state" where
  "sha_blocks h m = (if length m < 64 then h else sha_blocks (sha_block h (take 64 m)) (drop 64 m))"
  by pat_completeness auto
termination by (relation "measure (\<lambda>(h, m). length m)") auto

declare sha_blocks.simps [simp del]

definition sha256_sum :: "string \<Rightarrow> nat list" where
  "sha256_sum s = concat (map (\<lambda>w. big_endian 4 (unat w)) (sha_words (sha_blocks sha_init (sha_pad (map byte s)))))"

definition hex_digit :: "nat \<Rightarrow> char" where
  "hex_digit n = char_of (if n < 10 then 48 + n else 87 + n)"

definition hex_encode :: "nat list \<Rightarrow> string" where
  "hex_encode bs = concat (map (\<lambda>b. [hex_digit (b div 16), hex_digit (b mod 16)]) bs)"

lemma hex_digit_lower_hex: "n < 16 \<Longrightarrow> lower_hex (hex_digit n)"
  by (auto simp: hex_digit_def lower_hex_def digit_def less_eq_char_def of_char_of)

lemma hex_encode_length: "length (hex_encode bs) = 2 * length bs"
  by (induction bs) (simp_all add: hex_encode_def)

lemma hex_encode_lower_hex: "\<forall>b \<in> set bs. b < 256 \<Longrightarrow> list_all lower_hex (hex_encode bs)"
  by (induction bs) (auto simp: hex_encode_def intro!: hex_digit_lower_hex)

lemma sha256_sum_length: "length (sha256_sum s) = 32"
  by (simp add: sha256_sum_def sha_words_def big_endian_def length_concat split: prod.split)

lemma sha256_sum_bytes: "\<forall>b \<in> set (sha256_sum s). b < 256"
  by (auto simp: sha256_sum_def big_endian_def)

end
