(* ===== verification/Go_Json.thy ===== *)
theory Go_Json
  imports Go_Text
begin

text \<open>
  What the modelled sources use of Go's \<open>encoding/json\<close>: \<open>json.Marshal\<close> of structs (as a tree
  of JSON values rendered with the default HTML escaping) and strict decoding of a bounded document.

  Parsing takes fuel, a bound on nested calls. Twice the length of the text is enough, because every
  second call consumes a byte (\<open>Json_Fuel\<close>).
\<close>

datatype json =
    JNull
  | JBool bool
  | JNum string
  | JStr string
  | JArr "json list"
  | JObj "(string \<times> json) list"

section \<open>Rendering\<close>

definition hex_char :: "nat \<Rightarrow> char" where
  "hex_char n = char_of (if n < 10 then 48 + n else 87 + n)"

text \<open>One rune of a string literal: \<open>appendString\<close> with HTML escaping.\<close>

definition escape_chunk :: "nat \<times> string \<Rightarrow> string" where
  "escape_chunk c = (case c of (r, bs) \<Rightarrow>
     if r = rune_error \<and> length bs \<le> 1 then CHR 0x5C # ''ufffd''
     else if r = 8232 then CHR 0x5C # ''u2028''
     else if r = 8233 then CHR 0x5C # ''u2029''
     else if r = 34 then [CHR 0x5C, CHR 0x22]
     else if r = 92 then [CHR 0x5C, CHR 0x5C]
     else if r = 8 then CHR 0x5C # ''b''
     else if r = 12 then CHR 0x5C # ''f''
     else if r = 10 then CHR 0x5C # ''n''
     else if r = 13 then CHR 0x5C # ''r''
     else if r = 9 then CHR 0x5C # ''t''
     else if r < 32 \<or> r = 60 \<or> r = 62 \<or> r = 38
       then CHR 0x5C # ''u00'' @ [hex_char (r div 16), hex_char (r mod 16)]
     else bs)"

definition render_string :: "string \<Rightarrow> string" where
  "render_string s = CHR 0x22 # concat (map escape_chunk (split_runes s)) @ [CHR 0x22]"

fun join_comma :: "string list \<Rightarrow> string" where
  "join_comma [] = []"
| "join_comma [x] = x"
| "join_comma (x # y # ys) = x @ CHR 0x2C # join_comma (y # ys)"

fun render :: "json \<Rightarrow> string" where
  "render JNull = ''null''"
| "render (JBool b) = (if b then ''true'' else ''false'')"
| "render (JNum n) = n"
| "render (JStr s) = render_string s"
| "render (JArr vs) = CHR 0x5B # join_comma (map render vs) @ [CHR 0x5D]"
| "render (JObj ms) =
     CHR 0x7B # join_comma (map (\<lambda>(k, v). render_string k @ CHR 0x3A # render v) ms) @ [CHR 0x7D]"

text \<open>Decimal integers, and the members of a struct: a field tagged \<open>omitempty\<close> vanishes when empty.\<close>

fun decimal_of_nat :: "nat \<Rightarrow> string" where
  "decimal_of_nat n =
     (if n < 10 then [char_of (48 + n)] else decimal_of_nat (n div 10) @ [char_of (48 + n mod 10)])"

declare decimal_of_nat.simps [simp del]

definition decimal :: "int \<Rightarrow> string" where
  "decimal i = (if i < 0 then CHR ''-'' # decimal_of_nat (nat (- i)) else decimal_of_nat (nat i))"

definition field_json :: "string \<Rightarrow> json \<Rightarrow> (string \<times> json) list" where
  "field_json k v = [(k, v)]"

definition omit_empty_string :: "string \<Rightarrow> string \<Rightarrow> (string \<times> json) list" where
  "omit_empty_string k s = (if s = [] then [] else [(k, JStr s)])"

definition omit_empty_bool :: "string \<Rightarrow> bool \<Rightarrow> (string \<times> json) list" where
  "omit_empty_bool k b = (if b then [(k, JBool b)] else [])"

definition omit_nil :: "string \<Rightarrow> ('a \<Rightarrow> json) \<Rightarrow> 'a option \<Rightarrow> (string \<times> json) list" where
  "omit_nil k f p = (case p of None \<Rightarrow> [] | Some x \<Rightarrow> [(k, f x)])"

section \<open>Parsing\<close>

definition syntax_error :: error where "syntax_error = Opaque ''json: syntax error''"

definition json_space :: "char \<Rightarrow> bool" where
  "json_space c \<longleftrightarrow> c = CHR 0x20 \<or> c = CHR 0x09 \<or> c = CHR 0x0A \<or> c = CHR 0x0D"

definition skip_space :: "string \<Rightarrow> string" where "skip_space s = dropWhile json_space s"

definition hex_value :: "char \<Rightarrow> nat option" where
  "hex_value c =
     (if digit c then Some (byte c - 48)
      else if CHR ''a'' \<le> c \<and> c \<le> CHR ''f'' then Some (byte c - 87)
      else if CHR ''A'' \<le> c \<and> c \<le> CHR ''F'' then Some (byte c - 55)
      else None)"

fun hex4 :: "string \<Rightarrow> (nat \<times> string) option" where
  "hex4 (a # b # c # d # s) =
     (case (hex_value a, hex_value b, hex_value c, hex_value d) of
        (Some w, Some x, Some y, Some z) \<Rightarrow> Some (w * 4096 + x * 256 + y * 16 + z, s)
      | _ \<Rightarrow> None)"
| "hex4 _ = None"

definition surrogate :: "nat \<Rightarrow> bool" where "surrogate r \<longleftrightarrow> 55296 \<le> r \<and> r \<le> 57343"

text \<open>The text after a \<open>\u\<close>: a surrogate pair is one rune, a lone surrogate is U+FFFD.\<close>

definition unicode_escape :: "string \<Rightarrow> (nat \<times> string) option" where
  "unicode_escape s = (case hex4 s of
     None \<Rightarrow> None
   | Some (r, rest) \<Rightarrow>
       if \<not> surrogate r then Some (r, rest)
       else (case rest of
           x # y # more \<Rightarrow>
             if x = CHR 0x5C \<and> y = CHR ''u'' then
               (case hex4 more of
                  Some (r2, rest2) \<Rightarrow>
                    if r < 56320 \<and> 56320 \<le> r2 \<and> r2 \<le> 57343
                    then Some (65536 + (r - 55296) * 1024 + (r2 - 56320), rest2)
                    else Some (rune_error, rest)
                | None \<Rightarrow> Some (rune_error, rest))
             else Some (rune_error, rest)
         | _ \<Rightarrow> Some (rune_error, rest)))"

definition simple_escape :: "char \<Rightarrow> char option" where
  "simple_escape c =
     (if c = CHR 0x22 \<or> c = CHR 0x5C \<or> c = CHR 0x2F then Some c
      else if c = CHR ''b'' then Some CHR 0x08
      else if c = CHR ''f'' then Some CHR 0x0C
      else if c = CHR ''n'' then Some CHR 0x0A
      else if c = CHR ''r'' then Some CHR 0x0D
      else if c = CHR ''t'' then Some CHR 0x09
      else None)"

text \<open>The rest of a string literal after its opening quote: decoded text and what follows.\<close>

fun parse_string :: "nat \<Rightarrow> string \<Rightarrow> error + string \<times> string" where
  "parse_string 0 s = Inl syntax_error"
| "parse_string (Suc n) [] = Inl syntax_error"
| "parse_string (Suc n) (c # s) =
     (if c = CHR 0x22 then Inr ([], s)
      else if byte c < 32 then Inl syntax_error
      else if c = CHR 0x5C then
        (case s of
           [] \<Rightarrow> Inl syntax_error
         | e # t \<Rightarrow>
             if e = CHR ''u'' then
               (case unicode_escape t of
                  None \<Rightarrow> Inl syntax_error
                | Some (r, rest) \<Rightarrow>
                    bind_result (parse_string n rest) (\<lambda>(d, out). Inr (encode_rune r @ d, out)))
             else (case simple_escape e of
                  None \<Rightarrow> Inl syntax_error
                | Some x \<Rightarrow> bind_result (parse_string n t) (\<lambda>(d, out). Inr (x # d, out))))
      else
        (let (r, k) = decode_rune (c # s);
             piece = (if r = rune_error \<and> k \<le> 1 then encode_rune rune_error else take k (c # s))
         in bind_result (parse_string n (drop k (c # s))) (\<lambda>(d, out). Inr (piece @ d, out))))"

definition parse_digits :: "string \<Rightarrow> string \<times> string" where
  "parse_digits s = (takeWhile digit s, dropWhile digit s)"

definition parse_fraction :: "string \<Rightarrow> (string \<times> string) option" where
  "parse_fraction s = (case s of
     c # t \<Rightarrow> if c = CHR ''.'' then
                (case parse_digits t of (ds, rest) \<Rightarrow> if ds = [] then None else Some (c # ds, rest))
              else Some ([], s)
   | [] \<Rightarrow> Some ([], s))"

definition parse_exponent :: "string \<Rightarrow> (string \<times> string) option" where
  "parse_exponent s = (case s of
     c # t \<Rightarrow> if c = CHR ''e'' \<or> c = CHR ''E'' then
                (let (sign, u) = (case t of x # xs \<Rightarrow> if x = CHR ''+'' \<or> x = CHR ''-'' then ([x], xs) else ([], t)
                                  | [] \<Rightarrow> ([], t))
                 in case parse_digits u of
                      (ds, rest) \<Rightarrow> if ds = [] then None else Some (c # sign @ ds, rest))
              else Some ([], s)
   | [] \<Rightarrow> Some ([], s))"

definition parse_number :: "string \<Rightarrow> error + json \<times> string" where
  "parse_number s =
     (let (sign, u) = (case s of x # xs \<Rightarrow> if x = CHR ''-'' then ([x], xs) else ([], s) | [] \<Rightarrow> ([], s))
      in case u of
           [] \<Rightarrow> Inl syntax_error
         | d # t \<Rightarrow>
             if \<not> digit d then Inl syntax_error
             else (let (ds, rest) = (if d = CHR ''0'' then ([], t) else parse_digits t)
                   in case parse_fraction rest of
                        None \<Rightarrow> Inl syntax_error
                      | Some (f, rest2) \<Rightarrow>
                          (case parse_exponent rest2 of
                             None \<Rightarrow> Inl syntax_error
                           | Some (e, rest3) \<Rightarrow> Inr (JNum (sign @ d # ds @ f @ e), rest3))))"

definition parse_literal :: "string \<Rightarrow> json \<Rightarrow> string \<Rightarrow> error + json \<times> string" where
  "parse_literal w v s = (if has_prefix w s then Inr (v, drop (length w) s) else Inl syntax_error)"

text \<open>
  Values, with the duplicate-key check of the streaming reader: a key whose fold was already seen in
  the same object is refused when it is read. The fold is a parameter, the identity of keys.
\<close>

fun parse_value :: "(string \<Rightarrow> string) \<Rightarrow> nat \<Rightarrow> string \<Rightarrow> error + json \<times> string"
and parse_elements :: "(string \<Rightarrow> string) \<Rightarrow> nat \<Rightarrow> string \<Rightarrow> error + json list \<times> string"
and parse_members :: "(string \<Rightarrow> string) \<Rightarrow> nat \<Rightarrow> string list \<Rightarrow> string
       \<Rightarrow> error + (string \<times> json) list \<times> string" where
  "parse_value fk 0 s = Inl syntax_error"
| "parse_value fk (Suc n) s =
     (case skip_space s of
        [] \<Rightarrow> Inl syntax_error
      | c # t \<Rightarrow>
          if c = CHR 0x22 then
            bind_result (parse_string (Suc (length t)) t) (\<lambda>(x, rest). Inr (JStr x, rest))
          else if c = CHR 0x7B then
            (case skip_space t of
               d # u \<Rightarrow> if d = CHR 0x7D then Inr (JObj [], u)
                         else bind_result (parse_members fk n [] t) (\<lambda>(ms, rest). Inr (JObj ms, rest))
             | [] \<Rightarrow> Inl syntax_error)
          else if c = CHR 0x5B then
            (case skip_space t of
               d # u \<Rightarrow> if d = CHR 0x5D then Inr (JArr [], u)
                         else bind_result (parse_elements fk n t) (\<lambda>(vs, rest). Inr (JArr vs, rest))
             | [] \<Rightarrow> Inl syntax_error)
          else if c = CHR ''t'' then parse_literal ''true'' (JBool True) (c # t)
          else if c = CHR ''f'' then parse_literal ''false'' (JBool False) (c # t)
          else if c = CHR ''n'' then parse_literal ''null'' JNull (c # t)
          else parse_number (c # t))"
| "parse_elements fk 0 s = Inl syntax_error"
| "parse_elements fk (Suc n) s =
     bind_result (parse_value fk n s) (\<lambda>(v, rest).
       case skip_space rest of
         [] \<Rightarrow> Inl syntax_error
       | c # t \<Rightarrow>
           if c = CHR 0x5D then Inr ([v], t)
           else if c = CHR 0x2C then
             bind_result (parse_elements fk n t) (\<lambda>(vs, out). Inr (v # vs, out))
           else Inl syntax_error)"
| "parse_members fk 0 seen s = Inl syntax_error"
| "parse_members fk (Suc n) seen s =
     (case skip_space s of
        [] \<Rightarrow> Inl syntax_error
      | q # t \<Rightarrow>
          if q \<noteq> CHR 0x22 then Inl syntax_error
          else bind_result (parse_string (Suc (length t)) t) (\<lambda>(k, r1).
            if fk k \<in> set seen then Inl (Wrap ''duplicate key'' (Leaf ErrDuplicateKey))
            else (case skip_space r1 of
               [] \<Rightarrow> Inl syntax_error
             | co # r2 \<Rightarrow>
                 if co \<noteq> CHR 0x3A then Inl syntax_error
                 else bind_result (parse_value fk n r2) (\<lambda>(v, r3).
                   case skip_space r3 of
                     [] \<Rightarrow> Inl syntax_error
                   | c # r4 \<Rightarrow>
                       if c = CHR 0x7D then Inr ([(k, v)], r4)
                       else if c = CHR 0x2C then
                         bind_result (parse_members fk n (fk k # seen) r4)
                           (\<lambda>(ms, out). Inr ((k, v) # ms, out))
                       else Inl syntax_error))))"

end
