(* ===== verification/Go_Time.thy ===== *)
theory Go_Time
  imports Go_Text
begin

text \<open>
  What the modelled sources use of Go's \<open>time\<close> package. An instant is its distance from the
  Unix epoch in nanoseconds; the flag says whether its location is \<open>time.UTC\<close>, the only
  location the scheduler accepts. \<open>time.Time\<close> covers far more than the int64 nanosecond range, so
  the count is an unbounded integer and the range check of \<open>ValidateInstant\<close> is a real test.
\<close>

record go_time =
  t_ns :: int
  t_utc :: bool

definition ns_per_second :: int where "ns_per_second = 1000000000"
definition ns_per_day :: int where "ns_per_day = 86400000000000"

definition utc_time :: "int \<Rightarrow> go_time" where
  "utc_time n = \<lparr>t_ns = n, t_utc = True\<rparr>"

definition to_utc :: "go_time \<Rightarrow> go_time" where "to_utc t = t\<lparr>t_utc := True\<rparr>"

definition before :: "go_time \<Rightarrow> go_time \<Rightarrow> bool" where "before a b \<longleftrightarrow> t_ns a < t_ns b"
definition after :: "go_time \<Rightarrow> go_time \<Rightarrow> bool" where "after a b \<longleftrightarrow> t_ns b < t_ns a"
definition same_instant :: "go_time \<Rightarrow> go_time \<Rightarrow> bool" where "same_instant a b \<longleftrightarrow> t_ns a = t_ns b"
definition add_ns :: "go_time \<Rightarrow> int \<Rightarrow> go_time" where "add_ns t d = t\<lparr>t_ns := t_ns t + d\<rparr>"
definition sub_ns :: "go_time \<Rightarrow> go_time \<Rightarrow> int" where "sub_ns a b = t_ns a - t_ns b"

text \<open>The zero \<open>time.Time\<close> is midnight of January 1, year 1, UTC.\<close>

definition zero_time :: go_time where "zero_time = utc_time (- 62135596800000000000)"

definition is_zero :: "go_time \<Rightarrow> bool" where "is_zero t \<longleftrightarrow> t_ns t = t_ns zero_time"

lemmas time_defs = before_def after_def same_instant_def add_ns_def sub_ns_def to_utc_def
  utc_time_def

lemma utc_time_simps [simp]: "t_ns (utc_time n) = n" "t_utc (utc_time n)"
  by (simp_all add: utc_time_def)

lemma to_utc_simps [simp]: "t_ns (to_utc t) = t_ns t" "t_utc (to_utc t)"
  by (simp_all add: to_utc_def)

lemma add_ns_simps [simp]: "t_ns (add_ns t d) = t_ns t + d" "t_utc (add_ns t d) = t_utc t"
  by (simp_all add: add_ns_def)

lemma go_time_eqI: "t_ns a = t_ns b \<Longrightarrow> t_utc a = t_utc b \<Longrightarrow> a = (b :: go_time)"
  by simp

definition min_int64 :: int where "min_int64 = - 9223372036854775808"
definition max_int64 :: int where "max_int64 = 9223372036854775807"

text \<open>\<open>Sub\<close> saturates at the ends of \<open>time.Duration\<close>; \<open>Microseconds\<close> truncates toward zero.\<close>

definition time_sub :: "go_time \<Rightarrow> go_time \<Rightarrow> int" where
  "time_sub a b = max min_int64 (min max_int64 (t_ns a - t_ns b))"

definition microseconds :: "int \<Rightarrow> int" where
  "microseconds d = (if d < 0 then - ((- d) div 1000) else d div 1000)"

lemma utc_time_eq_iff [simp]: "utc_time m = utc_time n \<longleftrightarrow> m = n"
  by (simp add: utc_time_def)

section \<open>Civil dates in UTC\<close>

text \<open>Days since the epoch of a proleptic Gregorian date, and back; years start in March inside.\<close>

definition days_from_civil :: "int \<Rightarrow> int \<Rightarrow> int \<Rightarrow> int" where
  "days_from_civil y m d =
     (let y' = (if m \<le> 2 then y - 1 else y);
          era = y' div 400;
          yoe = y' mod 400;
          doy = (153 * (if m > 2 then m - 3 else m + 9) + 2) div 5 + d - 1;
          doe = yoe * 365 + yoe div 4 - yoe div 100 + doy
      in era * 146097 + doe - 719468)"

definition civil_from_days :: "int \<Rightarrow> int \<times> int \<times> int" where
  "civil_from_days n =
     (let z = n + 719468;
          era = z div 146097;
          doe = z mod 146097;
          yoe = (doe - doe div 1460 + doe div 36524 - doe div 146096) div 365;
          doy = doe - (365 * yoe + yoe div 4 - yoe div 100);
          mp = (5 * doy + 2) div 153;
          d = doy - (153 * mp + 2) div 5 + 1;
          m = (if mp < 10 then mp + 3 else mp - 9)
      in (yoe + era * 400 + (if m \<le> 2 then 1 else 0), m, d))"

definition year_of :: "go_time \<Rightarrow> int" where
  "year_of t = fst (civil_from_days (t_ns t div ns_per_day))"

text \<open>\<open>AddDate(years, 0, 0)\<close> of a UTC instant: an absent February 29 becomes March 1.\<close>

definition add_years :: "go_time \<Rightarrow> int \<Rightarrow> go_time" where
  "add_years t n =
     (case civil_from_days (t_ns t div ns_per_day) of
        (y, m, d) \<Rightarrow> t\<lparr>t_ns := days_from_civil (y + n) m d * ns_per_day + t_ns t mod ns_per_day\<rparr>)"

end
