(* ===== verification/Task_Base.thy ===== *)
theory Task_Base
  imports Go_Json Sha256 Go_Time
begin

text \<open>
  The shared base of the task store: identities and digests (\<open>internal/task/types.go\<close>), canonical
  JSON and strict decoding (\<open>internal/task/json.go\<close>, \<open>internal/task/required_json.go\<close>), and
  the traversals of error trees (\<open>internal/task/error_causes.go\<close>).
\<close>

section \<open>Sizes and identities\<close>

definition SchemaVersion :: int where "SchemaVersion = 1"
definition MaxControlRecordSize :: nat where "MaxControlRecordSize = 1024 * 1024"
definition MaxProviderRuntimeEvidenceVersionBytes :: nat where
  "MaxProviderRuntimeEvidenceVersionBytes = 64 * 1024"
definition MaxBriefSize :: nat where "MaxBriefSize = 8 * 1024 * 1024"

definition hexPattern :: "string \<Rightarrow> bool" where
  "hexPattern s \<longleftrightarrow> length s = 32 \<and> list_all lower_hex s"

definition hex64Pattern :: "string \<Rightarrow> bool" where
  "hex64Pattern s \<longleftrightarrow> length s = 64 \<and> list_all lower_hex s"

definition ValidateTaskID :: "string \<Rightarrow> error option" where
  "ValidateTaskID tid = require (hexPattern tid) (Leaf ErrInvalidTaskID)"

definition ValidateRootID :: "string \<Rightarrow> error option" where
  "ValidateRootID rid = require (hexPattern rid) (Leaf ErrInvalidRootID)"

definition ValidateSHA256 :: "string \<Rightarrow> error option" where
  "ValidateSHA256 s =
     require (hex64Pattern s) (Opaque ''invalid SHA256 digest: must be 64 lowercase hex characters'')"

definition ComputeSHA256 :: "string \<Rightarrow> string" where
  "ComputeSHA256 data = hex_encode (sha256_sum data)"

lemma ValidateTaskID_None [go_check]: "ValidateTaskID s = None \<longleftrightarrow> hexPattern s"
  by (simp add: ValidateTaskID_def)

lemma ValidateRootID_None [go_check]: "ValidateRootID s = None \<longleftrightarrow> hexPattern s"
  by (simp add: ValidateRootID_def)

lemma ValidateSHA256_None [go_check]: "ValidateSHA256 s = None \<longleftrightarrow> hex64Pattern s"
  by (simp add: ValidateSHA256_def)

lemma ComputeSHA256_valid [simp]: "ValidateSHA256 (ComputeSHA256 data) = None"
  by (simp add: ValidateSHA256_None hex64Pattern_def ComputeSHA256_def hex_encode_length
      sha256_sum_length hex_encode_lower_hex sha256_sum_bytes)

section \<open>Observed task state\<close>

text \<open>
  The three axes are \<open>uint8\<close> enumerations. The last constructor of each stands for the numbers
  without a constant, which the default branches of the source meet.
\<close>

datatype liveness = LivenessUndetermined | LivenessRunning | LivenessEnded | LivenessOther nat
datatype admission = AdmissionUnknown | AdmissionNotAdmitted | AdmissionAdmitted | AdmissionOther nat
datatype publication =
    PublicationUnknown | PublicationPending | PublicationCommitted | PublicationRejected
  | PublicationOther nat

fun liveness_string :: "liveness \<Rightarrow> string" where
  "liveness_string LivenessUndetermined = ''undetermined''"
| "liveness_string LivenessRunning = ''running''"
| "liveness_string LivenessEnded = ''ended''"
| "liveness_string (LivenessOther n) = ''unknown''"

fun admission_string :: "admission \<Rightarrow> string" where
  "admission_string AdmissionUnknown = ''unknown''"
| "admission_string AdmissionNotAdmitted = ''not-admitted''"
| "admission_string AdmissionAdmitted = ''admitted''"
| "admission_string (AdmissionOther n) = ''unknown''"

fun publication_string :: "publication \<Rightarrow> string" where
  "publication_string PublicationUnknown = ''unknown''"
| "publication_string PublicationPending = ''pending''"
| "publication_string PublicationCommitted = ''committed''"
| "publication_string PublicationRejected = ''rejected''"
| "publication_string (PublicationOther n) = ''unknown''"

section \<open>Canonical JSON and strict decoding\<close>

text \<open>\<open>MarshalCanonical\<close>: the members are the exported fields in declaration order.\<close>

definition MarshalCanonical :: "json \<Rightarrow> string" where
  "MarshalCanonical v = render v @ [CHR 0x0A]"

text \<open>
  The smallest rune of a simple-fold orbit. The orbits that contain an ASCII letter are written out;
  a rune outside them stands for itself. Two non-ASCII keys that differ only by case are then
  refused as unknown fields instead of as duplicates, by the same decoder.
\<close>

definition fold_rune :: "nat \<Rightarrow> nat" where
  "fold_rune r =
     (if 97 \<le> r \<and> r \<le> 122 then r - 32
      else if r = 383 then 83
      else if r = 8490 then 75
      else r)"

definition foldJSONKey :: "string \<Rightarrow> string" where
  "foldJSONKey key = concat (map (encode_rune \<circ> fold_rune) (runes key))"

definition ValidateJSONStructure :: "string \<Rightarrow> error + json" where
  "ValidateJSONStructure data =
     (let trimmed = trim_space data in
      if length data > MaxControlRecordSize then Inl (Leaf ErrControlRecordTooBig)
      else if trimmed = [] then Inl (Opaque ''empty JSON data'')
      else if trimmed = ''null'' then Inl (Opaque ''null JSON root rejected'')
      else if hd trimmed \<noteq> CHR 0x7B \<and> hd trimmed \<noteq> CHR 0x5B
        then Inl (Opaque ''expected top-level JSON object or array'')
      else bind_result (parse_value foldJSONKey (2 * length trimmed) trimmed) (\<lambda>(v, rest).
        if skip_space rest = [] then Inr v else Inl (Leaf ErrTrailingJSON)))"

text \<open>
  The wire shape of a Go type as \<open>reflect\<close> shows it: scalars, slices, and structs whose fields
  have a JSON name and may be omitted. A pointer has the shape of its target.
\<close>

datatype jtype =
    TScalar
  | TSlice jtype
  | TStruct "(string \<times> bool \<times> jtype) list"

fun remove_field :: "string \<Rightarrow> (string \<times> json) list \<Rightarrow> (string \<times> json) list" where
  "remove_field k ms = filter (\<lambda>m. fst m \<noteq> k) ms"

fun validateJSONType :: "jtype \<Rightarrow> json \<Rightarrow> error option"
and validateJSONObject :: "(string \<times> bool \<times> jtype) list \<Rightarrow> (string \<times> json) list \<Rightarrow> error option"
and validateJSONEntries :: "jtype \<Rightarrow> json list \<Rightarrow> error option" where
  "validateJSONType ty JNull = Some (Opaque ''null protocol field rejected'')"
| "validateJSONType (TStruct fs) (JObj ms) = validateJSONObject fs ms"
| "validateJSONType (TStruct fs) v = Some (Opaque ''json: cannot unmarshal into map'')"
| "validateJSONType (TSlice ty) (JArr vs) = validateJSONEntries ty vs"
| "validateJSONType (TSlice ty) v = Some (Opaque ''json: cannot unmarshal into slice'')"
| "validateJSONType TScalar v = None"
| "validateJSONObject [] ms =
     require (ms = []) (Opaque ''unknown or noncanonical JSON field'')"
| "validateJSONObject ((k, omit, ty) # fs) ms =
     (case map_of ms k of
        None \<Rightarrow> if omit then validateJSONObject fs ms else Some (Opaque ''missing required JSON field'')
      | Some v \<Rightarrow> (case validateJSONType ty v of
            Some e \<Rightarrow> Some (Wrap ''field'' e)
          | None \<Rightarrow> validateJSONObject fs (remove_field k ms)))"
| "validateJSONEntries ty [] = None"
| "validateJSONEntries ty (v # vs) =
     (case validateJSONType ty v of Some e \<Rightarrow> Some e | None \<Rightarrow> validateJSONEntries ty vs)"

text \<open>
  \<open>DecodeStrict\<close>: structure, required fields, and then the typed decoder of the target, which
  is an argument. Unknown fields were refused by the second step.
\<close>

definition DecodeStrict :: "jtype \<Rightarrow> (json \<Rightarrow> error + 'a) \<Rightarrow> string \<Rightarrow> error + 'a" where
  "DecodeStrict ty typed data =
     bind_result (ValidateJSONStructure data) (\<lambda>v.
       check_then (validateJSONType ty v)
         (case typed v of Inl e \<Rightarrow> Inl (Wrap ''decoding strict json'' e) | Inr x \<Rightarrow> Inr x))"

text \<open>The typed decoder: a field keeps its zero value when absent, and refuses another JSON kind.\<close>

definition json_members :: "json \<Rightarrow> (string \<times> json) list" where
  "json_members v = (case v of JObj ms \<Rightarrow> ms | _ \<Rightarrow> [])"

definition string_member :: "string \<Rightarrow> json \<Rightarrow> error + string" where
  "string_member k v = (case map_of (json_members v) k of
     None \<Rightarrow> Inr [] | Some (JStr s) \<Rightarrow> Inr s
   | Some _ \<Rightarrow> Inl (Opaque ''json: cannot unmarshal into string''))"

definition bool_member :: "string \<Rightarrow> json \<Rightarrow> error + bool" where
  "bool_member k v = (case map_of (json_members v) k of
     None \<Rightarrow> Inr False | Some (JBool b) \<Rightarrow> Inr b
   | Some _ \<Rightarrow> Inl (Opaque ''json: cannot unmarshal into bool''))"

definition pointer_member :: "(json \<Rightarrow> error + 'a) \<Rightarrow> string \<Rightarrow> json \<Rightarrow> error + 'a option" where
  "pointer_member f k v = (case map_of (json_members v) k of
     None \<Rightarrow> Inr None | Some x \<Rightarrow> (case f x of Inl e \<Rightarrow> Inl e | Inr y \<Rightarrow> Inr (Some y)))"

definition struct_member :: "(json \<Rightarrow> error + 'a) \<Rightarrow> string \<Rightarrow> json \<Rightarrow> error + 'a" where
  "struct_member f k v = (case map_of (json_members v) k of
     None \<Rightarrow> f (JObj []) | Some x \<Rightarrow> f x)"

section \<open>Error trees\<close>

text \<open>
  \<open>AllErrorCauses\<close>: every leaf of a nonempty tree satisfies the predicate. A join without causes
  never matches.
\<close>

fun all_causes :: "(error \<Rightarrow> bool) \<Rightarrow> error \<Rightarrow> bool" where
  "all_causes leaf (Joined es) = (es \<noteq> [] \<and> list_all (all_causes leaf) es)"
| "all_causes leaf (Wrap m e) = all_causes leaf e"
| "all_causes leaf e = leaf e"

definition AllErrorCauses :: "error option \<Rightarrow> (error \<Rightarrow> bool) \<Rightarrow> bool" where
  "AllErrorCauses err leaf = (case err of None \<Rightarrow> False | Some e \<Rightarrow> all_causes leaf e)"

fun any_node :: "(error \<Rightarrow> bool) \<Rightarrow> error \<Rightarrow> bool" where
  "any_node match (Joined es) = (match (Joined es) \<or> list_ex (any_node match) es)"
| "any_node match (Wrap m e) = (match (Wrap m e) \<or> any_node match e)"
| "any_node match e = match e"

definition AnyErrorNode :: "error option \<Rightarrow> (error \<Rightarrow> bool) \<Rightarrow> bool" where
  "AnyErrorNode err match = (case err of None \<Rightarrow> False | Some e \<Rightarrow> any_node match e)"

text \<open>The leaves of a tree, and the two traversals in terms of them.\<close>

fun leaves :: "error \<Rightarrow> error list" where
  "leaves (Joined es) = concat (map leaves es)"
| "leaves (Wrap m e) = leaves e"
| "leaves e = [e]"

fun no_empty_join :: "error \<Rightarrow> bool" where
  "no_empty_join (Joined es) = (es \<noteq> [] \<and> list_all no_empty_join es)"
| "no_empty_join (Wrap m e) = no_empty_join e"
| "no_empty_join e = True"

lemma all_causes_leaves:
  "all_causes leaf e \<longleftrightarrow> no_empty_join e \<and> (\<forall>x \<in> set (leaves e). leaf x)"
  by (induction e) (auto simp: list_all_iff)

lemma errors_is_leaves: "errors_is e t \<longleftrightarrow> (\<exists>x \<in> set (leaves e). x = Leaf t)"
  by (induction e) (auto simp: list_ex_iff)

lemma any_node_sentinel: "any_node (\<lambda>x. x = Leaf t) e \<longleftrightarrow> errors_is e t"
  by (induction e) (auto simp: list_ex_iff)

end
