(* ===== verification/Task_Options.thy ===== *)
theory Task_Options
  imports Task_Base Go_Duration
begin

text \<open>
  Requested options: \<open>internal/config/policy/policy.go\<close>, the requested-configuration half of
  \<open>internal/task/configuration.go\<close>, \<open>requested_options.go\<close>, \<open>request_types.go\<close> and
  \<open>team_selection.go\<close>. All of it is pure; a Go pointer is an option.
\<close>

section \<open>Structural policy\<close>

definition minute_ns :: int where "minute_ns = 60000000000"
definition DefaultBudgetDuration :: int where "DefaultBudgetDuration = 30 * minute_ns"
definition DefaultCodexReviewBudgetDuration :: int where
  "DefaultCodexReviewBudgetDuration = 60 * minute_ns"
definition ModeReadOnly :: string where "ModeReadOnly = ''read-only''"
definition ModeWorkspaceWrite :: string where "ModeWorkspaceWrite = ''workspace-write''"
definition DefaultMode :: string where "DefaultMode = ''read-only''"
definition ProviderCodexReview :: string where "ProviderCodexReview = ''codex:review''"

definition ParseBudget :: "string \<Rightarrow> error + int" where
  "ParseBudget s =
     (if s = [] then Inr DefaultBudgetDuration
      else case ParseDuration s of
        Inl e \<Rightarrow> Inl (Joined [Leaf ErrInvalidBudget, e])
      | Inr d \<Rightarrow> if d \<le> 0 then Inl (Leaf ErrInvalidBudget) else Inr d)"

definition ParseBudgetForProvider :: "string \<Rightarrow> string \<Rightarrow> error + int" where
  "ParseBudgetForProvider provider s =
     (if s = [] \<and> provider = ProviderCodexReview then Inr DefaultCodexReviewBudgetDuration
      else ParseBudget s)"

definition ValidateMode :: "string \<Rightarrow> error option" where
  "ValidateMode mode =
     (let m = (if mode = [] then DefaultMode else mode)
      in if m = ModeReadOnly \<or> m = ModeWorkspaceWrite then None
         else Some (Wrap mode (Leaf ErrInvalidMode)))"

definition component_char :: "nat \<Rightarrow> bool" where
  "component_char r \<longleftrightarrow> 97 \<le> r \<and> r \<le> 122 \<or> 48 \<le> r \<and> r \<le> 57 \<or> r = 45 \<or> r = 95 \<or> r = 46"

definition validProviderComponent :: "string \<Rightarrow> bool" where
  "validProviderComponent v = (case v of
     [] \<Rightarrow> False
   | c # s \<Rightarrow> CHR ''a'' \<le> c \<and> c \<le> CHR ''z'' \<and> list_all component_char (runes s))"

definition ValidateProvider :: "string \<Rightarrow> error option" where
  "ValidateProvider provider = (case cut CHR '':'' provider of (name, transport, found) \<Rightarrow>
     require (found \<and> \<not> contains_char CHR '':'' transport
              \<and> validProviderComponent name \<and> validProviderComponent transport)
       (Wrap provider (Leaf ErrUnsupportedProvider)))"

lemma ParseBudget_positive: "ParseBudget s = Inr d \<Longrightarrow> 0 < d"
  by (auto simp: ParseBudget_def DefaultBudgetDuration_def minute_ns_def split: if_splits sum.splits)

lemma ParseBudgetForProvider_positive: "ParseBudgetForProvider p s = Inr d \<Longrightarrow> 0 < d"
  by (auto simp: ParseBudgetForProvider_def DefaultCodexReviewBudgetDuration_def minute_ns_def
      intro: ParseBudget_positive split: if_splits)

section \<open>Literals and paths\<close>

definition nonblank :: "string \<Rightarrow> bool" where
  "nonblank s \<longleftrightarrow> trim_space s \<noteq> [] \<and> \<not> contains_char CHR 0x00 s"

definition IsCanonicalCwd :: "string \<Rightarrow> bool" where
  "IsCanonicalCwd s \<longleftrightarrow> nonblank s \<and> is_abs s \<and> path_clean s = s"

lemma IsCanonicalCwd_abs: "IsCanonicalCwd s \<Longrightarrow> is_abs s \<and> s \<noteq> []"
  by (auto simp: IsCanonicalCwd_def nonblank_def trim_space_def)

section \<open>Requested configuration\<close>

record review_target =
  rt_kind :: string
  rt_value :: string

record task_config =
  tc_interactive :: bool
  tc_model :: string
  tc_effort :: string
  tc_permission :: string
  tc_budget :: string
  tc_native_timeout :: string
  tc_review_target :: "review_target option"

definition validReviewTargetValue :: "string \<Rightarrow> bool" where
  "validReviewTargetValue v \<longleftrightarrow>
     nonblank v \<and> length v \<le> MaxControlRecordSize \<and> trim_space v = v \<and> valid_string v
     \<and> \<not> list_ex (\<lambda>r. r < 32 \<or> r = 127 \<or> 128 \<le> r \<and> r \<le> 159) (runes v)"

definition ValidateReviewTarget :: "review_target option \<Rightarrow> error option" where
  "ValidateReviewTarget target = (case target of
     None \<Rightarrow> None
   | Some t \<Rightarrow>
       if rt_kind t = ''uncommitted'' then
         require (rt_value t = []) (Opaque ''uncommitted review target cannot have a value'')
       else if rt_kind t = ''base'' \<or> rt_kind t = ''commit'' then
         require (validReviewTargetValue (rt_value t))
           (Opaque ''review target value must be a nonblank literal'')
       else Some (Opaque ''unknown review target''))"

definition parseNativeTimeout :: "string \<Rightarrow> error + int" where
  "parseNativeTimeout s = (case ParseDuration s of
     Inl _ \<Rightarrow> Inl (Leaf ErrNativeTimeoutBounds)
   | Inr d \<Rightarrow> if d \<le> 0 then Inl (Leaf ErrNativeTimeoutBounds) else Inr d)"

definition checkNativeTimeoutBudget :: "int \<Rightarrow> int \<Rightarrow> error option" where
  "checkNativeTimeoutBudget timeout budget =
     (if timeout > budget then Some (Leaf ErrNativeTimeoutBounds) else None)"

definition validateModelEffort :: "string \<Rightarrow> string \<Rightarrow> error option" where
  "validateModelEffort model effort =
     first_error (map (\<lambda>v. require (trim_space v = v \<and> \<not> contains_char CHR 0x00 v)
       (Opaque ''model and effort must be nonblank literal values when supplied'')) [model, effort])"

definition requested_timeout_error :: "task_config \<Rightarrow> int \<Rightarrow> error option" where
  "requested_timeout_error c budget =
     (if tc_native_timeout c = [] then None
      else case parseNativeTimeout (tc_native_timeout c) of
        Inl e \<Rightarrow> Some e
      | Inr t \<Rightarrow> if tc_budget c \<noteq> [] then checkNativeTimeoutBudget t budget else None)"

definition ValidateRequestedOptions :: "task_config \<Rightarrow> error option" where
  "ValidateRequestedOptions c =
     (case (if tc_permission c \<noteq> [] then ValidateMode (tc_permission c) else None) of
        Some e \<Rightarrow> Some e
      | None \<Rightarrow> (case (if tc_budget c \<noteq> [] then ParseBudget (tc_budget c) else Inr 0) of
            Inl e \<Rightarrow> Some e
          | Inr budget \<Rightarrow> first_error
              [requested_timeout_error c budget,
               validateModelEffort (tc_model c) (tc_effort c),
               ValidateReviewTarget (tc_review_target c)]))"

section \<open>Normalized configuration of a task\<close>

definition normalizedNativeTimeout :: "string \<Rightarrow> string \<Rightarrow> int \<Rightarrow> error + string" where
  "normalizedNativeTimeout provider v budget =
     (if v = [] then Inr []
      else check_then (ValidateProvider provider)
        (bind_result (parseNativeTimeout v) (\<lambda>d.
          check_then (checkNativeTimeoutBudget d budget) (Inr (duration_string d)))))"

definition validateNativeTimeout :: "string \<Rightarrow> task_config \<Rightarrow> int \<Rightarrow> error option" where
  "validateNativeTimeout provider c budget =
     (case normalizedNativeTimeout provider (tc_native_timeout c) budget of
        Inl e \<Rightarrow> Some e
      | Inr n \<Rightarrow> require (n = tc_native_timeout c) (Opaque ''native timeout must be normalized''))"

definition validateRequestedConfig :: "string \<Rightarrow> task_config \<Rightarrow> string \<Rightarrow> int \<Rightarrow> error option" where
  "validateRequestedConfig provider c mode budget =
     first_error
       [require (mode \<noteq> [] \<and> tc_permission c \<noteq> [] \<and> tc_permission c = mode)
          (Opaque ''requested permission must match the explicit task mode''),
        ValidateMode mode,
        (case ParseBudgetForProvider provider (tc_budget c) of
           Inl e \<Rightarrow> Some e
         | Inr d \<Rightarrow> require (tc_budget c = duration_string d \<and> d = budget)
             (Opaque ''requested budget must be normalized and match budget_nanos'')),
        validateModelEffort (tc_model c) (tc_effort c),
        ValidateReviewTarget (tc_review_target c)]"

record config_request =
  cr_provider :: string
  cr_mode :: string
  cr_config :: task_config
  cr_budget_nanos :: int

text \<open>
  \<open>NormalizeRequestedConfig\<close> over the fields of the task record it reads and writes. On an error
  the record is unchanged, which the caller sees as the returned error.
\<close>

definition normalize_mode :: "config_request \<Rightarrow> config_request" where
  "normalize_mode r =
     (let mode = (if cr_mode r \<noteq> [] then cr_mode r
                  else if tc_permission (cr_config r) \<noteq> [] then tc_permission (cr_config r)
                  else DefaultMode);
          c = cr_config r
      in r\<lparr>cr_mode := mode,
          cr_config := (if tc_permission c = [] then c\<lparr>tc_permission := mode\<rparr> else c)\<rparr>)"

definition normalizeRequestedConfig :: "config_request \<Rightarrow> error + config_request" where
  "normalizeRequestedConfig r0 =
     (let r = normalize_mode r0;
          c = cr_config r;
          budget = (if tc_budget c = [] \<and> cr_budget_nanos r > 0
                    then duration_string (cr_budget_nanos r) else tc_budget c)
      in bind_result (ParseBudgetForProvider (cr_provider r) budget) (\<lambda>d.
           if cr_budget_nanos r \<noteq> 0 \<and> cr_budget_nanos r \<noteq> d
           then Inl (Opaque ''requested budget does not match budget_nanos'')
           else bind_result (normalizedNativeTimeout (cr_provider r) (tc_native_timeout c) d) (\<lambda>nt.
             let c2 = c\<lparr>tc_budget := duration_string d, tc_native_timeout := nt\<rparr>
             in check_then (validateRequestedConfig (cr_provider r) c2 (cr_mode r) d)
                  (Inr (r\<lparr>cr_config := c2, cr_budget_nanos := d\<rparr>)))))"

definition NormalizeRequestedConfig :: "config_request \<Rightarrow> error + config_request" where
  "NormalizeRequestedConfig r =
     bind_result (normalizeRequestedConfig r) (\<lambda>n. check_then (ValidateProvider (cr_provider n)) (Inr n))"

section \<open>Team selection\<close>

record team_project =
  tp_kind :: string
  tp_path :: string

record team_reference =
  tr_scope :: string
  tr_team_id :: string
  tr_project :: "team_project option"

record team_target =
  tt_team :: team_reference
  tt_member_id :: string
  tt_catalog_id :: string

definition teamIdentifier :: "string \<Rightarrow> bool" where
  "teamIdentifier s \<longleftrightarrow>
     list_all (\<lambda>part. part \<noteq> [] \<and> list_all (\<lambda>c. lower c \<or> digit c) part) (split_on CHR ''-'' s)"

definition ValidateTeamID :: "string \<Rightarrow> error option" where
  "ValidateTeamID tid =
     require (length tid \<le> 64 \<and> teamIdentifier tid) (Wrap ''identifier'' (Leaf ErrInvalidTeamSelection))"

definition ValidateTeamReference :: "team_reference \<Rightarrow> error option" where
  "ValidateTeamReference r = first_error
     [ValidateTeamID (tr_team_id r),
      (if tr_scope r = ''user'' then
         require (tr_project r = None)
           (Wrap ''user scope cannot carry a project'' (Leaf ErrInvalidTeamSelection))
       else if tr_scope r = ''project'' then
         (case tr_project r of
            None \<Rightarrow> Some (Wrap ''project scope requires a project'' (Leaf ErrInvalidTeamSelection))
          | Some p \<Rightarrow> require (IsCanonicalCwd (tp_path p) \<and> (tp_kind p = ''git'' \<or> tp_kind p = ''directory''))
              (Wrap ''project scope requires a project'' (Leaf ErrInvalidTeamSelection)))
       else Some (Wrap ''scope must be user or project'' (Leaf ErrInvalidTeamSelection)))]"

definition ValidateTeamTarget :: "team_target \<Rightarrow> bool \<Rightarrow> error option" where
  "ValidateTeamTarget t requireCatalog = first_error
     [ValidateTeamReference (tt_team t),
      ValidateTeamID (tt_member_id t),
      (if tt_catalog_id t \<noteq> [] \<or> requireCatalog then
         map_option (\<lambda>e. Joined [Leaf ErrInvalidTeamSelection, e]) (ValidateRootID (tt_catalog_id t))
       else None)]"

record team_role_context =
  rc_id :: string
  rc_name :: string
  rc_responsibility :: string

record team_intent =
  ti_provider :: string
  ti_auto :: bool
  ti_config :: task_config

record team_context =
  tx_schema_version :: int
  tx_target :: team_target
  tx_team_revision :: int
  tx_team_name :: string
  tx_team_purpose :: string
  tx_member_name :: string
  tx_roles :: "team_role_context list"
  tx_intent :: team_intent

definition described :: "string \<Rightarrow> bool" where
  "described s \<longleftrightarrow> valid_string s \<and> trim_space s \<noteq> []"

fun team_roles_error :: "string list \<Rightarrow> team_role_context list \<Rightarrow> error option" where
  "team_roles_error seen [] = None"
| "team_roles_error seen (r # rs) =
     (case ValidateTeamID (rc_id r) of
        Some e \<Rightarrow> Some e
      | None \<Rightarrow>
          if rc_id r \<in> set seen \<or> \<not> described (rc_name r) \<or> \<not> described (rc_responsibility r)
          then Some (Wrap ''duplicate or invalid role'' (Leaf ErrInvalidTeamSelection))
          else team_roles_error (rc_id r # seen) rs)"

definition validateTeamRoles :: "team_role_context list \<Rightarrow> error option" where
  "validateTeamRoles rs = team_roles_error [] rs"

definition ValidateTeamContext :: "team_context option \<Rightarrow> error option" where
  "ValidateTeamContext ctx = (case ctx of
     None \<Rightarrow> None
   | Some x \<Rightarrow> first_error
      [require (tx_schema_version x = 1 \<and> 1 \<le> tx_team_revision x \<and> tx_roles x \<noteq> [])
         (Wrap ''invalid version, revision or empty roles'' (Leaf ErrInvalidTeamSelection)),
       ValidateTeamTarget (tx_target x) True,
       first_error (map (\<lambda>v. require (described v)
         (Wrap ''invalid descriptive text'' (Leaf ErrInvalidTeamSelection)))
         [tx_team_name x, tx_team_purpose x, tx_member_name x]),
       validateTeamRoles (tx_roles x),
       require (\<not> (ti_auto (tx_intent x) \<and> ti_provider (tx_intent x) \<noteq> []))
         (Wrap ''provider and auto are mutually exclusive'' (Leaf ErrInvalidTeamSelection)),
       (if ti_provider (tx_intent x) \<noteq> []
        then map_option (\<lambda>e. Joined [Leaf ErrInvalidTeamSelection, e])
               (ValidateProvider (ti_provider (tx_intent x)))
        else None),
       ValidateRequestedOptions (ti_config (tx_intent x))])"

lemma team_roles_error_None:
  "team_roles_error seen rs = None \<Longrightarrow>
     distinct (map rc_id rs) \<and> set seen \<inter> set (map rc_id rs) = {}"
  by (induction seen rs rule: team_roles_error.induct) (auto split: option.splits if_splits)

end
