(* ===== verification/Sched_Request.thy ===== *)
theory Sched_Request
  imports Task_Options
begin

text \<open>
  The values a schedule replays, \<open>internal/scheduler/contract/instant.go\<close> and \<open>request.go\<close>:
  UTC instants stored as int64 nanoseconds, and the dispatch request with its canonical stored
  encoding and strict decoder.
\<close>

section \<open>Instants (\<open>instant.go\<close>)\<close>

definition InstantFromUnixNanos :: "int \<Rightarrow> go_time" where
  "InstantFromUnixNanos n = utc_time n"

definition minimumInstant :: go_time where "minimumInstant = InstantFromUnixNanos min_int64"
definition maximumInstant :: go_time where "maximumInstant = InstantFromUnixNanos max_int64"

definition ValidateInstant :: "string \<Rightarrow> go_time \<Rightarrow> error option" where
  "ValidateInstant name t = first_error
     [require (t_utc t) (Wrap name (Opaque ''must be a UTC instant'')),
      require (\<not> (before t minimumInstant \<or> after t maximumInstant))
        (Wrap name (Opaque ''is outside the int64 Unix nanosecond range''))]"

definition UnixNanos :: "string \<Rightarrow> go_time \<Rightarrow> error + int" where
  "UnixNanos name t = check_then (ValidateInstant name t) (Inr (t_ns t))"

definition int64 :: "int \<Rightarrow> bool" where "int64 n \<longleftrightarrow> min_int64 \<le> n \<and> n \<le> max_int64"

definition valid_instant :: "go_time \<Rightarrow> bool" where
  "valid_instant t \<longleftrightarrow> t_utc t \<and> int64 (t_ns t)"

lemma ValidateInstant_None [go_check]: "ValidateInstant name t = None \<longleftrightarrow> valid_instant t"
  by (auto simp: ValidateInstant_def first_error_None_iff valid_instant_def int64_def
      before_def after_def minimumInstant_def maximumInstant_def InstantFromUnixNanos_def)

lemma valid_instant_utc_time [simp]: "valid_instant (utc_time n) \<longleftrightarrow> int64 n"
  by (simp add: valid_instant_def)

lemma valid_instant_eq: "valid_instant t \<Longrightarrow> utc_time (t_ns t) = t"
  by (simp add: valid_instant_def utc_time_def)

lemma valid_instant_eqI: "valid_instant a \<Longrightarrow> valid_instant b \<Longrightarrow> t_ns a = t_ns b \<Longrightarrow> a = b"
  by (metis valid_instant_eq)

section \<open>Requests (\<open>request.go\<close>)\<close>

record request =
  rq_provider :: string
  rq_auto :: bool
  rq_canonical_cwd :: string
  rq_config :: task_config
  rq_team :: "team_target option"

subsection \<open>JSON of a request\<close>

definition review_target_json :: "review_target \<Rightarrow> json" where
  "review_target_json t =
     JObj (field_json ''kind'' (JStr (rt_kind t)) @ omit_empty_string ''value'' (rt_value t))"

definition task_config_json :: "task_config \<Rightarrow> json" where
  "task_config_json c = JObj
     (omit_empty_bool ''interactive'' (tc_interactive c)
      @ omit_empty_string ''model'' (tc_model c)
      @ omit_empty_string ''effort'' (tc_effort c)
      @ omit_empty_string ''permission'' (tc_permission c)
      @ omit_empty_string ''budget'' (tc_budget c)
      @ omit_empty_string ''native_timeout'' (tc_native_timeout c)
      @ omit_nil ''review_target'' review_target_json (tc_review_target c))"

definition team_project_json :: "team_project \<Rightarrow> json" where
  "team_project_json p =
     JObj (field_json ''kind'' (JStr (tp_kind p)) @ field_json ''path'' (JStr (tp_path p)))"

definition team_reference_json :: "team_reference \<Rightarrow> json" where
  "team_reference_json r = JObj
     (field_json ''scope'' (JStr (tr_scope r)) @ field_json ''team_id'' (JStr (tr_team_id r))
      @ omit_nil ''project'' team_project_json (tr_project r))"

definition team_target_json :: "team_target \<Rightarrow> json" where
  "team_target_json t = JObj
     (field_json ''team'' (team_reference_json (tt_team t))
      @ field_json ''member_id'' (JStr (tt_member_id t))
      @ omit_empty_string ''catalog_id'' (tt_catalog_id t))"

definition request_json :: "request \<Rightarrow> json" where
  "request_json r = JObj
     (omit_empty_string ''provider'' (rq_provider r)
      @ omit_empty_bool ''auto'' (rq_auto r)
      @ field_json ''canonical_cwd'' (JStr (rq_canonical_cwd r))
      @ field_json ''config'' (task_config_json (rq_config r))
      @ omit_nil ''team'' team_target_json (rq_team r))"

definition review_target_type :: jtype where
  "review_target_type = TStruct [(''kind'', False, TScalar), (''value'', True, TScalar)]"

definition task_config_type :: jtype where
  "task_config_type = TStruct
     [(''interactive'', True, TScalar), (''model'', True, TScalar), (''effort'', True, TScalar),
      (''permission'', True, TScalar), (''budget'', True, TScalar),
      (''native_timeout'', True, TScalar), (''review_target'', True, review_target_type)]"

definition team_target_type :: jtype where
  "team_target_type = TStruct
     [(''team'', False, TStruct
        [(''scope'', False, TScalar), (''team_id'', False, TScalar),
         (''project'', True, TStruct [(''kind'', False, TScalar), (''path'', False, TScalar)])]),
      (''member_id'', False, TScalar), (''catalog_id'', True, TScalar)]"

definition request_type :: jtype where
  "request_type = TStruct
     [(''provider'', True, TScalar), (''auto'', True, TScalar), (''canonical_cwd'', False, TScalar),
      (''config'', False, task_config_type), (''team'', True, team_target_type)]"

definition review_target_of_json :: "json \<Rightarrow> error + review_target" where
  "review_target_of_json v =
     bind_result (string_member ''kind'' v) (\<lambda>k.
     bind_result (string_member ''value'' v) (\<lambda>x. Inr \<lparr>rt_kind = k, rt_value = x\<rparr>))"

definition task_config_of_json :: "json \<Rightarrow> error + task_config" where
  "task_config_of_json v =
     bind_result (bool_member ''interactive'' v) (\<lambda>i.
     bind_result (string_member ''model'' v) (\<lambda>m.
     bind_result (string_member ''effort'' v) (\<lambda>e.
     bind_result (string_member ''permission'' v) (\<lambda>p.
     bind_result (string_member ''budget'' v) (\<lambda>b.
     bind_result (string_member ''native_timeout'' v) (\<lambda>t.
     bind_result (pointer_member review_target_of_json ''review_target'' v) (\<lambda>rt.
       Inr \<lparr>tc_interactive = i, tc_model = m, tc_effort = e, tc_permission = p, tc_budget = b,
            tc_native_timeout = t, tc_review_target = rt\<rparr>)))))))"

definition team_project_of_json :: "json \<Rightarrow> error + team_project" where
  "team_project_of_json v =
     bind_result (string_member ''kind'' v) (\<lambda>k.
     bind_result (string_member ''path'' v) (\<lambda>p. Inr \<lparr>tp_kind = k, tp_path = p\<rparr>))"

definition team_reference_of_json :: "json \<Rightarrow> error + team_reference" where
  "team_reference_of_json v =
     bind_result (string_member ''scope'' v) (\<lambda>s.
     bind_result (string_member ''team_id'' v) (\<lambda>i.
     bind_result (pointer_member team_project_of_json ''project'' v) (\<lambda>p.
       Inr \<lparr>tr_scope = s, tr_team_id = i, tr_project = p\<rparr>)))"

definition team_target_of_json :: "json \<Rightarrow> error + team_target" where
  "team_target_of_json v =
     bind_result (struct_member team_reference_of_json ''team'' v) (\<lambda>t.
     bind_result (string_member ''member_id'' v) (\<lambda>m.
     bind_result (string_member ''catalog_id'' v) (\<lambda>c.
       Inr \<lparr>tt_team = t, tt_member_id = m, tt_catalog_id = c\<rparr>)))"

definition request_of_json :: "json \<Rightarrow> error + request" where
  "request_of_json v =
     bind_result (string_member ''provider'' v) (\<lambda>p.
     bind_result (bool_member ''auto'' v) (\<lambda>a.
     bind_result (string_member ''canonical_cwd'' v) (\<lambda>cwd.
     bind_result (struct_member task_config_of_json ''config'' v) (\<lambda>c.
     bind_result (pointer_member team_target_of_json ''team'' v) (\<lambda>t.
       Inr \<lparr>rq_provider = p, rq_auto = a, rq_canonical_cwd = cwd, rq_config = c, rq_team = t\<rparr>)))))"

subsection \<open>Validation and the stored encoding\<close>

definition validateSelection :: "string \<Rightarrow> bool \<Rightarrow> error option" where
  "validateSelection provider auto =
     (if auto then
        require (provider = [])
          (Opaque ''schedule request must select either auto or one provider, not both'')
      else if provider = [] then Some (Opaque ''schedule request must select auto or one provider'')
      else wrap_error ''schedule request provider'' (ValidateProvider provider))"

definition validateRequestSelection :: "request \<Rightarrow> error option" where
  "validateRequestSelection r = (case rq_team r of
     None \<Rightarrow> validateSelection (rq_provider r) (rq_auto r)
   | Some t \<Rightarrow> first_error
       [ValidateTeamTarget t True,
        (if rq_provider r \<noteq> [] \<or> rq_auto r then validateSelection (rq_provider r) (rq_auto r)
         else None)])"

definition validateRequestFields :: "request \<Rightarrow> error option" where
  "validateRequestFields r = first_error
     [validateRequestSelection r,
      require (IsCanonicalCwd (rq_canonical_cwd r))
        (Opaque ''schedule request cwd must be a clean absolute path''),
      require (\<not> tc_interactive (rq_config r)) (Opaque ''scheduled requests cannot be interactive''),
      wrap_error ''schedule request options'' (ValidateRequestedOptions (rq_config r))]"

text \<open>
  \<open>sameRequest\<close>: deep equality of the team, then of the flat fields with the review targets
  detached, then of the targets.
\<close>

definition sameRequest :: "request \<Rightarrow> request \<Rightarrow> bool" where
  "sameRequest l r \<longleftrightarrow>
     rq_team l = rq_team r
     \<and> l\<lparr>rq_team := None, rq_config := (rq_config l)\<lparr>tc_review_target := None\<rparr>\<rparr>
        = r\<lparr>rq_team := None, rq_config := (rq_config r)\<lparr>tc_review_target := None\<rparr>\<rparr>
     \<and> (case (tc_review_target (rq_config l), tc_review_target (rq_config r)) of
          (Some a, Some b) \<Rightarrow> a = b
        | (a, b) \<Rightarrow> (a = None \<and> b = None))"

definition decode_request_strict :: "string \<Rightarrow> error + request" where
  "decode_request_strict data = DecodeStrict request_type request_of_json data"

definition encodeRequest :: "request \<Rightarrow> error + string" where
  "encodeRequest r =
     check_then (validateRequestFields r)
       (let encoded = MarshalCanonical (request_json r) in
        if length encoded > MaxControlRecordSize
        then Inl (Wrap ''schedule request'' (Leaf ErrControlRecordTooBig))
        else case decode_request_strict encoded of
            Inl e \<Rightarrow> Inl (Wrap ''schedule request'' e)
          | Inr stored \<Rightarrow>
              if \<not> sameRequest stored r
              then Inl (Opaque ''schedule request contains a string that canonical JSON cannot represent exactly'')
              else Inr encoded)"

definition MarshalRequest :: "request \<Rightarrow> error + string" where
  "MarshalRequest r = encodeRequest r"

definition DecodeRequest :: "string \<Rightarrow> error + request" where
  "DecodeRequest data = (case decode_request_strict data of
     Inl e \<Rightarrow> Inl (Wrap ''schedule request'' e)
   | Inr r \<Rightarrow> bind_result (encodeRequest r) (\<lambda>canonical.
       if canonical \<noteq> data then Inl (Opaque ''schedule request is not canonically encoded'')
       else Inr r))"

lemma sameRequest_iff [simp]: "sameRequest l r \<longleftrightarrow> l = r"
proof
  assume "sameRequest l r"
  then show "l = r"
    by (cases l; cases r; cases "rq_config l"; cases "rq_config r")
      (auto simp: sameRequest_def split: option.splits)
qed (auto simp: sameRequest_def split: option.splits)

lemma encodeRequest_Inr:
  "encodeRequest r = Inr bs \<longleftrightarrow>
     validateRequestFields r = None \<and> bs = MarshalCanonical (request_json r)
     \<and> length bs \<le> MaxControlRecordSize \<and> decode_request_strict bs = Inr r"
  by (auto simp: encodeRequest_def check_then_Inr_iff Let_def split: sum.splits if_splits)

end
