(* ===== verification/Sched_Contract.thy ===== *)
theory Sched_Contract
  imports Sched_Request
begin

text \<open>
  The rest of the scheduler's pure contract, \<open>internal/scheduler/contract\<close>: definitions and their
  digests, schedules, claims, occurrences and their facts, skip spans, state changes, pages and
  history entries. \<open>Clone\<close> methods are absent: a HOL value shares no memory.
\<close>

section \<open>Definitions (\<open>definition.go\<close>)\<close>

definition MaxOpaqueTextBytes :: nat where "MaxOpaqueTextBytes = 256"
definition definitionDigestVersion :: int where "definitionDigestVersion = 1"

record definition_header =
  dh_schedule_id :: string
  dh_created_at :: go_time
  dh_cron :: string
  dh_timezone :: string
  dh_request :: request

record schedule_definition =
  df_header :: definition_header
  df_brief :: string

record digests =
  dg_brief_sha256 :: string
  dg_definition_sha256 :: string

definition validateBriefLength :: "int \<Rightarrow> error option" where
  "validateBriefLength n =
     require (1 \<le> n \<and> n \<le> int MaxBriefSize) (Opaque ''schedule brief must be between 1 byte and 8 MiB'')"

definition validateScheduleID :: "string \<Rightarrow> error option" where
  "validateScheduleID sid = wrap_error ''schedule id'' (ValidateTaskID sid)"

definition validateOpaqueText :: "string \<Rightarrow> string \<Rightarrow> error option" where
  "validateOpaqueText name v = first_error
     [require (v \<noteq> [] \<and> length v \<le> MaxOpaqueTextBytes \<and> valid_string v)
        (Wrap name (Opaque ''must be nonempty UTF-8 of at most 256 bytes'')),
      require (\<not> contains_control v) (Wrap name (Opaque ''contains control characters''))]"

definition validateHeader :: "definition_header \<Rightarrow> error option" where
  "validateHeader h = first_error
     [validateScheduleID (dh_schedule_id h),
      ValidateInstant ''schedule created_at'' (dh_created_at h),
      validateOpaqueText ''schedule cron'' (dh_cron h),
      validateOpaqueText ''schedule timezone'' (dh_timezone h),
      error_of (encodeRequest (dh_request h))]"

definition ValidateDefinition :: "schedule_definition \<Rightarrow> error option" where
  "ValidateDefinition d = first_error
     [validateHeader (df_header d), validateBriefLength (int (length (df_brief d)))]"

definition definition_digest_json :: "definition_header \<Rightarrow> string \<Rightarrow> json" where
  "definition_digest_json h brief = JObj
     [(''digest_version'', JNum (decimal definitionDigestVersion)),
      (''schedule_id'', JStr (dh_schedule_id h)),
      (''created_at_unix_nanos'', JNum (decimal (t_ns (dh_created_at h)))),
      (''cron'', JStr (dh_cron h)),
      (''timezone'', JStr (dh_timezone h)),
      (''request'', request_json (dh_request h)),
      (''brief_sha256'', JStr brief)]"

definition HeaderSHA256 :: "definition_header \<Rightarrow> string \<Rightarrow> error + string" where
  "HeaderSHA256 h brief =
     check_then (first_error
       [validateHeader h, wrap_error ''schedule brief digest'' (ValidateSHA256 brief)])
       (Inr (ComputeSHA256 (MarshalCanonical (definition_digest_json h brief))))"

definition DefinitionDigests :: "schedule_definition \<Rightarrow> error + digests" where
  "DefinitionDigests d =
     check_then (validateBriefLength (int (length (df_brief d))))
       (let brief = ComputeSHA256 (df_brief d) in
        bind_result (HeaderSHA256 (df_header d) brief) (\<lambda>h.
          Inr \<lparr>dg_brief_sha256 = brief, dg_definition_sha256 = h\<rparr>))"

definition VerifyDefinitionDigests :: "schedule_definition \<Rightarrow> digests \<Rightarrow> error option" where
  "VerifyDefinitionDigests d stored = (case DefinitionDigests d of
     Inl e \<Rightarrow> Some e
   | Inr computed \<Rightarrow> require (computed = stored)
       (Wrap ''schedule digests do not match its definition'' (Leaf ErrInvariantFault)))"

section \<open>Schedules (\<open>schedule.go\<close>)\<close>

text \<open>\<open>State\<close>, \<open>SkipReason\<close> and \<open>ReleaseKind\<close> are string types with closed values.\<close>

abbreviation StateEnabled :: string where "StateEnabled \<equiv> ''enabled''"
abbreviation StatePaused :: string where "StatePaused \<equiv> ''paused''"
abbreviation StateDeleted :: string where "StateDeleted \<equiv> ''deleted''"

definition ValidateState :: "string \<Rightarrow> error option" where
  "ValidateState s = require (s = StateEnabled \<or> s = StatePaused \<or> s = StateDeleted)
     (Wrap ''schedule state'' (Leaf ErrInvalidEnum))"

record schedule =
  sc_definition :: schedule_definition
  sc_state :: string
  sc_cursor :: go_time

record schedule_summary =
  sm_header :: definition_header
  sm_digests :: digests
  sm_brief_length :: int
  sm_state :: string
  sm_cursor :: go_time

definition InitialSchedule :: "schedule_definition \<Rightarrow> error + schedule" where
  "InitialSchedule d = check_then (ValidateDefinition d)
     (Inr \<lparr>sc_definition = d, sc_state = StateEnabled, sc_cursor = dh_created_at (df_header d)\<rparr>)"

definition validateMutable :: "go_time \<Rightarrow> string \<Rightarrow> go_time \<Rightarrow> error option" where
  "validateMutable created state cursor = first_error
     [ValidateState state,
      ValidateInstant ''schedule cursor'' cursor,
      require (\<not> before cursor created)
        (Opaque ''schedule cursor precedes the schedule creation time'')]"

definition ValidateSchedule :: "schedule \<Rightarrow> error option" where
  "ValidateSchedule s = first_error
     [ValidateDefinition (sc_definition s),
      validateMutable (dh_created_at (df_header (sc_definition s))) (sc_state s) (sc_cursor s)]"

definition ValidateSummary :: "schedule_summary \<Rightarrow> error option" where
  "ValidateSummary s = first_error
     [validateBriefLength (sm_brief_length s),
      (case HeaderSHA256 (sm_header s) (dg_brief_sha256 (sm_digests s)) of
         Inl e \<Rightarrow> Some e
       | Inr h \<Rightarrow> require (h = dg_definition_sha256 (sm_digests s))
           (Wrap ''schedule definition digest does not match its metadata'' (Leaf ErrInvariantFault))),
      validateMutable (dh_created_at (sm_header s)) (sm_state s) (sm_cursor s)]"

section \<open>Skip spans (\<open>skip.go\<close>)\<close>

abbreviation SkipOverlapActive :: string where "SkipOverlapActive \<equiv> ''overlap_active''"
abbreviation SkipBlockedUncertain :: string where "SkipBlockedUncertain \<equiv> ''blocked_uncertain''"
abbreviation SkipMissedUnavailable :: string where "SkipMissedUnavailable \<equiv> ''missed_unavailable''"
abbreviation SkipMissedCapacity :: string where "SkipMissedCapacity \<equiv> ''missed_capacity''"
abbreviation SkipPaused :: string where "SkipPaused \<equiv> ''paused''"

definition ValidateSkipReason :: "string \<Rightarrow> error option" where
  "ValidateSkipReason r = require
     (r \<in> {SkipOverlapActive, SkipBlockedUncertain, SkipMissedUnavailable, SkipMissedCapacity, SkipPaused})
     (Wrap ''skip reason'' (Leaf ErrInvalidEnum))"

record skip_span =
  sp_from :: go_time
  sp_to :: go_time
  sp_reason :: string

definition Covers :: "skip_span \<Rightarrow> go_time \<Rightarrow> bool" where
  "Covers s due \<longleftrightarrow> after due (sp_from s) \<and> \<not> after due (sp_to s)"

record skip_request =
  sk_schedule_id :: string
  sk_expected_cursor :: go_time
  sk_span :: skip_span

definition ValidateSkipSpan :: "skip_span \<Rightarrow> error option" where
  "ValidateSkipSpan s = first_error
     [ValidateSkipReason (sp_reason s),
      ValidateInstant ''skip from'' (sp_from s),
      ValidateInstant ''skip to'' (sp_to s),
      require (after (sp_to s) (sp_from s)) (Opaque ''skip span must end after it starts'')]"

definition validateCursorAdvance :: "go_time \<Rightarrow> go_time \<Rightarrow> error option" where
  "validateCursorAdvance expected from_time = first_error
     [ValidateInstant ''expected cursor'' expected,
      require (\<not> before from_time expected) (Opaque ''skip span starts before the expected cursor'')]"

definition ValidateSkip :: "skip_request \<Rightarrow> error option" where
  "ValidateSkip s = first_error
     [validateScheduleID (sk_schedule_id s),
      require (sp_reason (sk_span s) \<noteq> SkipPaused)
        (Opaque ''paused skip spans are recorded only by resuming the schedule''),
      ValidateSkipSpan (sk_span s),
      validateCursorAdvance (sk_expected_cursor s) (sp_from (sk_span s))]"

section \<open>State changes (\<open>state_change.go\<close>)\<close>

record resume_request =
  rs_expected_cursor :: go_time
  rs_from :: go_time
  rs_to :: go_time

record state_change =
  ch_schedule_id :: string
  ch_from :: string
  ch_to :: string
  ch_resume :: "resume_request option"

definition Span :: "resume_request \<Rightarrow> skip_span" where
  "Span r = \<lparr>sp_from = rs_from r, sp_to = rs_to r, sp_reason = SkipPaused\<rparr>"

definition permittedTransition :: "string \<Rightarrow> string \<Rightarrow> bool" where
  "permittedTransition from_state to_state =
     (if from_state = StateEnabled then to_state = StatePaused \<or> to_state = StateDeleted
      else if from_state = StatePaused then to_state = StateEnabled \<or> to_state = StateDeleted
      else False)"

definition ValidateStateChange :: "state_change \<Rightarrow> error option" where
  "ValidateStateChange c = first_error
     [validateScheduleID (ch_schedule_id c),
      ValidateState (ch_from c),
      ValidateState (ch_to c),
      require (permittedTransition (ch_from c) (ch_to c)) (Opaque ''schedule state cannot change''),
      (case ch_resume c of
         None \<Rightarrow> None
       | Some r \<Rightarrow> first_error
           [require (ch_from c = StatePaused \<and> ch_to c = StateEnabled)
              (Opaque ''only resuming a paused schedule records a paused span''),
            ValidateSkipSpan (Span r),
            validateCursorAdvance (rs_expected_cursor r) (rs_from r)])]"

section \<open>Occurrence facts (\<open>occurrence_facts.go\<close>)\<close>

definition codePattern :: "string \<Rightarrow> bool" where
  "codePattern s \<longleftrightarrow> 1 \<le> length s \<and> length s \<le> 64 \<and> list_all (\<lambda>c. lower c \<or> c = CHR ''_'') s"

record observation =
  ob_observed_at :: go_time
  ob_admission :: admission
  ob_liveness :: liveness
  ob_publication :: publication
  ob_outcome_sha256 :: string
  ob_fault_code :: string

record occurrence_observation =
  oo_task_id :: string
  oo_observation :: observation

abbreviation ReleaseNotCreated :: string where "ReleaseNotCreated \<equiv> ''not_created''"
abbreviation ReleaseClosed :: string where "ReleaseClosed \<equiv> ''closed''"

record release =
  rl_released_at :: go_time
  rl_kind :: string
  rl_ref :: string

record occurrence_release =
  or_task_id :: string
  or_release :: release

definition validateCode :: "string \<Rightarrow> string \<Rightarrow> error option" where
  "validateCode name code = require (codePattern code) (Wrap name (Opaque ''must match [a-z_]{1,64}''))"

definition validateAdmission :: "admission \<Rightarrow> error option" where
  "validateAdmission a = (case a of
     AdmissionOther n \<Rightarrow> Some (Wrap ''observation admission'' (Leaf ErrInvalidEnum)) | _ \<Rightarrow> None)"

definition validateLiveness :: "liveness \<Rightarrow> error option" where
  "validateLiveness l = (case l of
     LivenessOther n \<Rightarrow> Some (Wrap ''observation liveness'' (Leaf ErrInvalidEnum)) | _ \<Rightarrow> None)"

definition publicationHasOutcome :: "publication \<Rightarrow> error + bool" where
  "publicationHasOutcome p = (case p of
     PublicationCommitted \<Rightarrow> Inr True
   | PublicationRejected \<Rightarrow> Inr True
   | PublicationUnknown \<Rightarrow> Inr False
   | PublicationPending \<Rightarrow> Inr False
   | PublicationOther n \<Rightarrow> Inl (Wrap ''observation publication'' (Leaf ErrInvalidEnum)))"

definition ValidateObservation :: "observation \<Rightarrow> error option" where
  "ValidateObservation ob = first_error
     [ValidateInstant ''observation observed_at'' (ob_observed_at ob),
      validateAdmission (ob_admission ob),
      validateLiveness (ob_liveness ob),
      (case publicationHasOutcome (ob_publication ob) of
         Inl e \<Rightarrow> Some e
       | Inr outcome \<Rightarrow> first_error
          [require (outcome \<or> ob_outcome_sha256 ob = [])
             (Opaque ''observation outcome digest requires a committed or rejected publication''),
           (if outcome then wrap_error ''observation outcome digest''
                              (ValidateSHA256 (ob_outcome_sha256 ob)) else None)]),
      (if ob_fault_code ob \<noteq> [] then validateCode ''observation fault code'' (ob_fault_code ob)
       else None)]"

definition ValidateOccurrenceObservation :: "occurrence_observation \<Rightarrow> error option" where
  "ValidateOccurrenceObservation r = first_error
     [wrap_error ''occurrence task id'' (ValidateTaskID (oo_task_id r)),
      ValidateObservation (oo_observation r)]"

definition ValidateRelease :: "release \<Rightarrow> error option" where
  "ValidateRelease r = first_error
     [ValidateInstant ''occurrence released_at'' (rl_released_at r),
      (if rl_kind r = ReleaseNotCreated then validateCode ''not-created release code'' (rl_ref r)
       else if rl_kind r = ReleaseClosed
         then wrap_error ''closed release digest'' (ValidateSHA256 (rl_ref r))
       else Some (Wrap ''release kind'' (Leaf ErrInvalidEnum)))]"

definition ValidateOccurrenceRelease :: "occurrence_release \<Rightarrow> error option" where
  "ValidateOccurrenceRelease r = first_error
     [wrap_error ''occurrence task id'' (ValidateTaskID (or_task_id r)), ValidateRelease (or_release r)]"

definition CheckRepeatedRelease :: "release \<Rightarrow> release \<Rightarrow> error option" where
  "CheckRepeatedRelease stored requested =
     (if rl_kind stored = rl_kind requested \<and> rl_ref stored = rl_ref requested then None
      else Some (Wrap ''occurrence was already released'' (Leaf ErrConflict)))"

section \<open>Occurrences and claims (\<open>occurrence.go\<close>)\<close>

record claim =
  cl_schedule_id :: string
  cl_expected_cursor :: go_time
  cl_due :: go_time
  cl_task_id :: string
  cl_armed_at :: go_time

definition ValidateClaim :: "claim \<Rightarrow> error option" where
  "ValidateClaim c = first_error
     [validateScheduleID (cl_schedule_id c),
      wrap_error ''occurrence task id'' (ValidateTaskID (cl_task_id c)),
      ValidateInstant ''claim expected cursor'' (cl_expected_cursor c),
      ValidateInstant ''occurrence due'' (cl_due c),
      require (after (cl_due c) (cl_expected_cursor c))
        (Opaque ''occurrence due time must be after the expected cursor''),
      ValidateInstant ''occurrence armed_at'' (cl_armed_at c)]"

datatype claim_outcome = ClaimUnknown | ClaimExisting | ClaimNewlyCommitted

record claim_result =
  cx_outcome :: claim_outcome
  cx_task_id :: string

definition AuthorizesInvocation :: "claim_result \<Rightarrow> bool" where
  "AuthorizesInvocation r = (case cx_outcome r of
     ClaimNewlyCommitted \<Rightarrow> True | ClaimUnknown \<Rightarrow> False | ClaimExisting \<Rightarrow> False)"

record occurrence =
  oc_task_id :: string
  oc_schedule_id :: string
  oc_due :: go_time
  oc_armed_at :: go_time
  oc_observation :: "observation option"
  oc_release :: "release option"

definition ValidateOccurrence :: "occurrence \<Rightarrow> error option" where
  "ValidateOccurrence x = first_error
     [wrap_error ''occurrence task id'' (ValidateTaskID (oc_task_id x)),
      validateScheduleID (oc_schedule_id x),
      ValidateInstant ''occurrence due'' (oc_due x),
      ValidateInstant ''occurrence armed_at'' (oc_armed_at x),
      (case oc_observation x of None \<Rightarrow> None | Some ob \<Rightarrow> ValidateObservation ob),
      (case oc_release x of None \<Rightarrow> None | Some r \<Rightarrow> ValidateRelease r)]"

section \<open>History and pages (\<open>history.go\<close>)\<close>

definition MaxPageLimit :: int where "MaxPageLimit = 100"

text \<open>The tagged entry; \<open>HistoryInvalid\<close> is the zero value.\<close>

datatype history_entry = HistoryInvalid | OccurrenceEntry occurrence | SkipEntry skip_span

definition Endpoint :: "history_entry \<Rightarrow> error + go_time" where
  "Endpoint e = (case e of
     OccurrenceEntry x \<Rightarrow> Inr (oc_due x)
   | SkipEntry s \<Rightarrow> Inr (sp_to s)
   | HistoryInvalid \<Rightarrow> Inl (Leaf ErrEmptyHistoryEntry))"

definition ValidateHistoryEntry :: "string \<Rightarrow> history_entry \<Rightarrow> error option" where
  "ValidateHistoryEntry sid e = (case e of
     OccurrenceEntry x \<Rightarrow> first_error
       [ValidateOccurrence x,
        require (oc_schedule_id x = sid)
          (Wrap ''occurrence belongs to another schedule'' (Leaf ErrIdentityMismatch))]
   | SkipEntry s \<Rightarrow> ValidateSkipSpan s
   | HistoryInvalid \<Rightarrow> Some (Leaf ErrEmptyHistoryEntry))"

record schedule_page =
  pg_after_schedule_id :: string
  pg_limit :: int

record history_page =
  hp_schedule_id :: string
  hp_before :: "go_time option"
  hp_limit :: int

record history_result =
  hr_entries :: "history_entry list"
  hr_more :: bool

definition validateLimit :: "int \<Rightarrow> error option" where
  "validateLimit n =
     require (1 \<le> n \<and> n \<le> MaxPageLimit) (Opaque ''page limit must be between 1 and 100'')"

text \<open>\<open>SchedulePage\<close> and \<open>ActivePage\<close> have the same fields and the same rule.\<close>

definition ValidateSchedulePage :: "schedule_page \<Rightarrow> error option" where
  "ValidateSchedulePage p = first_error
     [(if pg_after_schedule_id p \<noteq> [] then validateScheduleID (pg_after_schedule_id p) else None),
      validateLimit (pg_limit p)]"

definition ValidateActivePage :: "schedule_page \<Rightarrow> error option" where
  "ValidateActivePage p = first_error
     [(if pg_after_schedule_id p \<noteq> [] then validateScheduleID (pg_after_schedule_id p) else None),
      validateLimit (pg_limit p)]"

definition ValidateHistoryPage :: "history_page \<Rightarrow> error option" where
  "ValidateHistoryPage p = first_error
     [validateScheduleID (hp_schedule_id p),
      (case hp_before p of None \<Rightarrow> None | Some t \<Rightarrow> ValidateInstant ''history before'' t),
      validateLimit (hp_limit p)]"

text \<open>\<open>Next\<close>: the request of the following older page, \<open>None\<close> when there is none.\<close>

definition Next :: "history_result \<Rightarrow> history_page \<Rightarrow> error + history_page option" where
  "Next r p =
     (if \<not> hr_more r \<or> hr_entries r = [] then Inr None
      else bind_result (Endpoint (last (hr_entries r))) (\<lambda>t.
        Inr (Some \<lparr>hp_schedule_id = hp_schedule_id p, hp_before = Some t, hp_limit = hp_limit p\<rparr>)))"

end
