(* ===== verification/Sched_Db.thy ===== *)
theory Sched_Db
  imports Sched_Contract
begin

text \<open>
  The scheduler database of \<open>internal/scheduler/internal/sqlitestore\<close>: the rows of its STRICT
  tables, the constraints and triggers of \<open>schema.go\<close>, and the INSERT and UPDATE statements the
  store executes. A failed statement returns the SQLite result code the schema text implies and leaves
  the tables unchanged. Rows are kept in insertion order; every query of the store orders its rows.
\<close>

section \<open>Tables\<close>

record schedule_row =
  sr_id :: string
  sr_created :: int
  sr_cron :: string
  sr_timezone :: string
  sr_request :: string
  sr_brief :: string
  sr_brief_sha256 :: string
  sr_definition_sha256 :: string
  sr_state :: string
  sr_cursor :: int

record occurrence_row =
  xr_task_id :: string
  xr_schedule_id :: string
  xr_due :: int
  xr_armed_at :: int
  xr_observed_at :: "int option"
  xr_admission :: "int option"
  xr_liveness :: "int option"
  xr_publication :: "int option"
  xr_outcome_sha256 :: "string option"
  xr_fault_code :: "string option"
  xr_released_at :: "int option"
  xr_release_kind :: "string option"
  xr_release_ref :: "string option"

record span_row =
  kr_schedule_id :: string
  kr_from :: int
  kr_to :: int
  kr_reason :: string

record tables =
  tb_schedules :: "schedule_row list"
  tb_occurrences :: "occurrence_row list"
  tb_spans :: "span_row list"

definition empty_tables :: tables where
  "empty_tables = \<lparr>tb_schedules = [], tb_occurrences = [], tb_spans = []\<rparr>"

section \<open>Result codes and their classes (\<open>errors.go\<close>)\<close>

definition SQLITE_BUSY :: int where "SQLITE_BUSY = 5"
definition SQLITE_LOCKED :: int where "SQLITE_LOCKED = 6"
definition SQLITE_READONLY :: int where "SQLITE_READONLY = 8"
definition SQLITE_CORRUPT :: int where "SQLITE_CORRUPT = 11"
definition SQLITE_CONSTRAINT :: int where "SQLITE_CONSTRAINT = 19"
definition SQLITE_NOTADB :: int where "SQLITE_NOTADB = 26"
definition SQLITE_CONSTRAINT_CHECK :: int where "SQLITE_CONSTRAINT_CHECK = 275"
definition SQLITE_CONSTRAINT_FOREIGNKEY :: int where "SQLITE_CONSTRAINT_FOREIGNKEY = 787"
definition SQLITE_CONSTRAINT_PRIMARYKEY :: int where "SQLITE_CONSTRAINT_PRIMARYKEY = 1555"
definition SQLITE_CONSTRAINT_TRIGGER :: int where "SQLITE_CONSTRAINT_TRIGGER = 1811"
definition SQLITE_CONSTRAINT_UNIQUE :: int where "SQLITE_CONSTRAINT_UNIQUE = 2067"

lemmas sqlite_codes = SQLITE_BUSY_def SQLITE_LOCKED_def SQLITE_READONLY_def SQLITE_CORRUPT_def
  SQLITE_CONSTRAINT_def SQLITE_NOTADB_def SQLITE_CONSTRAINT_CHECK_def
  SQLITE_CONSTRAINT_FOREIGNKEY_def SQLITE_CONSTRAINT_PRIMARYKEY_def SQLITE_CONSTRAINT_TRIGGER_def
  SQLITE_CONSTRAINT_UNIQUE_def

definition errNotInitialized :: error where
  "errNotInitialized = Wrap ''scheduler database is not initialized'' (Leaf ErrNotExist)"
definition errForeignDatabase :: error where
  "errForeignDatabase = Wrap ''database is not a scheduler database'' (Leaf ErrUnsupportedSchema)"
definition errNewerSchema :: error where
  "errNewerSchema = Wrap ''scheduler database schema is newer than this build'' (Leaf ErrUnsupportedSchema)"
definition errJournalMode :: error where
  "errJournalMode = Wrap ''scheduler database journal mode is unsupported'' (Leaf ErrUnsupportedSchema)"
definition errConnectionConfig :: error where
  "errConnectionConfig = Wrap ''scheduler connection settings do not match'' (Leaf ErrInvariantFault)"
definition errSchemaMismatch :: error where
  "errSchemaMismatch = Wrap ''scheduler database schema objects do not match'' (Leaf ErrInvariantFault)"
definition errRootMismatch :: error where
  "errRootMismatch = Wrap ''scheduler database belongs to another state root'' (Leaf ErrIdentityMismatch)"
definition errCommitOutcomeUnknown :: error where
  "errCommitOutcomeUnknown = Leaf ErrCommitOutcomeUnknown"

text \<open>\<open>errors.As\<close> for the driver's error type: the first one in pre-order.\<close>

fun driver_code :: "error \<Rightarrow> int option"
and driver_codes :: "error list \<Rightarrow> int option" where
  "driver_code (DriverError c) = Some c"
| "driver_code (Wrap m e) = driver_code e"
| "driver_code (Joined es) = driver_codes es"
| "driver_code (Leaf s) = None"
| "driver_code (Opaque m) = None"
| "driver_codes [] = None"
| "driver_codes (e # es) = (case driver_code e of Some c \<Rightarrow> Some c | None \<Rightarrow> driver_codes es)"

definition classify :: "error \<Rightarrow> error" where
  "classify e = (case driver_code e of
     None \<Rightarrow> e
   | Some code \<Rightarrow>
      (let primary = code mod 256 in
       if primary = SQLITE_BUSY \<or> primary = SQLITE_LOCKED then Joined [Leaf ErrLockBusy, e]
       else if primary = SQLITE_READONLY then Joined [Leaf ErrPermission, e]
       else if primary = SQLITE_CORRUPT then Joined [Leaf ErrInvariantFault, e]
       else if primary = SQLITE_NOTADB then Joined [errForeignDatabase, e]
       else if primary = SQLITE_CONSTRAINT then
         (if code = SQLITE_CONSTRAINT_UNIQUE \<or> code = SQLITE_CONSTRAINT_PRIMARYKEY
          then Joined [Leaf ErrConflict, e] else Joined [Leaf ErrInvariantFault, e])
       else e))"

definition storedFault :: "string \<Rightarrow> error \<Rightarrow> error" where
  "storedFault subject e = Joined [Leaf ErrInvariantFault, Wrap subject e]"

lemma classify_keeps: "errors_is e t \<Longrightarrow> errors_is (classify e) t"
  by (auto simp: classify_def Let_def split: option.splits)

section \<open>Constraints (\<open>schema.go\<close>)\<close>

definition schedule_check :: "schedule_row \<Rightarrow> bool" where
  "schedule_check r \<longleftrightarrow>
     hexPattern (sr_id r)
     \<and> 1 \<le> length (sr_cron r) \<and> length (sr_cron r) \<le> 256
     \<and> 1 \<le> length (sr_timezone r) \<and> length (sr_timezone r) \<le> 256
     \<and> 1 \<le> length (sr_request r) \<and> length (sr_request r) \<le> 1048576
     \<and> 1 \<le> length (sr_brief r) \<and> length (sr_brief r) \<le> 8388608
     \<and> hex64Pattern (sr_brief_sha256 r) \<and> hex64Pattern (sr_definition_sha256 r)
     \<and> (sr_state r = StateEnabled \<or> sr_state r = StatePaused \<or> sr_state r = StateDeleted)
     \<and> sr_created r \<le> sr_cursor r"

definition null_or :: "('a \<Rightarrow> bool) \<Rightarrow> 'a option \<Rightarrow> bool" where
  "null_or P v = (case v of None \<Rightarrow> True | Some x \<Rightarrow> P x)"

definition observation_check :: "occurrence_row \<Rightarrow> bool" where
  "observation_check r \<longleftrightarrow>
     null_or (\<lambda>n. 0 \<le> n \<and> n \<le> 2) (xr_admission r)
     \<and> null_or (\<lambda>n. 0 \<le> n \<and> n \<le> 2) (xr_liveness r)
     \<and> null_or (\<lambda>n. 0 \<le> n \<and> n \<le> 3) (xr_publication r)
     \<and> null_or hex64Pattern (xr_outcome_sha256 r)
     \<and> null_or codePattern (xr_fault_code r)
     \<and> (xr_observed_at r = None) = (xr_admission r = None)
     \<and> (xr_observed_at r = None) = (xr_liveness r = None)
     \<and> (xr_observed_at r = None) = (xr_publication r = None)
     \<and> (xr_observed_at r \<noteq> None \<or> xr_outcome_sha256 r = None \<and> xr_fault_code r = None)
     \<and> (xr_observed_at r = None
         \<or> (xr_publication r = Some 2 \<or> xr_publication r = Some 3) = (xr_outcome_sha256 r \<noteq> None))"

definition release_check :: "occurrence_row \<Rightarrow> bool" where
  "release_check r \<longleftrightarrow>
     (xr_released_at r = None) = (xr_release_kind r = None)
     \<and> (xr_released_at r = None) = (xr_release_ref r = None)
     \<and> (xr_release_kind r = None
         \<or> xr_release_kind r = Some ReleaseNotCreated \<and> null_or codePattern (xr_release_ref r)
         \<or> xr_release_kind r = Some ReleaseClosed \<and> null_or hex64Pattern (xr_release_ref r))"

definition occurrence_check :: "occurrence_row \<Rightarrow> bool" where
  "occurrence_check r \<longleftrightarrow> hexPattern (xr_task_id r) \<and> observation_check r \<and> release_check r"

definition span_check :: "span_row \<Rightarrow> bool" where
  "span_check r \<longleftrightarrow> kr_from r < kr_to r
     \<and> kr_reason r \<in> {SkipOverlapActive, SkipBlockedUncertain, SkipMissedUnavailable,
                       SkipMissedCapacity, SkipPaused}"

definition has_schedule :: "string \<Rightarrow> tables \<Rightarrow> bool" where
  "has_schedule sid db \<longleftrightarrow> list_ex (\<lambda>r. sr_id r = sid) (tb_schedules db)"

definition active_row :: "occurrence_row \<Rightarrow> bool" where
  "active_row r \<longleftrightarrow> xr_released_at r = None"

section \<open>Statements\<close>

definition insert_schedule :: "schedule_row \<Rightarrow> tables \<Rightarrow> error + tables" where
  "insert_schedule r db =
     (if \<not> schedule_check r then Inl (DriverError SQLITE_CONSTRAINT_CHECK)
      else if has_schedule (sr_id r) db then Inl (DriverError SQLITE_CONSTRAINT_PRIMARYKEY)
      else Inr (db\<lparr>tb_schedules := tb_schedules db @ [r]\<rparr>))"

text \<open>The uniqueness constraints of \<open>occurrences\<close>: primary key, due time, one active row.\<close>

definition insert_occurrence :: "occurrence_row \<Rightarrow> tables \<Rightarrow> error + tables" where
  "insert_occurrence r db =
     (if \<not> occurrence_check r then Inl (DriverError SQLITE_CONSTRAINT_CHECK)
      else if list_ex (\<lambda>x. xr_task_id x = xr_task_id r) (tb_occurrences db)
        then Inl (DriverError SQLITE_CONSTRAINT_PRIMARYKEY)
      else if list_ex (\<lambda>x. xr_schedule_id x = xr_schedule_id r \<and> xr_due x = xr_due r) (tb_occurrences db)
        then Inl (DriverError SQLITE_CONSTRAINT_UNIQUE)
      else if active_row r
              \<and> list_ex (\<lambda>x. xr_schedule_id x = xr_schedule_id r \<and> active_row x) (tb_occurrences db)
        then Inl (DriverError SQLITE_CONSTRAINT_UNIQUE)
      else if \<not> has_schedule (xr_schedule_id r) db then Inl (DriverError SQLITE_CONSTRAINT_FOREIGNKEY)
      else Inr (db\<lparr>tb_occurrences := tb_occurrences db @ [r]\<rparr>))"

definition insert_span :: "span_row \<Rightarrow> tables \<Rightarrow> error + tables" where
  "insert_span r db =
     (if \<not> span_check r then Inl (DriverError SQLITE_CONSTRAINT_CHECK)
      else if list_ex (\<lambda>x. kr_schedule_id x = kr_schedule_id r \<and> kr_to x = kr_to r) (tb_spans db)
        then Inl (DriverError SQLITE_CONSTRAINT_PRIMARYKEY)
      else if \<not> has_schedule (kr_schedule_id r) db then Inl (DriverError SQLITE_CONSTRAINT_FOREIGNKEY)
      else Inr (db\<lparr>tb_spans := tb_spans db @ [r]\<rparr>))"

text \<open>
  \<open>UPDATE schedules SET ... WHERE\<close>: the triggers of the columns that are set, then the CHECKs, on
  every matching row; the number of rows changed.
\<close>

definition schedule_update_fault :: "bool \<Rightarrow> bool \<Rightarrow> schedule_row \<Rightarrow> schedule_row \<Rightarrow> error option" where
  "schedule_update_fault sets_state sets_cursor old new =
     (if sets_state \<and> sr_state old = StateDeleted then Some (DriverError SQLITE_CONSTRAINT_TRIGGER)
      else if sets_cursor \<and> sr_cursor new \<le> sr_cursor old
        then Some (DriverError SQLITE_CONSTRAINT_TRIGGER)
      else if \<not> schedule_check new then Some (DriverError SQLITE_CONSTRAINT_CHECK)
      else None)"

definition update_schedules ::
  "bool \<Rightarrow> bool \<Rightarrow> (schedule_row \<Rightarrow> bool) \<Rightarrow> (schedule_row \<Rightarrow> schedule_row) \<Rightarrow> tables
     \<Rightarrow> error + nat \<times> tables" where
  "update_schedules sets_state sets_cursor P f db =
     (let hit = filter P (tb_schedules db) in
      case first_error (map (\<lambda>r. schedule_update_fault sets_state sets_cursor r (f r)) hit) of
        Some e \<Rightarrow> Inl e
      | None \<Rightarrow> Inr (length hit,
          db\<lparr>tb_schedules := map (\<lambda>r. if P r then f r else r) (tb_schedules db)\<rparr>))"

definition occurrence_update_fault :: "bool \<Rightarrow> bool \<Rightarrow> occurrence_row \<Rightarrow> occurrence_row \<Rightarrow> error option" where
  "occurrence_update_fault sets_observation sets_release old new =
     (if sets_release \<and> xr_released_at old \<noteq> None then Some (DriverError SQLITE_CONSTRAINT_TRIGGER)
      else if sets_observation
              \<and> (case xr_observed_at old of None \<Rightarrow> False
                 | Some t \<Rightarrow> (case xr_observed_at new of None \<Rightarrow> True | Some u \<Rightarrow> u \<le> t))
        then Some (DriverError SQLITE_CONSTRAINT_TRIGGER)
      else if \<not> occurrence_check new then Some (DriverError SQLITE_CONSTRAINT_CHECK)
      else None)"

definition update_occurrences ::
  "bool \<Rightarrow> bool \<Rightarrow> (occurrence_row \<Rightarrow> bool) \<Rightarrow> (occurrence_row \<Rightarrow> occurrence_row) \<Rightarrow> tables
     \<Rightarrow> error + nat \<times> tables" where
  "update_occurrences sets_observation sets_release P f db =
     (let hit = filter P (tb_occurrences db) in
      case first_error (map (\<lambda>r. occurrence_update_fault sets_observation sets_release r (f r)) hit) of
        Some e \<Rightarrow> Inl e
      | None \<Rightarrow> Inr (length hit,
          db\<lparr>tb_occurrences := map (\<lambda>r. if P r then f r else r) (tb_occurrences db)\<rparr>))"

lemma update_schedules_Inr:
  "update_schedules ss sc P f db = Inr (n, db') \<longleftrightarrow>
     (\<forall>r \<in> set (tb_schedules db). P r \<longrightarrow> schedule_update_fault ss sc r (f r) = None)
     \<and> n = length (filter P (tb_schedules db))
     \<and> db' = db\<lparr>tb_schedules := map (\<lambda>r. if P r then f r else r) (tb_schedules db)\<rparr>"
  using first_error_map_None [of "\<lambda>r. schedule_update_fault ss sc r (f r)" "filter P (tb_schedules db)"]
  by (cases "first_error (map (\<lambda>r. schedule_update_fault ss sc r (f r)) (filter P (tb_schedules db)))")
    (auto simp: update_schedules_def Let_def)

lemma update_occurrences_Inr:
  "update_occurrences so sl P f db = Inr (n, db') \<longleftrightarrow>
     (\<forall>r \<in> set (tb_occurrences db). P r \<longrightarrow> occurrence_update_fault so sl r (f r) = None)
     \<and> n = length (filter P (tb_occurrences db))
     \<and> db' = db\<lparr>tb_occurrences := map (\<lambda>r. if P r then f r else r) (tb_occurrences db)\<rparr>"
  using first_error_map_None
    [of "\<lambda>r. occurrence_update_fault so sl r (f r)" "filter P (tb_occurrences db)"]
  by (cases "first_error (map (\<lambda>r. occurrence_update_fault so sl r (f r)) (filter P (tb_occurrences db)))")
    (auto simp: update_occurrences_def Let_def)

end
