(* ===== verification/Sched_Schema.thy ===== *)
theory Sched_Schema
  imports Sched_Db
begin

text \<open>
  The exact schema objects of \<open>schema.go\<close>, as the text SQLite stores in \<open>sqlite_schema\<close>. The
  guard compares them literally; their meaning is the constraints and triggers of \<open>Sched_Db\<close>.
\<close>

definition schemaVersion :: int where "schemaVersion = 1"

record schema_object =
  so_kind :: string
  so_name :: string
  so_sql :: string

definition nl :: string where "nl = [CHR 0x0A]"
definition tab :: string where "tab = [CHR 0x09]"
definition qt :: string where "qt = [CHR 0x27]"

definition hex32Check :: "string \<Rightarrow> string" where
  "hex32Check c = ''length('' @ c @ '') = 32 AND '' @ c @ '' NOT GLOB '' @ qt @ ''*[^0-9a-f]*'' @ qt"

definition hex64Check :: "string \<Rightarrow> string" where
  "hex64Check c = ''length('' @ c @ '') = 64 AND '' @ c @ '' NOT GLOB '' @ qt @ ''*[^0-9a-f]*'' @ qt"

definition codeCheck :: "string \<Rightarrow> string" where
  "codeCheck c =
     ''length('' @ c @ '') BETWEEN 1 AND 64 AND '' @ c @ '' NOT GLOB '' @ qt @ ''*[^a-z_]*'' @ qt"

definition trigger :: "string \<Rightarrow> string \<Rightarrow> string \<Rightarrow> schema_object" where
  "trigger name event message =
     \<lparr>so_kind = ''trigger'', so_name = name, so_sql =
       ''CREATE TRIGGER '' @ name @ nl @ event @ nl @
       ''BEGIN SELECT RAISE(ABORT, '' @ qt @ message @ qt @ ''); END''\<rparr>"

definition metadataObjects :: "schema_object list" where
  "metadataObjects = [
    \<lparr>so_kind = ''table'', so_name = ''scheduler_metadata'', so_sql =
      ''CREATE TABLE scheduler_metadata ('' @ nl @ tab @
      ''singleton INTEGER PRIMARY KEY CHECK (singleton = 1),'' @ nl @ tab @
      ''root_id TEXT NOT NULL CHECK ('' @ (hex32Check ''root_id'') @ '')'' @ nl @ '') STRICT''\<rparr>,
    trigger ''scheduler_metadata_immutable''
      (''BEFORE UPDATE ON scheduler_metadata'')
      ''scheduler metadata is immutable'',
    trigger ''scheduler_metadata_permanent''
      (''BEFORE DELETE ON scheduler_metadata'')
      ''scheduler metadata is permanent'']"

definition scheduleObjects :: "schema_object list" where
  "scheduleObjects = [
    \<lparr>so_kind = ''table'', so_name = ''schedules'', so_sql =
      ''CREATE TABLE schedules ('' @ nl @ tab @ ''schedule_id TEXT PRIMARY KEY CHECK ('' @
      (hex32Check ''schedule_id'') @ ''),'' @ nl @ tab @
      ''created_at_unix_nanos INTEGER NOT NULL,'' @ nl @ tab @
      ''cron TEXT NOT NULL CHECK (length(CAST(cron AS BLOB)) BETWEEN 1 AND 256),'' @ nl @ tab @
      ''timezone TEXT NOT NULL CHECK (length(CAST(timezone AS BLOB)) BETWEEN 1 AND 256),'' @ nl @
      tab @ ''request_json BLOB NOT NULL CHECK (length(request_json) BETWEEN 1 AND 1048576),'' @
      nl @ tab @ ''brief BLOB NOT NULL CHECK (length(brief) BETWEEN 1 AND 8388608),'' @ nl @
      tab @ ''brief_sha256 TEXT NOT NULL CHECK ('' @ (hex64Check ''brief_sha256'') @ ''),'' @
      nl @ tab @ ''definition_sha256 TEXT NOT NULL CHECK ('' @
      (hex64Check ''definition_sha256'') @ ''),'' @ nl @ tab @
      ''state TEXT NOT NULL CHECK (state IN ('' @ qt @ ''enabled'' @ qt @ '', '' @ qt @
      ''paused'' @ qt @ '', '' @ qt @ ''deleted'' @ qt @ '')),'' @ nl @ tab @
      ''cursor_unix_nanos INTEGER NOT NULL CHECK (cursor_unix_nanos >= created_at_unix_nanos)'' @
      nl @ '') STRICT''\<rparr>,
    trigger ''schedules_definition_immutable''
      (''BEFORE UPDATE OF schedule_id, created_at_unix_nanos, cron, timezone, request_json, brief, brief_sha256, definition_sha256 ON schedules'')
      ''schedule definition is immutable'',
    trigger ''schedules_deleted_terminal''
      (''BEFORE UPDATE OF state ON schedules WHEN OLD.state = '' @ qt @ ''deleted'' @ qt)
      ''deleted schedule state is terminal'',
    trigger ''schedules_cursor_forward''
      (''BEFORE UPDATE OF cursor_unix_nanos ON schedules WHEN NEW.cursor_unix_nanos <= OLD.cursor_unix_nanos'')
      ''schedule cursor only advances'',
    trigger ''schedules_permanent''
      (''BEFORE DELETE ON schedules'')
      ''schedules are permanent'']"

definition occurrenceObjects :: "schema_object list" where
  "occurrenceObjects = [
    \<lparr>so_kind = ''table'', so_name = ''occurrences'', so_sql =
      ''CREATE TABLE occurrences ('' @ nl @ tab @ ''task_id TEXT PRIMARY KEY CHECK ('' @
      (hex32Check ''task_id'') @ ''),'' @ nl @ tab @
      ''schedule_id TEXT NOT NULL REFERENCES schedules (schedule_id),'' @ nl @ tab @
      ''due_unix_nanos INTEGER NOT NULL,'' @ nl @ tab @
      ''armed_at_unix_nanos INTEGER NOT NULL,'' @ nl @ tab @
      ''observed_at_unix_nanos INTEGER,'' @ nl @ tab @
      ''admission INTEGER CHECK (admission BETWEEN 0 AND 2),'' @ nl @ tab @
      ''liveness INTEGER CHECK (liveness BETWEEN 0 AND 2),'' @ nl @ tab @
      ''publication INTEGER CHECK (publication BETWEEN 0 AND 3),'' @ nl @ tab @
      ''outcome_sha256 TEXT CHECK (outcome_sha256 IS NULL OR ('' @
      (hex64Check ''outcome_sha256'') @ '')),'' @ nl @ tab @
      ''fault_code TEXT CHECK (fault_code IS NULL OR ('' @ (codeCheck ''fault_code'') @ '')),'' @
      nl @ tab @ ''released_at_unix_nanos INTEGER,'' @ nl @ tab @
      ''release_kind TEXT CHECK (release_kind IN ('' @ qt @ ''not_created'' @ qt @ '', '' @ qt @
      ''closed'' @ qt @ '')),'' @ nl @ tab @ ''release_ref TEXT,'' @ nl @ tab @
      ''UNIQUE (schedule_id, due_unix_nanos),'' @ nl @ tab @
      ''CHECK ((observed_at_unix_nanos IS NULL) = (admission IS NULL)'' @ nl @ tab @ tab @
      ''AND (observed_at_unix_nanos IS NULL) = (liveness IS NULL)'' @ nl @ tab @ tab @
      ''AND (observed_at_unix_nanos IS NULL) = (publication IS NULL)),'' @ nl @ tab @
      ''CHECK (observed_at_unix_nanos IS NOT NULL OR (outcome_sha256 IS NULL AND fault_code IS NULL)),'' @
      nl @ tab @
      ''CHECK (observed_at_unix_nanos IS NULL OR (publication IN (2, 3)) = (outcome_sha256 IS NOT NULL)),'' @
      nl @ tab @ ''CHECK ((released_at_unix_nanos IS NULL) = (release_kind IS NULL)'' @ nl @
      tab @ tab @ ''AND (released_at_unix_nanos IS NULL) = (release_ref IS NULL)),'' @ nl @ tab @
      ''CHECK (release_kind IS NULL'' @ nl @ tab @ tab @ ''OR (release_kind = '' @ qt @
      ''not_created'' @ qt @ '' AND '' @ (codeCheck ''release_ref'') @ '')'' @ nl @ tab @ tab @
      ''OR (release_kind = '' @ qt @ ''closed'' @ qt @ '' AND '' @ (hex64Check ''release_ref'') @
      ''))'' @ nl @ '') STRICT''\<rparr>,
    \<lparr>so_kind = ''index'', so_name = ''occurrences_one_active'', so_sql =
      ''CREATE UNIQUE INDEX occurrences_one_active'' @ nl @
      ''ON occurrences (schedule_id) WHERE released_at_unix_nanos IS NULL''\<rparr>,
    trigger ''occurrences_identity_immutable''
      (''BEFORE UPDATE OF task_id, schedule_id, due_unix_nanos, armed_at_unix_nanos ON occurrences'')
      ''occurrence identity is immutable'',
    trigger ''occurrences_release_immutable''
      (''BEFORE UPDATE OF released_at_unix_nanos, release_kind, release_ref ON occurrences WHEN OLD.released_at_unix_nanos IS NOT NULL'')
      ''occurrence release is immutable'',
    trigger ''occurrences_observation_newer''
      (''BEFORE UPDATE OF observed_at_unix_nanos ON occurrences WHEN OLD.observed_at_unix_nanos IS NOT NULL AND (NEW.observed_at_unix_nanos IS NULL OR NEW.observed_at_unix_nanos <= OLD.observed_at_unix_nanos)'')
      ''occurrence observation only advances'',
    trigger ''occurrences_permanent''
      (''BEFORE DELETE ON occurrences'')
      ''occurrences are permanent'']"

definition skipSpanObjects :: "schema_object list" where
  "skipSpanObjects = [
    \<lparr>so_kind = ''table'', so_name = ''skip_spans'', so_sql =
      ''CREATE TABLE skip_spans ('' @ nl @ tab @
      ''schedule_id TEXT NOT NULL REFERENCES schedules (schedule_id),'' @ nl @ tab @
      ''from_unix_nanos INTEGER NOT NULL,'' @ nl @ tab @
      ''to_unix_nanos INTEGER NOT NULL CHECK (to_unix_nanos > from_unix_nanos),'' @ nl @ tab @
      ''reason TEXT NOT NULL CHECK (reason IN ('' @ qt @ ''overlap_active'' @ qt @ '', '' @ qt @
      ''blocked_uncertain'' @ qt @ '', '' @ qt @ ''missed_unavailable'' @ qt @ '', '' @ qt @
      ''missed_capacity'' @ qt @ '', '' @ qt @ ''paused'' @ qt @ '')),'' @ nl @ tab @
      ''PRIMARY KEY (schedule_id, to_unix_nanos)'' @ nl @ '') STRICT''\<rparr>,
    trigger ''skip_spans_immutable''
      (''BEFORE UPDATE ON skip_spans'')
      ''skip spans are immutable'',
    trigger ''skip_spans_permanent''
      (''BEFORE DELETE ON skip_spans'')
      ''skip spans are permanent'']"

definition schemaObjects :: "schema_object list" where
  "schemaObjects = metadataObjects @ scheduleObjects @ occurrenceObjects @ skipSpanObjects"

text \<open>
  What SQLite adds for a table: one unnamed unique index per non-integer key, without SQL text.
\<close>

type_synonym schema_entry = "string \<times> string \<times> string option"

definition entry_of :: "schema_object \<Rightarrow> schema_entry" where
  "entry_of b = (so_kind b, so_name b, Some (so_sql b))"

definition auto_indexes :: "string \<Rightarrow> schema_entry list" where
  "auto_indexes table =
     (if table = ''schedules'' then [(''index'', ''sqlite_autoindex_schedules_1'', None)]
      else if table = ''occurrences'' then
        [(''index'', ''sqlite_autoindex_occurrences_1'', None),
         (''index'', ''sqlite_autoindex_occurrences_2'', None)]
      else if table = ''skip_spans'' then [(''index'', ''sqlite_autoindex_skip_spans_1'', None)]
      else [])"

definition created_entries :: "schema_object \<Rightarrow> schema_entry list" where
  "created_entries b = entry_of b # (if so_kind b = ''table'' then auto_indexes (so_name b) else [])"

text \<open>The visit of \<open>verifySchemaObjects\<close>: only expected objects, automatic indexes aside.\<close>

definition automatic :: "schema_entry \<Rightarrow> bool" where
  "automatic e = (case e of (kind, name, text) \<Rightarrow>
     text = None \<and> kind = ''index'' \<and> has_prefix ''sqlite_autoindex_'' name)"

definition find_object :: "string \<Rightarrow> schema_object option" where
  "find_object name = List.find (\<lambda>b. so_name b = name) schemaObjects"

definition expected_entry :: "schema_entry \<Rightarrow> bool" where
  "expected_entry e = (case e of (kind, name, text) \<Rightarrow>
     (case find_object name of None \<Rightarrow> False
      | Some b \<Rightarrow> so_kind b = kind \<and> text = Some (so_sql b)))"

fun count_expected :: "nat \<Rightarrow> schema_entry list \<Rightarrow> error + nat" where
  "count_expected seen [] = Inr seen"
| "count_expected seen (e # es) =
     (if automatic e then count_expected seen es
      else if expected_entry e then count_expected (Suc seen) es
      else Inl (Wrap ''unexpected schema object'' errSchemaMismatch))"

lemma schemaObjects_names:
  "map so_name schemaObjects =
     [''scheduler_metadata'', ''scheduler_metadata_immutable'', ''scheduler_metadata_permanent'',
      ''schedules'', ''schedules_definition_immutable'', ''schedules_deleted_terminal'',
      ''schedules_cursor_forward'', ''schedules_permanent'', ''occurrences'',
      ''occurrences_one_active'', ''occurrences_identity_immutable'',
      ''occurrences_release_immutable'', ''occurrences_observation_newer'',
      ''occurrences_permanent'', ''skip_spans'', ''skip_spans_immutable'', ''skip_spans_permanent'']"
  by (simp add: schemaObjects_def metadataObjects_def scheduleObjects_def occurrenceObjects_def
      skipSpanObjects_def trigger_def)

lemma schemaObjects_distinct: "distinct (map so_name schemaObjects)"
  unfolding schemaObjects_names by simp

lemma find_object_self: "b \<in> set schemaObjects \<Longrightarrow> find_object (so_name b) = Some b"
proof -
  have "distinct (map so_name xs) \<Longrightarrow> b \<in> set xs
      \<Longrightarrow> List.find (\<lambda>c. so_name c = so_name b) xs = Some b" for xs
    by (induction xs) (auto simp: image_iff)
  then show "b \<in> set schemaObjects \<Longrightarrow> ?thesis"
    using schemaObjects_distinct by (simp add: find_object_def)
qed

lemma auto_indexes_automatic: "e \<in> set (auto_indexes t) \<Longrightarrow> automatic e"
  by (auto simp: auto_indexes_def automatic_def has_prefix_def split: if_splits)

lemma count_expected_append:
  "count_expected n (es @ fs) = bind_result (count_expected n es) (\<lambda>m. count_expected m fs)"
  by (induction n es rule: count_expected.induct) auto

lemma count_expected_automatic:
  "\<forall>e \<in> set es. automatic e \<Longrightarrow> count_expected n es = Inr n"
  by (induction es arbitrary: n) auto

lemma count_expected_created:
  assumes "b \<in> set schemaObjects"
  shows "count_expected n (created_entries b) = Inr (Suc n)"
proof -
  have "expected_entry (entry_of b)" "\<not> automatic (entry_of b)"
    using assms by (auto simp: expected_entry_def entry_of_def find_object_self automatic_def)
  then show ?thesis
    using count_expected_automatic [of "auto_indexes (so_name b)"] auto_indexes_automatic
    by (simp add: created_entries_def)
qed

text \<open>A freshly created schema has every expected object once.\<close>

lemma count_expected_schema:
  "count_expected 0 (concat (map created_entries schemaObjects)) = Inr (length schemaObjects)"
proof -
  have "set bs \<subseteq> set schemaObjects
      \<Longrightarrow> count_expected n (concat (map created_entries bs)) = Inr (n + length bs)" for n bs
    by (induction bs arbitrary: n) (auto simp: count_expected_append count_expected_created)
  then show ?thesis
    by simp
qed

end
