(* ===== verification/Sched_Transact.thy ===== *)
theory Sched_Transact
  imports Sched_Schema
begin

text \<open>
  One guarded transaction per store operation (\<open>transaction.go\<close>, \<open>guard.go\<close>, and
  \<open>initialize\<close> of \<open>store.go\<close>).

  The SQLite driver is outside the repository: an \<open>engine\<close> record says what it answers at each call
  the store makes during one transaction. A failing statement, a refused lock, a lost connection and a
  commit whose effect is unknown are all values of that record. What a statement does when the driver
  succeeds is its SQL text, modelled in \<open>Sched_Db\<close>.
\<close>

record database =
  db_tables :: tables
  db_empty_file :: bool
  db_user_version :: int
  db_schema :: "schema_entry list"
  db_roots :: "string list"
  db_journal_mode :: string

record store =
  st_root_id :: string
  st_goos :: string

text \<open>
  \<open>en_statement\<close> and the row faults are indexed by a label naming the statement;
  \<open>en_commit = Some (e, applied)\<close> is a failed commit that may have reached the disk.
\<close>

record engine =
  en_conn :: "error option"
  en_begin :: "error option"
  en_pragma :: "string \<Rightarrow> error + int"
  en_statement :: "string \<Rightarrow> error option"
  en_rows_affected :: "string \<Rightarrow> error option"
  en_rows_err :: "string \<Rightarrow> error option"
  en_rows_close :: "string \<Rightarrow> error option"
  en_stat :: "error option"
  en_rollback :: "error option"
  en_commit :: "(error \<times> bool) option"
  en_close :: "error option"
  en_raw :: "error option"
  en_ctx_done :: bool
  en_db_close :: "error option"

text \<open>The driver call of one statement: the driver's own fault, or the statement's result.\<close>

definition sql :: "engine \<Rightarrow> string \<Rightarrow> error + 'a \<Rightarrow> error + 'a" where
  "sql en label r = (case en_statement en label of
     Some e \<Rightarrow> Inl (classify e)
   | None \<Rightarrow> map_err classify r)"

text \<open>\<open>scanEach\<close> after its last row: the visit error joined with the iteration and close errors.\<close>

definition scanEach :: "engine \<Rightarrow> string \<Rightarrow> error + 'a \<Rightarrow> error + 'a" where
  "scanEach en label visited =
     (case errors_join [error_of visited, en_rows_err en label, en_rows_close en label] of
        Some e \<Rightarrow> Inl (classify e)
      | None \<Rightarrow> visited)"

definition query :: "engine \<Rightarrow> string \<Rightarrow> error + 'a \<Rightarrow> error + 'a" where
  "query en label visited = (case en_statement en label of
     Some e \<Rightarrow> Inl (classify e)
   | None \<Rightarrow> scanEach en label visited)"

lemma sql_Inr [go_simps]: "sql en l r = Inr x \<longleftrightarrow> en_statement en l = None \<and> r = Inr x"
  by (auto simp: sql_def map_err_Inr_iff split: option.splits)

lemma query_Inr [go_simps]:
  "query en l r = Inr x \<longleftrightarrow>
     en_statement en l = None \<and> en_rows_err en l = None \<and> en_rows_close en l = None \<and> r = Inr x"
  by (cases r; cases "en_rows_err en l"; cases "en_rows_close en l")
    (auto simp: query_def scanEach_def errors_join_def map_filter_simps split: option.splits)

section \<open>Transactions (\<open>transaction.go\<close>)\<close>

definition releaseConnection :: "engine \<Rightarrow> bool \<Rightarrow> error option" where
  "releaseConnection en clean =
     (if clean then en_close en
      else errors_join
        [(if error_is (en_raw en) ErrBadConn then None
          else Some (case en_raw en of
              None \<Rightarrow> Opaque ''retiring scheduler connection''
            | Some e \<Rightarrow> Wrap ''retiring scheduler connection'' e)),
         (case en_close en of
            None \<Rightarrow> None
          | Some e \<Rightarrow> if errors_is e ErrConnDone then None
                      else Some (Wrap ''closing retired scheduler connection'' e))])"

definition finish_transaction :: "engine \<Rightarrow> error + 'a \<Rightarrow> bool \<Rightarrow> error + 'a" where
  "finish_transaction en result clean =
     (case errors_join [error_of result, releaseConnection en (clean \<and> \<not> en_ctx_done en)] of
        Some e \<Rightarrow> Inl e
      | None \<Rightarrow> result)"

definition transact ::
  "engine \<Rightarrow> (database \<Rightarrow> error option) \<Rightarrow> (database \<Rightarrow> error + 'a \<times> database) \<Rightarrow> database
     \<Rightarrow> (error + 'a) \<times> database" where
  "transact en guard body db =
     (case en_conn en of
        Some e \<Rightarrow> (Inl (classify e), db)
      | None \<Rightarrow>
     (case en_begin en of
        Some e \<Rightarrow> (finish_transaction en (Inl (classify e)) False, db)
      | None \<Rightarrow>
     (case check_then (guard db) (body db) of
        Inl step \<Rightarrow>
          (let rollback = (if error_is (en_rollback en) ErrTxDone \<and> en_ctx_done en then None
                           else map_option classify (en_rollback en))
           in (finish_transaction en
                 (Inl (Joined (List.map_filter id [Some step, rollback]))) (en_rollback en = None), db))
      | Inr (x, db') \<Rightarrow>
         (case en_commit en of
            Some (e, applied) \<Rightarrow>
              (finish_transaction en (Inl (Joined [errCommitOutcomeUnknown, classify e])) False,
               if applied then db' else db)
          | None \<Rightarrow> (finish_transaction en (Inr x) True, db')))))"

lemma finish_transaction_Inr:
  "finish_transaction en r c = Inr x \<longleftrightarrow>
     r = Inr x \<and> releaseConnection en (c \<and> \<not> en_ctx_done en) = None"
  by (cases r; cases "releaseConnection en (c \<and> \<not> en_ctx_done en)")
    (auto simp: finish_transaction_def errors_join_def map_filter_simps)

text \<open>A transaction that returns a value committed exactly what its body computed.\<close>

lemma transact_Inr:
  assumes "transact en guard body db = (Inr x, db2)"
  shows "guard db = None \<and> body db = Inr (x, db2)"
  using assms
  by (auto simp: transact_def finish_transaction_Inr check_then_Inr_iff Let_def
      split: option.splits sum.splits)

text \<open>Whatever it returns, the database is the old one or the one the body computed.\<close>

lemma transact_db:
  assumes "transact en guard body db = (r, db2)"
  shows "db2 = db \<or> (\<exists>x. guard db = None \<and> body db = Inr (x, db2))"
  using assms
  by (auto simp: transact_def check_then_Inr_iff Let_def split: option.splits sum.splits if_splits)

lemma transact_rejected:
  assumes "check_then (guard db) (body db) = Inl e"
  shows "snd (transact en guard body db) = db \<and> (\<exists>e'. fst (transact en guard body db) = Inl e')"
  using assms
  by (auto simp: transact_def finish_transaction_def errors_join_def map_filter_simps Let_def
      split: option.splits)

text \<open>
  A body error keeps its classes through the rollback and the release of the connection, provided the
  connection was obtained and the transaction begun.
\<close>

lemma transact_error_class:
  assumes "check_then (guard db) (body db) = Inl e" "errors_is e t"
    "en_conn en = None" "en_begin en = None"
  shows "error_is (error_of (fst (transact en guard body db))) t"
  using assms
  by (auto simp: transact_def finish_transaction_def errors_join_def map_filter_simps Let_def
      split: option.splits)

section \<open>Guards (\<open>guard.go\<close>)\<close>

definition busyTimeoutMillis :: int where "busyTimeoutMillis = 5000"
definition synchronousExtra :: int where "synchronousExtra = 3"

definition expected_pragmas :: "store \<Rightarrow> (string \<times> int) list" where
  "expected_pragmas s =
     [(''busy_timeout'', busyTimeoutMillis), (''foreign_keys'', 1), (''synchronous'', synchronousExtra)]
     @ (if st_goos s = ''darwin'' then [(''fullfsync'', 1)] else [])"

definition ascii_lower :: "char \<Rightarrow> char" where
  "ascii_lower c = (if CHR ''A'' \<le> c \<and> c \<le> CHR ''Z'' then char_of (byte c + 32) else c)"

definition connectionGuard :: "store \<Rightarrow> engine \<Rightarrow> database \<Rightarrow> error option" where
  "connectionGuard s en db = first_error
     (map (\<lambda>(pragma, expected). case en_pragma en pragma of
          Inl e \<Rightarrow> Some (classify e)
        | Inr v \<Rightarrow> require (v = expected) (Wrap pragma errConnectionConfig)) (expected_pragmas s)
      @ [(case en_statement en ''PRAGMA journal_mode'' of
            Some e \<Rightarrow> Some (classify e)
          | None \<Rightarrow> require (map ascii_lower (db_journal_mode db) = ''delete'')
              (Wrap (db_journal_mode db) errJournalMode))])"

definition userVersion :: "engine \<Rightarrow> database \<Rightarrow> error + int" where
  "userVersion en db = sql en ''PRAGMA user_version'' (Inr (db_user_version db))"

definition uninitialized :: "engine \<Rightarrow> database \<Rightarrow> error + bool" where
  "uninitialized en db =
     bind_result (sql en ''count sqlite_schema'' (Inr (length (db_schema db)))) (\<lambda>objects.
       case en_stat en of
         Some e \<Rightarrow> Inl (Wrap ''inspecting scheduler database'' e)
       | None \<Rightarrow> Inr (objects = 0 \<and> db_empty_file db))"

definition verifySchemaObjects :: "engine \<Rightarrow> schema_entry list \<Rightarrow> error option" where
  "verifySchemaObjects en entries =
     (case query en ''sqlite_schema'' (count_expected 0 entries) of
        Inl e \<Rightarrow> Some e
      | Inr seen \<Rightarrow> require (seen = length schemaObjects) (Wrap ''objects present'' errSchemaMismatch))"

definition verifySchemaAndRoot :: "store \<Rightarrow> engine \<Rightarrow> database \<Rightarrow> error option" where
  "verifySchemaAndRoot s en db = first_error
     [verifySchemaObjects en (db_schema db),
      (case query en ''scheduler_metadata'' (Inr (db_roots db)) of
         Inl e \<Rightarrow> Some e
       | Inr roots \<Rightarrow> first_error
          [require (length roots = 1) (Wrap ''metadata rows'' errSchemaMismatch),
           require (roots = [st_root_id s]) errRootMismatch])]"

definition currentGuard :: "store \<Rightarrow> engine \<Rightarrow> database \<Rightarrow> error option" where
  "currentGuard s en db =
     (case connectionGuard s en db of
        Some e \<Rightarrow> Some e
      | None \<Rightarrow> (case userVersion en db of
          Inl e \<Rightarrow> Some e
        | Inr version \<Rightarrow>
            if version = schemaVersion then verifySchemaAndRoot s en db
            else if version = 0 then
              (case uninitialized en db of
                 Inl e \<Rightarrow> Some e
               | Inr eligible \<Rightarrow> Some (if eligible then errNotInitialized else errForeignDatabase))
            else if version > schemaVersion then Some (Wrap ''user_version'' errNewerSchema)
            else Some (Wrap ''user_version'' errForeignDatabase)))"

section \<open>Initialization (\<open>store.go\<close>)\<close>

text \<open>\<open>CREATE\<close> of an object whose name is taken fails with \<open>SQLITE_ERROR\<close>.\<close>

definition SQLITE_ERROR :: int where "SQLITE_ERROR = 1"

definition create_object :: "schema_object \<Rightarrow> database \<Rightarrow> error + database" where
  "create_object b db =
     (if list_ex (\<lambda>(kind, name, text). name = so_name b) (db_schema db) then Inl (DriverError SQLITE_ERROR)
      else Inr (db\<lparr>db_schema := db_schema db @ created_entries b, db_empty_file := False\<rparr>))"

fun create_objects :: "engine \<Rightarrow> schema_object list \<Rightarrow> database \<Rightarrow> error + database" where
  "create_objects en [] db = Inr db"
| "create_objects en (b # bs) db =
     (case sql en (so_name b) (create_object b db) of
        Inl e \<Rightarrow> Inl (Wrap ''creating scheduler object'' e)
      | Inr db' \<Rightarrow> create_objects en bs db')"

definition initialize ::
  "store \<Rightarrow> engine \<Rightarrow> schema_object list \<Rightarrow> database \<Rightarrow> error + unit \<times> database" where
  "initialize s en objects db =
     bind_result (userVersion en db) (\<lambda>version.
       if version = schemaVersion then check_then (verifySchemaAndRoot s en db) (Inr ((), db))
       else if version > schemaVersion then Inl (Wrap ''user_version'' errNewerSchema)
       else if version < 0 then Inl (Wrap ''user_version'' errForeignDatabase)
       else bind_result (uninitialized en db) (\<lambda>eligible.
         if \<not> eligible then Inl errForeignDatabase
         else bind_result (create_objects en objects db) (\<lambda>db1.
           bind_result (sql en ''insert metadata''
               (if db_roots db1 \<noteq> [] then Inl (DriverError SQLITE_CONSTRAINT_PRIMARYKEY)
                else if \<not> hexPattern (st_root_id s) then Inl (DriverError SQLITE_CONSTRAINT_CHECK)
                else Inr (db1\<lparr>db_roots := [st_root_id s]\<rparr>))) (\<lambda>db2.
             bind_result (sql en ''set user_version'' (Inr (db2\<lparr>db_user_version := schemaVersion\<rparr>)))
               (\<lambda>db3. check_then (verifySchemaAndRoot s en db3) (Inr ((), db3)))))))"

text \<open>The handle is closed in every case; its error is joined to the result of the transaction.\<close>

definition close_store :: "engine \<Rightarrow> error + 'a \<Rightarrow> error + 'a" where
  "close_store en r = (case errors_join [error_of r, en_db_close en] of Some e \<Rightarrow> Inl e | None \<Rightarrow> r)"

definition initializeWithConnector ::
  "store \<Rightarrow> engine \<Rightarrow> schema_object list \<Rightarrow> database \<Rightarrow> (error + unit) \<times> database" where
  "initializeWithConnector s en objects db =
     (case transact en (connectionGuard s en) (initialize s en objects) db of
        (r, db') \<Rightarrow> (close_store en r, db'))"

definition noStep :: "database \<Rightarrow> error + unit \<times> database" where
  "noStep db = Inr ((), db)"

definition openWithConnector :: "store \<Rightarrow> engine \<Rightarrow> database \<Rightarrow> (error + store) \<times> database" where
  "openWithConnector s en db =
     (case transact en (currentGuard s en) noStep db of
        (Inl e, db') \<Rightarrow> (close_store en (Inl e), db')
      | (Inr x, db') \<Rightarrow> (Inr s, db'))"

text \<open>An engine without faults, the settings the store asks for, and a new empty file.\<close>

definition healthy_engine :: engine where
  "healthy_engine =
     \<lparr>en_conn = None, en_begin = None,
      en_pragma = (\<lambda>p. Inr (if p = ''busy_timeout'' then busyTimeoutMillis
                            else if p = ''synchronous'' then synchronousExtra else 1)),
      en_statement = (\<lambda>_. None), en_rows_affected = (\<lambda>_. None), en_rows_err = (\<lambda>_. None),
      en_rows_close = (\<lambda>_. None), en_stat = None, en_rollback = None, en_commit = None,
      en_close = None, en_raw = Some (Leaf ErrBadConn), en_ctx_done = False, en_db_close = None\<rparr>"

definition empty_database :: database where
  "empty_database =
     \<lparr>db_tables = empty_tables, db_empty_file = True, db_user_version = 0, db_schema = [],
      db_roots = [], db_journal_mode = ''delete''\<rparr>"

text \<open>What the guard certifies of the database it admits.\<close>

definition current_database :: "store \<Rightarrow> database \<Rightarrow> bool" where
  "current_database s db \<longleftrightarrow>
     db_user_version db = schemaVersion \<and> db_roots db = [st_root_id s]
     \<and> count_expected 0 (db_schema db) = Inr (length schemaObjects)
     \<and> map ascii_lower (db_journal_mode db) = ''delete''"

lemma verifySchemaAndRoot_None:
  "verifySchemaAndRoot s en db = None \<Longrightarrow>
     db_roots db = [st_root_id s] \<and> count_expected 0 (db_schema db) = Inr (length schemaObjects)"
  by (auto simp: verifySchemaAndRoot_def verifySchemaObjects_def first_error_None_iff query_Inr
      split: sum.splits)

lemma currentGuard_current: "currentGuard s en db = None \<Longrightarrow> current_database s db"
  by (auto simp: currentGuard_def current_database_def connectionGuard_def userVersion_def sql_Inr
      first_error_None_iff dest: verifySchemaAndRoot_None
      split: option.splits sum.splits if_splits)

end
