(* ===== verification/Sched_Rows.thy ===== *)
theory Sched_Rows
  imports Sched_Db
begin

text \<open>
  Decoding of stored rows (\<open>rows.go\<close>): field by field, nullable columns as all-or-nothing tuples,
  enums range-checked before they are narrowed, and the result validated with the contract.
\<close>

section \<open>Schedules\<close>

definition row_header :: "schedule_row \<Rightarrow> error + definition_header" where
  "row_header r = (case DecodeRequest (sr_request r) of
     Inl e \<Rightarrow> Inl (storedFault ''schedule request'' e)
   | Inr q \<Rightarrow> Inr \<lparr>dh_schedule_id = sr_id r, dh_created_at = InstantFromUnixNanos (sr_created r),
       dh_cron = sr_cron r, dh_timezone = sr_timezone r, dh_request = q\<rparr>)"

definition row_digests :: "schedule_row \<Rightarrow> digests" where
  "row_digests r =
     \<lparr>dg_brief_sha256 = sr_brief_sha256 r, dg_definition_sha256 = sr_definition_sha256 r\<rparr>"

definition row_schedule :: "schedule_row \<Rightarrow> error + schedule" where
  "row_schedule r =
     bind_result (row_header r) (\<lambda>h.
       let d = \<lparr>df_header = h, df_brief = sr_brief r\<rparr>;
           s = \<lparr>sc_definition = d, sc_state = sr_state r, sc_cursor = InstantFromUnixNanos (sr_cursor r)\<rparr>
       in case VerifyDefinitionDigests d (row_digests r) of
            Some e \<Rightarrow> Inl (storedFault ''schedule'' e)
          | None \<Rightarrow> (case ValidateSchedule s of
              Some e \<Rightarrow> Inl (storedFault ''schedule'' e)
            | None \<Rightarrow> Inr s))"

definition row_summary :: "schedule_row \<Rightarrow> error + schedule_summary" where
  "row_summary r =
     bind_result (row_header r) (\<lambda>h.
       let s = \<lparr>sm_header = h, sm_digests = row_digests r,
                sm_brief_length = int (length (sr_brief r)), sm_state = sr_state r,
                sm_cursor = InstantFromUnixNanos (sr_cursor r)\<rparr>
       in case ValidateSummary s of
            Some e \<Rightarrow> Inl (storedFault ''schedule summary'' e)
          | None \<Rightarrow> Inr s)"

section \<open>Enumerations as numbers\<close>

fun admission_number :: "admission \<Rightarrow> int" where
  "admission_number AdmissionUnknown = 0"
| "admission_number AdmissionNotAdmitted = 1"
| "admission_number AdmissionAdmitted = 2"
| "admission_number (AdmissionOther n) = int n"

fun liveness_number :: "liveness \<Rightarrow> int" where
  "liveness_number LivenessUndetermined = 0"
| "liveness_number LivenessRunning = 1"
| "liveness_number LivenessEnded = 2"
| "liveness_number (LivenessOther n) = int n"

fun publication_number :: "publication \<Rightarrow> int" where
  "publication_number PublicationUnknown = 0"
| "publication_number PublicationPending = 1"
| "publication_number PublicationCommitted = 2"
| "publication_number PublicationRejected = 3"
| "publication_number (PublicationOther n) = int n"

definition admission_of :: "nat \<Rightarrow> admission" where
  "admission_of n = (if n = 0 then AdmissionUnknown else if n = 1 then AdmissionNotAdmitted
                     else if n = 2 then AdmissionAdmitted else AdmissionOther n)"

definition liveness_of :: "nat \<Rightarrow> liveness" where
  "liveness_of n = (if n = 0 then LivenessUndetermined else if n = 1 then LivenessRunning
                    else if n = 2 then LivenessEnded else LivenessOther n)"

definition publication_of :: "nat \<Rightarrow> publication" where
  "publication_of n = (if n = 0 then PublicationUnknown else if n = 1 then PublicationPending
                       else if n = 2 then PublicationCommitted
                       else if n = 3 then PublicationRejected else PublicationOther n)"

text \<open>\<open>smallEnum\<close>: the \<open>uint8\<close> range check. A NULL scans as zero.\<close>

definition smallEnum :: "string \<Rightarrow> int \<Rightarrow> error + nat" where
  "smallEnum name v = (if v < 0 \<or> v > 255 then Inl (Wrap name (Opaque ''is out of range'')) else Inr (nat v))"

definition optionalText :: "string \<Rightarrow> string option \<Rightarrow> error + string" where
  "optionalText name v = (if v = Some [] then Inl (Wrap ''stored empty'' (Opaque name))
                          else Inr (case v of None \<Rightarrow> [] | Some s \<Rightarrow> s))"

section \<open>Occurrences\<close>

definition allEqual :: "bool list \<Rightarrow> bool" where
  "allEqual vs = list_all (\<lambda>v. v = hd vs) vs"

definition null_int :: "int option \<Rightarrow> int" where
  "null_int v = (case v of None \<Rightarrow> 0 | Some n \<Rightarrow> n)"

definition null_text :: "string option \<Rightarrow> string" where
  "null_text v = (case v of None \<Rightarrow> [] | Some s \<Rightarrow> s)"

definition right_or :: "'a \<Rightarrow> error + 'a \<Rightarrow> 'a" where
  "right_or d r = (case r of Inl _ \<Rightarrow> d | Inr x \<Rightarrow> x)"

definition row_observation :: "occurrence_row \<Rightarrow> error + observation option" where
  "row_observation r =
     (if \<not> allEqual [xr_observed_at r \<noteq> None, xr_admission r \<noteq> None, xr_liveness r \<noteq> None,
                     xr_publication r \<noteq> None]
      then Inl (Opaque ''partial observation tuple'')
      else if xr_observed_at r = None then
        (if xr_outcome_sha256 r \<noteq> None \<or> xr_fault_code r \<noteq> None
         then Inl (Opaque ''observation facts without an observation'') else Inr None)
      else
        let a = smallEnum ''admission'' (null_int (xr_admission r));
            l = smallEnum ''liveness'' (null_int (xr_liveness r));
            p = smallEnum ''publication'' (null_int (xr_publication r));
            sha = optionalText ''outcome digest'' (xr_outcome_sha256 r);
            fault = optionalText ''fault code'' (xr_fault_code r)
        in case errors_join [error_of a, error_of l, error_of p, error_of sha, error_of fault] of
             Some e \<Rightarrow> Inl e
           | None \<Rightarrow> Inr (Some
               \<lparr>ob_observed_at = InstantFromUnixNanos (null_int (xr_observed_at r)),
                ob_admission = admission_of (right_or 0 a), ob_liveness = liveness_of (right_or 0 l),
                ob_publication = publication_of (right_or 0 p),
                ob_outcome_sha256 = right_or [] sha, ob_fault_code = right_or [] fault\<rparr>))"

definition row_release :: "occurrence_row \<Rightarrow> error + release option" where
  "row_release r =
     (if \<not> allEqual [xr_released_at r \<noteq> None, xr_release_kind r \<noteq> None, xr_release_ref r \<noteq> None]
      then Inl (Opaque ''partial release tuple'')
      else if xr_released_at r = None then Inr None
      else Inr (Some \<lparr>rl_released_at = InstantFromUnixNanos (null_int (xr_released_at r)),
                      rl_kind = null_text (xr_release_kind r),
                      rl_ref = null_text (xr_release_ref r)\<rparr>))"

definition row_occurrence :: "occurrence_row \<Rightarrow> error + occurrence" where
  "row_occurrence r =
     map_err (storedFault ''occurrence'')
       (bind_result (row_observation r) (\<lambda>ob.
        bind_result (row_release r) (\<lambda>rel.
          let x = \<lparr>oc_task_id = xr_task_id r, oc_schedule_id = xr_schedule_id r,
                   oc_due = InstantFromUnixNanos (xr_due r),
                   oc_armed_at = InstantFromUnixNanos (xr_armed_at r),
                   oc_observation = ob, oc_release = rel\<rparr>
          in check_then (ValidateOccurrence x) (Inr x))))"

section \<open>Skip spans\<close>

definition row_span :: "span_row \<Rightarrow> error + skip_span" where
  "row_span r =
     (let s = \<lparr>sp_from = InstantFromUnixNanos (kr_from r), sp_to = InstantFromUnixNanos (kr_to r),
               sp_reason = kr_reason r\<rparr>
      in case ValidateSkipSpan s of Some e \<Rightarrow> Inl (storedFault ''skip span'' e) | None \<Rightarrow> Inr s)"

section \<open>Encoding\<close>

text \<open>The values the statements bind, \<open>nullableText\<close> mapping the empty text to NULL.\<close>

definition nullableText :: "string \<Rightarrow> string option" where
  "nullableText s = (if s = [] then None else Some s)"

definition set_observation :: "observation \<Rightarrow> occurrence_row \<Rightarrow> occurrence_row" where
  "set_observation ob r = r\<lparr>xr_observed_at := Some (t_ns (ob_observed_at ob)),
     xr_admission := Some (admission_number (ob_admission ob)),
     xr_liveness := Some (liveness_number (ob_liveness ob)),
     xr_publication := Some (publication_number (ob_publication ob)),
     xr_outcome_sha256 := nullableText (ob_outcome_sha256 ob),
     xr_fault_code := nullableText (ob_fault_code ob)\<rparr>"

definition set_release :: "release \<Rightarrow> occurrence_row \<Rightarrow> occurrence_row" where
  "set_release rel r = r\<lparr>xr_released_at := Some (t_ns (rl_released_at rel)),
     xr_release_kind := Some (rl_kind rel), xr_release_ref := Some (rl_ref rel)\<rparr>"

definition armed_row :: "claim \<Rightarrow> occurrence_row" where
  "armed_row c = \<lparr>xr_task_id = cl_task_id c, xr_schedule_id = cl_schedule_id c,
     xr_due = t_ns (cl_due c), xr_armed_at = t_ns (cl_armed_at c), xr_observed_at = None,
     xr_admission = None, xr_liveness = None, xr_publication = None, xr_outcome_sha256 = None,
     xr_fault_code = None, xr_released_at = None, xr_release_kind = None, xr_release_ref = None\<rparr>"

end
