(* ===== verification/Sched_Store.thy ===== *)
theory Sched_Store
  imports Sched_Transact Sched_Rows
begin

text \<open>
  The operations of the sealed store (\<open>schedules.go\<close>, \<open>occurrences.go\<close>, \<open>history.go\<close>). Each
  validates its argument with the contract and runs its body in one guarded transaction. An operation
  maps the database to its result and the new database, for every behaviour of the engine.
\<close>

definition on_tables ::
  "(tables \<Rightarrow> error + 'a \<times> tables) \<Rightarrow> database \<Rightarrow> error + 'a \<times> database" where
  "on_tables f db = bind_result (f (db_tables db)) (\<lambda>(x, t). Inr (x, db\<lparr>db_tables := t\<rparr>))"

definition read_tables :: "(tables \<Rightarrow> error + 'a) \<Rightarrow> tables \<Rightarrow> error + 'a \<times> tables" where
  "read_tables f t = bind_result (f t) (\<lambda>x. Inr (x, t))"

definition writing :: "(tables \<Rightarrow> error + tables) \<Rightarrow> tables \<Rightarrow> error + unit \<times> tables" where
  "writing f t = bind_result (f t) (\<lambda>t'. Inr ((), t'))"

definition operate ::
  "store \<Rightarrow> engine \<Rightarrow> (tables \<Rightarrow> error + 'a \<times> tables) \<Rightarrow> database \<Rightarrow> (error + 'a) \<times> database" where
  "operate s en f db = transact en (currentGuard s en) (on_tables f) db"

section \<open>Statements shared by the operations\<close>

text \<open>\<open>updateOne\<close>: a compare-and-set that must change exactly one row.\<close>

definition updateOne :: "engine \<Rightarrow> string \<Rightarrow> (tables \<Rightarrow> error + nat \<times> tables) \<Rightarrow> tables \<Rightarrow> error + tables" where
  "updateOne en label upd t =
     bind_result (sql en label (upd t)) (\<lambda>(changed, t').
       case en_rows_affected en label of
         Some e \<Rightarrow> Inl (classify e)
       | None \<Rightarrow> if changed \<noteq> 1 then Inl (Wrap ''rows changed'' (Leaf ErrConflict)) else Inr t')"

definition find_schedule :: "string \<Rightarrow> tables \<Rightarrow> schedule_row option" where
  "find_schedule sid t = List.find (\<lambda>r. sr_id r = sid) (tb_schedules t)"

definition find_occurrence :: "string \<Rightarrow> tables \<Rightarrow> occurrence_row option" where
  "find_occurrence tid t = List.find (\<lambda>r. xr_task_id r = tid) (tb_occurrences t)"

definition scheduleState :: "engine \<Rightarrow> string \<Rightarrow> tables \<Rightarrow> error + string \<times> int" where
  "scheduleState en sid t =
     bind_result (sql en ''select state'' (Inr (find_schedule sid t))) (\<lambda>row.
       case row of
         None \<Rightarrow> Inl (Wrap ''schedule'' (Leaf ErrNotExist))
       | Some r \<Rightarrow> (case ValidateState (sr_state r) of
           Some e \<Rightarrow> Inl (storedFault ''schedule state'' e)
         | None \<Rightarrow> Inr (sr_state r, sr_cursor r)))"

definition insertSkipSpan ::
  "engine \<Rightarrow> string \<Rightarrow> int \<Rightarrow> go_time \<Rightarrow> skip_span \<Rightarrow> tables \<Rightarrow> error + tables" where
  "insertSkipSpan en sid cursor expected sp t =
     (if cursor \<noteq> t_ns expected then Inl (Wrap ''schedule cursor moved'' (Leaf ErrConflict))
      else sql en ''insert skip span'' (insert_span
        \<lparr>kr_schedule_id = sid, kr_from = t_ns (sp_from sp), kr_to = t_ns (sp_to sp),
         kr_reason = sp_reason sp\<rparr> t))"

section \<open>Schedules (\<open>schedules.go\<close>)\<close>

definition initial_row :: "schedule \<Rightarrow> digests \<Rightarrow> string \<Rightarrow> schedule_row" where
  "initial_row s g q =
     (let d = sc_definition s; h = df_header d in
      \<lparr>sr_id = dh_schedule_id h, sr_created = t_ns (dh_created_at h), sr_cron = dh_cron h,
       sr_timezone = dh_timezone h, sr_request = q, sr_brief = df_brief d,
       sr_brief_sha256 = dg_brief_sha256 g, sr_definition_sha256 = dg_definition_sha256 g,
       sr_state = sc_state s, sr_cursor = t_ns (dh_created_at h)\<rparr>)"

definition prepared_row :: "schedule_definition \<Rightarrow> error + schedule_row" where
  "prepared_row d =
     bind_result (InitialSchedule d) (\<lambda>initial.
     bind_result (DefinitionDigests (sc_definition initial)) (\<lambda>g.
     bind_result (MarshalRequest (dh_request (df_header (sc_definition initial)))) (\<lambda>q.
       Inr (initial_row initial g q))))"

definition CreateSchedule ::
  "store \<Rightarrow> engine \<Rightarrow> schedule_definition \<Rightarrow> database \<Rightarrow> (error + unit) \<times> database" where
  "CreateSchedule s en d db = (case prepared_row d of
     Inl e \<Rightarrow> (Inl e, db)
   | Inr row \<Rightarrow> operate s en (writing (\<lambda>t. sql en ''insert schedule'' (insert_schedule row t))) db)"

definition GetSchedule ::
  "store \<Rightarrow> engine \<Rightarrow> string \<Rightarrow> database \<Rightarrow> (error + schedule) \<times> database" where
  "GetSchedule s en sid db = (case validateScheduleID sid of
     Some e \<Rightarrow> (Inl e, db)
   | None \<Rightarrow> operate s en (read_tables (\<lambda>t.
       bind_result (sql en ''select schedule'' (Inr (find_schedule sid t))) (\<lambda>row.
         case row of
           None \<Rightarrow> Inl (Wrap ''schedule'' (Leaf ErrNotExist))
         | Some r \<Rightarrow> row_schedule r))) db)"

text \<open>Visit rows, decoding at most \<open>limit\<close> of them; one more row sets the flag.\<close>

fun scan_rows :: "('r \<Rightarrow> error + 'a) \<Rightarrow> nat \<Rightarrow> 'r list \<Rightarrow> error + 'a list \<times> bool" where
  "scan_rows f limit [] = Inr ([], False)"
| "scan_rows f 0 (r # rs) = Inr ([], True)"
| "scan_rows f (Suc n) (r # rs) =
     bind_result (f r) (\<lambda>x. bind_result (scan_rows f n rs) (\<lambda>(xs, more). Inr (x # xs, more)))"

definition page_rows :: "('r \<Rightarrow> string) \<Rightarrow> string \<Rightarrow> nat \<Rightarrow> 'r list \<Rightarrow> 'r list" where
  "page_rows key after_key n rows = take n (sort_key key (filter (\<lambda>r. after_key < key r) rows))"

record 'a page_result =
  pr_items :: "'a list"
  pr_more :: bool

definition ListSchedules ::
  "store \<Rightarrow> engine \<Rightarrow> schedule_page \<Rightarrow> database \<Rightarrow> (error + schedule_summary page_result) \<times> database" where
  "ListSchedules s en page db = (case ValidateSchedulePage page of
     Some e \<Rightarrow> (Inl e, db)
   | None \<Rightarrow> operate s en (read_tables (\<lambda>t.
       bind_result (query en ''list schedules''
           (scan_rows row_summary (nat (pg_limit page))
             (page_rows sr_id (pg_after_schedule_id page) (Suc (nat (pg_limit page))) (tb_schedules t))))
         (\<lambda>(xs, more). Inr \<lparr>pr_items = xs, pr_more = more\<rparr>))) db)"

definition set_state :: "string \<Rightarrow> schedule_row \<Rightarrow> schedule_row" where
  "set_state st r = r\<lparr>sr_state := st\<rparr>"

definition set_cursor :: "int \<Rightarrow> schedule_row \<Rightarrow> schedule_row" where
  "set_cursor n r = r\<lparr>sr_cursor := n\<rparr>"

definition change_state_body :: "engine \<Rightarrow> state_change \<Rightarrow> tables \<Rightarrow> error + tables" where
  "change_state_body en c t =
     bind_result (scheduleState en (ch_schedule_id c) t) (\<lambda>(state, cursor).
       if state \<noteq> ch_from c then Inl (Wrap ''schedule state'' (Leaf ErrConflict))
       else case ch_resume c of
         None \<Rightarrow> updateOne en ''update state''
           (update_schedules True False
             (\<lambda>r. sr_id r = ch_schedule_id c \<and> sr_state r = ch_from c) (set_state (ch_to c))) t
       | Some rs \<Rightarrow>
           bind_result (insertSkipSpan en (ch_schedule_id c) cursor (rs_expected_cursor rs) (Span rs) t)
             (\<lambda>t1. updateOne en ''update state and cursor''
               (update_schedules True True
                 (\<lambda>r. sr_id r = ch_schedule_id c \<and> sr_state r = ch_from c \<and> sr_cursor r = cursor)
                 (set_cursor (t_ns (rs_to rs)) \<circ> set_state (ch_to c))) t1))"

definition ChangeState ::
  "store \<Rightarrow> engine \<Rightarrow> state_change \<Rightarrow> database \<Rightarrow> (error + unit) \<times> database" where
  "ChangeState s en c db = (case ValidateStateChange c of
     Some e \<Rightarrow> (Inl e, db)
   | None \<Rightarrow> operate s en (writing (change_state_body en c)) db)"

section \<open>Occurrences (\<open>occurrences.go\<close>)\<close>

definition claimedTask :: "engine \<Rightarrow> claim \<Rightarrow> tables \<Rightarrow> error + string" where
  "claimedTask en c t =
     bind_result (sql en ''select claimed''
         (Inr (List.find (\<lambda>r. xr_schedule_id r = cl_schedule_id c \<and> xr_due r = t_ns (cl_due c))
                (tb_occurrences t)))) (\<lambda>row.
       case row of
         None \<Rightarrow> Inr []
       | Some r \<Rightarrow> (case ValidateTaskID (xr_task_id r) of
           Some e \<Rightarrow> Inl (storedFault ''occurrence task id'' e)
         | None \<Rightarrow> Inr (xr_task_id r)))"

definition active_count :: "string \<Rightarrow> tables \<Rightarrow> nat" where
  "active_count sid t =
     length (filter (\<lambda>r. xr_schedule_id r = sid \<and> active_row r) (tb_occurrences t))"

definition armOccurrence :: "engine \<Rightarrow> claim \<Rightarrow> tables \<Rightarrow> error + tables" where
  "armOccurrence en c t =
     bind_result (scheduleState en (cl_schedule_id c) t) (\<lambda>(state, cursor).
       if state \<noteq> StateEnabled then Inl (Wrap ''schedule state'' (Leaf ErrConflict))
       else if cursor \<noteq> t_ns (cl_expected_cursor c)
         then Inl (Wrap ''schedule cursor moved'' (Leaf ErrConflict))
       else bind_result (sql en ''count active'' (Inr (active_count (cl_schedule_id c) t))) (\<lambda>active.
         if active \<noteq> 0
         then Inl (Wrap ''schedule already has an active occurrence'' (Leaf ErrConflict))
         else bind_result (sql en ''insert occurrence'' (insert_occurrence (armed_row c) t)) (\<lambda>t1.
           updateOne en ''update cursor''
             (update_schedules False True
               (\<lambda>r. sr_id r = cl_schedule_id c \<and> sr_state r = StateEnabled \<and> sr_cursor r = cursor)
               (set_cursor (t_ns (cl_due c)))) t1)))"

text \<open>The body returns the task that already holds the due time, empty when this call armed it.\<close>

definition claim_body :: "engine \<Rightarrow> claim \<Rightarrow> tables \<Rightarrow> error + string \<times> tables" where
  "claim_body en c t =
     bind_result (claimedTask en c t) (\<lambda>found.
       if found \<noteq> [] then Inr (found, t)
       else bind_result (armOccurrence en c t) (\<lambda>t'. Inr ([], t')))"

definition ClaimAndArm ::
  "store \<Rightarrow> engine \<Rightarrow> claim \<Rightarrow> database \<Rightarrow> (claim_result \<times> error option) \<times> database" where
  "ClaimAndArm s en c db = (case ValidateClaim c of
     Some e \<Rightarrow> ((\<lparr>cx_outcome = ClaimUnknown, cx_task_id = []\<rparr>, Some e), db)
   | None \<Rightarrow> (case operate s en (claim_body en c) db of
       (Inl e, db') \<Rightarrow> ((\<lparr>cx_outcome = ClaimUnknown, cx_task_id = []\<rparr>, Some e), db')
     | (Inr existing, db') \<Rightarrow>
         ((if existing \<noteq> [] then \<lparr>cx_outcome = ClaimExisting, cx_task_id = existing\<rparr>
           else \<lparr>cx_outcome = ClaimNewlyCommitted, cx_task_id = cl_task_id c\<rparr>, None), db')))"

definition readOccurrence :: "engine \<Rightarrow> string \<Rightarrow> tables \<Rightarrow> error + occurrence" where
  "readOccurrence en tid t =
     bind_result (sql en ''select occurrence'' (Inr (find_occurrence tid t))) (\<lambda>row.
       case row of
         None \<Rightarrow> Inl (Wrap ''occurrence'' (Leaf ErrNotExist))
       | Some r \<Rightarrow> row_occurrence r)"

text \<open>The WHERE clauses of the two occurrence updates.\<close>

definition observation_hit :: "occurrence_observation \<Rightarrow> occurrence_row \<Rightarrow> bool" where
  "observation_hit r x \<longleftrightarrow> xr_task_id x = oo_task_id r
     \<and> (case xr_observed_at x of None \<Rightarrow> True | Some u \<Rightarrow> u < t_ns (ob_observed_at (oo_observation r)))"

definition release_hit :: "occurrence_release \<Rightarrow> occurrence_row \<Rightarrow> bool" where
  "release_hit r x \<longleftrightarrow> xr_task_id x = or_task_id r \<and> xr_released_at x = None"

definition observation_body :: "engine \<Rightarrow> occurrence_observation \<Rightarrow> tables \<Rightarrow> error + tables" where
  "observation_body en record_oo t =
     bind_result (sql en ''update observation''
         (update_occurrences True False (observation_hit record_oo)
           (set_observation (oo_observation record_oo)) t)) (\<lambda>(changed, t').
       case en_rows_affected en ''update observation'' of
         Some e \<Rightarrow> Inl (classify e)
       | None \<Rightarrow> if changed = 1 then Inr t'
                 else bind_result (readOccurrence en (oo_task_id record_oo) t') (\<lambda>_. Inr t'))"

definition RecordObservation ::
  "store \<Rightarrow> engine \<Rightarrow> occurrence_observation \<Rightarrow> database \<Rightarrow> (error + unit) \<times> database" where
  "RecordObservation s en r db = (case ValidateOccurrenceObservation r of
     Some e \<Rightarrow> (Inl e, db)
   | None \<Rightarrow> operate s en (writing (observation_body en r)) db)"

definition release_body :: "engine \<Rightarrow> occurrence_release \<Rightarrow> tables \<Rightarrow> error + tables" where
  "release_body en record_or t =
     bind_result (sql en ''update release''
         (update_occurrences False True (release_hit record_or) (set_release (or_release record_or)) t))
       (\<lambda>(changed, t').
       case en_rows_affected en ''update release'' of
         Some e \<Rightarrow> Inl (classify e)
       | None \<Rightarrow>
           if changed = 1 then Inr t'
           else bind_result (readOccurrence en (or_task_id record_or) t') (\<lambda>stored.
             case oc_release stored of
               None \<Rightarrow> Inl (Wrap ''release did not apply'' (Leaf ErrInvariantFault))
             | Some rel \<Rightarrow> check_then (CheckRepeatedRelease rel (or_release record_or)) (Inr t')))"

definition Release ::
  "store \<Rightarrow> engine \<Rightarrow> occurrence_release \<Rightarrow> database \<Rightarrow> (error + unit) \<times> database" where
  "Release s en r db = (case ValidateOccurrenceRelease r of
     Some e \<Rightarrow> (Inl e, db)
   | None \<Rightarrow> operate s en (writing (release_body en r)) db)"

definition GetOccurrence ::
  "store \<Rightarrow> engine \<Rightarrow> string \<Rightarrow> database \<Rightarrow> (error + occurrence) \<times> database" where
  "GetOccurrence s en tid db = (case wrap_error ''occurrence task id'' (ValidateTaskID tid) of
     Some e \<Rightarrow> (Inl e, db)
   | None \<Rightarrow> operate s en (read_tables (readOccurrence en tid)) db)"

definition ActiveOccurrences ::
  "store \<Rightarrow> engine \<Rightarrow> schedule_page \<Rightarrow> database \<Rightarrow> (error + occurrence page_result) \<times> database" where
  "ActiveOccurrences s en page db = (case ValidateActivePage page of
     Some e \<Rightarrow> (Inl e, db)
   | None \<Rightarrow> operate s en (read_tables (\<lambda>t.
       bind_result (query en ''active occurrences''
           (scan_rows row_occurrence (nat (pg_limit page))
             (page_rows xr_schedule_id (pg_after_schedule_id page) (Suc (nat (pg_limit page)))
               (filter active_row (tb_occurrences t)))))
         (\<lambda>(xs, more). Inr \<lparr>pr_items = xs, pr_more = more\<rparr>))) db)"

section \<open>History and skips (\<open>history.go\<close>)\<close>

definition record_skip_body :: "engine \<Rightarrow> skip_request \<Rightarrow> tables \<Rightarrow> error + tables" where
  "record_skip_body en k t =
     bind_result (scheduleState en (sk_schedule_id k) t) (\<lambda>(state, cursor).
       if state \<noteq> StateEnabled then Inl (Wrap ''schedule state'' (Leaf ErrConflict))
       else bind_result
         (insertSkipSpan en (sk_schedule_id k) cursor (sk_expected_cursor k) (sk_span k) t) (\<lambda>t1.
           updateOne en ''update skip cursor''
             (update_schedules False True
               (\<lambda>r. sr_id r = sk_schedule_id k \<and> sr_cursor r = cursor)
               (set_cursor (t_ns (sp_to (sk_span k))))) t1))"

definition RecordSkip ::
  "store \<Rightarrow> engine \<Rightarrow> skip_request \<Rightarrow> database \<Rightarrow> (error + unit) \<times> database" where
  "RecordSkip s en k db = (case ValidateSkip k of
     Some e \<Rightarrow> (Inl e, db)
   | None \<Rightarrow> operate s en (writing (record_skip_body en k)) db)"

text \<open>The rows of one schedule below an exclusive endpoint, newest first.\<close>

definition below :: "go_time option \<Rightarrow> int \<Rightarrow> bool" where
  "below bound n = (case bound of None \<Rightarrow> n \<le> max_int64 | Some b \<Rightarrow> n < t_ns b)"

definition history_rows ::
  "('r \<Rightarrow> string) \<Rightarrow> ('r \<Rightarrow> int) \<Rightarrow> history_page \<Rightarrow> 'r list \<Rightarrow> 'r list" where
  "history_rows sched key page rows =
     take (Suc (nat (hp_limit page)))
       (rev (sort_key key (filter (\<lambda>r. sched r = hp_schedule_id page \<and> below (hp_before page) (key r)) rows)))"

fun decode_rows :: "('r \<Rightarrow> error + 'a) \<Rightarrow> 'r list \<Rightarrow> error + 'a list" where
  "decode_rows f [] = Inr []"
| "decode_rows f (r # rs) =
     bind_result (f r) (\<lambda>x. bind_result (decode_rows f rs) (\<lambda>xs. Inr (x # xs)))"

definition querySkipSpans :: "engine \<Rightarrow> history_page \<Rightarrow> tables \<Rightarrow> error + skip_span list" where
  "querySkipSpans en page t =
     query en ''select skip spans''
       (decode_rows row_span (history_rows kr_schedule_id kr_to page (tb_spans t)))"

definition queryHistoryOccurrences ::
  "engine \<Rightarrow> history_page \<Rightarrow> tables \<Rightarrow> error + occurrence list \<times> bool" where
  "queryHistoryOccurrences en page t =
     query en ''select history occurrences''
       (scan_rows row_occurrence (Suc (nat (hp_limit page)))
         (history_rows xr_schedule_id xr_due page (tb_occurrences t)))"

text \<open>
  The loop of \<open>mergeHistory\<close>: at most one entry more than the limit, newest endpoint first; equal
  endpoints in the two lists are an invariant fault. The first argument counts the entries to go.
\<close>

fun merge_entries :: "nat \<Rightarrow> occurrence list \<Rightarrow> skip_span list \<Rightarrow> error + history_entry list" where
  "merge_entries 0 occs spans = Inr []"
| "merge_entries (Suc n) [] [] = Inr []"
| "merge_entries (Suc n) (x # xs) [] =
     bind_result (merge_entries n xs []) (\<lambda>es. Inr (OccurrenceEntry x # es))"
| "merge_entries (Suc n) [] (k # ks) =
     bind_result (merge_entries n [] ks) (\<lambda>es. Inr (SkipEntry k # es))"
| "merge_entries (Suc n) (x # xs) (k # ks) =
     (if after (oc_due x) (sp_to k) then
        bind_result (merge_entries n xs (k # ks)) (\<lambda>es. Inr (OccurrenceEntry x # es))
      else if after (sp_to k) (oc_due x) then
        bind_result (merge_entries n (x # xs) ks) (\<lambda>es. Inr (SkipEntry k # es))
      else Inl (Wrap ''schedule has two history entries at one endpoint'' (Leaf ErrInvariantFault)))"

definition mergeHistory ::
  "history_page \<Rightarrow> occurrence list \<Rightarrow> skip_span list \<Rightarrow> error + history_result" where
  "mergeHistory page occs spans =
     (let limit = nat (hp_limit page) in
      bind_result (merge_entries (Suc limit) occs spans) (\<lambda>entries.
        let more = length entries > limit;
            kept = (if more then take limit entries else entries)
        in case first_error (map (ValidateHistoryEntry (hp_schedule_id page)) kept) of
             Some e \<Rightarrow> Inl (storedFault ''history entry'' e)
           | None \<Rightarrow> Inr \<lparr>hr_entries = kept, hr_more = more\<rparr>))"

definition history_body :: "engine \<Rightarrow> history_page \<Rightarrow> tables \<Rightarrow> error + history_result" where
  "history_body en page t =
     bind_result (scheduleState en (hp_schedule_id page) t) (\<lambda>_.
     bind_result (queryHistoryOccurrences en page t) (\<lambda>(occs, _).
     bind_result (querySkipSpans en page t) (\<lambda>spans. mergeHistory page occs spans)))"

definition History ::
  "store \<Rightarrow> engine \<Rightarrow> history_page \<Rightarrow> database \<Rightarrow> (error + history_result) \<times> database" where
  "History s en page db = (case ValidateHistoryPage page of
     Some e \<Rightarrow> (Inl e, db)
   | None \<Rightarrow> operate s en (read_tables (history_body en page)) db)"

end
