(* ===== verification/Sched_Invariant.thy ===== *)
theory Sched_Invariant
  imports Sched_Store
begin

text \<open>
  The state invariant of the scheduler database and its preservation. \<open>tables_ok\<close> is what the
  schema enforces; \<open>timeline_ok\<close> is what the store's compare-and-set discipline adds: every recorded
  entry lies between the schedule's creation and its cursor, and no due time is recorded twice or
  both claimed and skipped.
\<close>

section \<open>Invariants\<close>

definition schedules_ok :: "tables \<Rightarrow> bool" where
  "schedules_ok t \<longleftrightarrow> distinct (map sr_id (tb_schedules t)) \<and> (\<forall>r \<in> set (tb_schedules t). schedule_check r)"

definition occurrences_ok :: "tables \<Rightarrow> bool" where
  "occurrences_ok t \<longleftrightarrow>
     distinct (map xr_task_id (tb_occurrences t))
     \<and> distinct (map (\<lambda>x. (xr_schedule_id x, xr_due x)) (tb_occurrences t))
     \<and> distinct (map xr_schedule_id (filter active_row (tb_occurrences t)))
     \<and> (\<forall>x \<in> set (tb_occurrences t). occurrence_check x \<and> has_schedule (xr_schedule_id x) t)"

definition spans_ok :: "tables \<Rightarrow> bool" where
  "spans_ok t \<longleftrightarrow>
     distinct (map (\<lambda>k. (kr_schedule_id k, kr_to k)) (tb_spans t))
     \<and> (\<forall>k \<in> set (tb_spans t). span_check k \<and> has_schedule (kr_schedule_id k) t)"

definition tables_ok :: "tables \<Rightarrow> bool" where
  "tables_ok t \<longleftrightarrow> schedules_ok t \<and> occurrences_ok t \<and> spans_ok t"

definition bounded_by_cursor :: "tables \<Rightarrow> schedule_row \<Rightarrow> bool" where
  "bounded_by_cursor t r \<longleftrightarrow>
     (\<forall>x \<in> set (tb_occurrences t). xr_schedule_id x = sr_id r
        \<longrightarrow> sr_created r < xr_due x \<and> xr_due x \<le> sr_cursor r)
     \<and> (\<forall>k \<in> set (tb_spans t). kr_schedule_id k = sr_id r
        \<longrightarrow> sr_created r \<le> kr_from k \<and> kr_to k \<le> sr_cursor r)"

definition span_covers :: "span_row \<Rightarrow> int \<Rightarrow> bool" where
  "span_covers k n \<longleftrightarrow> kr_from k < n \<and> n \<le> kr_to k"

definition timeline_ok :: "tables \<Rightarrow> bool" where
  "timeline_ok t \<longleftrightarrow>
     (\<forall>r \<in> set (tb_schedules t). bounded_by_cursor t r)
     \<and> (\<forall>x \<in> set (tb_occurrences t). \<forall>k \<in> set (tb_spans t).
          xr_schedule_id x = kr_schedule_id k \<longrightarrow> \<not> span_covers k (xr_due x))
     \<and> (\<forall>k \<in> set (tb_spans t). \<forall>l \<in> set (tb_spans t).
          kr_schedule_id k = kr_schedule_id l \<longrightarrow> kr_to k < kr_to l \<longrightarrow> kr_to k \<le> kr_from l)"

definition store_ok :: "tables \<Rightarrow> bool" where
  "store_ok t \<longleftrightarrow> tables_ok t \<and> timeline_ok t"

lemmas store_ok_defs = store_ok_def tables_ok_def schedules_ok_def occurrences_ok_def spans_ok_def
  timeline_ok_def bounded_by_cursor_def

lemma store_ok_empty: "store_ok empty_tables"
  by (simp add: store_ok_defs empty_tables_def)

section \<open>One schedule row at a time\<close>

definition modify_schedule :: "string \<Rightarrow> (schedule_row \<Rightarrow> schedule_row) \<Rightarrow> tables \<Rightarrow> tables" where
  "modify_schedule sid f t =
     t\<lparr>tb_schedules := map (\<lambda>r. if sr_id r = sid then f r else r) (tb_schedules t)\<rparr>"

lemma modify_schedule_simps [simp]:
  "tb_schedules (modify_schedule sid f t) = map (\<lambda>r. if sr_id r = sid then f r else r) (tb_schedules t)"
  "tb_occurrences (modify_schedule sid f t) = tb_occurrences t"
  "tb_spans (modify_schedule sid f t) = tb_spans t"
  by (simp_all add: modify_schedule_def)

lemma row_update_simps [simp]:
  "sr_id (set_state st r) = sr_id r" "sr_created (set_state st r) = sr_created r"
  "sr_cursor (set_state st r) = sr_cursor r" "sr_state (set_state st r) = st"
  "sr_id (set_cursor n r) = sr_id r" "sr_created (set_cursor n r) = sr_created r"
  "sr_state (set_cursor n r) = sr_state r" "sr_cursor (set_cursor n r) = n"
  by (simp_all add: set_state_def set_cursor_def)

lemma find_schedule_SomeD:
  "find_schedule sid t = Some r \<Longrightarrow> r \<in> set (tb_schedules t) \<and> sr_id r = sid"
  by (auto simp: find_schedule_def find_Some_iff)

lemma find_schedule_unique:
  assumes "schedules_ok t" "r \<in> set (tb_schedules t)" "sr_id r = sid"
  shows "find_schedule sid t = Some r"
proof (cases "find_schedule sid t")
  case None
  with assms show ?thesis by (auto simp: find_schedule_def find_None_iff)
next
  case (Some q)
  with assms find_schedule_SomeD [OF Some] show ?thesis
    by (metis distinct_map_eqD schedules_ok_def)
qed

lemma has_schedule_find: "has_schedule sid t \<longleftrightarrow> find_schedule sid t \<noteq> None"
  by (auto simp: has_schedule_def find_schedule_def find_None_iff list_ex_iff)

lemma has_schedule_modify [simp]:
  "(\<And>r. sr_id (f r) = sr_id r) \<Longrightarrow> has_schedule s (modify_schedule sid f t) = has_schedule s t"
  by (auto simp: has_schedule_def list_ex_iff)

lemma map_update_by_id:
  assumes ok: "schedules_ok t" and found: "find_schedule sid t = Some r" and hit: "P r"
    and only: "\<And>x. P x \<Longrightarrow> sr_id x = sid"
  shows "map (\<lambda>x. if P x then f x else x) (tb_schedules t)
       = map (\<lambda>x. if sr_id x = sid then f x else x) (tb_schedules t)"
proof (rule map_cong [OF refl])
  fix x assume "x \<in> set (tb_schedules t)"
  then have "sr_id x = sid \<Longrightarrow> x = r"
    using find_schedule_unique [OF ok] found by fastforce
  then show "(if P x then f x else x) = (if sr_id x = sid then f x else x)"
    using hit only by auto
qed

lemma updateOne_schedules:
  assumes up: "updateOne en l (update_schedules ss sc P f) t = Inr t'"
    and ok: "schedules_ok t" and found: "find_schedule sid t = Some r"
    and only: "\<And>x. P x \<Longrightarrow> sr_id x = sid"
  shows "P r \<and> schedule_update_fault ss sc r (f r) = None \<and> t' = modify_schedule sid f t"
proof -
  from up have one: "length (filter P (tb_schedules t)) = 1"
    and faults: "\<forall>x \<in> set (tb_schedules t). P x \<longrightarrow> schedule_update_fault ss sc x (f x) = None"
    and t': "t' = t\<lparr>tb_schedules := map (\<lambda>x. if P x then f x else x) (tb_schedules t)\<rparr>"
    by (auto simp: updateOne_def bind_result_Inr_iff sql_Inr update_schedules_Inr
        split: option.splits if_splits)
  from one obtain q where "q \<in> set (tb_schedules t)" "P q"
    by (metis One_nat_def filter_empty_conv length_0_conv zero_neq_one)
  with only have "q = r"
    using find_schedule_unique [OF ok] found by fastforce
  with \<open>P q\<close> have hit: "P r" by simp
  moreover have "t' = modify_schedule sid f t"
    using map_update_by_id [of t sid r P f, OF ok found hit only] t'
    by (simp add: modify_schedule_def)
  ultimately show ?thesis
    using faults found find_schedule_SomeD by blast
qed

lemma scheduleState_Inr:
  "scheduleState en sid t = Inr (state, cursor) \<longleftrightarrow>
     en_statement en ''select state'' = None \<and>
     (\<exists>r. find_schedule sid t = Some r \<and> ValidateState (sr_state r) = None
          \<and> state = sr_state r \<and> cursor = sr_cursor r)"
  by (auto simp: scheduleState_def bind_result_Inr_iff sql_Inr split: option.splits)

lemma insert_span_Inr:
  "insert_span k t = Inr t' \<longleftrightarrow>
     span_check k
     \<and> \<not> (\<exists>x \<in> set (tb_spans t). kr_schedule_id x = kr_schedule_id k \<and> kr_to x = kr_to k)
     \<and> has_schedule (kr_schedule_id k) t \<and> t' = t\<lparr>tb_spans := tb_spans t @ [k]\<rparr>"
  by (auto simp: insert_span_def list_ex_iff)

lemma insert_occurrence_Inr:
  "insert_occurrence x t = Inr t' \<longleftrightarrow>
     occurrence_check x
     \<and> (\<forall>y \<in> set (tb_occurrences t). xr_task_id y \<noteq> xr_task_id x)
     \<and> (\<forall>y \<in> set (tb_occurrences t). \<not> (xr_schedule_id y = xr_schedule_id x \<and> xr_due y = xr_due x))
     \<and> (active_row x \<longrightarrow> (\<forall>y \<in> set (tb_occurrences t). \<not> (xr_schedule_id y = xr_schedule_id x \<and> active_row y)))
     \<and> has_schedule (xr_schedule_id x) t
     \<and> t' = t\<lparr>tb_occurrences := tb_occurrences t @ [x]\<rparr>"
  by (auto simp: insert_occurrence_def list_ex_iff)

lemma insert_schedule_Inr:
  "insert_schedule r t = Inr t' \<longleftrightarrow>
     schedule_check r \<and> \<not> has_schedule (sr_id r) t \<and> t' = t\<lparr>tb_schedules := tb_schedules t @ [r]\<rparr>"
  by (auto simp: insert_schedule_def)

section \<open>What each body does\<close>

definition arm_effect :: "claim \<Rightarrow> tables \<Rightarrow> tables" where
  "arm_effect c t =
     modify_schedule (cl_schedule_id c) (set_cursor (t_ns (cl_due c)))
       (t\<lparr>tb_occurrences := tb_occurrences t @ [armed_row c]\<rparr>)"

definition span_row_of :: "string \<Rightarrow> skip_span \<Rightarrow> span_row" where
  "span_row_of sid k =
     \<lparr>kr_schedule_id = sid, kr_from = t_ns (sp_from k), kr_to = t_ns (sp_to k), kr_reason = sp_reason k\<rparr>"

definition skip_effect :: "string \<Rightarrow> skip_span \<Rightarrow> (schedule_row \<Rightarrow> schedule_row) \<Rightarrow> tables \<Rightarrow> tables" where
  "skip_effect sid k f t =
     modify_schedule sid (set_cursor (t_ns (sp_to k)) \<circ> f)
       (t\<lparr>tb_spans := tb_spans t @ [span_row_of sid k]\<rparr>)"

lemma schedules_ok_frame [simp]:
  "schedules_ok (t\<lparr>tb_occurrences := xs\<rparr>) = schedules_ok t"
  "schedules_ok (t\<lparr>tb_spans := ks\<rparr>) = schedules_ok t"
  "find_schedule sid (t\<lparr>tb_occurrences := xs\<rparr>) = find_schedule sid t"
  "find_schedule sid (t\<lparr>tb_spans := ks\<rparr>) = find_schedule sid t"
  "has_schedule sid (t\<lparr>tb_occurrences := xs\<rparr>) = has_schedule sid t"
  "has_schedule sid (t\<lparr>tb_spans := ks\<rparr>) = has_schedule sid t"
  by (simp_all add: schedules_ok_def find_schedule_def has_schedule_def)

lemma armOccurrence_Inr:
  assumes "armOccurrence en c t = Inr t'" and ok: "schedules_ok t"
  shows "\<exists>r. find_schedule (cl_schedule_id c) t = Some r \<and> sr_state r = StateEnabled
      \<and> sr_cursor r = t_ns (cl_expected_cursor c) \<and> active_count (cl_schedule_id c) t = 0
      \<and> insert_occurrence (armed_row c) t = Inr (t\<lparr>tb_occurrences := tb_occurrences t @ [armed_row c]\<rparr>)
      \<and> schedule_update_fault False True r (set_cursor (t_ns (cl_due c)) r) = None
      \<and> t' = arm_effect c t"
proof -
  obtain r t1 where r: "find_schedule (cl_schedule_id c) t = Some r" "sr_state r = StateEnabled"
      "sr_cursor r = t_ns (cl_expected_cursor c)" "active_count (cl_schedule_id c) t = 0"
    and ins: "insert_occurrence (armed_row c) t = Inr t1"
    and up: "updateOne en ''update cursor''
               (update_schedules False True
                 (\<lambda>x. sr_id x = cl_schedule_id c \<and> sr_state x = StateEnabled \<and> sr_cursor x = sr_cursor r)
                 (set_cursor (t_ns (cl_due c)))) t1 = Inr t'"
    using assms(1)
    by (auto simp: armOccurrence_def bind_result_Inr_iff scheduleState_Inr sql_Inr split: if_splits)
  have t1: "t1 = t\<lparr>tb_occurrences := tb_occurrences t @ [armed_row c]\<rparr>"
    using ins by (simp add: insert_occurrence_Inr)
  have "schedule_update_fault False True r (set_cursor (t_ns (cl_due c)) r) = None
      \<and> t' = modify_schedule (cl_schedule_id c) (set_cursor (t_ns (cl_due c))) t1"
    using updateOne_schedules [OF up, of "cl_schedule_id c" r] ok r(1) by (auto simp: t1)
  with r ins t1 show ?thesis
    by (auto simp: arm_effect_def)
qed

lemma claim_body_Inr:
  assumes "claim_body en c t = Inr (found, t')" and ok: "schedules_ok t"
  shows "(found \<noteq> [] \<and> t' = t
          \<and> (\<exists>x \<in> set (tb_occurrences t). xr_schedule_id x = cl_schedule_id c
               \<and> xr_due x = t_ns (cl_due c) \<and> xr_task_id x = found))
       \<or> (found = [] \<and> armOccurrence en c t = Inr t')"
  using assms(1)
  by (auto simp: claim_body_def claimedTask_def bind_result_Inr_iff sql_Inr find_Some_iff
      split: option.splits if_splits)

lemma insertSkipSpan_Inr:
  "insertSkipSpan en sid cursor expected k t = Inr t' \<longleftrightarrow>
     cursor = t_ns expected \<and> en_statement en ''insert skip span'' = None
     \<and> insert_span (span_row_of sid k) t = Inr t'"
  by (auto simp: insertSkipSpan_def sql_Inr span_row_of_def)

lemma record_skip_body_Inr:
  assumes "record_skip_body en k t = Inr t'" and ok: "schedules_ok t"
  shows "\<exists>r. find_schedule (sk_schedule_id k) t = Some r \<and> sr_state r = StateEnabled
      \<and> sr_cursor r = t_ns (sk_expected_cursor k)
      \<and> insert_span (span_row_of (sk_schedule_id k) (sk_span k)) t
          = Inr (t\<lparr>tb_spans := tb_spans t @ [span_row_of (sk_schedule_id k) (sk_span k)]\<rparr>)
      \<and> schedule_update_fault False True r (set_cursor (t_ns (sp_to (sk_span k))) r) = None
      \<and> t' = skip_effect (sk_schedule_id k) (sk_span k) id t"
proof -
  obtain r t1 where r: "find_schedule (sk_schedule_id k) t = Some r" "sr_state r = StateEnabled"
      "sr_cursor r = t_ns (sk_expected_cursor k)"
    and ins: "insert_span (span_row_of (sk_schedule_id k) (sk_span k)) t = Inr t1"
    and up: "updateOne en ''update skip cursor''
               (update_schedules False True
                 (\<lambda>x. sr_id x = sk_schedule_id k \<and> sr_cursor x = sr_cursor r)
                 (set_cursor (t_ns (sp_to (sk_span k))))) t1 = Inr t'"
    using assms(1)
    by (auto simp: record_skip_body_def bind_result_Inr_iff scheduleState_Inr insertSkipSpan_Inr
        split: if_splits)
  have t1: "t1 = t\<lparr>tb_spans := tb_spans t @ [span_row_of (sk_schedule_id k) (sk_span k)]\<rparr>"
    using ins by (simp add: insert_span_Inr)
  have "schedule_update_fault False True r (set_cursor (t_ns (sp_to (sk_span k))) r) = None
      \<and> t' = modify_schedule (sk_schedule_id k) (set_cursor (t_ns (sp_to (sk_span k)))) t1"
    using updateOne_schedules [OF up, of "sk_schedule_id k" r] ok r(1) by (auto simp: t1)
  with r ins t1 show ?thesis
    by (auto simp: skip_effect_def)
qed

text \<open>A state change without a resume, and one with its paused span.\<close>

lemma change_state_body_Inr:
  assumes "change_state_body en c t = Inr t'" and ok: "schedules_ok t"
  shows "\<exists>r. find_schedule (ch_schedule_id c) t = Some r \<and> sr_state r = ch_from c \<and>
      (case ch_resume c of
         None \<Rightarrow> schedule_update_fault True False r (set_state (ch_to c) r) = None
                 \<and> t' = modify_schedule (ch_schedule_id c) (set_state (ch_to c)) t
       | Some rs \<Rightarrow> sr_cursor r = t_ns (rs_expected_cursor rs)
                 \<and> insert_span (span_row_of (ch_schedule_id c) (Span rs)) t
                     = Inr (t\<lparr>tb_spans := tb_spans t @ [span_row_of (ch_schedule_id c) (Span rs)]\<rparr>)
                 \<and> schedule_update_fault True True r
                     ((set_cursor (t_ns (rs_to rs)) \<circ> set_state (ch_to c)) r) = None
                 \<and> t' = skip_effect (ch_schedule_id c) (Span rs) (set_state (ch_to c)) t)"
proof -
  obtain r where r: "find_schedule (ch_schedule_id c) t = Some r" "sr_state r = ch_from c"
    using assms(1)
    by (auto simp: change_state_body_def bind_result_Inr_iff scheduleState_Inr split: if_splits)
  show ?thesis
  proof (cases "ch_resume c")
    case None
    with assms(1) r have up: "updateOne en ''update state''
        (update_schedules True False (\<lambda>x. sr_id x = ch_schedule_id c \<and> sr_state x = ch_from c)
          (set_state (ch_to c))) t = Inr t'"
      by (auto simp: change_state_body_def bind_result_Inr_iff scheduleState_Inr split: if_splits)
    show ?thesis
      using updateOne_schedules [OF up ok r(1)] r None by auto
  next
    case (Some rs)
    with assms(1) r obtain t1 where cur: "sr_cursor r = t_ns (rs_expected_cursor rs)"
      and ins: "insert_span (span_row_of (ch_schedule_id c) (Span rs)) t = Inr t1"
      and up: "updateOne en ''update state and cursor''
        (update_schedules True True
          (\<lambda>x. sr_id x = ch_schedule_id c \<and> sr_state x = ch_from c \<and> sr_cursor x = sr_cursor r)
          (set_cursor (t_ns (rs_to rs)) \<circ> set_state (ch_to c))) t1 = Inr t'"
      by (auto simp: change_state_body_def bind_result_Inr_iff scheduleState_Inr insertSkipSpan_Inr
          split: if_splits)
    have t1: "t1 = t\<lparr>tb_spans := tb_spans t @ [span_row_of (ch_schedule_id c) (Span rs)]\<rparr>"
      using ins by (simp add: insert_span_Inr)
    have "schedule_update_fault True True r ((set_cursor (t_ns (rs_to rs)) \<circ> set_state (ch_to c)) r) = None
        \<and> t' = modify_schedule (ch_schedule_id c) (set_cursor (t_ns (rs_to rs)) \<circ> set_state (ch_to c)) t1"
      using updateOne_schedules [OF up, of "ch_schedule_id c" r] ok r(1) by (auto simp: t1)
    with r cur ins t1 Some show ?thesis
      by (auto simp: skip_effect_def Span_def)
  qed
qed

section \<open>Preservation\<close>

lemma store_ok_append_schedule:
  assumes "store_ok t" "insert_schedule r t = Inr t'"
    and fresh: "sr_cursor r = sr_created r"
  shows "store_ok t'"
  using assms
  by (auto simp: insert_schedule_Inr store_ok_defs has_schedule_def list_ex_iff)

lemma modify_schedules_ok:
  assumes "schedules_ok t" "find_schedule sid t = Some r" "\<And>x. sr_id (f x) = sr_id x"
    and "schedule_check (f r)"
  shows "schedules_ok (modify_schedule sid f t)"
proof -
  have "x = r" if "x \<in> set (tb_schedules t)" "sr_id x = sid" for x
    using find_schedule_unique [OF assms(1) that] assms(2) by simp
  moreover have "map sr_id (map (\<lambda>x. if sr_id x = sid then f x else x) (tb_schedules t))
      = map sr_id (tb_schedules t)"
    using assms(3) by simp
  then have "distinct (map sr_id (tb_schedules (modify_schedule sid f t)))"
    using assms(1) by (simp only: schedules_ok_def modify_schedule_simps)
  ultimately show ?thesis
    using assms by (auto simp: schedules_ok_def)
qed

lemma schedule_update_check: "schedule_update_fault ss sc old new = None \<Longrightarrow> schedule_check new"
  by (auto simp: schedule_update_fault_def split: if_splits)

lemma schedule_update_forward:
  "schedule_update_fault ss True old new = None \<Longrightarrow> sr_cursor old < sr_cursor new"
  by (auto simp: schedule_update_fault_def split: if_splits)

text \<open>A state change alone moves no entry and no cursor.\<close>

lemma store_ok_set_state:
  assumes "store_ok t" "find_schedule sid t = Some r"
    and "schedule_check (set_state st r)"
  shows "store_ok (modify_schedule sid (set_state st) t)"
proof -
  have "schedules_ok (modify_schedule sid (set_state st) t)"
    using assms by (intro modify_schedules_ok) (auto simp: store_ok_def tables_ok_def)
  then show ?thesis
    using assms(1)
    by (auto simp: store_ok_def tables_ok_def occurrences_ok_def spans_ok_def timeline_ok_def
        bounded_by_cursor_def)
qed

lemma bounded_below_created:
  assumes "store_ok t" "find_schedule sid t = Some r"
  shows "sr_created r \<le> sr_cursor r" "bounded_by_cursor t r"
  using assms find_schedule_SomeD [OF assms(2)]
  by (auto simp: store_ok_def tables_ok_def schedules_ok_def timeline_ok_def schedule_check_def)

lemma modify_member:
  assumes "schedules_ok t" "find_schedule sid t = Some r"
    and "q \<in> set (tb_schedules (modify_schedule sid f t))"
  shows "q = f r \<or> (q \<in> set (tb_schedules t) \<and> sr_id q \<noteq> sid)"
  using assms find_schedule_unique [OF assms(1)] by fastforce

lemma store_ok_arm:
  assumes ok: "store_ok t" and r: "find_schedule (cl_schedule_id c) t = Some r"
    and ins: "insert_occurrence (armed_row c) t
                = Inr (t\<lparr>tb_occurrences := tb_occurrences t @ [armed_row c]\<rparr>)"
    and upd: "schedule_update_fault False True r (set_cursor (t_ns (cl_due c)) r) = None"
  shows "store_ok (arm_effect c t)"
proof -
  let ?sid = "cl_schedule_id c" and ?due = "t_ns (cl_due c)"
  have row: "xr_schedule_id (armed_row c) = ?sid" "xr_due (armed_row c) = ?due"
      "xr_task_id (armed_row c) = cl_task_id c" "active_row (armed_row c)"
    by (simp_all add: armed_row_def active_row_def)
  have fwd: "sr_cursor r < ?due"
    using schedule_update_forward [OF upd] by simp
  have base: "schedules_ok t" "occurrences_ok t" "spans_ok t" "timeline_ok t"
    using ok by (auto simp: store_ok_def tables_ok_def)
  note bounds = bounded_below_created [OF ok r] find_schedule_SomeD [OF r]
  have "schedules_ok (arm_effect c t)"
    unfolding arm_effect_def using base r schedule_update_check [OF upd]
    by (intro modify_schedules_ok [of _ ?sid r]) auto
  moreover have "occurrences_ok (arm_effect c t)"
    using base(2) ins row by (auto simp: arm_effect_def occurrences_ok_def insert_occurrence_Inr)
  moreover have "spans_ok (arm_effect c t)"
    using base(3) by (auto simp: arm_effect_def spans_ok_def)
  moreover have "timeline_ok (arm_effect c t)"
  proof -
    have new: "bounded_by_cursor (arm_effect c t) (set_cursor ?due r)"
      using bounds fwd row by (fastforce simp: bounded_by_cursor_def arm_effect_def)
    have others: "bounded_by_cursor (arm_effect c t) q"
      if "q \<in> set (tb_schedules t)" "sr_id q \<noteq> ?sid" for q
      using base(4) that row by (auto simp: bounded_by_cursor_def arm_effect_def timeline_ok_def)
    have "\<forall>q \<in> set (tb_schedules (arm_effect c t)). bounded_by_cursor (arm_effect c t) q"
    proof
      fix q assume "q \<in> set (tb_schedules (arm_effect c t))"
      then have "q = set_cursor ?due r \<or> (q \<in> set (tb_schedules t) \<and> sr_id q \<noteq> ?sid)"
        using modify_member [of "t\<lparr>tb_occurrences := tb_occurrences t @ [armed_row c]\<rparr>" ?sid r q] base(1) r
        by (auto simp: arm_effect_def)
      with new others show "bounded_by_cursor (arm_effect c t) q" by blast
    qed
    moreover have "\<not> span_covers k ?due" if "k \<in> set (tb_spans t)" "kr_schedule_id k = ?sid" for k
      using bounds that fwd by (fastforce simp: bounded_by_cursor_def span_covers_def)
    ultimately show ?thesis
      using base(4) row by (auto simp: timeline_ok_def arm_effect_def)
  qed
  ultimately show ?thesis
    by (simp add: store_ok_def tables_ok_def)
qed

lemma store_ok_skip:
  assumes ok: "store_ok t" and r: "find_schedule sid t = Some r"
    and ins: "insert_span (span_row_of sid k) t = Inr (t\<lparr>tb_spans := tb_spans t @ [span_row_of sid k]\<rparr>)"
    and start: "sr_cursor r \<le> t_ns (sp_from k)"
    and chk: "schedule_check (set_cursor (t_ns (sp_to k)) (f r))"
    and keeps: "\<And>x. sr_id (f x) = sr_id x" "sr_created (f r) = sr_created r"
  shows "store_ok (skip_effect sid k f t)"
proof -
  let ?row = "span_row_of sid k" and ?g = "set_cursor (t_ns (sp_to k)) \<circ> f"
  have row: "kr_schedule_id ?row = sid" "kr_from ?row = t_ns (sp_from k)" "kr_to ?row = t_ns (sp_to k)"
    by (simp_all add: span_row_of_def)
  have base: "schedules_ok t" "occurrences_ok t" "spans_ok t" "timeline_ok t"
    using ok by (auto simp: store_ok_def tables_ok_def)
  have wide: "t_ns (sp_from k) < t_ns (sp_to k)"
    using ins row by (auto simp: insert_span_Inr span_check_def)
  note bounds = bounded_below_created [OF ok r] find_schedule_SomeD [OF r]
  have "schedules_ok (skip_effect sid k f t)"
    unfolding skip_effect_def using base r chk keeps
    by (intro modify_schedules_ok [of _ sid r]) auto
  moreover have "occurrences_ok (skip_effect sid k f t)"
    using base(2) keeps by (auto simp: skip_effect_def occurrences_ok_def)
  moreover have "spans_ok (skip_effect sid k f t)"
    using base(3) ins keeps by (auto simp: skip_effect_def spans_ok_def insert_span_Inr)
  moreover have "timeline_ok (skip_effect sid k f t)"
  proof -
    have new: "bounded_by_cursor (skip_effect sid k f t) (?g r)"
      using bounds start wide row keeps by (fastforce simp: bounded_by_cursor_def skip_effect_def)
    have others: "bounded_by_cursor (skip_effect sid k f t) q"
      if "q \<in> set (tb_schedules t)" "sr_id q \<noteq> sid" for q
      using base(4) that row by (auto simp: bounded_by_cursor_def skip_effect_def timeline_ok_def)
    have "\<forall>q \<in> set (tb_schedules (skip_effect sid k f t)). bounded_by_cursor (skip_effect sid k f t) q"
    proof
      fix q assume "q \<in> set (tb_schedules (skip_effect sid k f t))"
      then have "q = ?g r \<or> (q \<in> set (tb_schedules t) \<and> sr_id q \<noteq> sid)"
        using modify_member [of "t\<lparr>tb_spans := tb_spans t @ [?row]\<rparr>" sid r q ?g] base(1) r
        by (auto simp: skip_effect_def)
      with new others show "bounded_by_cursor (skip_effect sid k f t) q" by blast
    qed
    moreover have "\<not> span_covers ?row (xr_due x)"
      if "x \<in> set (tb_occurrences t)" "xr_schedule_id x = sid" for x
      using bounds that start row by (fastforce simp: bounded_by_cursor_def span_covers_def)
    moreover have "kr_to l \<le> t_ns (sp_from k)" if "l \<in> set (tb_spans t)" "kr_schedule_id l = sid" for l
      using bounds that start by (fastforce simp: bounded_by_cursor_def)
    moreover have "\<not> t_ns (sp_to k) < kr_to l" if "l \<in> set (tb_spans t)" "kr_schedule_id l = sid" for l
      using bounds that start wide by (fastforce simp: bounded_by_cursor_def)
    ultimately show ?thesis
      using base(4) row by (auto simp: timeline_ok_def skip_effect_def)
  qed
  ultimately show ?thesis
    by (simp add: store_ok_def tables_ok_def)
qed

end
