(* ===== verification/Sched_Reach.thy ===== *)
theory Sched_Reach
  imports Sched_Invariant
begin

text \<open>
  Every database the store can produce: the operations under any behaviour of the driver, their
  reachable databases, the invariant of all of them, and the order in which a database only grows.
\<close>

section \<open>Updates of occurrence rows\<close>

definition same_identity :: "occurrence_row \<Rightarrow> occurrence_row \<Rightarrow> bool" where
  "same_identity x y \<longleftrightarrow> xr_task_id x = xr_task_id y \<and> xr_schedule_id x = xr_schedule_id y
     \<and> xr_due x = xr_due y \<and> xr_armed_at x = xr_armed_at y"

lemma same_identity_update [simp]:
  "same_identity (set_observation ob x) y = same_identity x y"
  "same_identity (set_release rel x) y = same_identity x y"
  "same_identity x x"
  by (simp_all add: same_identity_def set_observation_def set_release_def)

lemma distinct_map_filter_weaken:
  assumes "distinct (map h (filter Q xs))" "\<And>x. P x \<Longrightarrow> Q x"
  shows "distinct (map h (filter P xs))"
proof -
  have "filter P xs = filter P (filter Q xs)"
    using assms(2) by (induction xs) auto
  then show ?thesis
    using distinct_map_filter [OF assms(1), of P] by simp
qed

lemma store_ok_map_occurrences:
  assumes ok: "store_ok t" and chk: "\<forall>x \<in> set (tb_occurrences t). occurrence_check (g x)"
    and same: "\<And>x. same_identity (g x) x" and act: "\<And>x. active_row (g x) \<Longrightarrow> active_row x"
  shows "store_ok (t\<lparr>tb_occurrences := map g (tb_occurrences t)\<rparr>)"
proof -
  let ?xs = "tb_occurrences t"
  have keep: "xr_task_id (g x) = xr_task_id x" "xr_schedule_id (g x) = xr_schedule_id x"
      "xr_due (g x) = xr_due x" for x
    using same [of x] by (auto simp: same_identity_def)
  have old: "occurrences_ok t" "schedules_ok t" "spans_ok t" "timeline_ok t"
    using ok by (simp_all add: store_ok_def tables_ok_def)
  have "distinct (map xr_schedule_id (filter (active_row \<circ> g) ?xs))"
    using old(1) act
    by (auto simp: occurrences_ok_def intro: distinct_map_filter_weaken [of xr_schedule_id active_row])
  then have "distinct (map xr_schedule_id (filter active_row (map g ?xs)))"
    by (simp add: filter_map o_def keep)
  then have "occurrences_ok (t\<lparr>tb_occurrences := map g ?xs\<rparr>)"
    using old(1) chk by (simp add: occurrences_ok_def o_def keep)
  moreover have "timeline_ok (t\<lparr>tb_occurrences := map g ?xs\<rparr>)"
    using old(4) by (simp add: timeline_ok_def bounded_by_cursor_def keep)
  ultimately show ?thesis
    using old by (simp add: store_ok_def tables_ok_def spans_ok_def)
qed

lemma store_ok_occurrence_update:
  assumes ok: "store_ok t"
    and chk: "\<forall>x \<in> set (tb_occurrences t). P x \<longrightarrow> occurrence_check (f x)"
    and same: "\<And>x. same_identity (f x) x" and act: "\<And>x. active_row (f x) \<Longrightarrow> active_row x"
  shows "store_ok (t\<lparr>tb_occurrences := map (\<lambda>x. if P x then f x else x) (tb_occurrences t)\<rparr>)"
  using ok chk act
  by (intro store_ok_map_occurrences)
    (auto simp: store_ok_def tables_ok_def occurrences_ok_def same split: if_splits)

lemma occurrence_update_check: "occurrence_update_fault so sl x y = None \<Longrightarrow> occurrence_check y"
  by (auto simp: occurrence_update_fault_def split: if_splits)

lemma observation_body_Inr:
  assumes "observation_body en r t = Inr t'"
  shows "(\<forall>x \<in> set (tb_occurrences t). observation_hit r x
            \<longrightarrow> occurrence_check (set_observation (oo_observation r) x))
    \<and> t' = t\<lparr>tb_occurrences := map (\<lambda>x. if observation_hit r x
               then set_observation (oo_observation r) x else x) (tb_occurrences t)\<rparr>"
proof -
  obtain n where "update_occurrences True False (observation_hit r) (set_observation (oo_observation r)) t
      = Inr (n, t')"
    using assms
    by (auto simp: observation_body_def Let_def bind_result_Inr_iff sql_Inr
        split: option.splits if_splits)
  then show ?thesis
    using occurrence_update_check by (auto simp: update_occurrences_Inr)
qed

lemma release_body_Inr:
  assumes "release_body en r t = Inr t'"
  shows "(\<forall>x \<in> set (tb_occurrences t). release_hit r x
            \<longrightarrow> occurrence_check (set_release (or_release r) x))
    \<and> t' = t\<lparr>tb_occurrences := map (\<lambda>x. if release_hit r x
               then set_release (or_release r) x else x) (tb_occurrences t)\<rparr>"
proof -
  obtain n where "update_occurrences False True (release_hit r) (set_release (or_release r)) t = Inr (n, t')"
    using assms
    by (auto simp: release_body_def bind_result_Inr_iff check_then_Inr_iff sql_Inr
        split: option.splits if_splits)
  then show ?thesis
    using occurrence_update_check by (auto simp: update_occurrences_Inr)
qed

section \<open>Operations\<close>

datatype operation =
    OpCreate schedule_definition
  | OpGet string
  | OpList schedule_page
  | OpChange state_change
  | OpClaim claim
  | OpObserve occurrence_observation
  | OpRelease occurrence_release
  | OpSkip skip_request
  | OpGetOccurrence string
  | OpHistory history_page
  | OpActive schedule_page

fun perform :: "store \<Rightarrow> engine \<Rightarrow> operation \<Rightarrow> database \<Rightarrow> database" where
  "perform s en (OpCreate d) db = snd (CreateSchedule s en d db)"
| "perform s en (OpGet i) db = snd (GetSchedule s en i db)"
| "perform s en (OpList p) db = snd (ListSchedules s en p db)"
| "perform s en (OpChange c) db = snd (ChangeState s en c db)"
| "perform s en (OpClaim c) db = snd (ClaimAndArm s en c db)"
| "perform s en (OpObserve r) db = snd (RecordObservation s en r db)"
| "perform s en (OpRelease r) db = snd (Release s en r db)"
| "perform s en (OpSkip k) db = snd (RecordSkip s en k db)"
| "perform s en (OpGetOccurrence i) db = snd (GetOccurrence s en i db)"
| "perform s en (OpHistory p) db = snd (History s en p db)"
| "perform s en (OpActive p) db = snd (ActiveOccurrences s en p db)"

lemma operate_db:
  assumes "operate s en f db = (r, db')"
  shows "db' = db \<or> (\<exists>x t'. currentGuard s en db = None \<and> f (db_tables db) = Inr (x, t')
                       \<and> db' = db\<lparr>db_tables := t'\<rparr>)"
  using transact_db [OF assms [unfolded operate_def]]
  by (auto simp: on_tables_def bind_result_Inr_iff)

lemma operate_Inr:
  assumes "operate s en f db = (Inr x, db')"
  shows "currentGuard s en db = None
    \<and> (\<exists>t'. f (db_tables db) = Inr (x, t') \<and> db' = db\<lparr>db_tables := t'\<rparr>)"
  using transact_Inr [OF assms [unfolded operate_def]]
  by (auto simp: on_tables_def bind_result_Inr_iff)

lemma operate_read_tables [simp]: "snd (operate s en (read_tables f) db) = db"
proof -
  obtain r db' where "operate s en (read_tables f) db = (r, db')" by fastforce
  from operate_db [OF this] this show ?thesis
    by (auto simp: read_tables_def bind_result_Inr_iff)
qed

text \<open>The reads leave every database as it is.\<close>

lemma reads_keep_database:
  "snd (GetSchedule s en i db) = db" "snd (ListSchedules s en p db) = db"
  "snd (GetOccurrence s en i db) = db" "snd (History s en h db) = db"
  "snd (ActiveOccurrences s en p db) = db"
  by (simp_all add: GetSchedule_def ListSchedules_def GetOccurrence_def History_def
      ActiveOccurrences_def split: option.split)

lemma operate_writing_cases:
  assumes "operate s en (writing f) db = (r, db')"
  obtains "db' = db" | t' where "f (db_tables db) = Inr t'" "db' = db\<lparr>db_tables := t'\<rparr>"
  using operate_db [OF assms] by (auto simp: writing_def bind_result_Inr_iff)

text \<open>The tables after an operation: unchanged, or one of the six effects.\<close>

inductive effect :: "tables \<Rightarrow> tables \<Rightarrow> bool" where
  eff_none: "effect t t"
| eff_create: "prepared_row d = Inr row \<Longrightarrow> insert_schedule row t = Inr t' \<Longrightarrow> effect t t'"
| eff_change: "ValidateStateChange c = None \<Longrightarrow> change_state_body en c t = Inr t' \<Longrightarrow> effect t t'"
| eff_claim: "ValidateClaim c = None \<Longrightarrow> armOccurrence en c t = Inr t' \<Longrightarrow> effect t t'"
| eff_observe: "ValidateOccurrenceObservation r = None \<Longrightarrow> observation_body en r t = Inr t' \<Longrightarrow> effect t t'"
| eff_release: "ValidateOccurrenceRelease r = None \<Longrightarrow> release_body en r t = Inr t' \<Longrightarrow> effect t t'"
| eff_skip: "ValidateSkip k = None \<Longrightarrow> record_skip_body en k t = Inr t' \<Longrightarrow> effect t t'"

lemma claim_effect:
  assumes "ValidateClaim c = None" "claim_body en c t = Inr (found, t')"
  shows "effect t t'"
  using assms by (auto simp: claim_body_def bind_result_Inr_iff split: if_splits
      intro: eff_none eff_claim)

lemma perform_effect: "effect (db_tables db) (db_tables (perform s en op db))"
proof (cases op)
  case (OpCreate d)
  show ?thesis
  proof (cases "prepared_row d")
    case (Inr row)
    obtain r db' where op: "operate s en (writing (\<lambda>t. sql en ''insert schedule'' (insert_schedule row t))) db
        = (r, db')" by fastforce
    show ?thesis
      by (cases rule: operate_writing_cases [OF op])
        (use op OpCreate Inr in \<open>auto simp: CreateSchedule_def sql_Inr intro: eff_none eff_create\<close>)
  qed (simp add: OpCreate CreateSchedule_def eff_none)
next
  case (OpChange c)
  obtain r db' where op: "operate s en (writing (change_state_body en c)) db = (r, db')" by fastforce
  show ?thesis
    by (cases rule: operate_writing_cases [OF op])
      (use op OpChange in \<open>auto simp: ChangeState_def intro: eff_none eff_change split: option.splits\<close>)
next
  case (OpClaim c)
  obtain r db' where op: "operate s en (claim_body en c) db = (r, db')" by fastforce
  then show ?thesis
    using OpClaim operate_db [OF op]
    by (auto simp: ClaimAndArm_def intro: eff_none claim_effect split: option.splits sum.splits)
next
  case (OpObserve q)
  obtain r db' where op: "operate s en (writing (observation_body en q)) db = (r, db')" by fastforce
  show ?thesis
    by (cases rule: operate_writing_cases [OF op])
      (use op OpObserve in \<open>auto simp: RecordObservation_def intro: eff_none eff_observe split: option.splits\<close>)
next
  case (OpRelease q)
  obtain r db' where op: "operate s en (writing (release_body en q)) db = (r, db')" by fastforce
  show ?thesis
    by (cases rule: operate_writing_cases [OF op])
      (use op OpRelease in \<open>auto simp: Release_def intro: eff_none eff_release split: option.splits\<close>)
next
  case (OpSkip k)
  obtain r db' where op: "operate s en (writing (record_skip_body en k)) db = (r, db')" by fastforce
  show ?thesis
    by (cases rule: operate_writing_cases [OF op])
      (use op OpSkip in \<open>auto simp: RecordSkip_def intro: eff_none eff_skip split: option.splits\<close>)
qed (simp_all add: reads_keep_database eff_none)

section \<open>Every effect preserves the invariant\<close>

lemma prepared_row_fresh: "prepared_row d = Inr row \<Longrightarrow> sr_cursor row = sr_created row"
  by (auto simp: prepared_row_def bind_result_Inr_iff initial_row_def Let_def)

lemma validateCursorAdvance_None:
  "validateCursorAdvance e f = None \<longleftrightarrow> valid_instant e \<and> t_ns e \<le> t_ns f"
  by (auto simp: validateCursorAdvance_def first_error_None_iff go_check before_def)

lemma ValidateSkip_start: "ValidateSkip k = None \<Longrightarrow> t_ns (sk_expected_cursor k) \<le> t_ns (sp_from (sk_span k))"
  by (simp add: ValidateSkip_def first_error_None_iff validateCursorAdvance_None)

lemma ValidateStateChange_start:
  "ValidateStateChange c = None \<Longrightarrow> ch_resume c = Some rs
     \<Longrightarrow> t_ns (rs_expected_cursor rs) \<le> t_ns (sp_from (Span rs))"
  by (simp add: ValidateStateChange_def first_error_None_iff validateCursorAdvance_None Span_def)

lemma active_after_observation [simp]: "active_row (set_observation ob x) = active_row x"
  by (simp add: active_row_def set_observation_def)

lemma active_after_release [simp]: "\<not> active_row (set_release rel x)"
  by (simp add: active_row_def set_release_def)

lemma effect_store_ok:
  assumes "effect t t'" "store_ok t"
  shows "store_ok t'"
  using assms(1)
proof cases
  case (eff_create d row)
  then show ?thesis
    using store_ok_append_schedule [OF assms(2)] prepared_row_fresh by blast
next
  case (eff_change c en)
  have ok: "schedules_ok t" using assms(2) by (simp add: store_ok_def tables_ok_def)
  obtain r where r: "find_schedule (ch_schedule_id c) t = Some r"
    and rest: "case ch_resume c of
         None \<Rightarrow> schedule_update_fault True False r (set_state (ch_to c) r) = None
                 \<and> t' = modify_schedule (ch_schedule_id c) (set_state (ch_to c)) t
       | Some rs \<Rightarrow> sr_cursor r = t_ns (rs_expected_cursor rs)
                 \<and> insert_span (span_row_of (ch_schedule_id c) (Span rs)) t
                     = Inr (t\<lparr>tb_spans := tb_spans t @ [span_row_of (ch_schedule_id c) (Span rs)]\<rparr>)
                 \<and> schedule_update_fault True True r
                     ((set_cursor (t_ns (rs_to rs)) \<circ> set_state (ch_to c)) r) = None
                 \<and> t' = skip_effect (ch_schedule_id c) (Span rs) (set_state (ch_to c)) t"
    using change_state_body_Inr [OF eff_change(2) ok] by auto
  show ?thesis
  proof (cases "ch_resume c")
    case None
    with rest have "schedule_update_fault True False r (set_state (ch_to c) r) = None"
      and t': "t' = modify_schedule (ch_schedule_id c) (set_state (ch_to c)) t"
      by simp_all
    then show ?thesis
      using store_ok_set_state [OF assms(2) r] schedule_update_check by blast
  next
    case (Some rs)
    with rest have upd: "schedule_update_fault True True r
          ((set_cursor (t_ns (sp_to (Span rs))) \<circ> set_state (ch_to c)) r) = None"
      by (simp add: Span_def)
    have "store_ok (skip_effect (ch_schedule_id c) (Span rs) (set_state (ch_to c)) t)"
      using rest Some ValidateStateChange_start [OF eff_change(1) Some] schedule_update_check [OF upd]
      by (intro store_ok_skip [OF assms(2) r]) auto
    with rest Some show ?thesis by simp
  qed
next
  case (eff_claim c en)
  have "schedules_ok t" using assms(2) by (simp add: store_ok_def tables_ok_def)
  from armOccurrence_Inr [OF eff_claim(2) this] show ?thesis
    using store_ok_arm [OF assms(2)] by blast
next
  case (eff_observe r en)
  note body = observation_body_Inr [OF eff_observe(2)]
  show ?thesis
    unfolding body [THEN conjunct2]
    by (rule store_ok_occurrence_update [OF assms(2) body [THEN conjunct1]]) simp_all
next
  case (eff_release r en)
  note body = release_body_Inr [OF eff_release(2)]
  show ?thesis
    unfolding body [THEN conjunct2]
    by (rule store_ok_occurrence_update [OF assms(2) body [THEN conjunct1]]) simp_all
next
  case (eff_skip k en)
  have "schedules_ok t" using assms(2) by (simp add: store_ok_def tables_ok_def)
  from record_skip_body_Inr [OF eff_skip(2) this] obtain r where
    r: "find_schedule (sk_schedule_id k) t = Some r" "sr_cursor r = t_ns (sk_expected_cursor k)"
    and ins: "insert_span (span_row_of (sk_schedule_id k) (sk_span k)) t
          = Inr (t\<lparr>tb_spans := tb_spans t @ [span_row_of (sk_schedule_id k) (sk_span k)]\<rparr>)"
    and upd: "schedule_update_fault False True r (set_cursor (t_ns (sp_to (sk_span k))) r) = None"
    and t': "t' = skip_effect (sk_schedule_id k) (sk_span k) id t"
    by auto
  show ?thesis
    unfolding t' using r(2) ValidateSkip_start [OF eff_skip(1)] schedule_update_check [OF upd]
    by (intro store_ok_skip [OF assms(2) r(1) ins]) auto
qed (use assms(2) in simp)

section \<open>Databases only grow\<close>

definition schedule_advances :: "schedule_row \<Rightarrow> schedule_row \<Rightarrow> bool" where
  "schedule_advances r q \<longleftrightarrow>
     q\<lparr>sr_state := sr_state r, sr_cursor := sr_cursor r\<rparr> = r
     \<and> sr_cursor r \<le> sr_cursor q
     \<and> (sr_state r = StateDeleted \<longrightarrow> sr_state q = StateDeleted)"

definition occurrence_advances :: "occurrence_row \<Rightarrow> occurrence_row \<Rightarrow> bool" where
  "occurrence_advances x y \<longleftrightarrow>
     same_identity y x
     \<and> (xr_released_at x \<noteq> None \<longrightarrow> xr_released_at y = xr_released_at x
          \<and> xr_release_kind y = xr_release_kind x \<and> xr_release_ref y = xr_release_ref x)
     \<and> (case xr_observed_at x of
          None \<Rightarrow> True
        | Some u \<Rightarrow> (case xr_observed_at y of None \<Rightarrow> False | Some v \<Rightarrow> u \<le> v
             \<and> (u = v \<longrightarrow> xr_admission y = xr_admission x \<and> xr_liveness y = xr_liveness x
                  \<and> xr_publication y = xr_publication x \<and> xr_outcome_sha256 y = xr_outcome_sha256 x
                  \<and> xr_fault_code y = xr_fault_code x)))"

definition advances :: "tables \<Rightarrow> tables \<Rightarrow> bool" where
  "advances t u \<longleftrightarrow>
     (\<forall>r \<in> set (tb_schedules t). \<exists>q \<in> set (tb_schedules u). schedule_advances r q)
     \<and> (\<forall>x \<in> set (tb_occurrences t). \<exists>y \<in> set (tb_occurrences u). occurrence_advances x y)
     \<and> set (tb_spans t) \<subseteq> set (tb_spans u)"

lemma schedule_advances_refl [simp]: "schedule_advances r r"
  by (simp add: schedule_advances_def)

lemma occurrence_advances_refl [simp]: "occurrence_advances x x"
  by (simp add: occurrence_advances_def split: option.split)

lemma advances_refl [simp]: "advances t t"
  by (auto simp: advances_def intro: schedule_advances_refl occurrence_advances_refl)

lemma schedule_advances_trans:
  "schedule_advances a b \<Longrightarrow> schedule_advances b c \<Longrightarrow> schedule_advances a c"
  by (cases a; cases b; cases c) (auto simp: schedule_advances_def)

lemma occurrence_advances_trans:
  assumes "occurrence_advances a b" "occurrence_advances b c"
  shows "occurrence_advances a c"
  using assms
  by (cases "xr_observed_at a"; cases "xr_observed_at b"; cases "xr_observed_at c")
    (auto simp: occurrence_advances_def same_identity_def)

lemma advances_trans: "advances a b \<Longrightarrow> advances b c \<Longrightarrow> advances a c"
  unfolding advances_def
  by (meson schedule_advances_trans occurrence_advances_trans subset_trans)

lemma ValidateState_None:
  "ValidateState st = None \<longleftrightarrow> st = StateEnabled \<or> st = StatePaused \<or> st = StateDeleted"
  by (simp add: ValidateState_def)

text \<open>A row changed in place: one schedule row under \<open>modify_schedule\<close>.\<close>

lemma modify_schedule_advances:
  assumes "schedules_ok t" "find_schedule sid t = Some r" "schedule_advances r (f r)"
    and "tb_schedules u = tb_schedules t" "set (tb_occurrences t) \<subseteq> set (tb_occurrences u)"
      "set (tb_spans t) \<subseteq> set (tb_spans u)"
  shows "advances t (modify_schedule sid f u)"
proof -
  have "\<exists>q \<in> set (tb_schedules (modify_schedule sid f u)). schedule_advances x q"
    if "x \<in> set (tb_schedules t)" for x
  proof (cases "sr_id x = sid")
    case True
    with that assms(1,2) have "x = r" using find_schedule_unique by fastforce
    with True that assms(3,4) show ?thesis by force
  next
    case False
    with that assms(4) show ?thesis by force
  qed
  moreover have "\<exists>y \<in> set (tb_occurrences (modify_schedule sid f u)). occurrence_advances x y"
    if "x \<in> set (tb_occurrences t)" for x
    using that assms(5) occurrence_advances_refl by (metis modify_schedule_simps(2) subsetD)
  ultimately show ?thesis
    using assms(6) by (simp only: advances_def modify_schedule_simps) blast
qed

lemma occurrence_update_advances:
  assumes "\<forall>x \<in> set (tb_occurrences t). P x \<longrightarrow> occurrence_advances x (f x)"
  shows "advances t (t\<lparr>tb_occurrences := map (\<lambda>x. if P x then f x else x) (tb_occurrences t)\<rparr>)"
proof -
  have "\<exists>y \<in> set (map (\<lambda>x. if P x then f x else x) (tb_occurrences t)). occurrence_advances x y"
    if "x \<in> set (tb_occurrences t)" for x
    using assms that by (intro bexI [of _ "if P x then f x else x"]) auto
  then show ?thesis
    by (auto simp: advances_def intro: schedule_advances_refl)
qed

lemma set_cursor_advances:
  "schedule_update_fault ss True r (set_cursor n r) = None \<Longrightarrow> schedule_advances r (set_cursor n r)"
  by (cases r) (auto simp: schedule_advances_def schedule_update_fault_def set_cursor_def split: if_splits)

lemma set_state_advances:
  "schedule_update_fault True sc r (set_state st r) = None \<Longrightarrow> schedule_advances r (set_state st r)"
  by (cases r) (auto simp: schedule_advances_def schedule_update_fault_def set_state_def split: if_splits)

lemma set_both_advances:
  "schedule_update_fault True True r ((set_cursor n \<circ> set_state st) r) = None
     \<Longrightarrow> schedule_advances r ((set_cursor n \<circ> set_state st) r)"
  by (cases r) (auto simp: schedule_advances_def schedule_update_fault_def set_state_def
      set_cursor_def split: if_splits)

lemma observation_hit_advances:
  "observation_hit r x \<Longrightarrow> occurrence_advances x (set_observation (oo_observation r) x)"
  by (auto simp: observation_hit_def occurrence_advances_def set_observation_def same_identity_def
      split: option.splits)

lemma release_hit_advances:
  "release_hit r x \<Longrightarrow> occurrence_advances x (set_release (or_release r) x)"
  by (auto simp: release_hit_def occurrence_advances_def set_release_def same_identity_def
      split: option.splits)

lemma effect_advances:
  assumes "effect t t'" "store_ok t"
  shows "advances t t'"
proof -
  have ok: "schedules_ok t" using assms(2) by (simp add: store_ok_def tables_ok_def)
  from assms(1) show ?thesis
  proof cases
    case (eff_create d row)
    then show ?thesis
      by (auto simp: insert_schedule_Inr advances_def intro: schedule_advances_refl
          occurrence_advances_refl)
  next
    case (eff_change c en)
    from change_state_body_Inr [OF eff_change(2) ok] show ?thesis
      by (auto simp: skip_effect_def Span_def split: option.splits
          intro!: modify_schedule_advances [OF ok] set_state_advances set_both_advances
          simp del: o_apply)
  next
    case (eff_claim c en)
    from armOccurrence_Inr [OF eff_claim(2) ok] show ?thesis
      by (auto simp: arm_effect_def intro!: modify_schedule_advances [OF ok] set_cursor_advances)
  next
    case (eff_observe r en)
    from observation_body_Inr [OF eff_observe(2)] show ?thesis
      by (simp add: occurrence_update_advances observation_hit_advances)
  next
    case (eff_release r en)
    from release_body_Inr [OF eff_release(2)] show ?thesis
      by (simp add: occurrence_update_advances release_hit_advances)
  next
    case (eff_skip k en)
    from record_skip_body_Inr [OF eff_skip(2) ok] show ?thesis
      by (auto simp: skip_effect_def intro!: modify_schedule_advances [OF ok] set_cursor_advances)
  qed simp
qed

section \<open>Reachable databases\<close>

text \<open>Any sequence of initializations and operations from a new empty file, under any driver.\<close>

inductive reachable :: "store \<Rightarrow> database \<Rightarrow> bool" for s where
  reach_new: "reachable s empty_database"
| reach_initialize: "reachable s db \<Longrightarrow> reachable s (snd (initializeWithConnector s en schemaObjects db))"
| reach_operation: "reachable s db \<Longrightarrow> reachable s (perform s en op db)"

inductive runs :: "store \<Rightarrow> database \<Rightarrow> database \<Rightarrow> bool" for s where
  runs_refl: "runs s db db"
| runs_step: "runs s db db1 \<Longrightarrow> runs s db (perform s en op db1)"

lemma create_objects_tables: "create_objects en bs db = Inr db' \<Longrightarrow> db_tables db' = db_tables db"
  by (induction en bs db rule: create_objects.induct)
    (auto simp: sql_Inr create_object_def split: sum.splits if_splits)

lemma initialize_tables: "initialize s en objects db = Inr (x, db') \<Longrightarrow> db_tables db' = db_tables db"
  by (auto simp: initialize_def bind_result_Inr_iff check_then_Inr_iff sql_Inr
      dest!: create_objects_tables split: if_splits)

lemma initializeWithConnector_tables:
  "db_tables (snd (initializeWithConnector s en objects db)) = db_tables db"
proof -
  obtain r db' where op: "transact en (connectionGuard s en) (initialize s en objects) db = (r, db')"
    by fastforce
  then show ?thesis
    using transact_db [OF op] initialize_tables by (fastforce simp: initializeWithConnector_def)
qed

lemma reachable_store_ok: "reachable s db \<Longrightarrow> store_ok (db_tables db)"
proof (induction rule: reachable.induct)
  case reach_new
  then show ?case by (simp add: empty_database_def store_ok_empty)
next
  case (reach_initialize db en)
  then show ?case by (simp add: initializeWithConnector_tables)
next
  case (reach_operation db en op)
  then show ?case using effect_store_ok [OF perform_effect] by blast
qed

lemma runs_reachable: "runs s db db' \<Longrightarrow> reachable s db \<Longrightarrow> reachable s db'"
  by (induction rule: runs.induct) (auto intro: reach_operation)

lemma runs_advances: "runs s db db' \<Longrightarrow> reachable s db \<Longrightarrow> advances (db_tables db) (db_tables db')"
proof (induction rule: runs.induct)
  case (runs_step db db1 en op)
  then have "store_ok (db_tables db1)"
    using runs_reachable reachable_store_ok by blast
  with runs_step show ?case
    using advances_trans effect_advances [OF perform_effect] by blast
qed simp

end
