(* ===== verification/Sched_Codec.thy ===== *)
theory Sched_Codec
  imports Sched_Reach
begin

text \<open>
  What the store writes it reads back: round trips of schedule, occurrence, observation, release and
  span rows, and the invariant that every stored row of a reachable database decodes.
\<close>

section \<open>Characterisation of the validators\<close>

lemma ValidateObservation_None:
  "ValidateObservation ob = None \<longleftrightarrow>
     valid_instant (ob_observed_at ob)
     \<and> (\<forall>n. ob_admission ob \<noteq> AdmissionOther n) \<and> (\<forall>n. ob_liveness ob \<noteq> LivenessOther n)
     \<and> (\<forall>n. ob_publication ob \<noteq> PublicationOther n)
     \<and> (if ob_publication ob = PublicationCommitted \<or> ob_publication ob = PublicationRejected
        then hex64Pattern (ob_outcome_sha256 ob) else ob_outcome_sha256 ob = [])
     \<and> (ob_fault_code ob = [] \<or> codePattern (ob_fault_code ob))"
  by (cases "ob_publication ob"; cases "ob_admission ob"; cases "ob_liveness ob")
    (auto simp: ValidateObservation_def first_error_None_iff go_check validateAdmission_def
      validateLiveness_def publicationHasOutcome_def validateCode_def)

lemma ValidateRelease_None:
  "ValidateRelease r = None \<longleftrightarrow>
     valid_instant (rl_released_at r)
     \<and> (rl_kind r = ReleaseNotCreated \<and> codePattern (rl_ref r)
        \<or> rl_kind r = ReleaseClosed \<and> hex64Pattern (rl_ref r))"
  by (auto simp: ValidateRelease_def first_error_None_iff go_check validateCode_def)

lemma ValidateSkipSpan_None:
  "ValidateSkipSpan s = None \<longleftrightarrow>
     ValidateSkipReason (sp_reason s) = None \<and> valid_instant (sp_from s) \<and> valid_instant (sp_to s)
     \<and> t_ns (sp_from s) < t_ns (sp_to s)"
  by (auto simp: ValidateSkipSpan_def first_error_None_iff go_check after_def)

lemma ValidateClaim_None:
  "ValidateClaim c = None \<longleftrightarrow>
     hexPattern (cl_schedule_id c) \<and> hexPattern (cl_task_id c)
     \<and> valid_instant (cl_expected_cursor c) \<and> valid_instant (cl_due c)
     \<and> t_ns (cl_expected_cursor c) < t_ns (cl_due c) \<and> valid_instant (cl_armed_at c)"
  by (auto simp: ValidateClaim_def first_error_None_iff go_check validateScheduleID_def after_def)

lemma ValidateOccurrence_None:
  "ValidateOccurrence x = None \<longleftrightarrow>
     hexPattern (oc_task_id x) \<and> hexPattern (oc_schedule_id x) \<and> valid_instant (oc_due x)
     \<and> valid_instant (oc_armed_at x)
     \<and> (\<forall>ob. oc_observation x = Some ob \<longrightarrow> ValidateObservation ob = None)
     \<and> (\<forall>r. oc_release x = Some r \<longrightarrow> ValidateRelease r = None)"
  by (auto simp: ValidateOccurrence_def first_error_None_iff go_check validateScheduleID_def
      split: option.splits)

section \<open>Occurrence rows\<close>

lemma admission_round_trip: "(\<forall>n. a \<noteq> AdmissionOther n) \<Longrightarrow>
    admission_of (nat (admission_number a)) = a \<and> 0 \<le> admission_number a \<and> admission_number a \<le> 2"
  by (cases a) (auto simp: admission_of_def)

lemma liveness_round_trip: "(\<forall>n. a \<noteq> LivenessOther n) \<Longrightarrow>
    liveness_of (nat (liveness_number a)) = a \<and> 0 \<le> liveness_number a \<and> liveness_number a \<le> 2"
  by (cases a) (auto simp: liveness_of_def)

lemma publication_round_trip: "(\<forall>n. a \<noteq> PublicationOther n) \<Longrightarrow>
    publication_of (nat (publication_number a)) = a \<and> 0 \<le> publication_number a \<and> publication_number a \<le> 3"
  by (cases a) (auto simp: publication_of_def)

lemma smallEnum_Inr: "0 \<le> n \<Longrightarrow> n \<le> 255 \<Longrightarrow> smallEnum name n = Inr (nat n)"
  by (simp add: smallEnum_def)

lemma optionalText_nullable [simp]: "optionalText name (nullableText s) = Inr s"
  by (simp add: optionalText_def nullableText_def)

lemma errors_join_Nones [simp]:
  "errors_join [None, None, None, None, None] = None" "errors_join [None, None, None] = None"
  by (simp_all add: errors_join_def map_filter_simps)

lemma allEqual_simps [simp]: "allEqual (b # bs) \<longleftrightarrow> list_all (\<lambda>v. v = b) bs"
  by (simp add: allEqual_def)

lemma row_observation_set:
  assumes "ValidateObservation ob = None"
  shows "row_observation (set_observation ob x) = Inr (Some ob)"
proof -
  note v = assms [unfolded ValidateObservation_None]
  have a: "smallEnum ''admission'' (admission_number (ob_admission ob)) = Inr (nat (admission_number (ob_admission ob)))"
    and l: "smallEnum ''liveness'' (liveness_number (ob_liveness ob)) = Inr (nat (liveness_number (ob_liveness ob)))"
    and p: "smallEnum ''publication'' (publication_number (ob_publication ob))
              = Inr (nat (publication_number (ob_publication ob)))"
    using v admission_round_trip [of "ob_admission ob"] liveness_round_trip [of "ob_liveness ob"]
      publication_round_trip [of "ob_publication ob"]
    by (auto intro!: smallEnum_Inr)
  have "utc_time (t_ns (ob_observed_at ob)) = ob_observed_at ob"
    using v valid_instant_eq by blast
  then show ?thesis
    using v a l p admission_round_trip [of "ob_admission ob"] liveness_round_trip [of "ob_liveness ob"]
      publication_round_trip [of "ob_publication ob"]
    by (simp add: row_observation_def set_observation_def null_int_def right_or_def Let_def
        InstantFromUnixNanos_def)
qed

lemma row_release_set:
  assumes "ValidateRelease rel = None"
  shows "row_release (set_release rel x) = Inr (Some rel)"
  using assms valid_instant_eq
  by (simp add: row_release_def set_release_def null_int_def null_text_def ValidateRelease_None
      InstantFromUnixNanos_def)

lemma set_observation_fields [simp]:
  "xr_task_id (set_observation ob x) = xr_task_id x"
  "xr_schedule_id (set_observation ob x) = xr_schedule_id x"
  "xr_due (set_observation ob x) = xr_due x"
  "xr_armed_at (set_observation ob x) = xr_armed_at x"
  "xr_released_at (set_observation ob x) = xr_released_at x"
  "xr_release_kind (set_observation ob x) = xr_release_kind x"
  "xr_release_ref (set_observation ob x) = xr_release_ref x"
  by (simp_all add: set_observation_def)

lemma set_release_fields [simp]:
  "xr_task_id (set_release rel x) = xr_task_id x"
  "xr_schedule_id (set_release rel x) = xr_schedule_id x"
  "xr_due (set_release rel x) = xr_due x"
  "xr_armed_at (set_release rel x) = xr_armed_at x"
  "xr_observed_at (set_release rel x) = xr_observed_at x"
  "xr_admission (set_release rel x) = xr_admission x"
  "xr_liveness (set_release rel x) = xr_liveness x"
  "xr_publication (set_release rel x) = xr_publication x"
  "xr_outcome_sha256 (set_release rel x) = xr_outcome_sha256 x"
  "xr_fault_code (set_release rel x) = xr_fault_code x"
  by (simp_all add: set_release_def)

lemma row_release_set_observation [simp]: "row_release (set_observation ob x) = row_release x"
  unfolding row_release_def set_observation_fields ..

lemma row_observation_set_release [simp]: "row_observation (set_release rel x) = row_observation x"
  unfolding row_observation_def set_release_fields ..

lemma row_occurrence_Inr:
  "row_occurrence x = Inr y \<longleftrightarrow>
     row_observation x = Inr (oc_observation y) \<and> row_release x = Inr (oc_release y)
     \<and> oc_task_id y = xr_task_id x \<and> oc_schedule_id y = xr_schedule_id x
     \<and> oc_due y = utc_time (xr_due x) \<and> oc_armed_at y = utc_time (xr_armed_at x)
     \<and> ValidateOccurrence y = None"
  by (cases y) (auto simp: row_occurrence_def map_err_Inr_iff bind_result_Inr_iff check_then_Inr_iff Let_def
      InstantFromUnixNanos_def)

text \<open>The three writes of an occurrence row, read back.\<close>

definition armed_occurrence :: "claim \<Rightarrow> occurrence" where
  "armed_occurrence c = \<lparr>oc_task_id = cl_task_id c, oc_schedule_id = cl_schedule_id c,
     oc_due = cl_due c, oc_armed_at = cl_armed_at c, oc_observation = None, oc_release = None\<rparr>"

lemma row_occurrence_armed:
  assumes "ValidateClaim c = None"
  shows "row_occurrence (armed_row c) = Inr (armed_occurrence c)"
  using assms valid_instant_eq
  by (auto simp: row_occurrence_Inr armed_row_def armed_occurrence_def row_observation_def
      row_release_def ValidateClaim_None ValidateOccurrence_None)

lemma row_occurrence_observed:
  assumes "row_occurrence x = Inr y" "ValidateObservation ob = None"
  shows "row_occurrence (set_observation ob x) = Inr (y\<lparr>oc_observation := Some ob\<rparr>)"
  using assms row_observation_set [OF assms(2)]
  by (auto simp: row_occurrence_Inr ValidateOccurrence_None)

lemma row_occurrence_released:
  assumes "row_occurrence x = Inr y" "ValidateRelease rel = None"
  shows "row_occurrence (set_release rel x) = Inr (y\<lparr>oc_release := Some rel\<rparr>)"
  using assms row_release_set [OF assms(2)]
  by (auto simp: row_occurrence_Inr ValidateOccurrence_None)

section \<open>Spans and schedules\<close>

lemma row_span_of:
  assumes "ValidateSkipSpan k = None"
  shows "row_span (span_row_of sid k) = Inr k"
proof -
  have "utc_time (t_ns (sp_from k)) = sp_from k" "utc_time (t_ns (sp_to k)) = sp_to k"
    using assms valid_instant_eq by (auto simp: ValidateSkipSpan_None)
  then show ?thesis
    using assms by (cases k) (simp add: row_span_def span_row_of_def InstantFromUnixNanos_def Let_def)
qed

lemma encodeRequest_DecodeRequest:
  assumes "encodeRequest r = Inr bs"
  shows "DecodeRequest bs = Inr r"
proof -
  have "decode_request_strict bs = Inr r"
    using assms by (auto simp: encodeRequest_Inr)
  with assms show ?thesis by (simp add: DecodeRequest_def)
qed

lemma ValidateDefinition_None:
  "ValidateDefinition d = None \<longleftrightarrow>
     validateHeader (df_header d) = None \<and> validateBriefLength (int (length (df_brief d))) = None"
  by (simp add: ValidateDefinition_def first_error_None_iff)

text \<open>What a schedule row decodes to.\<close>

lemma row_schedule_Inr:
  "row_schedule r = Inr s \<longleftrightarrow>
     row_header r = Inr (df_header (sc_definition s)) \<and> df_brief (sc_definition s) = sr_brief r
     \<and> sc_state s = sr_state r \<and> sc_cursor s = utc_time (sr_cursor r)
     \<and> VerifyDefinitionDigests (sc_definition s) (row_digests r) = None \<and> ValidateSchedule s = None"
proof -
  have "(\<exists>h. row_header r = Inr h \<and> s = \<lparr>sc_definition = \<lparr>df_header = h, df_brief = sr_brief r\<rparr>,
           sc_state = sr_state r, sc_cursor = utc_time (sr_cursor r)\<rparr>)
      \<longleftrightarrow> row_header r = Inr (df_header (sc_definition s)) \<and> df_brief (sc_definition s) = sr_brief r
          \<and> sc_state s = sr_state r \<and> sc_cursor s = utc_time (sr_cursor r)"
    by (cases s; cases "sc_definition s") auto
  then show ?thesis
    by (auto simp: row_schedule_def bind_result_Inr_iff Let_def InstantFromUnixNanos_def
        split: option.splits)
qed

lemma prepared_row_decodes:
  assumes "prepared_row d = Inr row"
  shows "row_schedule row =
    Inr \<lparr>sc_definition = d, sc_state = StateEnabled, sc_cursor = dh_created_at (df_header d)\<rparr>"
proof -
  obtain g q where valid: "ValidateDefinition d = None" and g: "DefinitionDigests d = Inr g"
    and q: "encodeRequest (dh_request (df_header d)) = Inr q"
    and row: "row = initial_row
        \<lparr>sc_definition = d, sc_state = StateEnabled, sc_cursor = dh_created_at (df_header d)\<rparr> g q"
    using assms
    by (auto simp: prepared_row_def InitialSchedule_def MarshalRequest_def bind_result_Inr_iff
        check_then_Inr_iff)
  have created: "valid_instant (dh_created_at (df_header d))"
    using valid by (simp add: ValidateDefinition_None validateHeader_def first_error_None_iff go_check)
  then have time: "utc_time (t_ns (dh_created_at (df_header d))) = dh_created_at (df_header d)"
    by (rule valid_instant_eq)
  have header: "row_header row = Inr (df_header d)"
    using encodeRequest_DecodeRequest [OF q] time
    by (simp add: row_header_def row initial_row_def InstantFromUnixNanos_def Let_def)
  have "VerifyDefinitionDigests d g = None"
    using g by (simp add: VerifyDefinitionDigests_def)
  moreover have "ValidateSchedule \<lparr>sc_definition = d, sc_state = StateEnabled,
      sc_cursor = dh_created_at (df_header d)\<rparr> = None"
    using valid created
    by (simp add: ValidateSchedule_def validateMutable_def first_error_None_iff go_check
        ValidateState_None before_def)
  moreover have "row_digests row = g" "sr_brief row = df_brief d" "sr_state row = StateEnabled"
    "sr_cursor row = t_ns (dh_created_at (df_header d))"
    by (simp_all add: row initial_row_def row_digests_def Let_def)
  ultimately show ?thesis
    using header time by (simp add: row_schedule_Inr)
qed

section \<open>Every stored row decodes\<close>

definition decodes :: "(error + 'a) \<Rightarrow> bool" where
  "decodes r = (case r of Inl _ \<Rightarrow> False | Inr _ \<Rightarrow> True)"

definition rows_decode :: "tables \<Rightarrow> bool" where
  "rows_decode t \<longleftrightarrow>
     (\<forall>r \<in> set (tb_schedules t). decodes (row_schedule r))
     \<and> (\<forall>x \<in> set (tb_occurrences t). decodes (row_occurrence x))
     \<and> (\<forall>k \<in> set (tb_spans t). decodes (row_span k))"

lemma decodes_iff: "decodes r \<longleftrightarrow> (\<exists>x. r = Inr x)"
  by (cases r) (auto simp: decodes_def)

lemma row_schedule_mutable:
  assumes "row_schedule r = Inr s" "row_header q = row_header r" "sr_brief q = sr_brief r"
    "row_digests q = row_digests r" "ValidateState (sr_state q) = None" "int64 (sr_cursor q)"
    "sr_cursor r \<le> sr_cursor q"
  shows "row_schedule q
    = Inr (s\<lparr>sc_state := sr_state q, sc_cursor := utc_time (sr_cursor q)\<rparr>)"
proof -
  have "\<not> before (utc_time (sr_cursor r)) (dh_created_at (df_header (sc_definition s)))"
    using assms(1)
    by (auto simp: row_schedule_Inr ValidateSchedule_def validateMutable_def first_error_None_iff)
  with assms show ?thesis
    by (auto simp: row_schedule_Inr ValidateSchedule_def validateMutable_def first_error_None_iff
        go_check before_def)
qed

lemma row_header_update [simp]:
  "row_header (set_state st r) = row_header r" "row_header (set_cursor n r) = row_header r"
  "row_digests (set_state st r) = row_digests r" "row_digests (set_cursor n r) = row_digests r"
  "sr_brief (set_state st r) = sr_brief r" "sr_brief (set_cursor n r) = sr_brief r"
  by (simp_all add: row_header_def row_digests_def set_state_def set_cursor_def split: sum.split)

lemma decodes_set_cursor:
  assumes "decodes (row_schedule r)" "int64 n" "sr_cursor r \<le> n"
  shows "decodes (row_schedule (set_cursor n r))"
proof -
  obtain s where s: "row_schedule r = Inr s" using assms(1) by (auto simp: decodes_iff)
  then have "ValidateState (sr_state (set_cursor n r)) = None"
    by (auto simp: row_schedule_Inr ValidateSchedule_def validateMutable_def first_error_None_iff)
  with row_schedule_mutable [OF s, of "set_cursor n r"] assms show ?thesis
    by (simp add: decodes_iff)
qed

lemma decodes_set_state:
  assumes "decodes (row_schedule r)" "ValidateState st = None"
  shows "decodes (row_schedule (set_state st r))"
proof -
  obtain s where s: "row_schedule r = Inr s" using assms(1) by (auto simp: decodes_iff)
  then have "int64 (sr_cursor (set_state st r))"
    by (auto simp: row_schedule_Inr ValidateSchedule_def validateMutable_def first_error_None_iff go_check)
  with row_schedule_mutable [OF s, of "set_state st r"] assms show ?thesis
    by (simp add: decodes_iff)
qed

lemma modify_rows_decode:
  assumes "rows_decode t" "schedules_ok t" "find_schedule sid t = Some r"
    and "tb_schedules u = tb_schedules t" "decodes (row_schedule (f r))"
    and "\<forall>x \<in> set (tb_occurrences u). decodes (row_occurrence x)"
    and "\<forall>k \<in> set (tb_spans u). decodes (row_span k)"
  shows "rows_decode (modify_schedule sid f u)"
proof -
  have "x \<in> set (tb_schedules t) \<Longrightarrow> sr_id x = sid \<Longrightarrow> x = r" for x
    using find_schedule_unique [OF assms(2)] assms(3) by fastforce
  with assms show ?thesis
    by (auto simp: rows_decode_def)
qed

lemma effect_rows_decode:
  assumes "effect t t'" "store_ok t" "rows_decode t"
  shows "rows_decode t'"
proof -
  have ok: "schedules_ok t" using assms(2) by (simp add: store_ok_def tables_ok_def)
  have at: "decodes (row_schedule r)" if "find_schedule sid t = Some r" for sid r
    using assms(3) find_schedule_SomeD [OF that] by (simp add: rows_decode_def)
  from assms(1) show ?thesis
  proof cases
    case (eff_create d row)
    then show ?thesis
      using assms(3) prepared_row_decodes [OF eff_create(1)]
      by (auto simp: insert_schedule_Inr rows_decode_def decodes_iff)
  next
    case (eff_change c en)
    have to: "ValidateState (ch_to c) = None"
      using eff_change(1) by (simp add: ValidateStateChange_def first_error_None_iff)
    obtain r where r: "find_schedule (ch_schedule_id c) t = Some r"
      and rest: "case ch_resume c of
         None \<Rightarrow> t' = modify_schedule (ch_schedule_id c) (set_state (ch_to c)) t
       | Some rs \<Rightarrow> schedule_update_fault True True r
                     ((set_cursor (t_ns (rs_to rs)) \<circ> set_state (ch_to c)) r) = None
                 \<and> t' = skip_effect (ch_schedule_id c) (Span rs) (set_state (ch_to c)) t"
      using change_state_body_Inr [OF eff_change(2) ok] by (auto split: option.splits)
    show ?thesis
    proof (cases "ch_resume c")
      case None
      with rest have t': "t' = modify_schedule (ch_schedule_id c) (set_state (ch_to c)) t" by simp
      show ?thesis
        unfolding t' using assms(3) decodes_set_state [OF at [OF r] to]
        by (intro modify_rows_decode [OF assms(3) ok r]) (auto simp: rows_decode_def)
    next
      case (Some rs)
      with rest have upd: "schedule_update_fault True True r
            ((set_cursor (t_ns (rs_to rs)) \<circ> set_state (ch_to c)) r) = None"
        and t': "t' = skip_effect (ch_schedule_id c) (Span rs) (set_state (ch_to c)) t"
        by simp_all
      have span: "ValidateSkipSpan (Span rs) = None"
        using eff_change(1) Some by (simp add: ValidateStateChange_def first_error_None_iff)
      then have "int64 (t_ns (rs_to rs))"
        by (simp add: ValidateSkipSpan_None Span_def valid_instant_def)
      then have "decodes (row_schedule (set_cursor (t_ns (rs_to rs)) (set_state (ch_to c) r)))"
        using decodes_set_state [OF at [OF r] to] schedule_update_forward [OF upd]
        by (intro decodes_set_cursor) auto
      then show ?thesis
        unfolding t' skip_effect_def using assms(3) row_span_of [OF span]
        by (intro modify_rows_decode [OF assms(3) ok r]) (auto simp: rows_decode_def decodes_iff Span_def)
    qed
  next
    case (eff_claim c en)
    from armOccurrence_Inr [OF eff_claim(2) ok] obtain r where
      r: "find_schedule (cl_schedule_id c) t = Some r"
      and upd: "schedule_update_fault False True r (set_cursor (t_ns (cl_due c)) r) = None"
      and t': "t' = arm_effect c t" by auto
    have "int64 (t_ns (cl_due c))"
      using eff_claim(1) by (simp add: ValidateClaim_None valid_instant_def)
    then have "decodes (row_schedule (set_cursor (t_ns (cl_due c)) r))"
      using schedule_update_forward [OF upd] by (intro decodes_set_cursor [OF at [OF r]]) auto
    then show ?thesis
      unfolding t' arm_effect_def using assms(3) row_occurrence_armed [OF eff_claim(1)]
      by (intro modify_rows_decode [OF assms(3) ok r]) (auto simp: rows_decode_def decodes_iff)
  next
    case (eff_observe q en)
    note body = observation_body_Inr [OF eff_observe(2)]
    have "ValidateObservation (oo_observation q) = None"
      using eff_observe(1) by (simp add: ValidateOccurrenceObservation_def first_error_None_iff)
    then show ?thesis
      unfolding body [THEN conjunct2] using assms(3) row_occurrence_observed
      by (fastforce simp: rows_decode_def decodes_iff)
  next
    case (eff_release q en)
    note body = release_body_Inr [OF eff_release(2)]
    have "ValidateRelease (or_release q) = None"
      using eff_release(1) by (simp add: ValidateOccurrenceRelease_def first_error_None_iff)
    then show ?thesis
      unfolding body [THEN conjunct2] using assms(3) row_occurrence_released
      by (fastforce simp: rows_decode_def decodes_iff)
  next
    case (eff_skip k en)
    from record_skip_body_Inr [OF eff_skip(2) ok] obtain r where
      r: "find_schedule (sk_schedule_id k) t = Some r"
      and upd: "schedule_update_fault False True r (set_cursor (t_ns (sp_to (sk_span k))) r) = None"
      and t': "t' = skip_effect (sk_schedule_id k) (sk_span k) id t" by auto
    have span: "ValidateSkipSpan (sk_span k) = None"
      using eff_skip(1) by (simp add: ValidateSkip_def first_error_None_iff)
    then have "int64 (t_ns (sp_to (sk_span k)))"
      by (simp add: ValidateSkipSpan_None valid_instant_def)
    then have "decodes (row_schedule (set_cursor (t_ns (sp_to (sk_span k))) r))"
      using schedule_update_forward [OF upd] by (intro decodes_set_cursor [OF at [OF r]]) auto
    then show ?thesis
      unfolding t' skip_effect_def using assms(3) row_span_of [OF span]
      by (intro modify_rows_decode [OF assms(3) ok r]) (auto simp: rows_decode_def decodes_iff)
  qed (use assms(3) in simp)
qed

lemma reachable_rows_decode: "reachable s db \<Longrightarrow> rows_decode (db_tables db)"
proof (induction rule: reachable.induct)
  case reach_new
  then show ?case by (simp add: empty_database_def rows_decode_def empty_tables_def)
next
  case (reach_initialize db en)
  then show ?case by (simp add: initializeWithConnector_tables)
next
  case (reach_operation db en op)
  then show ?case using effect_rows_decode [OF perform_effect] reachable_store_ok by blast
qed

end
