(* ===== verification/Sched_Pages.thy ===== *)
theory Sched_Pages
  imports Sched_Codec "HOL-Library.Multiset"
begin

text \<open>
  The order and completeness of the store's pages: what the paged queries return in terms of all the
  stored rows, and the merge of two newest-first lists that makes a history page.
\<close>

section \<open>Ascending pages\<close>

lemma scan_rows_Inr:
  "scan_rows f n rs = Inr (xs, b) \<longleftrightarrow>
     decode_rows f (take n rs) = Inr xs \<and> b = (n < length rs)"
  by (induction f n rs arbitrary: xs b rule: scan_rows.induct) (auto simp: bind_result_Inr_iff)

lemma decode_rows_Inr: "decode_rows f rs = Inr xs \<longleftrightarrow> list_all2 (\<lambda>r x. f r = Inr x) rs xs"
  by (induction rs arbitrary: xs) (auto simp: bind_result_Inr_iff list_all2_Cons1)

lemma decode_rows_total:
  "\<forall>r \<in> set rs. decodes (f r) \<Longrightarrow> \<exists>xs. decode_rows f rs = Inr xs"
  by (induction rs) (auto simp: decodes_iff)

lemma decode_rows_keys:
  assumes "decode_rows f rs = Inr xs" "\<And>r x. f r = Inr x \<Longrightarrow> g x = h r"
  shows "map g xs = map h rs"
  using assms(1) unfolding decode_rows_Inr by (induction rule: list_all2_induct) (auto simp: assms(2))

lemma map_sort_key: "map key (sort_key key rs) = sort (map key rs)"
  by (rule sym, rule properties_for_sort) (simp_all add: mset_map)

lemma page_rows_keys:
  "map key (page_rows key a n rs) = take n (sort (filter ((<) a) (map key rs)))"
  by (simp add: page_rows_def take_map [symmetric] map_sort_key filter_map o_def)

lemma page_rows_length:
  "n < length (page_rows key a (Suc n) rs) \<longleftrightarrow> n < length (filter ((<) a) (map key rs))"
  by (auto simp: page_rows_def filter_map o_def)

lemma take_page_rows: "take n (page_rows key a (Suc n) rs) = page_rows key a n rs"
  by (simp add: page_rows_def min_def)

lemma page_rows_subset: "set (page_rows key a n rs) \<subseteq> set rs"
  by (auto simp: page_rows_def dest!: in_set_takeD)

section \<open>Descending histories\<close>

definition entry_ns :: "history_entry \<Rightarrow> int" where
  "entry_ns e = (case e of OccurrenceEntry x \<Rightarrow> t_ns (oc_due x) | SkipEntry k \<Rightarrow> t_ns (sp_to k)
                 | HistoryInvalid \<Rightarrow> 0)"

definition due_ns :: "occurrence \<Rightarrow> int" where "due_ns x = t_ns (oc_due x)"
definition to_ns :: "skip_span \<Rightarrow> int" where "to_ns k = t_ns (sp_to k)"

lemma after_due [simp]:
  "after (oc_due x) (sp_to k) \<longleftrightarrow> to_ns k < due_ns x"
  "after (sp_to k) (oc_due x) \<longleftrightarrow> due_ns x < to_ns k"
  by (simp_all add: after_def due_ns_def to_ns_def)

lemma entry_ns_simps [simp]:
  "entry_ns (OccurrenceEntry x) = due_ns x" "entry_ns (SkipEntry k) = to_ns k"
  by (simp_all add: entry_ns_def due_ns_def to_ns_def)

definition descending :: "int list \<Rightarrow> int list" where "descending ns = rev (sort ns)"

lemma descending_Cons_max: "\<forall>m \<in> set ns. m \<le> n \<Longrightarrow> descending (n # ns) = n # descending ns"
proof -
  assume "\<forall>m \<in> set ns. m \<le> n"
  then have "sort (n # ns) = sort ns @ [n]"
    by (intro properties_for_sort) (auto simp: sorted_append)
  then show ?thesis by (simp add: descending_def)
qed

lemma descending_cong: "mset xs = mset ys \<Longrightarrow> descending xs = descending ys"
  by (simp add: descending_def) (metis properties_for_sort sorted_sort mset_sort)

lemma merge_entries_truncate:
  "n \<le> m \<Longrightarrow> n \<le> m' \<Longrightarrow>
     merge_entries n (take m xs) (take m' ks) = merge_entries n xs ks"
proof (induction n xs ks arbitrary: m m' rule: merge_entries.induct)
  case (3 n x xs)
  then show ?case by (cases m) auto
next
  case (4 n k ks)
  then show ?case by (cases m') auto
next
  case (5 n x xs k ks)
  from "5.prems" obtain j j' where j: "m = Suc j" "m' = Suc j'" "n \<le> j" "n \<le> j'"
    by (metis Suc_le_D Suc_le_mono)
  have "merge_entries n (take j xs) (take (Suc j') (k # ks)) = merge_entries n xs (k # ks)"
    if "after (oc_due x) (sp_to k)" using "5.IH"(1) [OF that, of j "Suc j'"] j by simp
  moreover have "merge_entries n (take (Suc j) (x # xs)) (take j' ks) = merge_entries n (x # xs) ks"
    if "\<not> after (oc_due x) (sp_to k)" "after (sp_to k) (oc_due x)"
    using "5.IH"(2) [OF that, of "Suc j" j'] j by simp
  ultimately show ?case
    using j by simp
qed simp_all

lemma merge_entries_descending:
  assumes "sorted_wrt (>) (map due_ns xs)" "sorted_wrt (>) (map to_ns ks)"
    and "set (map due_ns xs) \<inter> set (map to_ns ks) = {}"
  shows "\<exists>es. merge_entries n xs ks = Inr es
      \<and> map entry_ns es = take n (descending (map due_ns xs @ map to_ns ks))
      \<and> (\<forall>e \<in> set es. (\<exists>x \<in> set xs. e = OccurrenceEntry x) \<or> (\<exists>k \<in> set ks. e = SkipEntry k))"
  using assms
proof (induction n xs ks rule: merge_entries.induct)
  case (2 n)
  show ?case by (simp add: descending_def)
next
  case (3 n x xs)
  then have "descending (map due_ns (x # xs))
      = due_ns x # descending (map due_ns xs)"
    by (auto intro!: descending_Cons_max simp: less_imp_le)
  moreover obtain es where "merge_entries n xs [] = Inr es"
      "map entry_ns es = take n (descending (map due_ns xs))"
      "\<forall>e \<in> set es. \<exists>x \<in> set xs. e = OccurrenceEntry x"
    using 3 by auto
  ultimately show ?case by auto
next
  case (4 n k ks)
  then have "descending (map to_ns (k # ks))
      = to_ns k # descending (map to_ns ks)"
    by (auto intro!: descending_Cons_max simp: less_imp_le)
  moreover obtain es where "merge_entries n [] ks = Inr es"
      "map entry_ns es = take n (descending (map to_ns ks))"
      "\<forall>e \<in> set es. \<exists>k \<in> set ks. e = SkipEntry k"
    using 4 by auto
  ultimately show ?case by auto
next
  case (5 n x xs k ks)
  show ?case
  proof (cases "after (oc_due x) (sp_to k)")
    case True
    have "\<forall>m \<in> set (map due_ns xs). m \<le> due_ns x" "\<forall>m \<in> set (map to_ns (k # ks)). m \<le> to_ns k"
      using "5.prems" by (auto simp: less_imp_le)
    with True have "\<forall>m \<in> set (map due_ns xs @ map to_ns (k # ks)). m \<le> due_ns x"
      by (metis Un_iff after_due(1) order.trans order.strict_implies_order set_append)
    then have "descending (map due_ns (x # xs) @ map to_ns (k # ks))
        = due_ns x # descending (map due_ns xs @ map to_ns (k # ks))"
      using descending_Cons_max by simp
    moreover obtain es where "merge_entries n xs (k # ks) = Inr es"
        "map entry_ns es = take n (descending (map due_ns xs @ map to_ns (k # ks)))"
        "\<forall>e \<in> set es. (\<exists>x \<in> set xs. e = OccurrenceEntry x) \<or> (\<exists>k \<in> set (k # ks). e = SkipEntry k)"
      using "5.IH"(1) [OF True] "5.prems" by auto
    ultimately show ?thesis using True by auto
  next
    case False
    with "5.prems" have later: "after (sp_to k) (oc_due x)"
      by auto
    have "descending (map due_ns (x # xs) @ map to_ns (k # ks))
        = descending (to_ns k # map due_ns (x # xs) @ map to_ns ks)"
      by (intro descending_cong) simp
    also have "\<dots> = to_ns k # descending (map due_ns (x # xs) @ map to_ns ks)"
    proof (rule descending_Cons_max)
      have "\<forall>m \<in> set (map due_ns (x # xs)). m \<le> due_ns x" "\<forall>m \<in> set (map to_ns ks). m \<le> to_ns k"
        using "5.prems" by (auto simp: less_imp_le)
      with later show "\<forall>m \<in> set (map due_ns (x # xs) @ map to_ns ks). m \<le> to_ns k"
        by (metis Un_iff after_due(2) order.trans order.strict_implies_order set_append)
    qed
    finally have "descending (map due_ns (x # xs) @ map to_ns (k # ks))
        = to_ns k # descending (map due_ns (x # xs) @ map to_ns ks)" .
    moreover obtain es where "merge_entries n (x # xs) ks = Inr es"
        "map entry_ns es = take n (descending (map due_ns (x # xs) @ map to_ns ks))"
        "\<forall>e \<in> set es. (\<exists>x \<in> set (x # xs). e = OccurrenceEntry x) \<or> (\<exists>k \<in> set ks. e = SkipEntry k)"
      using "5.IH"(2) [OF False later] "5.prems" by auto
    ultimately show ?thesis using False later by auto
  qed
qed simp

end
