(* ===== verification/Sched_Answers.thy ===== *)
theory Sched_Answers
  imports Sched_Pages
begin

text \<open>
  What the store answers when the driver reports no fault: each mutating operation against its
  specification on the tables, errors by class.
\<close>

section \<open>Faultless transactions\<close>

definition faultless :: "engine \<Rightarrow> bool" where
  "faultless en \<longleftrightarrow>
     en_conn en = None \<and> en_begin en = None \<and> en_rollback en = None \<and> en_commit en = None
     \<and> en_close en = None \<and> en_stat en = None \<and> \<not> en_ctx_done en
     \<and> (\<forall>l. en_statement en l = None \<and> en_rows_affected en l = None
            \<and> en_rows_err en l = None \<and> en_rows_close en l = None)"

lemma faultless_healthy: "faultless healthy_engine"
  by (simp add: faultless_def healthy_engine_def)

lemma faultless_simps:
  assumes "faultless en"
  shows "en_conn en = None" "en_begin en = None" "en_rollback en = None" "en_commit en = None"
    "en_close en = None" "en_stat en = None" "\<not> en_ctx_done en" "en_statement en l = None"
    "en_rows_affected en l = None" "en_rows_err en l = None" "en_rows_close en l = None"
    "sql en l r = map_err classify r" "releaseConnection en True = None"
  using assms by (auto simp: faultless_def sql_def releaseConnection_def)

lemma operate_committed:
  assumes "faultless en" "currentGuard s en db = None" "f (db_tables db) = Inr (x, t)"
  shows "operate s en f db = (Inr x, db\<lparr>db_tables := t\<rparr>)"
  using assms
  by (simp add: operate_def transact_def on_tables_def faultless_simps finish_transaction_def
      errors_join_def map_filter_simps)

lemma operate_refused:
  assumes "faultless en" "currentGuard s en db = None" "f (db_tables db) = Inl e" "errors_is e c"
  shows "\<exists>e'. operate s en f db = (Inl e', db) \<and> errors_is e' c"
  using assms
  by (simp add: operate_def transact_def on_tables_def faultless_simps finish_transaction_def
      errors_join_def map_filter_simps)

section \<open>Claims\<close>

definition claimed_row :: "claim \<Rightarrow> tables \<Rightarrow> occurrence_row option" where
  "claimed_row c t =
     List.find (\<lambda>r. xr_schedule_id r = cl_schedule_id c \<and> xr_due r = t_ns (cl_due c)) (tb_occurrences t)"

text \<open>
  The specification of a claim: an existing reservation of the due time wins, then the schedule must
  exist, be enabled, stand at the expected cursor and have no active occurrence, and the task must be
  new. Only then is the occurrence armed and the cursor moved.
\<close>

definition claim_spec :: "claim \<Rightarrow> tables \<Rightarrow> sentinel + claim_result \<times> tables" where
  "claim_spec c t = (case claimed_row c t of
     Some x \<Rightarrow> Inr (\<lparr>cx_outcome = ClaimExisting, cx_task_id = xr_task_id x\<rparr>, t)
   | None \<Rightarrow> (case find_schedule (cl_schedule_id c) t of
       None \<Rightarrow> Inl ErrNotExist
     | Some r \<Rightarrow>
         if sr_state r = StateEnabled \<and> sr_cursor r = t_ns (cl_expected_cursor c)
            \<and> active_count (cl_schedule_id c) t = 0 \<and> find_occurrence (cl_task_id c) t = None
         then Inr (\<lparr>cx_outcome = ClaimNewlyCommitted, cx_task_id = cl_task_id c\<rparr>, arm_effect c t)
         else Inl ErrConflict))"

lemma classify_unique:
  "errors_is (classify (DriverError SQLITE_CONSTRAINT_UNIQUE)) ErrConflict"
  "errors_is (classify (DriverError SQLITE_CONSTRAINT_PRIMARYKEY)) ErrConflict"
  by (simp_all add: classify_def sqlite_codes)

lemma find_occurrence_None: "find_occurrence i t = None \<longleftrightarrow> (\<forall>x \<in> set (tb_occurrences t). xr_task_id x \<noteq> i)"
  by (auto simp: find_occurrence_def find_None_iff)

lemma find_occurrence_SomeD:
  "find_occurrence i t = Some x \<Longrightarrow> x \<in> set (tb_occurrences t) \<and> xr_task_id x = i"
  by (auto simp: find_occurrence_def find_Some_iff)

lemma claimed_row_None:
  "claimed_row c t = None \<longleftrightarrow>
     (\<forall>x \<in> set (tb_occurrences t). \<not> (xr_schedule_id x = cl_schedule_id c \<and> xr_due x = t_ns (cl_due c)))"
  by (auto simp: claimed_row_def find_None_iff)

lemma claimed_row_SomeD:
  "claimed_row c t = Some x \<Longrightarrow>
     x \<in> set (tb_occurrences t) \<and> xr_schedule_id x = cl_schedule_id c \<and> xr_due x = t_ns (cl_due c)"
  by (auto simp: claimed_row_def find_Some_iff)

lemma active_count_0:
  "active_count sid t = 0 \<longleftrightarrow> (\<forall>x \<in> set (tb_occurrences t). \<not> (xr_schedule_id x = sid \<and> active_row x))"
  by (auto simp: active_count_def filter_empty_conv)

lemma armed_row_check:
  "ValidateClaim c = None \<Longrightarrow> occurrence_check (armed_row c)"
  by (simp add: ValidateClaim_None occurrence_check_def armed_row_def observation_check_def
      release_check_def null_or_def)

lemma store_ok_scheduleState:
  assumes "store_ok t" "faultless en"
  shows "scheduleState en sid t = (case find_schedule sid t of
           None \<Rightarrow> Inl (Wrap ''schedule'' (Leaf ErrNotExist))
         | Some r \<Rightarrow> Inr (sr_state r, sr_cursor r))"
proof (cases "find_schedule sid t")
  case (Some r)
  then have "ValidateState (sr_state r) = None"
    using find_schedule_SomeD [OF Some] assms(1)
    by (auto simp: store_ok_def tables_ok_def schedules_ok_def schedule_check_def ValidateState_None)
  with Some assms(2) show ?thesis by (simp add: scheduleState_def faultless_simps)
qed (simp add: scheduleState_def faultless_simps [OF assms(2)])

lemma filter_one_row:
  assumes "schedules_ok t" "find_schedule sid t = Some r" "P r" "\<And>x. P x \<Longrightarrow> sr_id x = sid"
  shows "length (filter P (tb_schedules t)) = 1"
proof -
  have "P x \<longleftrightarrow> sr_id x = sid" if "x \<in> set (tb_schedules t)" for x
    using find_schedule_unique [OF assms(1) that refl] assms(2,3) assms(4) [of x]
    by (metis option.inject)
  then have "filter P (tb_schedules t) = filter (\<lambda>x. sr_id x = sid) (tb_schedules t)"
    by (intro filter_cong) auto
  moreover have "length (filter (\<lambda>x. sr_id x = sid) (tb_schedules t)) \<le> 1"
    using filter_unique_length [of sr_id "tb_schedules t" sid] assms(1) by (simp add: schedules_ok_def)
  moreover have "r \<in> set (filter P (tb_schedules t))"
    using assms(3) find_schedule_SomeD [OF assms(2)] by simp
  ultimately show ?thesis
    by (metis One_nat_def Suc_leI le_antisym length_pos_if_in_set)
qed

lemma updateOne_succeeds:
  assumes "schedules_ok t" "find_schedule sid t = Some r" "P r" "\<And>x. P x \<Longrightarrow> sr_id x = sid"
    and "faultless en" "schedule_update_fault ss sc r (f r) = None"
  shows "updateOne en l (update_schedules ss sc P f) t = Inr (modify_schedule sid f t)"
proof -
  have "\<forall>x \<in> set (tb_schedules t). P x \<longrightarrow> schedule_update_fault ss sc x (f x) = None"
    using find_schedule_unique [OF assms(1)] assms(2,4,6) by fastforce
  then have "update_schedules ss sc P f t = Inr (1, modify_schedule sid f t)"
    using filter_one_row [of t sid r P, OF assms(1-4)] map_update_by_id [of t sid r P f, OF assms(1-4)]
    by (simp add: update_schedules_Inr modify_schedule_def)
  then show ?thesis
    by (simp add: updateOne_def faultless_simps [OF assms(5)])
qed

lemma claimedTask_faultless:
  assumes "faultless en" "rows_decode t"
  shows "claimedTask en c t = Inr (case claimed_row c t of None \<Rightarrow> [] | Some x \<Rightarrow> xr_task_id x)"
proof (cases "claimed_row c t")
  case None
  then show ?thesis by (simp add: claimedTask_def faultless_simps [OF assms(1)] claimed_row_def)
next
  case (Some x)
  then obtain y where "row_occurrence x = Inr y"
    using assms(2) claimed_row_SomeD [OF Some] by (auto simp: rows_decode_def decodes_iff)
  then have "ValidateTaskID (xr_task_id x) = None"
    by (auto simp: row_occurrence_Inr ValidateOccurrence_None go_check)
  with Some show ?thesis by (simp add: claimedTask_def faultless_simps [OF assms(1)] claimed_row_def)
qed

lemma armOccurrence_faultless:
  assumes "faultless en" "store_ok t" "ValidateClaim c = None" "claimed_row c t = None"
  shows "case claim_spec c t of
      Inl k \<Rightarrow> (\<exists>e. armOccurrence en c t = Inl e \<and> errors_is e k)
    | Inr (res, t') \<Rightarrow> armOccurrence en c t = Inr t'"
proof (cases "find_schedule (cl_schedule_id c) t")
  case None
  then show ?thesis
    by (simp add: claim_spec_def assms(4) armOccurrence_def store_ok_scheduleState [OF assms(2,1)])
next
  case (Some r)
  note state = store_ok_scheduleState [OF assms(2,1), of "cl_schedule_id c", unfolded Some, simplified]
  have ok: "schedules_ok t" using assms(2) by (simp add: store_ok_def tables_ok_def)
  have row: "xr_task_id (armed_row c) = cl_task_id c" "xr_schedule_id (armed_row c) = cl_schedule_id c"
      "xr_due (armed_row c) = t_ns (cl_due c)"
    by (simp_all add: armed_row_def)
  show ?thesis
  proof (cases "sr_state r = StateEnabled \<and> sr_cursor r = t_ns (cl_expected_cursor c)
                \<and> active_count (cl_schedule_id c) t = 0")
    case False
    then show ?thesis
      by (auto simp: claim_spec_def assms(4) Some armOccurrence_def state faultless_simps [OF assms(1)])
  next
    case True
    show ?thesis
    proof (cases "find_occurrence (cl_task_id c) t")
      case None
      let ?t1 = "t\<lparr>tb_occurrences := tb_occurrences t @ [armed_row c]\<rparr>"
      have ins: "insert_occurrence (armed_row c) t = Inr ?t1"
        using armed_row_check [OF assms(3)] None True assms(4) Some
        by (simp add: insert_occurrence_Inr row find_occurrence_None claimed_row_None active_count_0
            has_schedule_find)
      have "schedule_check r" "sr_cursor r < t_ns (cl_due c)"
        using True assms(2,3) find_schedule_SomeD [OF Some]
        by (auto simp: store_ok_def tables_ok_def schedules_ok_def ValidateClaim_None)
      then have upd: "schedule_update_fault False True r (set_cursor (t_ns (cl_due c)) r) = None"
        by (auto simp: schedule_update_fault_def schedule_check_def set_cursor_def)
      have "armOccurrence en c t = Inr (arm_effect c t)"
        unfolding arm_effect_def
        using True ins updateOne_succeeds [of ?t1 "cl_schedule_id c" r
            "\<lambda>x. sr_id x = cl_schedule_id c \<and> sr_state x = StateEnabled \<and> sr_cursor x = sr_cursor r" en
            False True "set_cursor (t_ns (cl_due c))" "''update cursor''"] ok Some upd assms(1)
          find_schedule_SomeD [OF Some]
        by (simp add: armOccurrence_def state faultless_simps [OF assms(1)])
      with None True show ?thesis
        by (simp add: claim_spec_def assms(4) Some)
    next
      case taken: (Some x)
      then have "insert_occurrence (armed_row c) t = Inl (DriverError SQLITE_CONSTRAINT_PRIMARYKEY)"
        using armed_row_check [OF assms(3)] find_occurrence_SomeD [OF taken]
        by (auto simp: insert_occurrence_def row list_ex_iff)
      with True taken show ?thesis
        by (simp add: claim_spec_def assms(4) Some armOccurrence_def state
            faultless_simps [OF assms(1)] classify_unique)
    qed
  qed
qed

lemma ClaimAndArm_refines:
  assumes "reachable s db" "currentGuard s en db = None" "faultless en" "ValidateClaim c = None"
  shows "case claim_spec c (db_tables db) of
      Inl k \<Rightarrow> \<exists>e. ClaimAndArm s en c db
          = ((\<lparr>cx_outcome = ClaimUnknown, cx_task_id = []\<rparr>, Some e), db) \<and> errors_is e k
    | Inr (res, t') \<Rightarrow> ClaimAndArm s en c db = ((res, None), db\<lparr>db_tables := t'\<rparr>)"
proof -
  let ?t = "db_tables db"
  note ok = reachable_store_ok [OF assms(1)] and dec = reachable_rows_decode [OF assms(1)]
  show ?thesis
  proof (cases "claimed_row c ?t")
    case (Some x)
    then obtain y where "row_occurrence x = Inr y"
      using dec claimed_row_SomeD [OF Some] by (auto simp: rows_decode_def decodes_iff)
    then have "xr_task_id x \<noteq> []"
      by (auto simp: row_occurrence_Inr ValidateOccurrence_None hexPattern_def)
    then have "claim_body en c ?t = Inr (xr_task_id x, ?t)"
      using Some by (simp add: claim_body_def claimedTask_faultless [OF assms(3) dec])
    then have "operate s en (claim_body en c) db = (Inr (xr_task_id x), db\<lparr>db_tables := ?t\<rparr>)"
      by (rule operate_committed [OF assms(3,2)])
    then show ?thesis
      using Some \<open>xr_task_id x \<noteq> []\<close> by (simp add: claim_spec_def ClaimAndArm_def assms(4))
  next
    case None
    have body: "claim_body en c ?t = bind_result (armOccurrence en c ?t) (\<lambda>t'. Inr ([], t'))"
      using None by (simp add: claim_body_def claimedTask_faultless [OF assms(3) dec])
    note arm = armOccurrence_faultless [OF assms(3) ok assms(4) None]
    show ?thesis
    proof (cases "claim_spec c ?t")
      case (Inl k)
      with arm obtain e where e: "claim_body en c ?t = Inl e" "errors_is e k"
        by (auto simp: body)
      from operate_refused [of en s db "claim_body en c", OF assms(3,2) e] obtain e' where
        "operate s en (claim_body en c) db = (Inl e', db)" "errors_is e' k" by blast
      with Inl show ?thesis by (simp add: ClaimAndArm_def assms(4))
    next
      case (Inr p)
      then obtain t' where p: "p = (\<lparr>cx_outcome = ClaimNewlyCommitted, cx_task_id = cl_task_id c\<rparr>, t')"
        using None by (auto simp: claim_spec_def split: option.splits if_splits)
      with arm Inr have "claim_body en c ?t = Inr ([], t')" by (simp add: body)
      from operate_committed [of en s db "claim_body en c", OF assms(3,2) this] Inr p show ?thesis
        by (simp add: ClaimAndArm_def assms(4))
    qed
  qed
qed

section \<open>Facts about one occurrence\<close>

definition modify_occurrence :: "string \<Rightarrow> (occurrence_row \<Rightarrow> occurrence_row) \<Rightarrow> tables \<Rightarrow> tables" where
  "modify_occurrence i f t =
     t\<lparr>tb_occurrences := map (\<lambda>x. if xr_task_id x = i then f x else x) (tb_occurrences t)\<rparr>"

lemma find_occurrence_unique:
  assumes "occurrences_ok t" "x \<in> set (tb_occurrences t)" "xr_task_id x = i"
  shows "find_occurrence i t = Some x"
proof (cases "find_occurrence i t")
  case None
  with assms show ?thesis by (auto simp: find_occurrence_None)
next
  case (Some y)
  with assms find_occurrence_SomeD [OF Some] show ?thesis
    by (metis distinct_map_eqD occurrences_ok_def)
qed

lemma update_occurrences_miss:
  assumes "\<And>x. x \<in> set (tb_occurrences t) \<Longrightarrow> \<not> P x"
  shows "update_occurrences so sl P f t = Inr (0, t)"
proof -
  have "map (\<lambda>x. if P x then f x else x) (tb_occurrences t) = tb_occurrences t"
    using assms by (intro map_idI) auto
  moreover have "filter P (tb_occurrences t) = []"
    using assms by (simp add: filter_empty_conv)
  ultimately show ?thesis
    using assms by (simp add: update_occurrences_Inr)
qed

lemma update_occurrences_hit:
  assumes ok: "occurrences_ok t" and x: "find_occurrence i t = Some x" and hit: "P x"
    and only: "\<And>y. P y \<Longrightarrow> xr_task_id y = i" and fault: "occurrence_update_fault so sl x (f x) = None"
  shows "update_occurrences so sl P f t = Inr (1, modify_occurrence i f t)"
proof -
  have eq: "P y \<longleftrightarrow> xr_task_id y = i" if "y \<in> set (tb_occurrences t)" for y
    using find_occurrence_unique [OF ok that refl] x hit only [of y] by (metis option.inject)
  have "map (\<lambda>y. if P y then f y else y) (tb_occurrences t)
      = map (\<lambda>y. if xr_task_id y = i then f y else y) (tb_occurrences t)"
    using eq by (intro map_cong) auto
  moreover have "filter P (tb_occurrences t) = filter (\<lambda>y. xr_task_id y = i) (tb_occurrences t)"
    using eq by (intro filter_cong) auto
  moreover have "length (filter (\<lambda>y. xr_task_id y = i) (tb_occurrences t)) = 1"
  proof -
    have "x \<in> set (filter (\<lambda>y. xr_task_id y = i) (tb_occurrences t))"
      using find_occurrence_SomeD [OF x] by simp
    then have "0 < length (filter (\<lambda>y. xr_task_id y = i) (tb_occurrences t))"
      by (rule length_pos_if_in_set)
    moreover have "length (filter (\<lambda>y. xr_task_id y = i) (tb_occurrences t)) \<le> 1"
      using ok filter_unique_length [of xr_task_id "tb_occurrences t" i] by (simp add: occurrences_ok_def)
    ultimately show ?thesis by linarith
  qed
  moreover have "\<forall>y \<in> set (tb_occurrences t). P y \<longrightarrow> occurrence_update_fault so sl y (f y) = None"
    using eq find_occurrence_unique [OF ok _ refl] x fault by (metis option.inject)
  ultimately show ?thesis
    by (simp add: update_occurrences_Inr modify_occurrence_def)
qed

lemma hex64_nonempty: "hex64Pattern s \<Longrightarrow> s \<noteq> []"
  by (auto simp: hex64Pattern_def)

lemma null_or_simps [simp]: "null_or P None" "null_or P (Some v) = P v"
  by (simp_all add: null_or_def)

lemma set_observation_values:
  "xr_observed_at (set_observation ob x) = Some (t_ns (ob_observed_at ob))"
  "xr_admission (set_observation ob x) = Some (admission_number (ob_admission ob))"
  "xr_liveness (set_observation ob x) = Some (liveness_number (ob_liveness ob))"
  "xr_publication (set_observation ob x) = Some (publication_number (ob_publication ob))"
  "xr_outcome_sha256 (set_observation ob x) = nullableText (ob_outcome_sha256 ob)"
  "xr_fault_code (set_observation ob x) = nullableText (ob_fault_code ob)"
  by (simp_all add: set_observation_def)

lemma set_release_values:
  "xr_released_at (set_release rel x) = Some (t_ns (rl_released_at rel))"
  "xr_release_kind (set_release rel x) = Some (rl_kind rel)"
  "xr_release_ref (set_release rel x) = Some (rl_ref rel)"
  by (simp_all add: set_release_def)

lemma set_observation_check:
  assumes "occurrence_check x" "ValidateObservation ob = None"
  shows "occurrence_check (set_observation ob x)"
proof -
  note v = assms(2) [unfolded ValidateObservation_None]
  have "null_or hex64Pattern (nullableText (ob_outcome_sha256 ob))"
    "null_or codePattern (nullableText (ob_fault_code ob))"
    using v by (auto simp: nullableText_def split: if_splits)
  moreover have "(publication_number (ob_publication ob) = 2 \<or> publication_number (ob_publication ob) = 3)
      = (nullableText (ob_outcome_sha256 ob) \<noteq> None)"
    using v hex64_nonempty by (cases "ob_publication ob") (auto simp: nullableText_def)
  ultimately have "observation_check (set_observation ob x)"
    using v admission_round_trip [of "ob_admission ob"] liveness_round_trip [of "ob_liveness ob"]
      publication_round_trip [of "ob_publication ob"]
    by (simp add: observation_check_def set_observation_values)
  moreover have "release_check (set_observation ob x) = release_check x"
    unfolding release_check_def set_observation_fields ..
  ultimately show ?thesis
    using assms(1) by (simp add: occurrence_check_def)
qed

lemma set_release_check:
  assumes "occurrence_check x" "ValidateRelease rel = None"
  shows "occurrence_check (set_release rel x)"
proof -
  have "observation_check (set_release rel x) = observation_check x"
    unfolding observation_check_def set_release_fields ..
  moreover have "release_check (set_release rel x)"
    using assms(2) by (auto simp: ValidateRelease_None release_check_def set_release_values)
  ultimately show ?thesis
    using assms(1) by (simp add: occurrence_check_def)
qed

lemma readOccurrence_faultless:
  assumes "faultless en" "rows_decode t"
  shows "readOccurrence en i t = (case find_occurrence i t of
      None \<Rightarrow> Inl (Wrap ''occurrence'' (Leaf ErrNotExist))
    | Some x \<Rightarrow> row_occurrence x) \<and> (\<forall>x. find_occurrence i t = Some x \<longrightarrow> decodes (row_occurrence x))"
  using assms(2) find_occurrence_SomeD [of i t]
  by (auto simp: readOccurrence_def faultless_simps [OF assms(1)] rows_decode_def split: option.splits)

text \<open>The specification of a release: once, and a repeat must name the same kind and reference.\<close>

definition release_spec :: "occurrence_release \<Rightarrow> tables \<Rightarrow> sentinel + tables" where
  "release_spec r t = (case find_occurrence (or_task_id r) t of
     None \<Rightarrow> Inl ErrNotExist
   | Some x \<Rightarrow>
       if xr_released_at x = None
       then Inr (modify_occurrence (or_task_id r) (set_release (or_release r)) t)
       else if xr_release_kind x = Some (rl_kind (or_release r))
               \<and> xr_release_ref x = Some (rl_ref (or_release r)) then Inr t
       else Inl ErrConflict)"

lemma row_release_released:
  assumes "row_occurrence x = Inr y" "xr_released_at x \<noteq> None"
  shows "\<exists>rel. oc_release y = Some rel \<and> xr_release_kind x = Some (rl_kind rel)
      \<and> xr_release_ref x = Some (rl_ref rel)"
  using assms
  by (cases "oc_release y") (auto simp: row_occurrence_Inr row_release_def null_text_def split: if_splits)

lemma release_body_faultless:
  assumes "faultless en" "store_ok t" "rows_decode t" "ValidateOccurrenceRelease r = None"
  shows "case release_spec r t of
      Inl k \<Rightarrow> \<exists>e. release_body en r t = Inl e \<and> errors_is e k
    | Inr t' \<Rightarrow> release_body en r t = Inr t'"
proof -
  have ok: "occurrences_ok t" using assms(2) by (simp add: store_ok_def tables_ok_def)
  have valid: "ValidateRelease (or_release r) = None"
    using assms(4) by (simp add: ValidateOccurrenceRelease_def first_error_None_iff)
  note read = readOccurrence_faultless [OF assms(1,3), of "or_task_id r"]
  show ?thesis
  proof (cases "find_occurrence (or_task_id r) t")
    case None
    then have "update_occurrences False True (release_hit r) (set_release (or_release r)) t = Inr (0, t)"
      by (intro update_occurrences_miss) (auto simp: release_hit_def find_occurrence_None)
    with None read show ?thesis
      by (simp add: release_spec_def release_body_def faultless_simps [OF assms(1)])
  next
    case (Some x)
    show ?thesis
    proof (cases "xr_released_at x")
      case None
      have "occurrence_check x"
        using ok find_occurrence_SomeD [OF Some] by (auto simp: occurrences_ok_def)
      then have "occurrence_update_fault False True x (set_release (or_release r) x) = None"
        using None set_release_check [OF _ valid] by (simp add: occurrence_update_fault_def)
      then have "update_occurrences False True (release_hit r) (set_release (or_release r)) t
          = Inr (1, modify_occurrence (or_task_id r) (set_release (or_release r)) t)"
        using Some None find_occurrence_SomeD [OF Some]
        by (intro update_occurrences_hit [OF ok Some]) (auto simp: release_hit_def)
      with Some None show ?thesis
        by (simp add: release_spec_def release_body_def faultless_simps [OF assms(1)])
    next
      case (Some at)
      note found = \<open>find_occurrence (or_task_id r) t = Some x\<close>
      have "y = x" if "y \<in> set (tb_occurrences t)" "xr_task_id y = or_task_id r" for y
        using find_occurrence_unique [OF ok that] found by simp
      then have "update_occurrences False True (release_hit r) (set_release (or_release r)) t = Inr (0, t)"
        using Some by (intro update_occurrences_miss) (auto simp: release_hit_def)
      moreover obtain y where "row_occurrence x = Inr y"
        using read found by (auto simp: decodes_iff)
      moreover obtain rel where "oc_release y = Some rel" "xr_release_kind x = Some (rl_kind rel)"
          "xr_release_ref x = Some (rl_ref rel)"
        using row_release_released [OF \<open>row_occurrence x = Inr y\<close>] Some by auto
      ultimately show ?thesis
        using read found Some
        by (simp add: release_spec_def release_body_def faultless_simps [OF assms(1)]
            CheckRepeatedRelease_def)
    qed
  qed
qed

text \<open>The specification of an observation: only a strictly newer one replaces the cached one.\<close>

definition observation_spec :: "occurrence_observation \<Rightarrow> tables \<Rightarrow> sentinel + tables" where
  "observation_spec r t = (case find_occurrence (oo_task_id r) t of
     None \<Rightarrow> Inl ErrNotExist
   | Some x \<Rightarrow>
       if observation_hit r x
       then Inr (modify_occurrence (oo_task_id r) (set_observation (oo_observation r)) t)
       else Inr t)"

lemma observation_body_faultless:
  assumes "faultless en" "store_ok t" "rows_decode t" "ValidateOccurrenceObservation r = None"
  shows "case observation_spec r t of
      Inl k \<Rightarrow> \<exists>e. observation_body en r t = Inl e \<and> errors_is e k
    | Inr t' \<Rightarrow> observation_body en r t = Inr t'"
proof -
  have ok: "occurrences_ok t" using assms(2) by (simp add: store_ok_def tables_ok_def)
  have valid: "ValidateObservation (oo_observation r) = None"
    using assms(4) by (simp add: ValidateOccurrenceObservation_def first_error_None_iff)
  note read = readOccurrence_faultless [OF assms(1,3), of "oo_task_id r"]
  show ?thesis
  proof (cases "find_occurrence (oo_task_id r) t")
    case None
    then have "update_occurrences True False (observation_hit r) (set_observation (oo_observation r)) t
        = Inr (0, t)"
      by (intro update_occurrences_miss) (auto simp: observation_hit_def find_occurrence_None)
    with None read show ?thesis
      by (simp add: observation_spec_def observation_body_def faultless_simps [OF assms(1)])
  next
    case (Some x)
    have same: "y = x" if "y \<in> set (tb_occurrences t)" "xr_task_id y = oo_task_id r" for y
      using find_occurrence_unique [OF ok that] Some by simp
    show ?thesis
    proof (cases "observation_hit r x")
      case True
      have "occurrence_check x"
        using ok find_occurrence_SomeD [OF Some] by (auto simp: occurrences_ok_def)
      then have "occurrence_update_fault True False x (set_observation (oo_observation r) x) = None"
        using True set_observation_check [OF _ valid]
        by (auto simp: occurrence_update_fault_def observation_hit_def set_observation_def
            split: option.splits)
      then have "update_occurrences True False (observation_hit r) (set_observation (oo_observation r)) t
          = Inr (1, modify_occurrence (oo_task_id r) (set_observation (oo_observation r)) t)"
        using Some True
        by (intro update_occurrences_hit [OF ok Some]) (auto simp: observation_hit_def)
      with Some True show ?thesis
        by (simp add: observation_spec_def observation_body_def faultless_simps [OF assms(1)])
    next
      case False
      then have "update_occurrences True False (observation_hit r) (set_observation (oo_observation r)) t
          = Inr (0, t)"
        using same by (intro update_occurrences_miss) (auto simp: observation_hit_def)
      moreover obtain y where "row_occurrence x = Inr y"
        using read Some by (auto simp: decodes_iff)
      ultimately show ?thesis
        using read Some False
        by (simp add: observation_spec_def observation_body_def faultless_simps [OF assms(1)])
    qed
  qed
qed

section \<open>Authorizing claims\<close>

lemma claim_result_cases:
  assumes "ClaimAndArm s en c db = ((res, err), db')" "AuthorizesInvocation res"
  shows "ValidateClaim c = None \<and> err = None \<and> res = \<lparr>cx_outcome = ClaimNewlyCommitted, cx_task_id = cl_task_id c\<rparr>
    \<and> operate s en (claim_body en c) db = (Inr [], db')"
  using assms
  by (auto simp: ClaimAndArm_def AuthorizesInvocation_def split: option.splits prod.splits sum.splits if_splits)

lemma authorized_claim_body:
  assumes "ClaimAndArm s en c db = ((res, err), db')" "AuthorizesInvocation res"
  shows "\<exists>t'. armOccurrence en c (db_tables db) = Inr t' \<and> db' = db\<lparr>db_tables := t'\<rparr>
    \<and> currentGuard s en db = None \<and> en_commit en = None"
proof -
  have op: "operate s en (claim_body en c) db = (Inr [], db')"
    using claim_result_cases [OF assms] by blast
  have "en_commit en = None"
    using op by (auto simp: operate_def transact_def finish_transaction_Inr Let_def
        split: option.splits sum.splits)
  moreover obtain t' where "claim_body en c (db_tables db) = Inr ([], t')" "db' = db\<lparr>db_tables := t'\<rparr>"
      "currentGuard s en db = None"
    using operate_Inr [OF op] by blast
  ultimately show ?thesis
    by (auto simp: claim_body_def bind_result_Inr_iff split: if_splits)
qed

text \<open>Under any driver, a result that authorizes comes from a committed transaction that armed exactly this
  occurrence.\<close>

lemma authorized_commit:
  assumes "reachable s db" "ClaimAndArm s en c db = ((res, err), db')" "AuthorizesInvocation res"
  shows "err = None \<and> cx_task_id res = cl_task_id c \<and> en_commit en = None
    \<and> claimed_row c (db_tables db) = None
    \<and> db' = db\<lparr>db_tables := arm_effect c (db_tables db)\<rparr>"
proof -
  have ok: "schedules_ok (db_tables db)"
    using reachable_store_ok [OF assms(1)] by (simp add: store_ok_def tables_ok_def)
  obtain t' where t': "armOccurrence en c (db_tables db) = Inr t'" "db' = db\<lparr>db_tables := t'\<rparr>" "en_commit en = None"
    using authorized_claim_body [OF assms(2,3)] by blast
  note arm = armOccurrence_Inr [OF t'(1) ok]
  then have "claimed_row c (db_tables db) = None"
    by (auto simp: insert_occurrence_Inr claimed_row_None armed_row_def)
  then show ?thesis
    using arm t' claim_result_cases [OF assms(2,3)] by auto
qed

end
