(* ===== verification/Sched_Open.thy ===== *)
theory Sched_Open
  imports Sched_Answers
begin

text \<open>
  Creating and opening the database: initialization of the empty file, its idempotence, and the
  refusals of a file that belongs to someone else.
\<close>

text \<open>A connection opened with the pragmas of \<open>connectionPragmas\<close>, on a driver without faults.\<close>

definition settings_ok :: "store \<Rightarrow> engine \<Rightarrow> bool" where
  "settings_ok s en \<longleftrightarrow> (\<forall>(p, v) \<in> set (expected_pragmas s). en_pragma en p = Inr v)"

definition working :: "store \<Rightarrow> engine \<Rightarrow> bool" where
  "working s en \<longleftrightarrow> faultless en \<and> settings_ok s en \<and> en_db_close en = None"

lemma working_healthy: "working s healthy_engine"
  unfolding working_def
  by (intro conjI faultless_healthy) (simp_all add: settings_ok_def healthy_engine_def expected_pragmas_def)

lemma connectionGuard_working:
  assumes "working s en"
  shows "connectionGuard s en db = None \<longleftrightarrow> map ascii_lower (db_journal_mode db) = ''delete''"
proof -
  have "faultless en" "\<forall>(p, v) \<in> set (expected_pragmas s). en_pragma en p = Inr v"
    using assms by (auto simp: working_def settings_ok_def)
  then show ?thesis
    by (auto simp: connectionGuard_def first_error_None_iff faultless_simps [OF \<open>faultless en\<close>])
qed

lemma query_faultless: "faultless en \<Longrightarrow> query en l r = map_err (\<lambda>e. classify (Joined [e])) r"
  by (cases r) (simp_all add: query_def scanEach_def faultless_simps errors_join_def map_filter_simps)

lemma verifySchemaAndRoot_faultless:
  assumes "faultless en"
  shows "verifySchemaAndRoot s en db = None \<longleftrightarrow>
     db_roots db = [st_root_id s] \<and> count_expected 0 (db_schema db) = Inr (length schemaObjects)"
  by (cases "count_expected 0 (db_schema db)")
    (auto simp: verifySchemaAndRoot_def verifySchemaObjects_def query_faultless [OF assms] first_error_None_iff)

lemma userVersion_faultless: "faultless en \<Longrightarrow> userVersion en db = Inr (db_user_version db)"
  by (simp add: userVersion_def faultless_simps)

text \<open>On a working connection the guard admits exactly the current databases of the store's root.\<close>

lemma currentGuard_working:
  assumes "working s en"
  shows "currentGuard s en db = None \<longleftrightarrow> current_database s db"
proof -
  have f: "faultless en" using assms by (simp add: working_def)
  note guard = connectionGuard_working [OF assms, of db]
  show ?thesis
  proof (cases "connectionGuard s en db")
    case None
    with guard show ?thesis
      by (auto simp: currentGuard_def current_database_def userVersion_faultless [OF f]
          verifySchemaAndRoot_faultless [OF f] split: sum.splits)
  next
    case (Some e)
    with guard show ?thesis
      unfolding currentGuard_def current_database_def by simp
  qed
qed

section \<open>Initialization\<close>

definition names_of :: "schema_entry list \<Rightarrow> string set" where
  "names_of es = (fst \<circ> snd) ` set es"

lemma created_names:
  "names_of (created_entries b) \<subseteq> {so_name b} \<union> {n. has_prefix ''sqlite_autoindex_'' n}"
  by (auto simp: names_of_def created_entries_def entry_of_def auto_indexes_def has_prefix_def split: if_splits)

lemma object_names_plain: "b \<in> set schemaObjects \<Longrightarrow> \<not> has_prefix ''sqlite_autoindex_'' (so_name b)"
proof -
  have "\<forall>n \<in> set (map so_name schemaObjects). \<not> has_prefix ''sqlite_autoindex_'' n"
    unfolding schemaObjects_names by (simp add: has_prefix_def)
  then show "b \<in> set schemaObjects \<Longrightarrow> ?thesis" by simp
qed

lemma create_objects_fresh:
  assumes "faultless en" "distinct (map so_name bs)" "set bs \<subseteq> set schemaObjects"
    and "\<forall>b \<in> set bs. so_name b \<notin> names_of (db_schema db)"
  shows "create_objects en bs db = Inr (db\<lparr>db_schema := db_schema db @ concat (map created_entries bs),
      db_empty_file := db_empty_file db \<and> bs = []\<rparr>)"
  using assms(2-)
proof (induction bs arbitrary: db)
  case (Cons b bs)
  let ?db = "db\<lparr>db_schema := db_schema db @ created_entries b, db_empty_file := False\<rparr>"
  have "create_object b db = Inr ?db"
    using Cons.prems(3) by (auto simp: create_object_def names_of_def list_ex_iff image_iff)
  moreover have "so_name c \<notin> names_of (db_schema ?db)" if "c \<in> set bs" for c
  proof -
    have "so_name c \<noteq> so_name b" using that Cons.prems(1) by (metis distinct.simps(2) image_eqI list.simps(9) set_map)
    moreover have "\<not> has_prefix ''sqlite_autoindex_'' (so_name c)"
      using that Cons.prems(2) object_names_plain [of c] by auto
    ultimately have "so_name c \<notin> names_of (created_entries b)"
      using created_names [of b] by blast
    then show ?thesis using that Cons.prems(3) by (auto simp: names_of_def image_Un)
  qed
  ultimately show ?case
    using Cons.IH [of ?db] Cons.prems by (simp add: faultless_simps [OF assms(1)])
qed simp

definition initialized :: "store \<Rightarrow> database" where
  "initialized s = empty_database
     \<lparr>db_schema := concat (map created_entries schemaObjects), db_empty_file := False,
      db_roots := [st_root_id s], db_user_version := schemaVersion\<rparr>"

lemma initialized_current: "current_database s (initialized s)"
  by (simp add: current_database_def initialized_def empty_database_def count_expected_schema ascii_lower_def)

lemma initialize_empty:
  assumes "working s en" "hexPattern (st_root_id s)"
  shows "initialize s en schemaObjects empty_database = Inr ((), initialized s)"
proof -
  have f: "faultless en" using assms(1) by (simp add: working_def)
  have "create_objects en schemaObjects empty_database
      = Inr (empty_database\<lparr>db_schema := concat (map created_entries schemaObjects), db_empty_file := False\<rparr>)"
    using create_objects_fresh [OF f schemaObjects_distinct, of empty_database]
    by (simp add: empty_database_def names_of_def schemaObjects_def metadataObjects_def)
  moreover have "verifySchemaAndRoot s en (initialized s) = None"
    using initialized_current by (simp add: verifySchemaAndRoot_faultless [OF f] current_database_def)
  moreover have "uninitialized en empty_database = Inr True"
    by (simp add: uninitialized_def faultless_simps [OF f] empty_database_def)
  moreover have "db_user_version empty_database = 0" "db_roots empty_database = []"
    by (simp_all add: empty_database_def)
  ultimately show ?thesis
    using assms(2)
    by (simp add: initialize_def userVersion_faultless [OF f] schemaVersion_def faultless_simps [OF f]
        initialized_def [symmetric, unfolded schemaVersion_def])
qed

lemma transact_committed:
  "faultless en \<Longrightarrow> guard db = None \<Longrightarrow> body db = Inr (x, db') \<Longrightarrow> transact en guard body db = (Inr x, db')"
  by (simp add: transact_def faultless_simps finish_transaction_def errors_join_def map_filter_simps)

lemma transact_refused:
  "faultless en \<Longrightarrow> check_then (guard db) (body db) = Inl e \<Longrightarrow> errors_is e c
     \<Longrightarrow> \<exists>e'. transact en guard body db = (Inl e', db) \<and> errors_is e' c"
  by (simp add: transact_def faultless_simps finish_transaction_def errors_join_def map_filter_simps)

lemma close_store_working [simp]: "en_db_close en = None \<Longrightarrow> close_store en (Inr x) = Inr x"
  by (simp add: close_store_def errors_join_def map_filter_simps)

lemma close_store_refused: "errors_is e c \<Longrightarrow> \<exists>e'. close_store en (Inl e) = Inl e' \<and> errors_is e' c"
  by (cases "en_db_close en") (auto simp: close_store_def errors_join_def map_filter_simps)

lemma initialize_new:
  assumes "working s en" "hexPattern (st_root_id s)"
  shows "initializeWithConnector s en schemaObjects empty_database = (Inr (), initialized s)"
proof -
  have "connectionGuard s en empty_database = None"
    by (simp add: connectionGuard_working [OF assms(1)] empty_database_def ascii_lower_def)
  then show ?thesis
    using transact_committed [of en "connectionGuard s en" empty_database "initialize s en schemaObjects"]
      initialize_empty [OF assms] assms(1)
    by (simp add: initializeWithConnector_def working_def)
qed

lemma initialize_again:
  assumes "working s en" "current_database s db"
  shows "initializeWithConnector s en objects db = (Inr (), db)"
proof -
  have f: "faultless en" using assms(1) by (simp add: working_def)
  have "initialize s en objects db = Inr ((), db)"
    using assms(2) verifySchemaAndRoot_faultless [OF f, of s db]
    by (simp add: initialize_def userVersion_faultless [OF f] current_database_def)
  moreover have "connectionGuard s en db = None"
    using assms(2) by (simp add: connectionGuard_working [OF assms(1)] current_database_def)
  ultimately show ?thesis
    using transact_committed [of en "connectionGuard s en" db "initialize s en objects"] f assms(1)
    by (simp add: initializeWithConnector_def working_def)
qed

lemma open_current:
  assumes "working s en" "current_database s db"
  shows "openWithConnector s en db = (Inr s, db)"
  using transact_committed [of en "currentGuard s en" db noStep] assms
    currentGuard_working [OF assms(1), of db]
  by (simp add: openWithConnector_def noStep_def working_def)

text \<open>A database of another root is refused with an identity mismatch, and left alone.\<close>

lemma guard_other_root:
  assumes "working s en" "current_database s' db" "st_root_id s' \<noteq> st_root_id s"
  shows "\<exists>e. currentGuard s en db = Some e \<and> errors_is e ErrIdentityMismatch"
    "\<exists>e. connectionGuard s en db = None \<and> initialize s en objects db = Inl e \<and> errors_is e ErrIdentityMismatch"
proof -
  have f: "faultless en" using assms(1) by (simp add: working_def)
  have g: "connectionGuard s en db = None"
    using assms(2) by (simp add: connectionGuard_working [OF assms(1)] current_database_def)
  have v: "verifySchemaAndRoot s en db = Some errRootMismatch"
    using assms(2,3)
    by (simp add: verifySchemaAndRoot_def verifySchemaObjects_def query_faultless [OF f] current_database_def
        first_error_Cons)
  have "errors_is errRootMismatch ErrIdentityMismatch" by (simp add: errRootMismatch_def)
  with g v show "\<exists>e. currentGuard s en db = Some e \<and> errors_is e ErrIdentityMismatch"
    "\<exists>e. connectionGuard s en db = None \<and> initialize s en objects db = Inl e \<and> errors_is e ErrIdentityMismatch"
    using assms(2)
    by (simp_all add: currentGuard_def initialize_def userVersion_faultless [OF f] current_database_def)
qed

lemma other_root_refused:
  assumes "working s en" "current_database s' db" "st_root_id s' \<noteq> st_root_id s"
  shows "\<exists>e. openWithConnector s en db = (Inl e, db) \<and> errors_is e ErrIdentityMismatch"
    "\<exists>e. initializeWithConnector s en objects db = (Inl e, db) \<and> errors_is e ErrIdentityMismatch"
proof -
  have f: "faultless en" using assms(1) by (simp add: working_def)
  obtain e where "currentGuard s en db = Some e" "errors_is e ErrIdentityMismatch"
    using guard_other_root(1) [OF assms] by blast
  then have "\<exists>e'. transact en (currentGuard s en) noStep db = (Inl e', db) \<and> errors_is e' ErrIdentityMismatch"
    by (intro transact_refused [OF f]) simp_all
  then show "\<exists>e. openWithConnector s en db = (Inl e, db) \<and> errors_is e ErrIdentityMismatch"
    using close_store_refused by (fastforce simp: openWithConnector_def)
  obtain e where "connectionGuard s en db = None" "initialize s en objects db = Inl e"
      "errors_is e ErrIdentityMismatch"
    using guard_other_root(2) [OF assms] by blast
  then have "\<exists>e'. transact en (connectionGuard s en) (initialize s en objects) db = (Inl e', db)
      \<and> errors_is e' ErrIdentityMismatch"
    by (intro transact_refused [OF f]) simp_all
  then show "\<exists>e. initializeWithConnector s en objects db = (Inl e, db) \<and> errors_is e ErrIdentityMismatch"
    using close_store_refused by (fastforce simp: initializeWithConnector_def)
qed

end
