(* ===== verification/Json_Text.thy ===== *)
theory Json_Text
  imports Go_Json
begin

text \<open>
  UTF-8 decoding composes over concatenation of valid text, and a JSON string literal read back is the
  string that was written.
\<close>

section \<open>Decoding of a valid prefix\<close>

lemma base64_digit: "z < 64 \<Longrightarrow> (q * 64 + z) div 64 = q \<and> (q * 64 + z) mod 64 = (z :: nat)"
  by simp

definition valid_chunk :: "nat \<times> string \<Rightarrow> bool" where
  "valid_chunk c \<longleftrightarrow> \<not> (fst c = rune_error \<and> length (snd c) \<le> 1)"

lemma valid_string_chunks: "valid_string s \<longleftrightarrow> list_all valid_chunk (split_runes s)"
  unfolding valid_string_def valid_chunk_def by (simp add: case_prod_unfold)

lemma decode_rune_prefix:
  assumes "decode_rune s = (r, k)" "\<not> (r = rune_error \<and> k \<le> 1)"
  shows "decode_rune (take k s @ t) = (r, k)" "1 \<le> k" "k \<le> length s"
  using decode_rune_ok_cases [OF assms]
  by (cases; simp add: decode_rune_def cont_byte_def second_ok_def split: if_splits)+

lemma encode_decode_rune:
  assumes "decode_rune s = (r, k)" "\<not> (r = rune_error \<and> k \<le> 1)"
  shows "encode_rune r = take k s"
  using assms
proof (cases rule: decode_rune_ok_cases)
  case (one a t)
  then show ?thesis by (simp add: encode_rune_def)
next
  case (two a b t)
  define x y where "x = byte a - 192" and "y = byte b - 128"
  have "2 \<le> x" "x < 32" "y < 64" "byte a = 192 + x" "byte b = 128 + y" "r = x * 64 + y"
    using two by (auto simp: x_def y_def cont_byte_def rune2_def)
  with two(1,6) show ?thesis
    by (auto simp: encode_rune_def) (metis char_of_char)+
next
  case (three a b c t)
  define x y z where "x = byte a - 224" and "y = byte b - 128" and "z = byte c - 128"
  have *: "x < 16" "y < 64" "z < 64" "byte a = 224 + x" "byte b = 128 + y" "byte c = 128 + z"
    "r = x * 4096 + y * 64 + z" "x = 0 \<longrightarrow> 32 \<le> y"
    using three by (auto simp: x_def y_def z_def cont_byte_def second_ok_def rune3_def split: if_splits)
  have r: "r = (x * 64 + y) * 64 + z" using * by simp
  have d1: "r div 64 = x * 64 + y" "r mod 64 = z"
    using base64_digit [OF *(3)] unfolding r by blast+
  have "r div 64 div 64 = x" "r div 64 mod 64 = y"
    using base64_digit [OF *(2)] unfolding d1 by blast+
  moreover have "r div 4096 = r div 64 div 64" by (simp flip: div_mult2_eq)
  moreover have "2048 \<le> r" "r < 65536" using *(1-3,7,8) by auto
  ultimately have "r div 4096 = x" "r div 64 mod 64 = y" "r mod 64 = z" "2048 \<le> r" "r < 65536"
    using d1(2) by simp_all
  with three(1,7) *(4-6) show ?thesis
    by (auto simp: encode_rune_def) (metis char_of_char)+
next
  case (four a b c d t)
  define x y z w where "x = byte a - 240" and "y = byte b - 128" and "z = byte c - 128"
    and "w = byte d - 128"
  have *: "x < 5" "y < 64" "z < 64" "w < 64" "byte a = 240 + x" "byte b = 128 + y" "byte c = 128 + z"
    "byte d = 128 + w" "r = x * 262144 + y * 4096 + z * 64 + w" "x = 0 \<longrightarrow> 16 \<le> y"
    using four by (auto simp: x_def y_def z_def w_def cont_byte_def second_ok_def rune4_def split: if_splits)
  have r: "r = ((x * 64 + y) * 64 + z) * 64 + w" using * by simp
  have d1: "r div 64 = (x * 64 + y) * 64 + z" "r mod 64 = w"
    using base64_digit [OF *(4)] unfolding r by blast+
  have d2: "r div 64 div 64 = x * 64 + y" "r div 64 mod 64 = z"
    using base64_digit [OF *(3)] unfolding d1 by blast+
  have "r div 64 div 64 div 64 = x" "r div 64 div 64 mod 64 = y"
    using base64_digit [OF *(2)] unfolding d2 by blast+
  moreover have "r div 4096 = r div 64 div 64" "r div 262144 = r div 64 div 64 div 64"
    by (simp_all flip: div_mult2_eq)
  moreover have "65536 \<le> r" using *(9,10) by auto
  ultimately have "r div 262144 = x" "r div 4096 mod 64 = y" "r div 64 mod 64 = z" "r mod 64 = w"
      "65536 \<le> r"
    using d1(2) d2(2) by simp_all
  with four(1,8) *(5-8) show ?thesis
    by (auto simp: encode_rune_def) (metis char_of_char)+
qed

section \<open>Concatenation of valid strings\<close>

lemma split_runes_nonempty:
  "s \<noteq> [] \<Longrightarrow> split_runes s = (fst (decode_rune s), take (snd (decode_rune s)) s)
     # split_runes (drop (snd (decode_rune s)) s)"
  by (subst split_runes.simps) simp

lemma valid_string_induct [consumes 1, case_names Nil Step]:
  assumes "valid_string s" and nil: "P []"
    and step: "\<And>r k u. u \<noteq> [] \<Longrightarrow> decode_rune u = (r, k) \<Longrightarrow> \<not> (r = rune_error \<and> k \<le> 1)
        \<Longrightarrow> 1 \<le> k \<Longrightarrow> k \<le> length u \<Longrightarrow> valid_string (drop k u) \<Longrightarrow> P (drop k u) \<Longrightarrow> P u"
  shows "P s"
  using assms(1)
proof (induction s rule: length_induct)
  case (1 s)
  show ?case
  proof (cases "s = []")
    case False
    obtain r k where rk: "decode_rune s = (r, k)" by fastforce
    have chunk: "valid_chunk (r, take k s)" "valid_string (drop k s)"
      using 1(2) by (auto simp: valid_string_chunks split_runes_nonempty [OF False] rk)
    have ok: "\<not> (r = rune_error \<and> k \<le> 1)"
      using chunk(1) by (auto simp: valid_chunk_def)
    have len: "1 \<le> k" "k \<le> length s"
      using decode_rune_prefix [OF rk ok] by simp_all
    then have "P (drop k s)"
      using 1(1) chunk(2) by simp
    then show ?thesis
      using step [OF False rk ok len chunk(2)] by simp
  qed (simp add: nil)
qed

lemma split_runes_append:
  assumes "valid_string s"
  shows "split_runes (s @ t) = split_runes s @ split_runes t"
  using assms
proof (induction rule: valid_string_induct)
  case (Step r k u)
  have "decode_rune (u @ t) = decode_rune (take k u @ (drop k u @ t))"
    by (metis append.assoc append_take_drop_id)
  also have "\<dots> = (r, k)"
    using decode_rune_prefix(1) [OF Step(2,3)] by blast
  finally have d: "decode_rune (u @ t) = (r, k)" .
  have "split_runes (u @ t) = (r, take k (u @ t)) # split_runes (drop k (u @ t))"
    using Step(1) split_runes_nonempty [of "u @ t"] by (simp add: d)
  also have "\<dots> = (r, take k u) # split_runes (drop k u @ t)"
    using Step(5) by simp
  finally show ?case
    using Step(1,2,7) split_runes_nonempty [of u] by simp
qed simp

lemma valid_string_append: "valid_string s \<Longrightarrow> valid_string t \<Longrightarrow> valid_string (s @ t)"
  by (simp add: valid_string_chunks split_runes_append)

lemma valid_string_concat: "\<forall>s \<in> set ss. valid_string s \<Longrightarrow> valid_string (concat ss)"
  by (induction ss) (auto intro: valid_string_append valid_string_ascii simp: is_ascii_def)

lemma valid_string_Cons_ascii: "byte c < 128 \<Longrightarrow> valid_string s \<Longrightarrow> valid_string (c # s)"
  using valid_string_append [of "[c]" s] valid_string_ascii [of "[c]"] by (simp add: is_ascii_def)

text \<open>Every chunk of a valid string is itself a valid one-rune string.\<close>

lemma valid_string_one_rune:
  assumes "decode_rune u = (r, k)" "\<not> (r = rune_error \<and> k \<le> 1)"
  shows "split_runes (take k u) = [(r, take k u)]" "valid_string (take k u)"
proof -
  have pre: "decode_rune (take k u) = (r, k)" "1 \<le> k" "k \<le> length u"
    using decode_rune_prefix(1) [OF assms, of "[]"] decode_rune_prefix(2,3) [OF assms] by simp_all
  then have ne: "take k u \<noteq> []" by auto
  show sp: "split_runes (take k u) = [(r, take k u)]"
    using split_runes_nonempty [OF ne] pre by simp
  show "valid_string (take k u)"
    using assms(2) pre by (simp add: valid_string_chunks sp valid_chunk_def)
qed

section \<open>String literals\<close>

lemma hex_value_char:
  assumes "n < 16"
  shows "hex_value (hex_char n) = Some n"
proof -
  have "list_all (\<lambda>n. hex_value (hex_char n) = Some n) [0..<16]"
    by (simp add: upt_rec hex_value_def hex_char_def digit_def less_eq_char_def)
  with assms show ?thesis by (simp add: list_all_iff)
qed

lemma ascii_unicode_escape:
  assumes "r < 128"
  shows "unicode_escape (CHR ''0'' # CHR ''0'' # hex_char (r div 16) # hex_char (r mod 16) # rest)
    = Some (r, rest)"
proof -
  have "hex_value CHR ''0'' = Some 0"
    by (simp add: hex_value_def digit_def less_eq_char_def)
  moreover have "hex_value (hex_char (r div 16)) = Some (r div 16)" "hex_value (hex_char (r mod 16)) = Some (r mod 16)"
    using assms by (auto intro!: hex_value_char)
  ultimately show ?thesis
    using assms by (simp add: unicode_escape_def surrogate_def)
qed

text \<open>One escaped rune and the rest of the literal, read back: first the ASCII characters.\<close>

lemma parse_escaped_ascii:
  assumes "byte a < 128" "parse_string n rest = Inr (d, out)"
  shows "parse_string (Suc n) (escape_chunk (byte a, [a]) @ rest) = Inr (a # d, out)"
proof -
  let ?r = "byte a"
  have enc: "encode_rune ?r = [a]" using assms(1) by (simp add: encode_rune_def)
  have far: "?r \<noteq> rune_error" "?r \<noteq> 8232" "?r \<noteq> 8233"
    using assms(1) by (auto simp: rune_error_def)
  show ?thesis
  proof (cases "?r \<in> {34, 92, 8, 12, 10, 13, 9}")
    case True
    then have "?r = byte CHR 0x22 \<or> ?r = byte CHR 0x5C \<or> ?r = byte CHR 0x08 \<or> ?r = byte CHR 0x0C
        \<or> ?r = byte CHR 0x0A \<or> ?r = byte CHR 0x0D \<or> ?r = byte CHR 0x09"
      by simp
    then consider "a = CHR 0x22" | "a = CHR 0x5C" | "a = CHR 0x08" | "a = CHR 0x0C" | "a = CHR 0x0A"
      | "a = CHR 0x0D" | "a = CHR 0x09"
      unfolding of_char_eq_iff by blast
    then show ?thesis
      by cases (simp_all add: escape_chunk_def rune_error_def simple_escape_def assms(2))
  next
    case plain: False
    show ?thesis
    proof (cases "?r < 32 \<or> ?r = 60 \<or> ?r = 62 \<or> ?r = 38")
      case True
      then have "escape_chunk (?r, [a])
          = CHR 0x5C # CHR ''u'' # CHR ''0'' # CHR ''0'' # hex_char (?r div 16) # [hex_char (?r mod 16)]"
        using plain far by (auto simp: escape_chunk_def)
      then show ?thesis
        using assms(2) enc by (simp add: ascii_unicode_escape [OF assms(1)])
    next
      case False
      then have "escape_chunk (?r, [a]) = [a]"
        using plain far by (auto simp: escape_chunk_def)
      moreover have "a \<noteq> CHR 0x22" "a \<noteq> CHR 0x5C" "\<not> ?r < 32"
        using plain False by auto
      ultimately show ?thesis
        using assms(2) far by (simp add: decode_rune_ascii [OF assms(1)])
    qed
  qed
qed

lemma parse_escaped_wide:
  assumes dec: "decode_rune u = (r, k)" and ok: "\<not> (r = rune_error \<and> k \<le> 1)" and wide: "1 < k"
    and rest: "parse_string n rest = Inr (d, out)"
  shows "parse_string (Suc n) (escape_chunk (r, take k u) @ rest) = Inr (take k u @ d, out)"
proof -
  have enc: "encode_rune r = take k u" using encode_decode_rune [OF dec ok] .
  have len: "length (take k u) = k" using decode_rune_prefix(3) [OF dec ok] by simp
  have big: "128 \<le> r"
  proof (rule ccontr)
    assume "\<not> 128 \<le> r"
    then have "length (encode_rune r) = 1" by (simp add: encode_rune_def)
    with enc len wide show False by simp
  qed
  show ?thesis
  proof (cases "r = 8232 \<or> r = 8233")
    case True
    have "unicode_escape (CHR ''2'' # CHR ''0'' # CHR ''2'' # CHR ''8'' # rest) = Some (8232, rest)"
      "unicode_escape (CHR ''2'' # CHR ''0'' # CHR ''2'' # CHR ''9'' # rest) = Some (8233, rest)"
      by (simp_all add: unicode_escape_def hex_value_def digit_def surrogate_def less_eq_char_def)
    with True rest enc show ?thesis
      by (elim disjE) (simp_all add: escape_chunk_def rune_error_def)
  next
    case False
    have esc: "escape_chunk (r, take k u) = take k u"
      using False big ok len by (auto simp: escape_chunk_def)
    obtain a t where a: "u = a # t" "128 \<le> byte a"
      by (cases rule: decode_rune_ok_cases [OF dec ok]) (use wide in auto)
    have tk: "take k u @ rest = a # (take (k - 1) t @ rest)" using a wide by (cases k) auto
    have cut: "take k (take k u @ rest) = take k u" "drop k (take k u @ rest) = rest"
      using len by simp_all
    have neq: "a \<noteq> CHR 0x22" "a \<noteq> CHR 0x5C" "\<not> byte a < 32"
      using a(2) by auto
    have "parse_string (Suc n) (take k u @ rest)
        = bind_result (parse_string n (drop k (take k u @ rest)))
            (\<lambda>(x, y). Inr (take k (take k u @ rest) @ x, y))"
      using neq ok decode_rune_prefix(1) [OF dec ok, of rest] unfolding tk by (auto simp: Let_def)
    then show ?thesis
      unfolding esc cut using rest by simp
  qed
qed

lemma parse_escaped_chunk:
  assumes "decode_rune u = (r, k)" "\<not> (r = rune_error \<and> k \<le> 1)"
    and rest: "parse_string n rest = Inr (d, out)"
  shows "parse_string (Suc n) (escape_chunk (r, take k u) @ rest) = Inr (take k u @ d, out)"
proof (cases "1 < k")
  case True
  then show ?thesis using parse_escaped_wide assms by blast
next
  case False
  then obtain a t where "u = a # t" "byte a < 128" "r = byte a" "k = 1"
    by (cases rule: decode_rune_ok_cases [OF assms(1,2)]) auto
  then show ?thesis using parse_escaped_ascii [OF _ rest, of a] by simp
qed

lemma escape_chunk_nonempty:
  "decode_rune u = (r, k) \<Longrightarrow> \<not> (r = rune_error \<and> k \<le> 1) \<Longrightarrow> 1 \<le> length (escape_chunk (r, take k u))"
  using decode_rune_prefix(2,3) [of u r k] by (auto simp: escape_chunk_def Suc_le_eq)

definition escaped :: "string \<Rightarrow> string" where
  "escaped s = concat (map escape_chunk (split_runes s))"

lemma render_string_escaped: "render_string s = CHR 0x22 # escaped s @ [CHR 0x22]"
  by (simp add: render_string_def escaped_def)

theorem parse_escaped:
  assumes "valid_string s" "length (escaped s) < n"
  shows "parse_string n (escaped s @ CHR 0x22 # rest) = Inr (s, rest)"
  using assms
proof (induction arbitrary: n rule: valid_string_induct)
  case Nil
  then show ?case by (cases n) (simp_all add: escaped_def)
next
  case (Step r k u)
  have esc: "escaped u = escape_chunk (r, take k u) @ escaped (drop k u)"
    using Step(1,2) by (simp add: escaped_def split_runes_nonempty)
  obtain m where m: "n = Suc m" "length (escaped (drop k u)) < m"
    using Step(8) escape_chunk_nonempty [OF Step(2,3)] by (cases n) (auto simp: esc)
  have "parse_string (Suc m) (escape_chunk (r, take k u) @ (escaped (drop k u) @ CHR 0x22 # rest))
      = Inr (take k u @ drop k u, rest)"
    by (rule parse_escaped_chunk [OF Step(2,3)]) (rule Step(7) [OF m(2)])
  then show ?case by (simp add: m(1) esc)
qed

text \<open>What is written is valid text itself.\<close>

lemma valid_escape_chunk:
  assumes "decode_rune u = (r, k)" "\<not> (r = rune_error \<and> k \<le> 1)"
  shows "valid_string (escape_chunk (r, take k u))"
proof -
  have "byte (hex_char n) < 128" if "n < 16" for n
    using that by (simp add: hex_char_def)
  moreover have "r div 16 < 16 \<and> r mod 16 < 16" if "r < 256"
    using that by auto
  ultimately show ?thesis
    using valid_string_one_rune(2) [OF assms] assms(2) decode_rune_prefix(3) [OF assms]
    by (auto simp: escape_chunk_def intro!: valid_string_ascii simp: is_ascii_def)
qed

lemma valid_escaped: "valid_string s \<Longrightarrow> valid_string (escaped s)"
proof (induction rule: valid_string_induct)
  case (Step r k u)
  then have "escaped u = escape_chunk (r, take k u) @ escaped (drop k u)"
    by (simp add: escaped_def split_runes_nonempty)
  with Step show ?case
    by (simp add: valid_string_append valid_escape_chunk)
qed (simp add: escaped_def valid_string_chunks)

lemma valid_render_string: "valid_string s \<Longrightarrow> valid_string (render_string s)"
  using valid_string_Cons_ascii [OF _ valid_string_append [OF valid_escaped valid_string_ascii]]
  by (simp add: render_string_escaped is_ascii_def)

end
