(* ===== verification/Json_Roundtrip.thy ===== *)
theory Json_Roundtrip
  imports Json_Text Task_Base
begin

text \<open>
  Canonical JSON read back: a rendered document parses to the value it was rendered from, strict
  structure validation accepts it, and rendering is injective.
\<close>

section \<open>Decimal numbers\<close>

lemma decimal_of_nat_digits: "list_all digit (decimal_of_nat n) \<and> decimal_of_nat n \<noteq> []"
proof (induction n rule: decimal_of_nat.induct)
  case (1 n)
  have d: "digit (char_of (48 + m))" if "m < 10" for m :: nat
    using that by (simp add: digit_def less_eq_char_def)
  show ?case
    using 1 d [of n] d [of "n mod 10"] by (subst (1 2) decimal_of_nat.simps) auto
qed

lemma decimal_of_nat_leading:
  "hd (decimal_of_nat n) = CHR ''0'' \<Longrightarrow> n = 0"
proof (induction n rule: decimal_of_nat.induct)
  case (1 n)
  show ?case
  proof (cases "n < 10")
    case True
    then have "byte (char_of (48 + n)) = byte CHR ''0''"
      using 1(2) by (subst (asm) decimal_of_nat.simps) simp
    with True show ?thesis by simp
  next
    case False
    then have "hd (decimal_of_nat (n div 10)) = CHR ''0''"
      using 1(2) decimal_of_nat_digits [of "n div 10"] by (subst (asm) decimal_of_nat.simps) simp
    with 1(1) False show ?thesis by auto
  qed
qed

lemma decimal_of_nat_0: "decimal_of_nat 0 = ''0''"
proof -
  have "byte (char_of (48 :: nat)) = byte CHR ''0''" by simp
  then have "char_of (48 :: nat) = CHR ''0''" by (simp only: of_char_eq_iff)
  then show ?thesis by (subst decimal_of_nat.simps) simp
qed

definition number_end :: "string \<Rightarrow> bool" where
  "number_end s \<longleftrightarrow> s = [] \<or> hd s = CHR 0x2C \<or> hd s = CHR 0x5D \<or> hd s = CHR 0x7D"

lemma number_end_no_digit: "number_end s \<Longrightarrow> takeWhile digit s = [] \<and> dropWhile digit s = s"
  by (cases s) (auto simp: number_end_def digit_def less_eq_char_def)

lemma number_end_tail:
  "number_end s \<Longrightarrow> parse_fraction s = Some ([], s) \<and> parse_exponent s = Some ([], s)"
  by (cases s) (auto simp: number_end_def parse_fraction_def parse_exponent_def)

lemma parse_number_nat:
  assumes "number_end rest"
  shows "\<exists>c t. decimal_of_nat n = c # t \<and> digit c
    \<and> (let (ds, r) = (if c = CHR ''0'' then ([], t @ rest) else parse_digits (t @ rest)) in (ds, r)) = (t, rest)"
proof -
  obtain c t where ct: "decimal_of_nat n = c # t" "digit c" "list_all digit t"
    using decimal_of_nat_digits [of n] by (cases "decimal_of_nat n") auto
  have "t = []" if "c = CHR ''0''"
    using decimal_of_nat_leading [of n] ct that decimal_of_nat_0 by simp
  moreover have "parse_digits (t @ rest) = (t, rest)"
    using ct(3) number_end_no_digit [OF assms]
    by (simp add: parse_digits_def list_all_iff takeWhile_append2 dropWhile_append2)
  ultimately show ?thesis using ct by auto
qed

lemma digit_not_minus: "digit c \<Longrightarrow> c \<noteq> CHR ''-''"
  by (auto simp: digit_def less_eq_char_def)

lemma parse_number_decimal:
  assumes "number_end rest"
  shows "parse_number (decimal i @ rest) = Inr (JNum (decimal i), rest)"
proof -
  have nat_case: "parse_number (decimal_of_nat n @ rest) = Inr (JNum (decimal_of_nat n), rest)"
    "parse_number (CHR ''-'' # decimal_of_nat n @ rest) = Inr (JNum (CHR ''-'' # decimal_of_nat n), rest)" for n
  proof -
    obtain c t where ct: "decimal_of_nat n = c # t" "digit c"
      "(let (ds, r) = (if c = CHR ''0'' then ([], t @ rest) else parse_digits (t @ rest)) in (ds, r)) = (t, rest)"
      using parse_number_nat [OF assms] by blast
    then show "parse_number (decimal_of_nat n @ rest) = Inr (JNum (decimal_of_nat n), rest)"
      "parse_number (CHR ''-'' # decimal_of_nat n @ rest) = Inr (JNum (CHR ''-'' # decimal_of_nat n), rest)"
      using number_end_tail [OF assms] digit_not_minus [OF ct(2)]
      by (auto simp: parse_number_def Let_def case_prod_unfold split: if_splits)
  qed
  then show ?thesis by (simp add: decimal_def)
qed

section \<open>Documents\<close>

text \<open>A value whose strings are valid UTF-8, whose numbers are integers, and whose keys are distinct.\<close>

fun wf_json :: "(string \<Rightarrow> string) \<Rightarrow> json \<Rightarrow> bool" where
  "wf_json fk JNull = True"
| "wf_json fk (JBool b) = True"
| "wf_json fk (JNum s) = (\<exists>i. s = decimal i)"
| "wf_json fk (JStr s) = valid_string s"
| "wf_json fk (JArr vs) = list_all (wf_json fk) vs"
| "wf_json fk (JObj ms) =
     (list_all (\<lambda>(k, v). valid_string k \<and> wf_json fk v) ms \<and> distinct (map (fk \<circ> fst) ms))"

lemma skip_space_simps [simp]: "json_space c = False \<Longrightarrow> skip_space (c # s) = c # s"
  by (simp add: skip_space_def)

lemma decimal_first: "\<exists>c t. decimal i = c # t \<and> (digit c \<or> c = CHR ''-'')"
  using decimal_of_nat_digits [of "nat i"] decimal_of_nat_digits [of "nat (- i)"]
  by (cases "decimal_of_nat (nat i)") (auto simp: decimal_def)

lemma render_first: "\<exists>c t. render v = c # t \<and> \<not> json_space c" if "wf_json fk v"
proof (cases v)
  case (JNum s)
  with that obtain i where "s = decimal i" by auto
  with JNum decimal_first [of i] show ?thesis
    by (auto simp: json_space_def digit_def less_eq_char_def)
qed (auto simp: json_space_def render_string_escaped)

lemma render_nonempty: "wf_json fk v \<Longrightarrow> 1 \<le> length (render v)"
  using render_first [of fk v] by auto

lemma skip_space_render: "wf_json fk v \<Longrightarrow> skip_space (render v @ s) = render v @ s"
  using render_first [of fk v] by (auto simp: skip_space_def)

definition members_text :: "(string \<times> json) list \<Rightarrow> string" where
  "members_text ms = join_comma (map (\<lambda>(k, v). render_string k @ CHR 0x3A # render v) ms)"

definition elements_text :: "json list \<Rightarrow> string" where
  "elements_text vs = join_comma (map render vs)"

text \<open>
  The fuel a text needs is its length: \<open>parse_ok v\<close> says that \<open>v\<close> is read back with at least that
  much, whatever follows it.
\<close>

definition parse_ok :: "(string \<Rightarrow> string) \<Rightarrow> json \<Rightarrow> bool" where
  "parse_ok fk v \<longleftrightarrow>
     (\<forall>n rest. length (render v) \<le> n \<longrightarrow> number_end rest \<longrightarrow>
        parse_value fk n (render v @ rest) = Inr (v, rest))"

lemma elements_text_Cons:
  "elements_text [v] = render v"
  "elements_text (v # w # vs) = render v @ CHR 0x2C # elements_text (w # vs)"
  by (simp_all add: elements_text_def)

lemma parse_elements_text:
  assumes "vs \<noteq> []" "\<forall>v \<in> set vs. parse_ok fk v" "length (elements_text vs) < n"
  shows "parse_elements fk n (elements_text vs @ CHR 0x5D # rest) = Inr (vs, rest)"
  using assms
proof (induction vs arbitrary: n)
  case (Cons v vs)
  obtain m where n: "n = Suc m" using Cons.prems(3) by (cases n) auto
  have ok: "parse_ok fk v" using Cons.prems(2) by simp
  show ?case
  proof (cases vs)
    case Nil
    have "parse_value fk m (render v @ CHR 0x5D # rest) = Inr (v, CHR 0x5D # rest)"
      using ok Cons.prems(3) Nil n by (auto simp: parse_ok_def number_end_def elements_text_Cons)
    with Nil show ?thesis
      by (simp add: n elements_text_Cons json_space_def)
  next
    case (Cons w ws)
    have "parse_value fk m (render v @ CHR 0x2C # elements_text vs @ CHR 0x5D # rest)
        = Inr (v, CHR 0x2C # elements_text vs @ CHR 0x5D # rest)"
      using ok Cons.prems(3) Cons n by (auto simp: parse_ok_def number_end_def elements_text_Cons)
    moreover have "parse_elements fk m (elements_text vs @ CHR 0x5D # rest) = Inr (vs, rest)"
      using Cons.IH [of m] Cons.prems Cons n by (simp add: elements_text_Cons)
    ultimately show ?thesis
      using Cons by (simp add: n elements_text_Cons json_space_def)
  qed
qed simp

lemma members_text_Cons:
  "members_text [(k, v)] = render_string k @ CHR 0x3A # render v"
  "members_text ((k, v) # m # ms) = render_string k @ CHR 0x3A # render v @ CHR 0x2C # members_text (m # ms)"
  by (simp_all add: members_text_def)

lemma parse_key:
  assumes "valid_string k"
  shows "\<exists>t. render_string k @ rest = CHR 0x22 # t
    \<and> parse_string (Suc (length t)) t = Inr (k, rest)"
  using parse_escaped [OF assms] by (simp add: render_string_escaped)

lemma parse_members_text:
  assumes "ms \<noteq> []" "\<forall>(k, v) \<in> set ms. valid_string k \<and> parse_ok fk v"
    "distinct (map (fk \<circ> fst) ms)" "set seen \<inter> (fk \<circ> fst) ` set ms = {}"
    "length (members_text ms) < n"
  shows "parse_members fk n seen (members_text ms @ CHR 0x7D # rest) = Inr (ms, rest)"
  using assms
proof (induction ms arbitrary: n seen)
  case (Cons p ms)
  obtain k v where p: "p = (k, v)" by fastforce
  obtain m where n: "n = Suc m" using Cons.prems(5) by (cases n) auto
  have k: "valid_string k" "parse_ok fk v" "fk k \<notin> set seen" using Cons.prems p by auto
  show ?case
  proof (cases ms)
    case Nil
    obtain t where t: "render_string k @ CHR 0x3A # render v @ CHR 0x7D # rest = CHR 0x22 # t"
      "parse_string (Suc (length t)) t = Inr (k, CHR 0x3A # render v @ CHR 0x7D # rest)"
      using parse_key [OF k(1)] by blast
    have "parse_value fk m (render v @ CHR 0x7D # rest) = Inr (v, CHR 0x7D # rest)"
      using k(2) Cons.prems(5) Nil n p by (auto simp: parse_ok_def number_end_def members_text_Cons)
    with Nil k(3) t show ?thesis
      by (simp add: n p members_text_Cons json_space_def)
  next
    case (Cons q ms')
    let ?more = "CHR 0x2C # members_text ms @ CHR 0x7D # rest"
    obtain t where t: "render_string k @ CHR 0x3A # render v @ ?more = CHR 0x22 # t"
      "parse_string (Suc (length t)) t = Inr (k, CHR 0x3A # render v @ ?more)"
      using parse_key [OF k(1)] by blast
    have "parse_value fk m (render v @ ?more) = Inr (v, ?more)"
      using k(2) Cons.prems(5) Cons n p by (auto simp: parse_ok_def number_end_def members_text_Cons)
    moreover have "parse_members fk m (fk k # seen) (members_text ms @ CHR 0x7D # rest) = Inr (ms, rest)"
      using Cons.IH [of "fk k # seen" m] Cons.prems Cons n p by (auto simp: members_text_Cons)
    ultimately show ?thesis
      using Cons k(3) t by (simp add: n p members_text_Cons json_space_def)
  qed
qed simp

lemma first_of_elements:
  "vs \<noteq> [] \<Longrightarrow> \<forall>v \<in> set vs. wf_json fk v \<Longrightarrow>
     \<exists>c t. elements_text vs = c # t \<and> \<not> json_space c \<and> c \<noteq> CHR 0x5D"
proof (cases vs)
  case (Cons v ws)
  assume "\<forall>v \<in> set vs. wf_json fk v"
  with Cons have wf: "wf_json fk v" by simp
  have "\<exists>c t. render v = c # t \<and> \<not> json_space c \<and> c \<noteq> CHR 0x5D"
  proof (cases v)
    case (JNum s)
    with wf obtain i where "s = decimal i" by auto
    with JNum decimal_first [of i] show ?thesis
      by (auto simp: json_space_def digit_def less_eq_char_def)
  qed (auto simp: json_space_def render_string_escaped)
  with Cons show ?thesis by (cases ws) (auto simp: elements_text_Cons)
qed simp

lemma first_of_members: "ms \<noteq> [] \<Longrightarrow> \<exists>t. members_text ms = CHR 0x22 # t"
  by (cases ms rule: remdups_adj.cases) (auto simp: members_text_def render_string_escaped)

theorem parse_render: "wf_json fk v \<Longrightarrow> parse_ok fk v"
proof (induction v)
  case JNull
  show ?case
    by (auto simp: parse_ok_def parse_literal_def has_prefix_def json_space_def Suc_le_eq
        dest!: less_imp_Suc_add)
next
  case (JBool b)
  show ?case
    by (cases b) (auto simp: parse_ok_def parse_literal_def has_prefix_def json_space_def Suc_le_eq
        dest!: less_imp_Suc_add)
next
  case (JNum s)
  then obtain i where i: "s = decimal i" by auto
  obtain c t where ct: "decimal i = c # t" "digit c \<or> c = CHR ''-''" using decimal_first by blast
  show ?case
    unfolding parse_ok_def
  proof (intro allI impI)
    fix n rest assume len: "length (render (JNum s)) \<le> n" and ends: "number_end rest"
    from len ct i obtain m where n: "n = Suc m" by (cases n) auto
    have "parse_number (decimal i @ rest) = Inr (JNum (decimal i), rest)"
      using ends by (rule parse_number_decimal)
    moreover have "\<not> json_space c" "c \<noteq> CHR 0x22" "c \<noteq> CHR ''{''" "c \<noteq> CHR ''[''"
      "c \<noteq> CHR ''t''" "c \<noteq> CHR ''f''" "c \<noteq> CHR ''n''"
      using ct(2) by (auto simp: json_space_def digit_def less_eq_char_def)
    ultimately show "parse_value fk n (render (JNum s) @ rest) = Inr (JNum s, rest)"
      by (simp add: i n ct(1))
  qed
next
  case (JStr s)
  then have valid: "valid_string s" by simp
  show ?case
    unfolding parse_ok_def
  proof (intro allI impI)
    fix n rest assume "length (render (JStr s)) \<le> n"
    then obtain m where n: "n = Suc m" by (cases n) (auto simp: render_string_escaped)
    obtain t where "render_string s @ rest = CHR 0x22 # t" "parse_string (Suc (length t)) t = Inr (s, rest)"
      using parse_key [OF valid] by blast
    then show "parse_value fk n (render (JStr s) @ rest) = Inr (JStr s, rest)"
      by (simp add: n json_space_def)
  qed
next
  case (JArr vs)
  then have wf: "\<forall>v \<in> set vs. wf_json fk v" and ok: "\<forall>v \<in> set vs. parse_ok fk v"
    by (auto simp: list_all_iff)
  show ?case
    unfolding parse_ok_def
  proof (intro allI impI)
    fix n rest assume len: "length (render (JArr vs)) \<le> n"
    then obtain m where n: "n = Suc m" by (cases n) auto
    show "parse_value fk n (render (JArr vs) @ rest) = Inr (JArr vs, rest)"
    proof (cases "vs = []")
      case False
      then obtain c t where "elements_text vs = c # t" "\<not> json_space c" "c \<noteq> CHR 0x5D"
        using first_of_elements wf by blast
      moreover have "parse_elements fk m (elements_text vs @ CHR 0x5D # rest) = Inr (vs, rest)"
        using parse_elements_text [OF False ok, of m rest] len n by (simp add: elements_text_def)
      ultimately show ?thesis
        by (simp add: n json_space_def elements_text_def)
    qed (simp add: n json_space_def)
  qed
next
  case (JObj ms)
  then have ok: "\<forall>(k, v) \<in> set ms. valid_string k \<and> parse_ok fk v" and dist: "distinct (map (fk \<circ> fst) ms)"
    by (fastforce simp: list_all_iff)+
  show ?case
    unfolding parse_ok_def
  proof (intro allI impI)
    fix n rest assume len: "length (render (JObj ms)) \<le> n"
    then obtain m where n: "n = Suc m" by (cases n) auto
    show "parse_value fk n (render (JObj ms) @ rest) = Inr (JObj ms, rest)"
    proof (cases "ms = []")
      case False
      then obtain t where "members_text ms = CHR 0x22 # t" using first_of_members by blast
      moreover have "parse_members fk m [] (members_text ms @ CHR 0x7D # rest) = Inr (ms, rest)"
        using parse_members_text [OF False ok dist, of "[]" m rest] len n by (simp add: members_text_def)
      ultimately show ?thesis
        by (simp add: n json_space_def members_text_def)
    qed (simp add: n json_space_def)
  qed
qed

end
