(* ===== verification/Json_Document.thy ===== *)
theory Json_Document
  imports Json_Roundtrip
begin

text \<open>
  Whole documents: \<open>MarshalCanonical\<close> of an object or array is accepted by
  \<open>ValidateJSONStructure\<close> and read back as the same value, and distinct values have distinct
  documents. The second part is the bookkeeping of \<open>omitempty\<close> members that the codecs of the
  contract share.
\<close>

section \<open>Rendered text is valid UTF-8\<close>

lemma valid_join_comma: "\<forall>s \<in> set ss. valid_string s \<Longrightarrow> valid_string (join_comma ss)"
  by (induction ss rule: join_comma.induct)
    (simp_all add: valid_string_ascii is_ascii_def valid_string_append valid_string_Cons_ascii)

lemma ascii_decimal: "is_ascii (decimal i)"
proof -
  have "is_ascii ds" if "list_all digit ds" for ds
    using that by (induction ds) (auto simp: is_ascii_def digit_def less_eq_char_def)
  then show ?thesis
    using decimal_of_nat_digits by (auto simp: decimal_def is_ascii_def)
qed

lemma valid_render: "wf_json fk v \<Longrightarrow> valid_string (render v)"
proof (induction v)
  case (JArr vs)
  then have "valid_string (join_comma (map render vs))"
    by (auto intro!: valid_join_comma simp: list_all_iff)
  then show ?case
    by (simp add: valid_string_Cons_ascii valid_string_append valid_string_ascii is_ascii_def)
next
  case (JObj ms)
  have "valid_string (render_string k @ CHR 0x3A # render v)" if "(k, v) \<in> set ms" for k v
    using that JObj by (fastforce intro!: valid_string_append valid_render_string valid_string_Cons_ascii
        simp: list_all_iff)
  then have "valid_string (join_comma (map (\<lambda>(k, v). render_string k @ CHR 0x3A # render v) ms))"
    by (auto intro!: valid_join_comma)
  then show ?case
    by (simp add: valid_string_Cons_ascii valid_string_append valid_string_ascii is_ascii_def)
qed (auto intro!: valid_string_ascii ascii_decimal valid_render_string simp: is_ascii_def)

section \<open>Strict structure of a canonical document\<close>

lemma trim_space_document:
  assumes "byte c < 128" "\<not> is_space (byte c)" "valid_string m" "byte d < 128" "\<not> is_space (byte d)"
  shows "trim_space (c # m @ [d, CHR 0x0A]) = c # m @ [d]"
proof -
  have "split_runes (c # m @ [d, CHR 0x0A])
      = (byte c, [c]) # split_runes m @ [(byte d, [d]), (10, [CHR 0x0A])]"
    using assms by (simp add: split_runes_ascii split_runes_append)
  moreover have "is_space 10" by (simp add: is_space_def)
  ultimately show ?thesis
    using assms(2,5) by (simp add: trim_space_def split_runes_concat)
qed

definition document :: "json \<Rightarrow> bool" where
  "document v \<longleftrightarrow> (case v of JObj ms \<Rightarrow> True | JArr vs \<Rightarrow> True | _ \<Rightarrow> False)"

lemma trim_document:
  assumes "document v" "wf_json fk v"
  shows "trim_space (MarshalCanonical v) = render v"
proof (cases v)
  case (JArr vs)
  have "valid_string (join_comma (map render vs))"
    using assms JArr by (auto intro!: valid_join_comma valid_render simp: list_all_iff)
  with JArr show ?thesis
    by (simp add: MarshalCanonical_def trim_space_document is_space_def)
next
  case (JObj ms)
  have "valid_string (render_string k @ CHR 0x3A # render v)" if "(k, v) \<in> set ms" for k v
    using that assms JObj
    by (fastforce intro!: valid_string_append valid_render_string valid_string_Cons_ascii
        valid_render simp: list_all_iff)
  then have "valid_string (join_comma (map (\<lambda>(k, v). render_string k @ CHR 0x3A # render v) ms))"
    by (auto intro!: valid_join_comma)
  with JObj show ?thesis
    by (simp add: MarshalCanonical_def trim_space_document is_space_def)
qed (use assms in \<open>auto simp: document_def\<close>)

theorem ValidateJSONStructure_canonical:
  assumes "document v" "wf_json foldJSONKey v" "length (MarshalCanonical v) \<le> MaxControlRecordSize"
  shows "ValidateJSONStructure (MarshalCanonical v) = Inr v"
proof -
  have first: "render v \<noteq> []" "render v \<noteq> ''null''" "hd (render v) = CHR 0x7B \<or> hd (render v) = CHR 0x5B"
    using assms(1) by (cases v; simp add: document_def)+
  have "parse_value foldJSONKey (2 * length (render v)) (render v @ []) = Inr (v, [])"
    using parse_render [OF assms(2)] unfolding parse_ok_def number_end_def by simp
  then have parsed: "parse_value foldJSONKey (2 * length (render v)) (render v) = Inr (v, [])" by simp
  show ?thesis
    using assms first
    by (simp add: ValidateJSONStructure_def trim_document parsed Let_def skip_space_def del: parse_value.simps)
qed

text \<open>A canonical document determines its value, whatever its size.\<close>

theorem MarshalCanonical_injective:
  assumes "wf_json id v" "wf_json id w" "MarshalCanonical v = MarshalCanonical w"
  shows "v = w"
proof -
  have eq: "render v = render w" using assms(3) by (simp add: MarshalCanonical_def)
  have "parse_value id (length (render u)) (render u @ []) = Inr (u, [])" if "wf_json id u" for u
    using parse_render [OF that] unfolding parse_ok_def number_end_def by (metis order_refl)
  from this [OF assms(1)] this [OF assms(2)] eq show ?thesis by simp
qed

section \<open>Members of a struct\<close>

lemma map_of_members [simp]:
  "map_of (field_json k v @ ms) j = (if j = k then Some v else map_of ms j)"
  "map_of (omit_empty_string k s @ ms) j = (if j = k \<and> s \<noteq> [] then Some (JStr s) else map_of ms j)"
  "map_of (omit_empty_bool k b @ ms) j = (if j = k \<and> b then Some (JBool b) else map_of ms j)"
  "map_of (omit_nil k f p @ ms) j = (if j = k \<and> p \<noteq> None then map_option f p else map_of ms j)"
  "map_of (field_json k v) j = (if j = k then Some v else None)"
  "map_of (omit_empty_string k s) j = (if j = k \<and> s \<noteq> [] then Some (JStr s) else None)"
  "map_of (omit_nil k f p) j = (if j = k \<and> p \<noteq> None then map_option f p else None)"
  by (auto simp: field_json_def omit_empty_string_def omit_empty_bool_def omit_nil_def map_add_def
      split: option.splits)

text \<open>A struct's members name their fields once, in declaration order.\<close>

definition absent :: "string \<Rightarrow> (string \<times> json) list \<Rightarrow> bool" where
  "absent k ms \<longleftrightarrow> k \<notin> fst ` set ms"

lemma absent_simps [simp]:
  "absent j []"
  "absent j (field_json k v @ ms) \<longleftrightarrow> j \<noteq> k \<and> absent j ms"
  "absent j (field_json k v) \<longleftrightarrow> j \<noteq> k"
  by (auto simp: absent_def field_json_def)

lemma absent_intros:
  "j \<noteq> k \<Longrightarrow> absent j ms \<Longrightarrow> absent j (omit_empty_string k s @ ms)"
  "j \<noteq> k \<Longrightarrow> absent j ms \<Longrightarrow> absent j (omit_empty_bool k b @ ms)"
  "j \<noteq> k \<Longrightarrow> absent j ms \<Longrightarrow> absent j (omit_nil k f p @ ms)"
  "j \<noteq> k \<Longrightarrow> absent j (omit_empty_string k s)"
  "j \<noteq> k \<Longrightarrow> absent j (omit_nil k f p)"
  by (auto simp: absent_def omit_empty_string_def omit_empty_bool_def omit_nil_def split: option.splits)

definition distinct_keys :: "(string \<times> json) list \<Rightarrow> bool" where
  "distinct_keys ms \<longleftrightarrow> distinct (map fst ms)"

lemma distinct_members:
  "absent k ms \<Longrightarrow> distinct_keys ms \<Longrightarrow> distinct_keys (field_json k v @ ms)"
  "absent k ms \<Longrightarrow> distinct_keys ms \<Longrightarrow> distinct_keys (omit_empty_string k s @ ms)"
  "absent k ms \<Longrightarrow> distinct_keys ms \<Longrightarrow> distinct_keys (omit_empty_bool k b @ ms)"
  "absent k ms \<Longrightarrow> distinct_keys ms \<Longrightarrow> distinct_keys (omit_nil k f p @ ms)"
  "distinct_keys (field_json k v)"
  "distinct_keys (omit_empty_string k s)"
  "distinct_keys (omit_nil k f p)"
  by (auto simp: distinct_keys_def absent_def field_json_def omit_empty_string_def omit_empty_bool_def
      omit_nil_def split: option.splits)

lemma absent_map_of: "absent k ms \<Longrightarrow> map_of ms k = None"
  by (simp add: absent_def map_of_eq_None_iff)

lemma absent_remove: "absent k ms \<Longrightarrow> remove_field k ms = ms"
  by (auto simp: absent_def filter_id_conv)

lemma validate_members:
  "absent k ms \<Longrightarrow> validateJSONType ty v = None \<Longrightarrow>
     validateJSONObject ((k, omit, ty) # fs) (field_json k v @ ms) = validateJSONObject fs ms"
  "absent k ms \<Longrightarrow>
     validateJSONObject ((k, True, TScalar) # fs) (omit_empty_string k s @ ms) = validateJSONObject fs ms"
  "absent k ms \<Longrightarrow>
     validateJSONObject ((k, True, TScalar) # fs) (omit_empty_bool k b @ ms) = validateJSONObject fs ms"
  "absent k ms \<Longrightarrow> (\<And>x. p = Some x \<Longrightarrow> validateJSONType ty (f x) = None) \<Longrightarrow>
     validateJSONObject ((k, True, ty) # fs) (omit_nil k f p @ ms) = validateJSONObject fs ms"
  by (auto simp: field_json_def omit_empty_string_def omit_empty_bool_def omit_nil_def
      absent_map_of absent_remove [simplified] split: option.splits)

lemma validate_last:
  "validateJSONType ty v = None \<Longrightarrow> validateJSONObject [(k, omit, ty)] (field_json k v) = None"
  "validateJSONObject [(k, True, TScalar)] (omit_empty_string k s) = None"
  "(\<And>x. p = Some x \<Longrightarrow> validateJSONType ty (f x) = None) \<Longrightarrow>
     validateJSONObject [(k, True, ty)] (omit_nil k f p) = None"
  by (auto simp: field_json_def omit_empty_string_def omit_nil_def split: option.splits)

text \<open>Field names of lower-case letters and underscores stay distinct when keys are case-folded.\<close>

definition field_name :: "string \<Rightarrow> bool" where
  "field_name k \<longleftrightarrow> list_all (\<lambda>c. lower c \<or> c = CHR ''_'') k"

lemma field_name_ascii: "field_name k \<Longrightarrow> is_ascii k"
  by (induction k) (auto simp: field_name_def is_ascii_def lower_def less_eq_char_def)

lemma fold_field_name:
  assumes "field_name k"
  shows "foldJSONKey k = map (\<lambda>c. char_of (fold_rune (byte c))) k"
proof -
  have small: "fold_rune (byte c) < 128" if "lower c \<or> c = CHR ''_''" for c
    using that by (auto simp: fold_rune_def lower_def less_eq_char_def)
  have "concat (map (encode_rune \<circ> fold_rune) (map byte k)) = map (\<lambda>c. char_of (fold_rune (byte c))) k"
    using assms by (induction k) (auto simp: field_name_def encode_rune_def dest!: small)
  then show ?thesis
    by (simp add: foldJSONKey_def runes_ascii field_name_ascii assms)
qed

lemma fold_rune_name:
  assumes "lower c \<or> c = CHR ''_''"
  shows "(byte c = 95 \<or> 97 \<le> byte c \<and> byte c \<le> 122)
    \<and> fold_rune (byte c) = (if byte c = 95 then 95 else byte c - 32)"
  using assms by (auto simp: fold_rune_def lower_def less_eq_char_def)

lemma upper_name_inj:
  "inj_on (\<lambda>c :: char. char_of (fold_rune (byte c)) :: char) {c. lower c \<or> c = CHR ''_''}"
proof (rule inj_onI)
  fix a b :: char
  assume ab: "a \<in> {c. lower c \<or> c = CHR ''_''}" "b \<in> {c. lower c \<or> c = CHR ''_''}"
    "char_of (fold_rune (byte a)) = (char_of (fold_rune (byte b)) :: char)"
  obtain m n where mn: "m = byte a" "n = byte b" by blast
  have a: "m = 95 \<or> 97 \<le> m \<and> m \<le> 122" "fold_rune m = (if m = 95 then 95 else m - 32)"
    and b: "n = 95 \<or> 97 \<le> n \<and> n \<le> 122" "fold_rune n = (if n = 95 then 95 else n - 32)"
    using fold_rune_name [of a] fold_rune_name [of b] ab(1,2) unfolding mn by blast+
  have "fold_rune m < 256" "fold_rune n < 256" using a b by auto
  moreover have "byte (char_of (fold_rune m) :: char) = byte (char_of (fold_rune n) :: char)"
    using ab(3) unfolding mn by (rule arg_cong)
  ultimately have "fold_rune m = fold_rune n" by simp
  then have "m = n" using a b by (auto split: if_splits)
  then show "a = b" unfolding mn by (simp only: of_char_eq_iff)
qed

lemma fold_field_name_inj: "inj_on foldJSONKey {k. field_name k}"
proof (rule inj_onI)
  fix j k assume names: "j \<in> {k. field_name k}" "k \<in> {k. field_name k}" and eq: "foldJSONKey j = foldJSONKey k"
  have "set j \<union> set k \<subseteq> {c. lower c \<or> c = CHR ''_''}"
    using names by (auto simp: field_name_def list_all_iff)
  from inj_on_subset [OF upper_name_inj this] show "j = k"
    using eq names by (simp add: fold_field_name inj_on_map_eq_map)
qed

lemma distinct_folded:
  assumes "distinct (map fst ms)" "\<forall>m \<in> set ms. field_name (fst m)"
  shows "distinct (map (foldJSONKey \<circ> fst) ms)"
proof -
  have "inj_on foldJSONKey (set (map fst ms))"
    using fold_field_name_inj assms(2) by (auto intro: inj_on_subset)
  then show ?thesis
    using assms(1) by (simp add: distinct_map flip: map_map)
qed

text \<open>A struct whose fields are named so, and whose values are well formed, is well formed.\<close>

definition good_member :: "string \<times> json \<Rightarrow> bool" where
  "good_member m \<longleftrightarrow> field_name (fst m) \<and> wf_json foldJSONKey (snd m)"

lemma good_members:
  "field_name k \<Longrightarrow> wf_json foldJSONKey v \<Longrightarrow> list_all good_member (field_json k v)"
  "field_name k \<Longrightarrow> valid_string s \<Longrightarrow> list_all good_member (omit_empty_string k s)"
  "field_name k \<Longrightarrow> list_all good_member (omit_empty_bool k b)"
  "field_name k \<Longrightarrow> (\<And>x. p = Some x \<Longrightarrow> wf_json foldJSONKey (f x)) \<Longrightarrow> list_all good_member (omit_nil k f p)"
  by (auto simp: good_member_def field_json_def omit_empty_string_def omit_empty_bool_def omit_nil_def
      split: option.splits)

lemma wf_struct:
  assumes "list_all good_member ms" "distinct_keys ms"
  shows "wf_json foldJSONKey (JObj ms)"
  using assms distinct_folded [OF assms(2) [unfolded distinct_keys_def]]
  by (auto simp: list_all_iff good_member_def valid_string_ascii field_name_ascii)

end
