(* ===== verification/Json_Valid.thy ===== *)
theory Json_Valid
  imports Json_Document
begin

text \<open>
  Every string the JSON reader produces is valid UTF-8, whatever bytes it read: escapes encode Unicode
  scalar values, and undecodable bytes become U+FFFD. A value that was read back equal to itself
  therefore contains only valid text.
\<close>

section \<open>Encoding one rune\<close>

definition scalar :: "nat \<Rightarrow> bool" where "scalar r \<longleftrightarrow> r < 1114112 \<and> \<not> surrogate r"

lemma byte_char_of: "n < 256 \<Longrightarrow> byte (char_of n) = n"
  by simp

lemma base64_join:
  "r = a * 64 + z \<Longrightarrow> a = b * 64 + y \<Longrightarrow> r = b * 4096 + y * 64 + (z :: nat)"
  "r = a * 64 + z \<Longrightarrow> a = b * 64 + y \<Longrightarrow> b = c * 64 + x
     \<Longrightarrow> r = c * 262144 + x * 4096 + y * 64 + (z :: nat)"
  by simp_all

lemma base64_split:
  "r = r div 64 div 64 * 4096 + r div 64 mod 64 * 64 + (r :: nat) mod 64"
  "r = r div 64 div 64 div 64 * 262144 + r div 64 div 64 mod 64 * 4096 + r div 64 mod 64 * 64 + (r :: nat) mod 64"
  by (rule base64_join; rule div_mult_mod_eq [symmetric])+

lemma decode_encode_rune:
  assumes "scalar r"
  shows "decode_rune (encode_rune r) = (r, length (encode_rune r)) \<and> (128 \<le> r \<longrightarrow> 2 \<le> length (encode_rune r))"
proof -
  consider "r < 128" | "128 \<le> r" "r < 2048" | "2048 \<le> r" "r < 65536" | "65536 \<le> r" by linarith
  then show ?thesis
  proof cases
    case 1
    then show ?thesis by (simp add: encode_rune_def decode_rune_def)
  next
    case 2
    define q z where "q = r div 64" and "z = r mod 64"
    have "r = q * 64 + z" "z < 64" "2 \<le> q" "q < 32"
      using 2 by (auto simp: q_def z_def)
    with 2 show ?thesis
      by (simp add: encode_rune_def decode_rune_def cont_byte_def rune2_def)
  next
    case 3
    define q y z where "q = r div 4096" and "y = r div 64 mod 64" and "z = r mod 64"
    have r: "r = q * 4096 + y * 64 + z"
    proof -
      have "r div 4096 = r div 64 div 64" by (simp flip: div_mult2_eq)
      then show ?thesis unfolding q_def y_def z_def by (metis base64_split(1))
    qed
    have b: "y < 64" "z < 64" "q < 16" using 3 by (auto simp: q_def y_def z_def)
    have "q = 0 \<longrightarrow> 32 \<le> y" "q = 13 \<longrightarrow> y \<le> 31"
      using r b 3 assms by (auto simp: scalar_def surrogate_def)
    then have "second_ok (224 + q) (128 + y)" using b by (simp add: second_ok_def cont_byte_def)
    moreover have "encode_rune r = [char_of (224 + q), char_of (128 + y), char_of (128 + z)]"
      using 3 by (simp add: encode_rune_def q_def y_def z_def)
    moreover have "byte (char_of (224 + q)) = 224 + q" "byte (char_of (128 + y)) = 128 + y"
        "byte (char_of (128 + z)) = 128 + z"
      using b by (intro byte_char_of; linarith)+
    ultimately show ?thesis
      using b r by (simp add: decode_rune_def cont_byte_def rune3_def del: of_char_of)
  next
    case 4
    define q x y z where "q = r div 262144" and "x = r div 4096 mod 64" and "y = r div 64 mod 64"
      and "z = r mod 64"
    have r: "r = q * 262144 + x * 4096 + y * 64 + z"
    proof -
      have "r div 4096 = r div 64 div 64" "r div 262144 = r div 64 div 64 div 64"
        by (simp_all flip: div_mult2_eq)
      then show ?thesis
        unfolding q_def x_def y_def z_def
        by (metis base64_split(2))
    qed
    have b: "x < 64" "y < 64" "z < 64" "q < 5"
      using assms by (auto simp: q_def x_def y_def z_def scalar_def)
    have "q = 0 \<longrightarrow> 16 \<le> x" "q = 4 \<longrightarrow> x \<le> 15"
      using r b 4 assms by (auto simp: scalar_def)
    then have "second_ok (240 + q) (128 + x)" using b by (simp add: second_ok_def cont_byte_def)
    moreover have "encode_rune r
        = [char_of (240 + q), char_of (128 + x), char_of (128 + y), char_of (128 + z)]"
      using 4 by (simp add: encode_rune_def q_def x_def y_def z_def)
    moreover have "byte (char_of (240 + q)) = 240 + q" "byte (char_of (128 + x)) = 128 + x"
        "byte (char_of (128 + y)) = 128 + y" "byte (char_of (128 + z)) = 128 + z"
      using b by (intro byte_char_of; linarith)+
    ultimately show ?thesis
      using b r by (simp add: decode_rune_def cont_byte_def rune4_def del: of_char_of)
  qed
qed

lemma valid_encode_rune:
  assumes "scalar r"
  shows "valid_string (encode_rune r)"
proof -
  have ne: "encode_rune r \<noteq> []" by (simp add: encode_rune_def)
  have "split_runes (encode_rune r) = [(r, encode_rune r)]"
    using split_runes_nonempty [OF ne] decode_encode_rune [OF assms] by simp
  then show ?thesis
    using decode_encode_rune [OF assms]
    by (cases "128 \<le> r") (auto simp: valid_string_chunks valid_chunk_def rune_error_def)
qed

section \<open>What the reader returns\<close>

lemma hex_value_bound: "hex_value c = Some n \<Longrightarrow> n < 16"
  by (auto simp: hex_value_def digit_def less_eq_char_def split: if_splits)

lemma hex4_bound: "hex4 s = Some (r, rest) \<Longrightarrow> r < 65536"
  by (induction s rule: hex4.induct)
    (auto split: option.splits dest!: hex_value_bound)

lemma unicode_escape_scalar: "unicode_escape s = Some (r, rest) \<Longrightarrow> scalar r"
  by (auto simp: unicode_escape_def scalar_def surrogate_def rune_error_def
      split: option.splits list.splits if_splits dest!: hex4_bound)

lemma simple_escape_ascii: "simple_escape c = Some x \<Longrightarrow> byte x < 128"
  by (auto simp: simple_escape_def split: if_splits)

lemma parse_string_valid: "parse_string n s = Inr (d, rest) \<Longrightarrow> valid_string d"
proof (induction n s arbitrary: d rest rule: parse_string.induct)
  case (3 n c s)
  consider (quote) "c = CHR 0x22" | (control) "c \<noteq> CHR 0x22" "byte c < 32"
    | (escape) "c \<noteq> CHR 0x22" "\<not> byte c < 32" "c = CHR 0x5C"
    | (plain) "c \<noteq> CHR 0x22" "\<not> byte c < 32" "c \<noteq> CHR 0x5C" by blast
  then show ?case
  proof cases
    case quote
    with "3.prems" show ?thesis by (simp add: valid_string_ascii is_ascii_def)
  next
    case control
    with "3.prems" show ?thesis by simp
  next
    case escape
    then obtain e t where s: "s = e # t" using "3.prems" by (cases s) auto
    show ?thesis
    proof (cases "e = CHR ''u''")
      case True
      with escape s "3.prems" obtain r u d' where
        "unicode_escape t = Some (r, u)" "parse_string n u = Inr (d', rest)" "d = encode_rune r @ d'"
        by (auto simp: bind_result_Inr_iff split: option.splits)
      with "3.IH"(1) [OF escape s True] show ?thesis
        by (simp add: valid_string_append valid_encode_rune unicode_escape_scalar)
    next
      case False
      with escape s "3.prems" obtain x d' where
        "simple_escape e = Some x" "parse_string n t = Inr (d', rest)" "d = x # d'"
        by (auto simp: bind_result_Inr_iff split: option.splits)
      with "3.IH"(2) [OF escape s False] show ?thesis
        by (simp add: valid_string_Cons_ascii simple_escape_ascii)
    qed
  next
    case plain
    obtain r k where rk: "decode_rune (c # s) = (r, k)" by fastforce
    let ?piece = "if r = rune_error \<and> k \<le> 1 then encode_rune rune_error else take k (c # s)"
    obtain d' where d': "parse_string n (drop k (c # s)) = Inr (d', rest)" "d = ?piece @ d'"
      using plain "3.prems" by (auto simp: rk Let_def bind_result_Inr_iff)
    have "valid_string d'" using "3.IH"(3) [OF plain rk [symmetric] refl] d'(1) by blast
    moreover have "valid_string ?piece"
      using valid_string_one_rune(2) [OF rk]
      by (auto intro!: valid_encode_rune simp: scalar_def surrogate_def rune_error_def)
    ultimately show ?thesis unfolding d'(2) by (rule valid_string_append [rotated])
  qed
qed simp_all

fun json_text :: "json \<Rightarrow> bool" where
  "json_text (JStr s) = valid_string s"
| "json_text (JArr vs) = list_all json_text vs"
| "json_text (JObj ms) = list_all (\<lambda>(k, v). json_text v) ms"
| "json_text v = True"

lemma parse_number_text: "parse_number s = Inr (v, rest) \<Longrightarrow> json_text v"
  by (auto simp: parse_number_def Let_def split: list.splits if_splits option.splits prod.splits)

lemma parse_literal_text: "parse_literal w v s = Inr (v', rest) \<Longrightarrow> json_text v \<Longrightarrow> json_text v'"
  by (auto simp: parse_literal_def split: if_splits)

lemma parse_text:
  "parse_value fk n s = Inr (v, rest) \<Longrightarrow> json_text v"
  "parse_elements fk n s = Inr (vs, rest) \<Longrightarrow> list_all json_text vs"
  "parse_members fk n seen s = Inr (ms, rest) \<Longrightarrow> list_all (\<lambda>(k, v). json_text v) ms"
proof (induction fk n s and fk n s and fk n seen s arbitrary: v rest and vs rest and ms rest
    rule: parse_value_parse_elements_parse_members.induct)
  case (2 fk n s)
  obtain c t where ct: "skip_space s = c # t" using "2.prems" by (cases "skip_space s") auto
  consider "c = CHR 0x22" | "c = CHR 0x7B" | "c = CHR 0x5B" | "c \<notin> {CHR 0x22, CHR 0x7B, CHR 0x5B}"
    by blast
  then show ?case
  proof cases
    case 1
    with "2.prems" ct show ?thesis by (auto simp: bind_result_Inr_iff dest: parse_string_valid)
  next
    case 2
    with "2.prems" ct obtain d u where "skip_space t = d # u" by (cases "skip_space t") auto
    with 2 "2.prems" "2.IH"(1) ct show ?thesis by (auto simp: bind_result_Inr_iff split: if_splits)
  next
    case 3
    with "2.prems" ct obtain d u where "skip_space t = d # u" by (cases "skip_space t") auto
    with 3 "2.prems" "2.IH"(2) ct show ?thesis by (auto simp: bind_result_Inr_iff split: if_splits)
  next
    case 4
    with "2.prems" ct show ?thesis
      by (auto split: if_splits dest!: parse_number_text parse_literal_text)
  qed
next
  case (4 fk n s)
  then obtain x r1 where x: "parse_value fk n s = Inr (x, r1)"
    by (auto simp: bind_result_Inr_iff)
  then obtain c t where "skip_space r1 = c # t"
    using "4.prems" by (cases "skip_space r1") auto
  with x "4.prems" "4.IH" show ?case
    by (auto simp: bind_result_Inr_iff split: if_splits)
next
  case (6 fk n seen s)
  then obtain q t where q: "skip_space s = q # t" "q = CHR 0x22"
    by (cases "skip_space s") (auto split: if_splits)
  then obtain k r1 where k: "parse_string (Suc (length t)) t = Inr (k, r1)" "fk k \<notin> set seen"
    using "6.prems" by (auto simp: bind_result_Inr_iff split: if_splits)
  then obtain r2 where r2: "skip_space r1 = CHR 0x3A # r2"
    using q "6.prems" by (cases "skip_space r1") (auto split: if_splits)
  then obtain x r3 where x: "parse_value fk n r2 = Inr (x, r3)"
    using q k "6.prems" by (auto simp: bind_result_Inr_iff)
  then obtain c r4 where c: "skip_space r3 = c # r4"
    using q k r2 "6.prems" by (cases "skip_space r3") auto
  have "json_text x" using "6.IH"(1) q k r2 x by blast
  with q k r2 x c "6.prems" "6.IH"(2) show ?case
    by (auto simp: bind_result_Inr_iff split: if_splits)
qed simp_all

lemma ValidateJSONStructure_text: "ValidateJSONStructure data = Inr v \<Longrightarrow> json_text v"
  by (auto simp: ValidateJSONStructure_def Let_def bind_result_Inr_iff simp del: parse_value.simps
      split: if_splits dest: parse_text(1))

end
