(* ===== verification/Request_Codec.thy ===== *)
theory Request_Codec
  imports Json_Valid Sched_Codec
begin

text \<open>
  The stored encoding of a request (\<open>request.go\<close>): a request whose fields are valid and whose
  strings are UTF-8 is encoded and read back exactly, and encoding is injective. The digests of a
  definition then commit to every one of its fields, up to collisions of SHA-256.
\<close>

section \<open>Requests as JSON\<close>

definition review_target_text :: "review_target \<Rightarrow> bool" where
  "review_target_text t \<longleftrightarrow> valid_string (rt_kind t) \<and> valid_string (rt_value t)"

definition task_config_text :: "task_config \<Rightarrow> bool" where
  "task_config_text c \<longleftrightarrow>
     valid_string (tc_model c) \<and> valid_string (tc_effort c) \<and> valid_string (tc_permission c)
     \<and> valid_string (tc_budget c) \<and> valid_string (tc_native_timeout c)
     \<and> pred_option review_target_text (tc_review_target c)"

definition team_target_text :: "team_target \<Rightarrow> bool" where
  "team_target_text t \<longleftrightarrow>
     valid_string (tr_scope (tt_team t)) \<and> valid_string (tr_team_id (tt_team t))
     \<and> pred_option (\<lambda>p. valid_string (tp_kind p) \<and> valid_string (tp_path p)) (tr_project (tt_team t))
     \<and> valid_string (tt_member_id t) \<and> valid_string (tt_catalog_id t)"

definition request_text :: "request \<Rightarrow> bool" where
  "request_text r \<longleftrightarrow>
     valid_string (rq_provider r) \<and> valid_string (rq_canonical_cwd r)
     \<and> task_config_text (rq_config r) \<and> pred_option team_target_text (rq_team r)"

lemmas request_jsons = review_target_json_def task_config_json_def team_project_json_def
  team_reference_json_def team_target_json_def request_json_def

lemmas request_decoders = review_target_of_json_def task_config_of_json_def team_project_of_json_def
  team_reference_of_json_def team_target_of_json_def request_of_json_def string_member_def
  bool_member_def pointer_member_def struct_member_def json_members_def

declare map_of_append [simp del]

lemma review_target_round_trip: "review_target_of_json (review_target_json t) = Inr t"
  by (cases t) (auto simp: request_jsons request_decoders)

lemma task_config_round_trip: "task_config_of_json (task_config_json c) = Inr c"
  by (cases c) (auto simp: task_config_json_def task_config_of_json_def string_member_def bool_member_def
      pointer_member_def json_members_def review_target_round_trip split: option.splits)

lemma team_reference_round_trip: "team_reference_of_json (team_reference_json t) = Inr t"
proof -
  have "team_project_of_json (team_project_json p) = Inr p" for p
    by (cases p) (simp add: request_jsons request_decoders)
  then show ?thesis
    by (cases t) (auto simp: team_reference_json_def team_reference_of_json_def string_member_def
        pointer_member_def json_members_def split: option.splits)
qed

lemma team_target_round_trip: "team_target_of_json (team_target_json t) = Inr t"
  by (cases t) (auto simp: team_target_json_def team_target_of_json_def string_member_def
      struct_member_def json_members_def team_reference_round_trip)

lemma request_round_trip: "request_of_json (request_json r) = Inr r"
  by (cases r) (auto simp: request_json_def request_of_json_def string_member_def bool_member_def
      struct_member_def pointer_member_def json_members_def task_config_round_trip
      team_target_round_trip split: option.splits)

lemmas member_rules = absent_intros distinct_members validate_members validate_last good_members

declare validateJSONObject.simps [simp del] remove_field.simps [simp del]

lemma review_target_type_ok: "validateJSONType review_target_type (review_target_json t) = None"
  by (simp add: review_target_type_def review_target_json_def member_rules)

lemma task_config_type_ok: "validateJSONType task_config_type (task_config_json c) = None"
  by (simp add: task_config_type_def task_config_json_def member_rules review_target_type_ok)

lemma team_target_type_ok: "validateJSONType team_target_type (team_target_json t) = None"
  by (simp add: team_target_type_def team_target_json_def team_reference_json_def team_project_json_def
      member_rules)

lemma request_type_ok: "validateJSONType request_type (request_json r) = None"
  by (simp add: request_type_def request_json_def member_rules task_config_type_ok team_target_type_ok)

lemma field_names [simp]:
  "field_name ''kind''" "field_name ''value''" "field_name ''interactive''" "field_name ''model''"
  "field_name ''effort''" "field_name ''permission''" "field_name ''budget''"
  "field_name ''native_timeout''" "field_name ''review_target''" "field_name ''path''"
  "field_name ''scope''" "field_name ''team_id''" "field_name ''project''" "field_name ''team''"
  "field_name ''member_id''" "field_name ''catalog_id''" "field_name ''provider''" "field_name ''auto''"
  "field_name ''canonical_cwd''" "field_name ''config''"
  by (simp_all add: field_name_def lower_def less_eq_char_def)

lemma wf_review_target: "review_target_text t \<Longrightarrow> wf_json foldJSONKey (review_target_json t)"
  unfolding review_target_json_def
  by (rule wf_struct) (auto simp: review_target_text_def intro!: member_rules)

lemma wf_task_config: "task_config_text c \<Longrightarrow> wf_json foldJSONKey (task_config_json c)"
  unfolding task_config_json_def
  by (rule wf_struct) (auto simp: task_config_text_def wf_review_target intro!: member_rules)

lemma wf_team_target: "team_target_text t \<Longrightarrow> wf_json foldJSONKey (team_target_json t)"
proof -
  assume ok: "team_target_text t"
  have project: "wf_json foldJSONKey (team_project_json p)" if "valid_string (tp_kind p)" "valid_string (tp_path p)" for p
    unfolding team_project_json_def using that
    by (intro wf_struct) (auto intro!: member_rules)
  have "wf_json foldJSONKey (team_reference_json (tt_team t))"
    unfolding team_reference_json_def using ok
    by (intro wf_struct) (auto simp: team_target_text_def project intro!: member_rules)
  then show ?thesis
    unfolding team_target_json_def using ok
    by (intro wf_struct) (auto simp: team_target_text_def intro!: member_rules)
qed

lemma wf_request: "request_text r \<Longrightarrow> wf_json foldJSONKey (request_json r)"
  unfolding request_json_def
  by (rule wf_struct) (auto simp: request_text_def wf_task_config wf_team_target intro!: member_rules)

section \<open>The encoding\<close>

theorem decode_canonical_request:
  assumes "request_text r" "length (MarshalCanonical (request_json r)) \<le> MaxControlRecordSize"
  shows "decode_request_strict (MarshalCanonical (request_json r)) = Inr r"
proof -
  have "document (request_json r)" by (simp add: document_def request_json_def)
  then have "ValidateJSONStructure (MarshalCanonical (request_json r)) = Inr (request_json r)"
    using assms wf_request by (intro ValidateJSONStructure_canonical)
  then show ?thesis
    by (simp add: decode_request_strict_def DecodeStrict_def request_type_ok request_round_trip)
qed

lemma encodeRequest_total:
  assumes "validateRequestFields r = None" "request_text r"
    "length (MarshalCanonical (request_json r)) \<le> MaxControlRecordSize"
  shows "encodeRequest r = Inr (MarshalCanonical (request_json r))"
  using assms decode_canonical_request by (simp add: encodeRequest_Inr)

lemma string_member_text: "json_text v \<Longrightarrow> string_member k v = Inr s \<Longrightarrow> valid_string s"
  by (auto simp: string_member_def json_members_def list_all_iff valid_string_ascii is_ascii_def
      dest!: map_of_SomeD split: option.splits json.splits)

lemma member_text: "json_text v \<Longrightarrow> map_of (json_members v) k = Some x \<Longrightarrow> json_text x"
  by (auto simp: json_members_def list_all_iff dest!: map_of_SomeD split: json.splits)

lemma struct_member_text:
  assumes "json_text v" "struct_member f k v = Inr x" "\<And>u. json_text u \<Longrightarrow> f u = Inr x \<Longrightarrow> P x"
  shows "P x"
  using assms(1,2) assms(3) [of "JObj []"] assms(3)
  by (auto simp: struct_member_def split: option.splits dest: member_text)

lemma pointer_member_text:
  assumes "json_text v" "pointer_member f k v = Inr x" "\<And>u y. json_text u \<Longrightarrow> f u = Inr y \<Longrightarrow> P y"
  shows "pred_option P x"
  using assms by (auto simp: pointer_member_def split: option.splits sum.splits dest: member_text)

lemma review_target_decoded: "json_text v \<Longrightarrow> review_target_of_json v = Inr t \<Longrightarrow> review_target_text t"
  by (auto simp: review_target_of_json_def review_target_text_def bind_result_Inr_iff dest: string_member_text)

lemma task_config_decoded: "json_text v \<Longrightarrow> task_config_of_json v = Inr c \<Longrightarrow> task_config_text c"
  by (auto simp: task_config_of_json_def task_config_text_def bind_result_Inr_iff
      dest: string_member_text elim!: pointer_member_text review_target_decoded)

lemma team_reference_decoded:
  assumes "json_text v" "team_reference_of_json v = Inr t"
  shows "valid_string (tr_scope t) \<and> valid_string (tr_team_id t)
    \<and> pred_option (\<lambda>p. valid_string (tp_kind p) \<and> valid_string (tp_path p)) (tr_project t)"
proof -
  have "valid_string (tp_kind p) \<and> valid_string (tp_path p)"
    if "json_text u" "team_project_of_json u = Inr p" for u p
    using that by (auto simp: team_project_of_json_def bind_result_Inr_iff dest: string_member_text)
  with assms show ?thesis
    by (auto simp: team_reference_of_json_def bind_result_Inr_iff dest: string_member_text
        elim!: pointer_member_text)
qed

lemma team_target_decoded:
  assumes "json_text v" "team_target_of_json v = Inr t"
  shows "team_target_text t"
proof -
  obtain r m c where parts: "struct_member team_reference_of_json ''team'' v = Inr r"
    "string_member ''member_id'' v = Inr m" "string_member ''catalog_id'' v = Inr c"
    "t = \<lparr>tt_team = r, tt_member_id = m, tt_catalog_id = c\<rparr>"
    using assms(2) by (auto simp: team_target_of_json_def bind_result_Inr_iff)
  have "valid_string (tr_scope r) \<and> valid_string (tr_team_id r)
      \<and> pred_option (\<lambda>p. valid_string (tp_kind p) \<and> valid_string (tp_path p)) (tr_project r)"
    by (rule struct_member_text [OF assms(1) parts(1)]) (rule team_reference_decoded)
  then show ?thesis
    using assms(1) parts(2-4) by (auto simp: team_target_text_def dest: string_member_text)
qed

lemma request_decoded:
  assumes "json_text v" "request_of_json v = Inr r"
  shows "request_text r"
proof -
  obtain p a w c t where parts: "string_member ''provider'' v = Inr p" "string_member ''canonical_cwd'' v = Inr w"
    "struct_member task_config_of_json ''config'' v = Inr c"
    "pointer_member team_target_of_json ''team'' v = Inr t"
    "r = \<lparr>rq_provider = p, rq_auto = a, rq_canonical_cwd = w, rq_config = c, rq_team = t\<rparr>"
    using assms(2) by (auto simp: request_of_json_def bind_result_Inr_iff)
  have "task_config_text c"
    by (rule struct_member_text [OF assms(1) parts(3)]) (rule task_config_decoded)
  moreover have "pred_option team_target_text t"
    by (rule pointer_member_text [OF assms(1) parts(4)]) (rule team_target_decoded)
  ultimately show ?thesis
    using assms(1) parts(1,2,5) by (auto simp: request_text_def dest: string_member_text)
qed

text \<open>Encoding succeeds exactly on valid requests whose strings canonical JSON can carry.\<close>

lemma decode_request_text:
  assumes "decode_request_strict bs = Inr r"
  shows "request_text r"
proof -
  obtain v where "ValidateJSONStructure bs = Inr v" "request_of_json v = Inr r"
    using assms by (cases "ValidateJSONStructure bs"; cases "request_of_json (projr (ValidateJSONStructure bs))")
      (auto simp: decode_request_strict_def DecodeStrict_def check_then_Inr_iff)
  then show ?thesis using request_decoded ValidateJSONStructure_text by blast
qed

lemma encodeRequest_iff:
  "encodeRequest r = Inr bs \<longleftrightarrow>
     validateRequestFields r = None \<and> request_text r \<and> bs = MarshalCanonical (request_json r)
     \<and> length bs \<le> MaxControlRecordSize"
  using decode_canonical_request by (auto simp: encodeRequest_Inr dest: decode_request_text)

lemma MarshalRequest_DecodeRequest: "MarshalRequest r = Inr bs \<longleftrightarrow> DecodeRequest bs = Inr r"
proof
  assume "MarshalRequest r = Inr bs"
  then show "DecodeRequest bs = Inr r"
    by (auto simp: MarshalRequest_def encodeRequest_Inr DecodeRequest_def bind_result_Inr_iff)
next
  assume "DecodeRequest bs = Inr r"
  then show "MarshalRequest r = Inr bs"
    by (auto simp: DecodeRequest_def MarshalRequest_def bind_result_Inr_iff split: sum.splits if_splits)
qed

section \<open>Digests of a definition\<close>

definition digest_document :: "definition_header \<Rightarrow> string \<Rightarrow> string" where
  "digest_document h brief = MarshalCanonical (definition_digest_json h brief)"

lemma hexPattern_text: "hexPattern s \<Longrightarrow> valid_string s" "hex64Pattern s \<Longrightarrow> valid_string s"
proof -
  have "byte c < 128" if "lower_hex c" for c
    using that by (auto simp: lower_hex_def digit_def less_eq_char_def)
  then show "hexPattern s \<Longrightarrow> valid_string s" "hex64Pattern s \<Longrightarrow> valid_string s"
    by (auto simp: hexPattern_def hex64Pattern_def list_all_iff is_ascii_def intro!: valid_string_ascii)
qed

lemma wf_json_id: "wf_json foldJSONKey v \<Longrightarrow> wf_json id v"
proof (induction v)
  case (JObj ms)
  have "distinct (map foldJSONKey (map fst ms))" using JObj.prems by simp
  then have "distinct (map fst ms)" unfolding distinct_map [of foldJSONKey] by blast
  moreover have "valid_string k \<and> wf_json id v" if "(k, v) \<in> set ms" for k v
  proof -
    have "valid_string k \<and> wf_json foldJSONKey v" using JObj.prems that by (auto simp: list_all_iff)
    moreover have "wf_json foldJSONKey v \<Longrightarrow> wf_json id v" by (rule JObj.IH [OF that]) simp
    ultimately show ?thesis by blast
  qed
  ultimately show ?case unfolding wf_json.simps list_all_iff id_comp by fast
qed (auto simp: list_all_iff)

lemma validateHeader_None:
  "validateHeader h = None \<Longrightarrow>
     hexPattern (dh_schedule_id h) \<and> valid_instant (dh_created_at h) \<and> valid_string (dh_cron h)
     \<and> valid_string (dh_timezone h) \<and> request_text (dh_request h)"
  by (auto simp: validateHeader_def first_error_None_iff go_check validateScheduleID_def
      validateOpaqueText_def error_of_None_iff encodeRequest_iff)

lemma wf_digest_json:
  assumes "validateHeader h = None" "ValidateSHA256 brief = None"
  shows "wf_json id (definition_digest_json h brief)"
  using validateHeader_None [OF assms(1)] assms(2)
  by (auto simp: definition_digest_json_def go_check hexPattern_text wf_json_id wf_request
      valid_string_ascii is_ascii_def)

definition decimal_value :: "string \<Rightarrow> nat" where
  "decimal_value ds = foldl (\<lambda>a c. a * 10 + (byte c - 48)) 0 ds"

lemma decimal_value_of_nat: "decimal_value (decimal_of_nat n) = n"
proof (induction n rule: decimal_of_nat.induct)
  case (1 n)
  have "decimal_value (ds @ [c]) = decimal_value ds * 10 + (byte c - 48)" for ds c
    by (simp add: decimal_value_def)
  with 1 show ?case
    by (subst decimal_of_nat.simps) (auto simp: decimal_value_def)
qed

lemma decimal_injective:
  assumes "decimal i = decimal j"
  shows "i = j"
proof -
  have sign: "CHR ''-'' # ds \<noteq> decimal_of_nat n" "decimal_of_nat n \<noteq> CHR ''-'' # ds" for n ds
    using decimal_of_nat_digits [of n] digit_not_minus [of "hd (decimal_of_nat n)"]
    by (cases "decimal_of_nat n"; fastforce)+
  have value_of: "decimal_of_nat m = decimal_of_nat n \<Longrightarrow> m = n" for m n
    by (metis decimal_value_of_nat)
  show ?thesis
    using assms by (auto simp: decimal_def sign eq_nat_nat_iff split: if_splits dest!: value_of)
qed

lemma digest_json_injective:
  assumes "definition_digest_json h b = definition_digest_json h' b'"
  shows "dh_schedule_id h = dh_schedule_id h'"
    "decimal (t_ns (dh_created_at h)) = decimal (t_ns (dh_created_at h'))"
    "dh_cron h = dh_cron h'" "dh_timezone h = dh_timezone h'"
    "request_json (dh_request h) = request_json (dh_request h')" "b = b'"
  using assms unfolding definition_digest_json_def json.inject list.inject prod.inject by blast+

lemma request_json_injective:
  assumes "request_json r = request_json r'"
  shows "r = r'"
  using request_round_trip [of r] unfolding assms request_round_trip by (rule sum.inject(2) [THEN iffD1, symmetric])

lemma header_equality:
  assumes "dh_schedule_id h = dh_schedule_id h'" "dh_created_at h = dh_created_at h'"
    "dh_cron h = dh_cron h'" "dh_timezone h = dh_timezone h'" "dh_request h = dh_request h'"
  shows "h = (h' :: definition_header)"
  by (rule definition_header.equality) (simp_all add: assms)

lemma digest_documents:
  assumes "validateHeader h = None" "ValidateSHA256 b = None" "validateHeader h' = None" "ValidateSHA256 b' = None"
    and "digest_document h b = digest_document h' b'"
  shows "definition_digest_json h b = definition_digest_json h' b'"
proof (rule MarshalCanonical_injective)
  show "wf_json id (definition_digest_json h b)" by (rule wf_digest_json [OF assms(1,2)])
  show "wf_json id (definition_digest_json h' b')" by (rule wf_digest_json [OF assms(3,4)])
  show "MarshalCanonical (definition_digest_json h b) = MarshalCanonical (definition_digest_json h' b')"
    using assms(5) unfolding digest_document_def .
qed

lemma digest_document_injective:
  assumes "validateHeader h = None" "ValidateSHA256 b = None" "validateHeader h' = None" "ValidateSHA256 b' = None"
    and "digest_document h b = digest_document h' b'"
  shows "h = h' \<and> b = b'"
proof -
  note same = digest_json_injective [OF digest_documents [OF assms]]
  have "valid_instant (dh_created_at h)" "valid_instant (dh_created_at h')"
    by (rule validateHeader_None [OF assms(1), THEN conjunct2, THEN conjunct1],
        rule validateHeader_None [OF assms(3), THEN conjunct2, THEN conjunct1])
  then have "dh_created_at h = dh_created_at h'"
    by (rule valid_instant_eqI) (rule decimal_injective [OF same(2)])
  then have "h = h'"
    by (rule header_equality [OF same(1) _ same(3,4) request_json_injective [OF same(5)]])
  then show ?thesis using same(6) by (rule conjI)
qed

lemma DefinitionDigests_Inr:
  "DefinitionDigests d = Inr g \<longleftrightarrow>
     ValidateDefinition d = None
     \<and> g = \<lparr>dg_brief_sha256 = ComputeSHA256 (df_brief d), dg_definition_sha256 =
            ComputeSHA256 (digest_document (df_header d) (ComputeSHA256 (df_brief d)))\<rparr>"
  by (auto simp: DefinitionDigests_def HeaderSHA256_def ValidateDefinition_None check_then_Inr_iff
      bind_result_Inr_iff first_error_None_iff digest_document_def Let_def)

lemma digests_bind:
  assumes "DefinitionDigests d = Inr g" "DefinitionDigests d' = Inr g"
    and "ComputeSHA256 (df_brief d) = ComputeSHA256 (df_brief d') \<Longrightarrow> df_brief d = df_brief d'"
    and "ComputeSHA256 (digest_document (df_header d) (dg_brief_sha256 g))
          = ComputeSHA256 (digest_document (df_header d') (dg_brief_sha256 g))
        \<Longrightarrow> digest_document (df_header d) (dg_brief_sha256 g)
          = digest_document (df_header d') (dg_brief_sha256 g)"
  shows "d = d'"
proof -
  have valid: "validateHeader (df_header d) = None" "validateHeader (df_header d') = None"
    using assms(1,2) by (simp_all add: DefinitionDigests_Inr ValidateDefinition_None)
  have brief: "dg_brief_sha256 g = ComputeSHA256 (df_brief x)"
    and doc: "dg_definition_sha256 g = ComputeSHA256 (digest_document (df_header x) (dg_brief_sha256 g))"
    if "DefinitionDigests x = Inr g" for x
    using that by (simp_all add: DefinitionDigests_Inr)
  have "df_brief d = df_brief d'" by (rule assms(3)) (metis assms(1,2) brief)
  moreover have "digest_document (df_header d) (dg_brief_sha256 g)
      = digest_document (df_header d') (dg_brief_sha256 g)"
    by (rule assms(4)) (metis assms(1,2) doc)
  then have "df_header d = df_header d'"
    unfolding brief [OF assms(1)]
    by (rule conjunct1 [OF digest_document_injective
          [OF valid(1) ComputeSHA256_valid valid(2) ComputeSHA256_valid]])
  ultimately show ?thesis by simp
qed

end
