(* ===== verification/Sched_Specs.thy ===== *)
theory Sched_Specs
  imports Sched_Open Request_Codec
begin

text \<open>
  Specifications of the schedule operations on the tables (create, skip, state change) and their
  refinement by the bodies when the driver reports no fault; what a new schedule reads back as.
\<close>

section \<open>Creating a schedule\<close>

definition create_spec :: "schedule_row \<Rightarrow> tables \<Rightarrow> sentinel + tables" where
  "create_spec row t =
     (if has_schedule (sr_id row) t then Inl ErrConflict
      else Inr (t\<lparr>tb_schedules := tb_schedules t @ [row]\<rparr>))"

lemma prepared_row_fields:
  assumes "prepared_row d = Inr row"
  shows "sr_id row = dh_schedule_id (df_header d)" "sr_created row = t_ns (dh_created_at (df_header d))"
    "sr_cursor row = t_ns (dh_created_at (df_header d))" "sr_state row = StateEnabled"
    "sr_brief row = df_brief d" "ValidateDefinition d = None"
  using assms
  by (auto simp: prepared_row_def InitialSchedule_def bind_result_Inr_iff check_then_Inr_iff
      initial_row_def Let_def)

lemma validateOpaqueText_length: "validateOpaqueText name v = None \<Longrightarrow> 1 \<le> length v \<and> length v \<le> 256"
  by (cases v) (auto simp: validateOpaqueText_def first_error_None_iff MaxOpaqueTextBytes_def)

lemma prepared_row_check:
  assumes "prepared_row d = Inr row"
  shows "schedule_check row"
proof -
  obtain g q where g: "DefinitionDigests d = Inr g" and q: "encodeRequest (dh_request (df_header d)) = Inr q"
    and row: "row = initial_row
        \<lparr>sc_definition = d, sc_state = StateEnabled, sc_cursor = dh_created_at (df_header d)\<rparr> g q"
    using assms
    by (auto simp: prepared_row_def InitialSchedule_def MarshalRequest_def bind_result_Inr_iff
        check_then_Inr_iff)
  have valid: "validateHeader (df_header d) = None" "validateBriefLength (int (length (df_brief d))) = None"
    using prepared_row_fields(6) [OF assms] by (simp_all add: ValidateDefinition_None)
  have header: "hexPattern (dh_schedule_id (df_header d))"
    "1 \<le> length (dh_cron (df_header d)) \<and> length (dh_cron (df_header d)) \<le> 256"
    "1 \<le> length (dh_timezone (df_header d)) \<and> length (dh_timezone (df_header d)) \<le> 256"
    using valid(1)
    by (auto simp: validateHeader_def first_error_None_iff validateScheduleID_def go_check
        dest!: validateOpaqueText_length)
  have brief: "1 \<le> length (df_brief d)" "length (df_brief d) \<le> 8388608"
    using valid(2) by (auto simp: validateBriefLength_def MaxBriefSize_def)
  have "1 \<le> length q" "length q \<le> 1048576"
    using q by (auto simp: encodeRequest_iff MarshalCanonical_def MaxControlRecordSize_def)
  moreover have "hex64Pattern (dg_brief_sha256 g)" "hex64Pattern (dg_definition_sha256 g)"
    using g ComputeSHA256_valid by (auto simp: DefinitionDigests_Inr ValidateSHA256_None simp del: ComputeSHA256_valid)
  ultimately show ?thesis
    using header brief by (simp add: schedule_check_def row initial_row_def Let_def)
qed

lemma CreateSchedule_refines:
  assumes "currentGuard s en db = None" "faultless en" "prepared_row d = Inr row"
  shows "case create_spec row (db_tables db) of
      Inl k \<Rightarrow> \<exists>e. CreateSchedule s en d db = (Inl e, db) \<and> errors_is e k
    | Inr t \<Rightarrow> CreateSchedule s en d db = (Inr (), db\<lparr>db_tables := t\<rparr>)"
proof -
  let ?f = "writing (\<lambda>t. sql en ''insert schedule'' (insert_schedule row t))"
  have create: "CreateSchedule s en d db = operate s en ?f db"
    by (simp add: CreateSchedule_def assms(3))
  show ?thesis
  proof (cases "has_schedule (sr_id row) (db_tables db)")
    case True
    then have "?f (db_tables db) = Inl (classify (DriverError SQLITE_CONSTRAINT_PRIMARYKEY))"
      using prepared_row_check [OF assms(3)]
      by (simp add: writing_def insert_schedule_def faultless_simps [OF assms(2)])
    from operate_refused [of en s db ?f, OF assms(2,1) this classify_unique(2)] True show ?thesis
      by (simp add: create create_spec_def)
  next
    case False
    then have "?f (db_tables db)
        = Inr ((), (db_tables db)\<lparr>tb_schedules := tb_schedules (db_tables db) @ [row]\<rparr>)"
      using prepared_row_check [OF assms(3)]
      by (simp add: writing_def insert_schedule_def faultless_simps [OF assms(2)])
    from operate_committed [of en s db ?f, OF assms(2,1) this] False show ?thesis
      by (simp add: create create_spec_def)
  qed
qed

lemma GetSchedule_found:
  assumes "currentGuard s en db = None" "faultless en" "validateScheduleID sid = None"
    and "find_schedule sid (db_tables db) = Some row" "row_schedule row = Inr x"
  shows "GetSchedule s en sid db = (Inr x, db)"
proof -
  let ?f = "read_tables (\<lambda>t. bind_result (sql en ''select schedule'' (Inr (find_schedule sid t))) (\<lambda>row.
         case row of
           None \<Rightarrow> Inl (Wrap ''schedule'' (Leaf ErrNotExist))
         | Some r \<Rightarrow> row_schedule r))"
  have "?f (db_tables db) = Inr (x, db_tables db)"
    using assms(4,5) by (simp add: read_tables_def faultless_simps [OF assms(2)])
  from operate_committed [of en s db ?f, OF assms(2,1) this] show ?thesis
    by (simp add: GetSchedule_def assms(3))
qed

lemma find_append:
  "List.find P (xs @ ys) = (case List.find P xs of None \<Rightarrow> List.find P ys | Some x \<Rightarrow> Some x)"
  by (induction xs) auto

lemma create_then_get:
  assumes "currentGuard s en db = None" "faultless en" "prepared_row d = Inr row"
    and "\<not> has_schedule (sr_id row) (db_tables db)"
    and "CreateSchedule s en d db = (r, db')" "currentGuard s en' db' = None" "faultless en'"
  shows "r = Inr () \<and> GetSchedule s en' (dh_schedule_id (df_header d)) db'
    = (Inr \<lparr>sc_definition = d, sc_state = StateEnabled, sc_cursor = dh_created_at (df_header d)\<rparr>, db')"
proof -
  note created = CreateSchedule_refines [OF assms(1-3)]
  have r: "r = Inr ()" "db' = db\<lparr>db_tables := (db_tables db)\<lparr>tb_schedules := tb_schedules (db_tables db) @ [row]\<rparr>\<rparr>"
    using created assms(4,5) by (auto simp: create_spec_def)
  let ?id = "dh_schedule_id (df_header d)"
  have id: "sr_id row = ?id" using prepared_row_fields(1) [OF assms(3)] .
  have "find_schedule ?id (db_tables db') = Some row"
    using assms(4) unfolding has_schedule_find by (simp add: r(2) find_schedule_def id find_append)
  moreover have "validateScheduleID ?id = None"
    using prepared_row_fields(6) [OF assms(3)]
    by (simp add: ValidateDefinition_None validateHeader_def first_error_None_iff)
  ultimately show ?thesis
    using GetSchedule_found [OF assms(6,7)] prepared_row_decodes [OF assms(3)] r(1) by simp
qed

section \<open>Skips and state changes\<close>

definition skip_spec :: "skip_request \<Rightarrow> tables \<Rightarrow> sentinel + tables" where
  "skip_spec k t = (case find_schedule (sk_schedule_id k) t of
     None \<Rightarrow> Inl ErrNotExist
   | Some r \<Rightarrow>
       if sr_state r = StateEnabled \<and> sr_cursor r = t_ns (sk_expected_cursor k)
       then Inr (skip_effect (sk_schedule_id k) (sk_span k) id t)
       else Inl ErrConflict)"

definition change_spec :: "state_change \<Rightarrow> tables \<Rightarrow> sentinel + tables" where
  "change_spec c t = (case find_schedule (ch_schedule_id c) t of
     None \<Rightarrow> Inl ErrNotExist
   | Some r \<Rightarrow>
       if sr_state r \<noteq> ch_from c then Inl ErrConflict
       else case ch_resume c of
         None \<Rightarrow> Inr (modify_schedule (ch_schedule_id c) (set_state (ch_to c)) t)
       | Some rs \<Rightarrow>
           if sr_cursor r = t_ns (rs_expected_cursor rs)
           then Inr (skip_effect (ch_schedule_id c) (Span rs) (set_state (ch_to c)) t)
           else Inl ErrConflict)"

text \<open>A span that starts at the cursor or later can always be stored.\<close>

lemma insert_span_fits:
  assumes "store_ok t" "find_schedule sid t = Some r" "sr_cursor r \<le> t_ns (sp_from k)"
    and "ValidateSkipSpan k = None"
  shows "insert_span (span_row_of sid k) t = Inr (t\<lparr>tb_spans := tb_spans t @ [span_row_of sid k]\<rparr>)"
proof -
  have valid: "sp_reason k \<in> {SkipOverlapActive, SkipBlockedUncertain, SkipMissedUnavailable,
      SkipMissedCapacity, SkipPaused}" "t_ns (sp_from k) < t_ns (sp_to k)"
    using assms(4) by (simp_all add: ValidateSkipSpan_None ValidateSkipReason_def)
  have "kr_to x \<le> sr_cursor r" if "x \<in> set (tb_spans t)" "kr_schedule_id x = sid" for x
    using assms(1) find_schedule_SomeD [OF assms(2)] that
    by (auto simp: store_ok_def timeline_ok_def bounded_by_cursor_def)
  with valid assms(2,3) show ?thesis
    by (fastforce simp: insert_span_Inr span_check_def span_row_of_def has_schedule_find)
qed

lemma found_schedule_check:
  assumes "store_ok t" "find_schedule sid t = Some r"
  shows "schedule_check r" "schedules_ok t"
  using assms find_schedule_SomeD [OF assms(2)]
  by (auto simp: store_ok_def tables_ok_def schedules_ok_def)

lemma forward_update:
  assumes "schedule_check r" "sr_cursor r < n"
  shows "schedule_update_fault False True r (set_cursor n r) = None"
    "sr_state r \<noteq> StateDeleted \<Longrightarrow> ValidateState st = None \<Longrightarrow>
       schedule_update_fault True True r ((set_cursor n \<circ> set_state st) r) = None"
  using assms
  by (auto simp: schedule_update_fault_def schedule_check_def set_cursor_def set_state_def ValidateState_None)

lemma record_skip_body_faultless:
  assumes "faultless en" "store_ok t" "ValidateSkip k = None"
  shows "case skip_spec k t of
      Inl c \<Rightarrow> \<exists>e. record_skip_body en k t = Inl e \<and> errors_is e c
    | Inr t' \<Rightarrow> record_skip_body en k t = Inr t'"
proof (cases "find_schedule (sk_schedule_id k) t")
  case None
  then show ?thesis
    by (simp add: skip_spec_def record_skip_body_def store_ok_scheduleState [OF assms(2,1)])
next
  case (Some r)
  note state = store_ok_scheduleState [OF assms(2,1), of "sk_schedule_id k", unfolded Some, simplified]
  show ?thesis
  proof (cases "sr_state r = StateEnabled \<and> sr_cursor r = t_ns (sk_expected_cursor k)")
    case True
    let ?sp = "sk_span k" and ?sid = "sk_schedule_id k"
    let ?t1 = "t\<lparr>tb_spans := tb_spans t @ [span_row_of ?sid ?sp]\<rparr>"
    have span: "ValidateSkipSpan ?sp = None" "sr_cursor r \<le> t_ns (sp_from ?sp)"
      using assms(3) ValidateSkip_start [OF assms(3)] True
      by (simp_all add: ValidateSkip_def first_error_None_iff)
    then have fwd: "sr_cursor r < t_ns (sp_to ?sp)" by (simp add: ValidateSkipSpan_None)
    have "insertSkipSpan en ?sid (sr_cursor r) (sk_expected_cursor k) ?sp t = Inr ?t1"
      using insert_span_fits [OF assms(2) Some span(2,1)] True
      by (simp add: insertSkipSpan_Inr faultless_simps [OF assms(1)])
    moreover have "updateOne en ''update skip cursor'' (update_schedules False True
        (\<lambda>x. sr_id x = ?sid \<and> sr_cursor x = sr_cursor r) (set_cursor (t_ns (sp_to ?sp)))) ?t1
        = Inr (modify_schedule ?sid (set_cursor (t_ns (sp_to ?sp))) ?t1)"
      using found_schedule_check [OF assms(2) Some] Some find_schedule_SomeD [OF Some] fwd
      by (intro updateOne_succeeds [OF _ _ _ _ assms(1)]) (auto intro: forward_update(1))
    ultimately show ?thesis
      using True by (simp add: skip_spec_def Some record_skip_body_def state skip_effect_def)
  next
    case False
    then show ?thesis
      by (auto simp: skip_spec_def Some record_skip_body_def state insertSkipSpan_def)
  qed
qed

lemma change_state_body_faultless:
  assumes "faultless en" "store_ok t" "ValidateStateChange c = None"
  shows "case change_spec c t of
      Inl k \<Rightarrow> \<exists>e. change_state_body en c t = Inl e \<and> errors_is e k
    | Inr t' \<Rightarrow> change_state_body en c t = Inr t'"
proof (cases "find_schedule (ch_schedule_id c) t")
  case None
  then show ?thesis
    by (simp add: change_spec_def change_state_body_def store_ok_scheduleState [OF assms(2,1)])
next
  case (Some r)
  let ?sid = "ch_schedule_id c"
  note state = store_ok_scheduleState [OF assms(2,1), of ?sid, unfolded Some, simplified]
  note check = found_schedule_check [OF assms(2) Some]
  have dest: "ValidateState (ch_to c) = None" "permittedTransition (ch_from c) (ch_to c)"
    using assms(3) by (simp_all add: ValidateStateChange_def first_error_None_iff)
  then have alive: "ch_from c \<noteq> StateDeleted" by (auto simp: permittedTransition_def)
  show ?thesis
  proof (cases "sr_state r = ch_from c")
    case same: True
    show ?thesis
    proof (cases "ch_resume c")
      case None
      have "schedule_update_fault True False r (set_state (ch_to c) r) = None"
        using check(1) dest alive same
        by (auto simp: schedule_update_fault_def schedule_check_def set_state_def ValidateState_None)
      then have "updateOne en ''update state'' (update_schedules True False
          (\<lambda>x. sr_id x = ?sid \<and> sr_state x = ch_from c) (set_state (ch_to c))) t
          = Inr (modify_schedule ?sid (set_state (ch_to c)) t)"
        using Some find_schedule_SomeD [OF Some] same check(2)
        by (intro updateOne_succeeds [OF _ _ _ _ assms(1)]) auto
      then show ?thesis
        by (simp add: change_spec_def Some same None change_state_body_def state)
    next
      case resume: (Some rs)
      show ?thesis
      proof (cases "sr_cursor r = t_ns (rs_expected_cursor rs)")
        case True
        let ?t1 = "t\<lparr>tb_spans := tb_spans t @ [span_row_of ?sid (Span rs)]\<rparr>"
        have span: "ValidateSkipSpan (Span rs) = None" "sr_cursor r \<le> t_ns (sp_from (Span rs))"
          using assms(3) ValidateStateChange_start [OF assms(3) resume] True resume
          by (simp_all add: ValidateStateChange_def first_error_None_iff)
        then have fwd: "sr_cursor r < t_ns (rs_to rs)"
          by (simp add: ValidateSkipSpan_None Span_def)
        have "insertSkipSpan en ?sid (sr_cursor r) (rs_expected_cursor rs) (Span rs) t = Inr ?t1"
          using insert_span_fits [OF assms(2) Some span(2,1)] True
          by (simp add: insertSkipSpan_Inr faultless_simps [OF assms(1)])
        moreover have "updateOne en ''update state and cursor'' (update_schedules True True
            (\<lambda>x. sr_id x = ?sid \<and> sr_state x = ch_from c \<and> sr_cursor x = sr_cursor r)
            (set_cursor (t_ns (rs_to rs)) \<circ> set_state (ch_to c))) ?t1
            = Inr (modify_schedule ?sid (set_cursor (t_ns (rs_to rs)) \<circ> set_state (ch_to c)) ?t1)"
          using check Some find_schedule_SomeD [OF Some] same alive dest(1) fwd
          by (intro updateOne_succeeds [OF _ _ _ _ assms(1)])
            (auto simp del: comp_apply intro!: forward_update(2))
        ultimately show ?thesis
          using True
          by (simp add: change_spec_def Some same resume change_state_body_def state skip_effect_def Span_def)
      next
        case False
        then show ?thesis
          by (simp add: change_spec_def Some same resume change_state_body_def state insertSkipSpan_def)
      qed
    qed
  next
    case False
    then show ?thesis by (simp add: change_spec_def Some change_state_body_def state)
  qed
qed

text \<open>An operation that only writes answers as its body does.\<close>

lemma operate_writing_refines:
  assumes "currentGuard s en db = None" "faultless en"
    and "case spec of Inl k \<Rightarrow> \<exists>e. f (db_tables db) = Inl e \<and> errors_is e k
         | Inr t' \<Rightarrow> f (db_tables db) = Inr t'"
  shows "case spec of Inl k \<Rightarrow> \<exists>e. operate s en (writing f) db = (Inl e, db) \<and> errors_is e k
         | Inr t' \<Rightarrow> operate s en (writing f) db = (Inr (), db\<lparr>db_tables := t'\<rparr>)"
proof (cases spec)
  case (Inl k)
  with assms(3) obtain e where "writing f (db_tables db) = Inl e" "errors_is e k"
    by (auto simp: writing_def)
  from operate_refused [of en s db "writing f", OF assms(2,1) this] Inl show ?thesis by simp
next
  case (Inr t')
  with assms(3) have "writing f (db_tables db) = Inr ((), t')" by (simp add: writing_def)
  from operate_committed [of en s db "writing f", OF assms(2,1) this] Inr show ?thesis by simp
qed

end
