(* ===== verification/Sched_Listing.thy ===== *)
theory Sched_Listing
  imports Sched_Specs
begin

text \<open>
  What the paged reads return on a reachable database: the ascending pages of schedules and active
  occurrences, and the newest-first pages of a schedule's history.
\<close>

lemma operate_reads:
  assumes "currentGuard s en db = None" "faultless en" "f (db_tables db) = Inr x"
  shows "operate s en (read_tables f) db = (Inr x, db)"
proof -
  have "read_tables f (db_tables db) = Inr (x, db_tables db)" using assms(3) by (simp add: read_tables_def)
  from operate_committed [of en s db "read_tables f", OF assms(2,1) this] show ?thesis by simp
qed

lemma page_decodes:
  assumes "\<forall>r \<in> set rs. decodes (f r)"
  shows "\<exists>xs. scan_rows f n (page_rows key a (Suc n) rs)
        = Inr (xs, n < length (filter ((<) a) (map key rs)))
      \<and> decode_rows f (page_rows key a n rs) = Inr xs"
proof -
  have "\<forall>r \<in> set (page_rows key a n rs). decodes (f r)"
    using assms page_rows_subset by fastforce
  then obtain xs where "decode_rows f (page_rows key a n rs) = Inr xs"
    using decode_rows_total by blast
  then show ?thesis
    using scan_rows_Inr [of f n "page_rows key a (Suc n) rs" xs] page_rows_length [of n key a rs]
    by (simp add: take_page_rows)
qed

lemma decode_rows_source:
  "decode_rows f rs = Inr xs \<Longrightarrow> x \<in> set xs \<Longrightarrow> \<exists>r \<in> set rs. f r = Inr x"
  by (induction rs arbitrary: xs) (auto simp: bind_result_Inr_iff)

lemma row_summary_id: "row_summary r = Inr x \<Longrightarrow> dh_schedule_id (sm_header x) = sr_id r"
  by (auto simp: row_summary_def row_header_def bind_result_Inr_iff Let_def split: sum.splits option.splits)

lemma row_occurrence_keys:
  "row_occurrence r = Inr x \<Longrightarrow>
     oc_schedule_id x = xr_schedule_id r \<and> oc_task_id x = xr_task_id r \<and> due_ns x = xr_due r"
  by (auto simp: row_occurrence_Inr due_ns_def)

lemma schedule_row_summary:
  assumes "row_schedule r = Inr x"
  shows "decodes (row_summary r)"
proof -
  let ?h = "df_header (sc_definition x)"
  obtain g where g: "row_header r = Inr ?h" "DefinitionDigests (sc_definition x) = Inr (row_digests r)"
    "df_brief (sc_definition x) = sr_brief r" "ValidateSchedule x = None"
    "sc_state x = sr_state r" "sc_cursor x = utc_time (sr_cursor r)"
    using assms by (auto simp: row_schedule_Inr VerifyDefinitionDigests_def split: sum.splits)
  have digests: "HeaderSHA256 ?h (dg_brief_sha256 (row_digests r)) = Inr (dg_definition_sha256 (row_digests r))"
    using g(2) by (cases "row_digests r")
      (auto simp: DefinitionDigests_def check_then_Inr_iff bind_result_Inr_iff Let_def)
  have mutable: "validateMutable (dh_created_at ?h) (sr_state r) (utc_time (sr_cursor r)) = None"
    "validateBriefLength (int (length (sr_brief r))) = None"
    using g by (auto simp: ValidateSchedule_def first_error_None_iff ValidateDefinition_None)
  have "ValidateSummary \<lparr>sm_header = ?h, sm_digests = row_digests r,
      sm_brief_length = int (length (sr_brief r)), sm_state = sr_state r,
      sm_cursor = utc_time (sr_cursor r)\<rparr> = None"
    using digests mutable by (simp add: ValidateSummary_def first_error_None_iff)
  then show ?thesis
    using g(1) by (simp add: row_summary_def decodes_iff Let_def InstantFromUnixNanos_def)
qed

lemma ListSchedules_answer:
  assumes "rows_decode (db_tables db)" "currentGuard s en db = None" "faultless en"
    and "ValidateSchedulePage page = None"
  shows "\<exists>res. ListSchedules s en page db = (Inr res, db)
      \<and> map (dh_schedule_id \<circ> sm_header) (pr_items res)
          = take (nat (pg_limit page))
              (sort (filter ((<) (pg_after_schedule_id page)) (map sr_id (tb_schedules (db_tables db)))))
      \<and> (pr_more res \<longleftrightarrow> nat (pg_limit page)
            < length (filter ((<) (pg_after_schedule_id page)) (map sr_id (tb_schedules (db_tables db)))))"
proof -
  let ?n = "nat (pg_limit page)" and ?a = "pg_after_schedule_id page" and ?rs = "tb_schedules (db_tables db)"
  have "\<forall>r \<in> set ?rs. decodes (row_summary r)"
    using assms(1) schedule_row_summary by (fastforce simp: rows_decode_def decodes_iff)
  from page_decodes [OF this, of ?n sr_id ?a] obtain xs where xs:
    "scan_rows row_summary ?n (page_rows sr_id ?a (Suc ?n) ?rs) = Inr (xs, ?n < length (filter ((<) ?a) (map sr_id ?rs)))"
    "decode_rows row_summary (page_rows sr_id ?a ?n ?rs) = Inr xs" by blast
  have keys: "map (dh_schedule_id \<circ> sm_header) xs = map sr_id (page_rows sr_id ?a ?n ?rs)"
    by (rule decode_rows_keys [OF xs(2)]) (simp add: row_summary_id)
  let ?res = "\<lparr>pr_items = xs, pr_more = ?n < length (filter ((<) ?a) (map sr_id ?rs))\<rparr>"
  have "ListSchedules s en page db = (Inr ?res, db)"
    unfolding ListSchedules_def assms(4) option.case
    by (rule operate_reads [OF assms(2,3)]) (simp add: xs(1) query_faultless [OF assms(3)])
  then show ?thesis
    using keys by (intro exI [of _ ?res]) (simp add: page_rows_keys)
qed

lemma ActiveOccurrences_answer:
  assumes "rows_decode (db_tables db)" "currentGuard s en db = None" "faultless en"
    and "ValidateActivePage page = None"
  shows "\<exists>res. ActiveOccurrences s en page db = (Inr res, db)
      \<and> map oc_schedule_id (pr_items res)
          = take (nat (pg_limit page)) (sort (filter ((<) (pg_after_schedule_id page))
              (map xr_schedule_id (filter active_row (tb_occurrences (db_tables db))))))
      \<and> (pr_more res \<longleftrightarrow> nat (pg_limit page)
            < length (filter ((<) (pg_after_schedule_id page))
                (map xr_schedule_id (filter active_row (tb_occurrences (db_tables db))))))
      \<and> (\<forall>x \<in> set (pr_items res). oc_release x = None)"
proof -
  let ?n = "nat (pg_limit page)" and ?a = "pg_after_schedule_id page"
    and ?rs = "filter active_row (tb_occurrences (db_tables db))"
  have "\<forall>r \<in> set ?rs. decodes (row_occurrence r)"
    using assms(1) by (auto simp: rows_decode_def)
  from page_decodes [OF this, of ?n xr_schedule_id ?a] obtain xs where xs:
    "scan_rows row_occurrence ?n (page_rows xr_schedule_id ?a (Suc ?n) ?rs)
       = Inr (xs, ?n < length (filter ((<) ?a) (map xr_schedule_id ?rs)))"
    "decode_rows row_occurrence (page_rows xr_schedule_id ?a ?n ?rs) = Inr xs" by blast
  have keys: "map oc_schedule_id xs = map xr_schedule_id (page_rows xr_schedule_id ?a ?n ?rs)"
    by (rule decode_rows_keys [OF xs(2)]) (simp add: row_occurrence_keys)
  have "oc_release x = None" if "x \<in> set xs" for x
  proof -
    obtain r where "r \<in> set (page_rows xr_schedule_id ?a ?n ?rs)" "row_occurrence r = Inr x"
      using decode_rows_source [OF xs(2) \<open>x \<in> set xs\<close>] by blast
    moreover from this have "active_row r" using page_rows_subset by fastforce
    ultimately show ?thesis by (auto simp: row_occurrence_Inr row_release_def active_row_def split: if_splits)
  qed
  note live = this
  let ?res = "\<lparr>pr_items = xs, pr_more = ?n < length (filter ((<) ?a) (map xr_schedule_id ?rs))\<rparr>"
  have "ActiveOccurrences s en page db = (Inr ?res, db)"
    unfolding ActiveOccurrences_def assms(4) option.case
    by (rule operate_reads [OF assms(2,3)]) (simp add: xs(1) query_faultless [OF assms(3)])
  then show ?thesis
    using keys live by (intro exI [of _ ?res]) (simp add: page_rows_keys)
qed

section \<open>History\<close>

text \<open>The endpoints of a schedule's history: due times of occurrences and ends of skip spans.\<close>

definition history_endpoints :: "string \<Rightarrow> tables \<Rightarrow> int list" where
  "history_endpoints sid t =
     map xr_due (filter (\<lambda>x. xr_schedule_id x = sid) (tb_occurrences t))
     @ map kr_to (filter (\<lambda>k. kr_schedule_id k = sid) (tb_spans t))"

definition older :: "history_page \<Rightarrow> int list \<Rightarrow> int list" where
  "older page ns = filter (below (hp_before page)) ns"

lemma descending_strict: "distinct ns \<Longrightarrow> sorted_wrt (>) (descending ns)"
  by (simp add: descending_def sorted_wrt_rev strict_sorted_iff)

lemma length_descending [simp]: "length (descending ns) = length ns"
  by (simp add: descending_def)

lemma set_descending [simp]: "set (descending ns) = set ns"
  by (simp add: descending_def)

lemma descending_filter: "descending (filter P ns) = filter P (descending ns)"
  by (simp add: descending_def rev_filter [symmetric] filter_sort)

lemma map_rev_sort_key: "map key (rev (sort_key key rs)) = descending (map key rs)"
  by (simp add: descending_def rev_map [symmetric] map_sort_key)

text \<open>All the rows of one schedule below the bound, newest first; a query takes a prefix.\<close>

definition newest :: "('r \<Rightarrow> string) \<Rightarrow> ('r \<Rightarrow> int) \<Rightarrow> history_page \<Rightarrow> 'r list \<Rightarrow> 'r list" where
  "newest sched key page rows =
     rev (sort_key key (filter (\<lambda>r. sched r = hp_schedule_id page \<and> below (hp_before page) (key r)) rows))"

lemma history_rows_newest:
  "history_rows sched key page rows = take (Suc (nat (hp_limit page))) (newest sched key page rows)"
  by (simp add: history_rows_def newest_def)

lemma set_newest: "set (newest sched key page rows) \<subseteq> {r \<in> set rows. sched r = hp_schedule_id page}"
  by (auto simp: newest_def)

lemma newest_keys:
  "map key (newest sched key page rows)
     = descending (older page (map key (filter (\<lambda>r. sched r = hp_schedule_id page) rows)))"
proof -
  have "map key (filter (\<lambda>r. sched r = hp_schedule_id page \<and> below (hp_before page) (key r)) rows)
      = older page (map key (filter (\<lambda>r. sched r = hp_schedule_id page) rows))"
    by (induction rows) (auto simp: older_def)
  then show ?thesis by (simp add: newest_def map_rev_sort_key)
qed

lemma decode_rows_take: "decode_rows f rs = Inr xs \<Longrightarrow> decode_rows f (take n rs) = Inr (take n xs)"
  unfolding decode_rows_Inr by (rule list_all2_takeI)

lemma distinct_endpoints:
  assumes "store_ok t"
  shows "distinct (map xr_due (filter (\<lambda>x. xr_schedule_id x = sid) (tb_occurrences t)))"
    "distinct (map kr_to (filter (\<lambda>k. kr_schedule_id k = sid) (tb_spans t)))"
    "set (map xr_due (filter (\<lambda>x. xr_schedule_id x = sid) (tb_occurrences t)))
       \<inter> set (map kr_to (filter (\<lambda>k. kr_schedule_id k = sid) (tb_spans t))) = {}"
proof -
  have pair: "distinct (map f (filter (\<lambda>x. g x = sid) xs))" if "distinct (map (\<lambda>x. (g x, f x)) xs)"
    for f :: "'a \<Rightarrow> int" and g :: "'a \<Rightarrow> string" and xs
    using that by (induction xs) (force simp: image_iff)+
  show "distinct (map xr_due (filter (\<lambda>x. xr_schedule_id x = sid) (tb_occurrences t)))"
    "distinct (map kr_to (filter (\<lambda>k. kr_schedule_id k = sid) (tb_spans t)))"
    using assms by (auto simp: store_ok_def tables_ok_def occurrences_ok_def spans_ok_def intro!: pair)
  have "xr_due x \<noteq> kr_to k"
    if "x \<in> set (tb_occurrences t)" "k \<in> set (tb_spans t)" "xr_schedule_id x = kr_schedule_id k" for x k
  proof -
    have "kr_from k < kr_to k" using assms that by (auto simp: store_ok_def tables_ok_def spans_ok_def span_check_def)
    moreover have "\<not> span_covers k (xr_due x)" using assms that by (auto simp: store_ok_def timeline_ok_def)
    ultimately show ?thesis by (auto simp: span_covers_def)
  qed
  then show "set (map xr_due (filter (\<lambda>x. xr_schedule_id x = sid) (tb_occurrences t)))
       \<inter> set (map kr_to (filter (\<lambda>k. kr_schedule_id k = sid) (tb_spans t))) = {}"
    by auto
qed

lemma row_span_Inr: "row_span r = Inr k \<Longrightarrow> to_ns k = kr_to r \<and> ValidateSkipSpan k = None"
  by (auto simp: row_span_def to_ns_def Let_def InstantFromUnixNanos_def split: option.splits)

lemma mergeHistory_answer:
  assumes "store_ok t"
    and occs: "decode_rows row_occurrence (newest xr_schedule_id xr_due page (tb_occurrences t)) = Inr xs"
    and spans: "decode_rows row_span (newest kr_schedule_id kr_to page (tb_spans t)) = Inr ks"
  shows "\<exists>res. mergeHistory page (take (Suc (nat (hp_limit page))) xs) (take (Suc (nat (hp_limit page))) ks) = Inr res
      \<and> map entry_ns (hr_entries res)
          = take (nat (hp_limit page)) (descending (older page (history_endpoints (hp_schedule_id page) t)))
      \<and> (hr_more res \<longleftrightarrow> nat (hp_limit page) < length (older page (history_endpoints (hp_schedule_id page) t)))
      \<and> (\<forall>e \<in> set (hr_entries res). ValidateHistoryEntry (hp_schedule_id page) e = None)"
proof -
  let ?n = "nat (hp_limit page)" and ?sid = "hp_schedule_id page"
  let ?D = "map xr_due (filter (\<lambda>x. xr_schedule_id x = ?sid) (tb_occurrences t))"
  let ?K = "map kr_to (filter (\<lambda>k. kr_schedule_id k = ?sid) (tb_spans t))"
  have dues: "map due_ns xs = descending (older page ?D)"
    using decode_rows_keys [OF occs, of due_ns xr_due] row_occurrence_keys by (simp add: newest_keys)
  have tos: "map to_ns ks = descending (older page ?K)"
    using decode_rows_keys [OF spans, of to_ns kr_to] row_span_Inr by (simp add: newest_keys)
  note apart = distinct_endpoints [OF assms(1), of ?sid]
  have sorted: "sorted_wrt (>) (map due_ns xs)" "sorted_wrt (>) (map to_ns ks)"
    unfolding dues tos using apart(1,2) by (auto intro!: descending_strict simp: older_def)
  have "set (map due_ns xs) \<inter> set (map to_ns ks) = {}"
    unfolding dues tos using apart(3) by (auto simp: older_def)
  from merge_entries_descending [OF sorted this, of "Suc ?n"] obtain es where
    es: "merge_entries (Suc ?n) xs ks = Inr es"
      "map entry_ns es = take (Suc ?n) (descending (map due_ns xs @ map to_ns ks))"
      "\<forall>e \<in> set es. (\<exists>x \<in> set xs. e = OccurrenceEntry x) \<or> (\<exists>k \<in> set ks. e = SkipEntry k)" by blast
  have "descending (map due_ns xs @ map to_ns ks) = descending (older page (history_endpoints ?sid t))"
    unfolding dues tos by (rule descending_cong) (simp add: descending_def older_def history_endpoints_def)
  with es(2) have ns: "map entry_ns es = take (Suc ?n) (descending (older page (history_endpoints ?sid t)))" by simp
  then have len: "length es = min (Suc ?n) (length (older page (history_endpoints ?sid t)))"
    by (metis length_map length_take length_descending min.commute)
  have valid: "ValidateHistoryEntry ?sid e = None" if e: "e \<in> set es" for e
  proof -
    consider x where "x \<in> set xs" "e = OccurrenceEntry x" | k where "k \<in> set ks" "e = SkipEntry k"
      using es(3) e by blast
    then show ?thesis
    proof cases
      case 1
      obtain r where "r \<in> set (newest xr_schedule_id xr_due page (tb_occurrences t))" "row_occurrence r = Inr x"
        using decode_rows_source [OF occs 1(1)] by blast
      then show ?thesis
        using 1(2) set_newest [of xr_schedule_id xr_due page]
        by (auto simp: ValidateHistoryEntry_def row_occurrence_Inr first_error_None_iff)
    next
      case 2
      obtain r where "row_span r = Inr k" using decode_rows_source [OF spans 2(1)] by blast
      then show ?thesis using 2(2) row_span_Inr by (simp add: ValidateHistoryEntry_def)
    qed
  qed
  let ?kept = "if length es > ?n then take ?n es else es"
  have "first_error (map (ValidateHistoryEntry ?sid) ?kept) = None"
    using valid by (auto simp: first_error_map_None dest: in_set_takeD)
  then have "mergeHistory page (take (Suc ?n) xs) (take (Suc ?n) ks)
      = Inr \<lparr>hr_entries = ?kept, hr_more = length es > ?n\<rparr>"
    using es(1) by (simp add: mergeHistory_def merge_entries_truncate Let_def)
  moreover have "map entry_ns ?kept = take ?n (descending (older page (history_endpoints ?sid t)))"
    using arg_cong [OF ns, of "take ?n"] len by (auto simp: take_map [symmetric])
  ultimately show ?thesis
    using len valid
    by (intro exI [of _ "\<lparr>hr_entries = ?kept, hr_more = length es > ?n\<rparr>"]) (auto dest: in_set_takeD)
qed

lemma History_answer:
  assumes "store_ok (db_tables db)" "rows_decode (db_tables db)" "currentGuard s en db = None" "faultless en"
    and "ValidateHistoryPage page = None" "has_schedule (hp_schedule_id page) (db_tables db)"
  shows "\<exists>res. History s en page db = (Inr res, db)
      \<and> map entry_ns (hr_entries res) = take (nat (hp_limit page))
          (descending (older page (history_endpoints (hp_schedule_id page) (db_tables db))))
      \<and> (hr_more res \<longleftrightarrow>
          nat (hp_limit page) < length (older page (history_endpoints (hp_schedule_id page) (db_tables db))))
      \<and> (\<forall>e \<in> set (hr_entries res). ValidateHistoryEntry (hp_schedule_id page) e = None)"
proof -
  let ?t = "db_tables db" and ?m = "Suc (nat (hp_limit page))"
  let ?O = "newest xr_schedule_id xr_due page (tb_occurrences ?t)" and ?S = "newest kr_schedule_id kr_to page (tb_spans ?t)"
  have "\<forall>r \<in> set ?O. decodes (row_occurrence r)" "\<forall>r \<in> set ?S. decodes (row_span r)"
    using assms(2) set_newest [of xr_schedule_id xr_due page "tb_occurrences ?t"]
      set_newest [of kr_schedule_id kr_to page "tb_spans ?t"]
    by (auto simp: rows_decode_def)
  then obtain xs ks where xs: "decode_rows row_occurrence ?O = Inr xs" and ks: "decode_rows row_span ?S = Inr ks"
    using decode_rows_total by metis
  have "scan_rows row_occurrence ?m (take ?m ?O) = Inr (take ?m xs, False)"
    using decode_rows_take [OF xs, of ?m] by (simp add: scan_rows_Inr min_def)
  then have "queryHistoryOccurrences en page ?t = Inr (take ?m xs, False)"
    by (simp add: queryHistoryOccurrences_def query_faultless [OF assms(4)] history_rows_newest)
  moreover have "querySkipSpans en page ?t = Inr (take ?m ks)"
    by (simp add: querySkipSpans_def query_faultless [OF assms(4)] history_rows_newest decode_rows_take [OF ks])
  moreover obtain p where "scheduleState en (hp_schedule_id page) ?t = Inr p"
    using assms(6) by (auto simp: store_ok_scheduleState [OF assms(1,4)] has_schedule_find)
  ultimately have body: "history_body en page ?t = mergeHistory page (take ?m xs) (take ?m ks)"
    by (simp add: history_body_def)
  obtain res where res: "mergeHistory page (take ?m xs) (take ?m ks) = Inr res"
    "map entry_ns (hr_entries res) = take (nat (hp_limit page))
        (descending (older page (history_endpoints (hp_schedule_id page) ?t)))"
    "hr_more res \<longleftrightarrow> nat (hp_limit page) < length (older page (history_endpoints (hp_schedule_id page) ?t))"
    "\<forall>e \<in> set (hr_entries res). ValidateHistoryEntry (hp_schedule_id page) e = None"
    using mergeHistory_answer [OF assms(1) xs ks] by blast
  have "History s en page db = (Inr res, db)"
    unfolding History_def assms(5) option.case
    by (rule operate_reads [OF assms(3,4)]) (simp add: body res(1))
  with res show ?thesis by blast
qed

text \<open>The page after a full page starts exactly where it ended.\<close>

lemma filter_below_strict:
  assumes "sorted_wrt (>) ns" "0 < k" "k \<le> length ns"
  shows "filter (\<lambda>n. n < ns ! (k - 1)) ns = drop k (ns :: int list)"
proof -
  have split: "ns = take k ns @ drop k ns" by simp
  have last: "ns ! (k - 1) \<in> set (take k ns)"
    using assms(2,3) by (simp add: in_set_conv_nth) (metis Suc_pred diff_Suc_less lessI nth_take)
  have "n < ns ! (k - 1)" if "n \<in> set (drop k ns)" for n
    using take_drop_order [OF assms(1) last that] by simp
  moreover have "\<not> n < ns ! (k - 1)" if "n \<in> set (take k ns)" for n
  proof -
    from that assms(3) obtain i where "i < k" "i < length ns" "n = ns ! i"
      unfolding in_set_conv_nth by force
    moreover have "k - 1 < length ns" using assms(2,3) by linarith
    ultimately consider "ns ! i > ns ! (k - 1)" | "i = k - 1"
      using sorted_wrt_nth_less [OF assms(1), of i "k - 1"] by linarith
    then show ?thesis using \<open>n = ns ! i\<close> by cases auto
  qed
  ultimately have "filter (\<lambda>n. n < ns ! (k - 1)) (take k ns) = []"
    "filter (\<lambda>n. n < ns ! (k - 1)) (drop k ns) = drop k ns"
    by (auto simp: filter_empty_conv filter_id_conv)
  then show ?thesis by (metis append_Nil filter_append split)
qed

lemma last_take_nth: "0 < n \<Longrightarrow> n \<le> length xs \<Longrightarrow> last (take n xs) = xs ! (n - 1)"
  by (subst last_conv_nth) (auto simp: min_def)

lemma take_twice: "take n xs @ take n (drop n xs) = take (2 * n) xs"
  by (simp add: mult_2 take_add)

lemma next_page_older:
  assumes "distinct ns" "0 < k" "k < length (older page ns)"
    and "b = descending (older page ns) ! (k - 1)"
  shows "descending (filter (\<lambda>n. n < b) ns) = drop k (descending (older page ns))"
proof -
  let ?D = "descending (older page ns)"
  have "b \<in> set (older page ns)" using assms(2-4) by (metis length_descending less_imp_diff_less nth_mem set_descending)
  then have "below (hp_before page) n" if "n < b" for n
    using that by (auto simp: older_def below_def split: option.splits)
  then have "filter (\<lambda>n. n < b) ns = filter (\<lambda>n. n < b) (older page ns)"
    by (auto simp: older_def intro!: filter_cong)
  then have "descending (filter (\<lambda>n. n < b) ns) = filter (\<lambda>n. n < ?D ! (k - 1)) ?D"
    by (simp add: descending_filter assms(4))
  also have "\<dots> = drop k ?D"
    using assms(1-3) by (intro filter_below_strict descending_strict) (auto simp: older_def)
  finally show ?thesis .
qed

lemma below_Some [simp]: "below (Some t) = (\<lambda>n. n < t_ns t)"
  by (rule ext) (simp add: below_def)

lemma Next_page:
  assumes "Next res page = Inr (Some page')" "ValidateHistoryPage page = None"
    and "\<forall>e \<in> set (hr_entries res). ValidateHistoryEntry (hp_schedule_id page) e = None"
  shows "\<exists>t. hr_more res \<and> hr_entries res \<noteq> [] \<and> t_ns t = entry_ns (last (hr_entries res))
    \<and> page' = page\<lparr>hp_before := Some t\<rparr> \<and> ValidateHistoryPage page' = None"
proof -
  obtain t where t: "hr_more res" "hr_entries res \<noteq> []" "Endpoint (last (hr_entries res)) = Inr t"
    "page' = page\<lparr>hp_before := Some t\<rparr>"
    using assms(1) by (cases page) (auto simp: Next_def bind_result_Inr_iff split: if_splits)
  have "ValidateHistoryEntry (hp_schedule_id page) (last (hr_entries res)) = None"
    using assms(3) t(2) by simp
  then have "valid_instant t \<and> t_ns t = entry_ns (last (hr_entries res))"
    using t(3)
    by (cases "last (hr_entries res)")
      (auto simp: Endpoint_def ValidateHistoryEntry_def first_error_None_iff ValidateOccurrence_None
        ValidateSkipSpan_None due_ns_def to_ns_def)
  then show ?thesis
    using t assms(2) by (auto simp: ValidateHistoryPage_def first_error_None_iff go_check)
qed

end
