(* ===== verification/Sched_Sample.thy ===== *)
theory Sched_Sample
  imports Sched_Listing
begin

text \<open>
  A concrete schedule in a concrete database, for the witnesses of the properties: a store that is
  initialized, given one schedule, and asked to claim its first occurrence.
\<close>

definition sample_store :: store where
  "sample_store = \<lparr>st_root_id = replicate 32 CHR ''0'', st_goos = ''linux''\<rparr>"

definition sample_id :: string where "sample_id = replicate 32 CHR ''1''"
definition sample_task :: string where "sample_task = replicate 32 CHR ''2''"

definition sample_config :: task_config where
  "sample_config = \<lparr>tc_interactive = False, tc_model = [], tc_effort = [], tc_permission = [],
     tc_budget = [], tc_native_timeout = [], tc_review_target = None\<rparr>"

definition sample_request :: request where
  "sample_request = \<lparr>rq_provider = [], rq_auto = True, rq_canonical_cwd = ''/'',
     rq_config = sample_config, rq_team = None\<rparr>"

definition sample_definition :: schedule_definition where
  "sample_definition = \<lparr>df_header = \<lparr>dh_schedule_id = sample_id, dh_created_at = utc_time 0,
     dh_cron = ''x'', dh_timezone = ''UTC'', dh_request = sample_request\<rparr>, df_brief = ''hi''\<rparr>"

lemma sample_ids [simp]:
  "hexPattern sample_id" "hexPattern sample_task" "hexPattern (st_root_id sample_store)"
  "sample_id \<noteq> sample_task"
  by (simp_all add: sample_id_def sample_task_def sample_store_def hexPattern_def lower_hex_def digit_def
      less_eq_char_def list_all_iff)

lemma sample_id_positive [simp]: "[] < sample_id"
  by (simp add: sample_id_def numeral_eq_Suc)

lemma ascii_checks:
  "runes [] = []" "byte c < 128 \<Longrightarrow> runes (c # s) = byte c # runes s"
  by (simp_all add: runes_def split_runes_ascii)

lemma sample_request_fields: "validateRequestFields sample_request = None"
proof -
  have "IsCanonicalCwd ''/''"
    by (simp add: IsCanonicalCwd_def nonblank_def trim_space_def split_runes_ascii is_space_def
        contains_char_def is_abs_def has_prefix_def path_clean_def)
  moreover have "ValidateRequestedOptions sample_config = None"
    by (simp add: ValidateRequestedOptions_def sample_config_def requested_timeout_error_def
        validateModelEffort_def ValidateReviewTarget_def trim_space_def contains_char_def)
  ultimately show ?thesis
    by (simp add: validateRequestFields_def sample_request_def validateRequestSelection_def
        validateSelection_def) (simp add: sample_config_def)
qed

lemma sample_request_text: "request_text sample_request"
  by (simp add: request_text_def sample_request_def task_config_text_def sample_config_def
      valid_string_ascii is_ascii_def)

lemma sample_request_length: "length (MarshalCanonical (request_json sample_request)) \<le> MaxControlRecordSize"
  by (simp add: MarshalCanonical_def request_json_def sample_request_def task_config_json_def
      sample_config_def omit_empty_string_def omit_empty_bool_def field_json_def omit_nil_def
      render_string_def split_runes_ascii escape_chunk_def rune_error_def MaxControlRecordSize_def)

lemma sample_encodes: "encodeRequest sample_request = Inr (MarshalCanonical (request_json sample_request))"
  using sample_request_fields sample_request_text sample_request_length by (rule encodeRequest_total)

lemma sample_valid: "ValidateDefinition sample_definition = None"
  by (simp add: ValidateDefinition_None validateHeader_def first_error_None_iff sample_definition_def
      validateScheduleID_def go_check valid_instant_utc_time int64_def min_int64_def max_int64_def
      validateOpaqueText_def MaxOpaqueTextBytes_def valid_string_ascii is_ascii_def contains_control_def
      ascii_checks is_control_def validateBriefLength_def MaxBriefSize_def sample_encodes)

definition sample_row :: schedule_row where
  "sample_row = (case prepared_row sample_definition of Inr r \<Rightarrow> r)"

lemma sample_prepared: "prepared_row sample_definition = Inr sample_row"
proof -
  obtain g where "DefinitionDigests sample_definition = Inr g"
    using sample_valid by (simp add: DefinitionDigests_Inr)
  then have "\<exists>r. prepared_row sample_definition = Inr r"
    using sample_valid sample_encodes
    by (simp add: prepared_row_def InitialSchedule_def MarshalRequest_def) (simp add: sample_definition_def)
  then show ?thesis by (auto simp: sample_row_def)
qed

section \<open>The database, step by step\<close>

definition sample_claim :: claim where
  "sample_claim = \<lparr>cl_schedule_id = sample_id, cl_expected_cursor = utc_time 0, cl_due = utc_time 1,
     cl_task_id = sample_task, cl_armed_at = utc_time 2\<rparr>"

definition sample_db0 :: database where "sample_db0 = initialized sample_store"

definition sample_tables :: tables where
  "sample_tables = empty_tables\<lparr>tb_schedules := [sample_row]\<rparr>"

definition sample_db1 :: database where
  "sample_db1 = sample_db0\<lparr>db_tables := sample_tables\<rparr>"

definition sample_db2 :: database where
  "sample_db2 = sample_db0\<lparr>db_tables := arm_effect sample_claim sample_tables\<rparr>"

lemma sample_row_fields:
  "sr_id sample_row = sample_id" "sr_state sample_row = StateEnabled" "sr_cursor sample_row = 0"
  "sr_created sample_row = 0"
  using prepared_row_fields [OF sample_prepared] by (simp_all add: sample_definition_def)

lemma sample_claim_valid: "ValidateClaim sample_claim = None"
  by (simp add: ValidateClaim_None sample_claim_def int64_def min_int64_def max_int64_def)

lemma sample_guard:
  "currentGuard sample_store healthy_engine sample_db0 = None"
  "currentGuard sample_store healthy_engine sample_db1 = None"
  "currentGuard sample_store healthy_engine sample_db2 = None"
  using initialized_current [of sample_store]
  by (simp_all add: currentGuard_working [OF working_healthy] sample_db0_def sample_db1_def sample_db2_def
      current_database_def)

lemma sample_reachable0: "reachable sample_store sample_db0"
  using reach_initialize [OF reach_new, of sample_store healthy_engine] initialize_new [OF working_healthy, of sample_store]
  by (simp add: sample_db0_def)

lemma sample_tables_db0: "db_tables sample_db0 = empty_tables"
  by (simp add: sample_db0_def initialized_def empty_database_def)

lemma sample_create:
  "CreateSchedule sample_store healthy_engine sample_definition sample_db0 = (Inr (), sample_db1)"
  using CreateSchedule_refines [OF sample_guard(1) faultless_healthy sample_prepared]
  by (simp add: create_spec_def sample_tables_db0 has_schedule_def empty_tables_def sample_db1_def sample_tables_def)

lemma sample_reachable1: "reachable sample_store sample_db1"
  using reach_operation [OF sample_reachable0, of healthy_engine "OpCreate sample_definition"]
  by (simp add: sample_create)

lemma sample_tables_db1: "db_tables sample_db1 = sample_tables"
  by (simp add: sample_db1_def)

lemma sample_claim_spec:
  "claim_spec sample_claim sample_tables
     = Inr (\<lparr>cx_outcome = ClaimNewlyCommitted, cx_task_id = sample_task\<rparr>, arm_effect sample_claim sample_tables)"
  by (simp add: claim_spec_def claimed_row_def sample_tables_def empty_tables_def find_schedule_def
      sample_claim_def sample_row_fields active_count_def find_occurrence_def)

lemma sample_claimed:
  "ClaimAndArm sample_store healthy_engine sample_claim sample_db1
     = ((\<lparr>cx_outcome = ClaimNewlyCommitted, cx_task_id = sample_task\<rparr>, None), sample_db2)"
  using ClaimAndArm_refines [OF sample_reachable1 sample_guard(2) faultless_healthy sample_claim_valid]
  by (simp add: sample_tables_db1 sample_claim_spec) (simp add: sample_db1_def sample_db2_def)

lemma sample_runs: "runs sample_store sample_db1 sample_db2"
  using runs_step [OF runs_refl, of sample_store sample_db1 healthy_engine "OpClaim sample_claim"]
  by (simp add: sample_claimed)

lemma sample_reachable2: "reachable sample_store sample_db2"
  using runs_reachable [OF sample_runs sample_reachable1] .

lemma sample_tables_db2:
  "db_tables sample_db2 = sample_tables\<lparr>tb_schedules := [set_cursor 1 sample_row],
     tb_occurrences := [armed_row sample_claim]\<rparr>"
  by (simp add: sample_db2_def arm_effect_def modify_schedule_def sample_tables_def empty_tables_def
      sample_row_fields) (simp add: sample_claim_def)

lemma sample_has: "has_schedule sample_id (db_tables sample_db1)" "has_schedule sample_id (db_tables sample_db2)"
  by (simp_all add: has_schedule_def sample_tables_db1 sample_tables_db2 sample_tables_def sample_row_fields)

section \<open>Facts about the claimed occurrence\<close>

definition sample_skip :: skip_request where
  "sample_skip = \<lparr>sk_schedule_id = sample_id, sk_expected_cursor = utc_time 1,
     sk_span = \<lparr>sp_from = utc_time 1, sp_to = utc_time 5, sp_reason = SkipOverlapActive\<rparr>\<rparr>"

lemma sample_skip_valid: "ValidateSkip sample_skip = None"
  by (simp add: ValidateSkip_def first_error_None_iff validateScheduleID_def go_check sample_skip_def
      ValidateSkipSpan_None ValidateSkipReason_def validateCursorAdvance_None int64_def min_int64_def max_int64_def)

definition sample_release :: occurrence_release where
  "sample_release = \<lparr>or_task_id = sample_task,
     or_release = \<lparr>rl_released_at = utc_time 7, rl_kind = ReleaseNotCreated, rl_ref = ''absent''\<rparr>\<rparr>"

lemma sample_release_valid: "ValidateOccurrenceRelease sample_release = None"
  by (simp add: ValidateOccurrenceRelease_def first_error_None_iff go_check sample_release_def
      ValidateRelease_None int64_def min_int64_def max_int64_def codePattern_def lower_def less_eq_char_def)

definition sample_observation :: occurrence_observation where
  "sample_observation = \<lparr>oo_task_id = sample_task, oo_observation =
     \<lparr>ob_observed_at = utc_time 3, ob_admission = AdmissionAdmitted, ob_liveness = LivenessRunning,
      ob_publication = PublicationPending, ob_outcome_sha256 = [], ob_fault_code = []\<rparr>\<rparr>"

lemma sample_observation_valid: "ValidateOccurrenceObservation sample_observation = None"
  by (simp add: ValidateOccurrenceObservation_def first_error_None_iff go_check sample_observation_def
      ValidateObservation_None publicationHasOutcome_def int64_def min_int64_def max_int64_def)

definition sample_page :: schedule_page where
  "sample_page = \<lparr>pg_after_schedule_id = [], pg_limit = 5\<rparr>"

definition sample_history_page :: history_page where
  "sample_history_page = \<lparr>hp_schedule_id = sample_id, hp_before = None, hp_limit = 1\<rparr>"

lemma sample_pages_valid:
  "ValidateSchedulePage sample_page = None" "ValidateActivePage sample_page = None"
  "ValidateHistoryPage sample_history_page = None"
  by (simp_all add: ValidateSchedulePage_def ValidateActivePage_def ValidateHistoryPage_def first_error_None_iff
      sample_page_def sample_history_page_def validateLimit_def MaxPageLimit_def validateScheduleID_def go_check)

text \<open>After a skip of the overlapped time the history has two entries.\<close>

definition sample_db3 :: database where
  "sample_db3 = sample_db2\<lparr>db_tables := skip_effect sample_id (sk_span sample_skip) id (db_tables sample_db2)\<rparr>"

lemma sample_skipped: "RecordSkip sample_store healthy_engine sample_skip sample_db2 = (Inr (), sample_db3)"
proof -
  have "skip_spec sample_skip (db_tables sample_db2)
      = Inr (skip_effect sample_id (sk_span sample_skip) id (db_tables sample_db2))"
    by (simp add: skip_spec_def find_schedule_def sample_tables_db2 sample_skip_def sample_row_fields)
  then have "record_skip_body healthy_engine sample_skip (db_tables sample_db2)
      = Inr (skip_effect sample_id (sk_span sample_skip) id (db_tables sample_db2))"
    using record_skip_body_faultless [OF faultless_healthy reachable_store_ok [OF sample_reachable2] sample_skip_valid]
    by simp
  then have "writing (record_skip_body healthy_engine sample_skip) (db_tables sample_db2)
      = Inr ((), skip_effect sample_id (sk_span sample_skip) id (db_tables sample_db2))"
    by (simp add: writing_def)
  from operate_committed [of healthy_engine sample_store sample_db2 "writing (record_skip_body healthy_engine sample_skip)",
      OF faultless_healthy sample_guard(3) this]
  show ?thesis by (simp add: RecordSkip_def sample_skip_valid sample_db3_def)
qed

lemma sample_reachable3: "reachable sample_store sample_db3"
  using reach_operation [OF sample_reachable2, of healthy_engine "OpSkip sample_skip"] by (simp add: sample_skipped)

lemma sample_guard3: "currentGuard sample_store healthy_engine sample_db3 = None"
  using sample_guard(3) by (simp add: currentGuard_working [OF working_healthy] sample_db3_def current_database_def)

lemma sample_has3: "has_schedule sample_id (db_tables sample_db3)"
  using sample_has(2) unfolding sample_db3_def skip_effect_def
  by (simp add: has_schedule_modify)

lemma sample_endpoints3: "history_endpoints sample_id (db_tables sample_db3) = [1, 5]"
  by (simp add: history_endpoints_def sample_db3_def skip_effect_def sample_tables_db2 sample_tables_def
      empty_tables_def span_row_of_def armed_row_def sample_claim_def sample_skip_def)

end
