(* ===== verification/Sched_Properties.thy ===== *)
theory Sched_Properties
  imports Sched_Sample
begin

text \<open>
  The properties of the scheduler's store. Each stands after its statement in words; a witness applies
  it to the sample database of \<open>Sched_Sample\<close>.
\<close>

section \<open>Invariants of every database\<close>

text \<open>C2: Whatever the driver answers, the tables of a database reached from the empty file satisfy
  every constraint of the schema, every cursor bounds its schedule's occurrences and skip spans, no
  occurrence lies inside a skip span, spans of one schedule do not overlap, and every stored row
  decodes to a value the contract accepts.\<close>

theorem store_always_wellformed:
  assumes "reachable s db"
  shows "store_ok (db_tables db) \<and> rows_decode (db_tables db)"
  using assms reachable_store_ok reachable_rows_decode by blast

theorem store_always_wellformed_witness:
  "store_ok (db_tables sample_db2) \<and> rows_decode (db_tables sample_db2)
   \<and> tb_occurrences (db_tables sample_db2) = [armed_row sample_claim]"
  using store_always_wellformed [OF sample_reachable2] by (simp add: sample_tables_db2)

text \<open>C5: No sequence of operations ever loses or rewrites history: schedules keep their definition,
  their cursor never moves back and a deleted one stays deleted, occurrences keep their identity and
  their release, observations are only replaced by newer ones, and skip spans are permanent.\<close>

theorem store_only_advances:
  assumes "reachable s db" "runs s db db'"
  shows "advances (db_tables db) (db_tables db')"
  using runs_advances [OF assms(2,1)] .

theorem store_only_advances_witness:
  "advances (db_tables sample_db1) (db_tables sample_db2) \<and> db_tables sample_db1 \<noteq> db_tables sample_db2"
  using store_only_advances [OF sample_reachable1 sample_runs]
  by (simp add: sample_tables_db1 sample_tables_db2 sample_tables_def empty_tables_def)

section \<open>Claims\<close>

text \<open>C4: On a fault-free driver \<open>ClaimAndArm\<close> implements its specification: an existing
  reservation of the due time is reported and nothing changes; otherwise the schedule must be enabled,
  stand at the expected cursor, have no active occurrence and the task must be new, and exactly then
  the occurrence is armed and the cursor moved; every refusal carries its error class and changes
  nothing.\<close>

theorem claim_implements_specification:
  assumes "reachable s db" "currentGuard s en db = None" "faultless en" "ValidateClaim c = None"
  shows "case claim_spec c (db_tables db) of
      Inl k \<Rightarrow> \<exists>e. ClaimAndArm s en c db
          = ((\<lparr>cx_outcome = ClaimUnknown, cx_task_id = []\<rparr>, Some e), db) \<and> errors_is e k
    | Inr (res, t') \<Rightarrow> ClaimAndArm s en c db = ((res, None), db\<lparr>db_tables := t'\<rparr>)"
  using ClaimAndArm_refines [OF assms] .

theorem claim_implements_specification_witness:
  "ClaimAndArm sample_store healthy_engine sample_claim sample_db1
     = ((\<lparr>cx_outcome = ClaimNewlyCommitted, cx_task_id = sample_task\<rparr>, None),
        sample_db1\<lparr>db_tables := arm_effect sample_claim sample_tables\<rparr>)"
  using claim_implements_specification [OF sample_reachable1 sample_guard(2) faultless_healthy sample_claim_valid]
  by (simp add: sample_tables_db1 sample_claim_spec)

text \<open>An invocation is authorized only by a claim whose transaction committed: under any driver,
  when the result authorizes, there is no error, the task is the one claimed, the commit succeeded,
  the due time was free, and the database is the old one with exactly this occurrence armed and the
  cursor at its due time.\<close>

theorem authorization_requires_commit:
  assumes "reachable s db" "ClaimAndArm s en c db = ((res, err), db')" "AuthorizesInvocation res"
  shows "err = None \<and> cx_task_id res = cl_task_id c \<and> en_commit en = None
    \<and> claimed_row c (db_tables db) = None
    \<and> db' = db\<lparr>db_tables := arm_effect c (db_tables db)\<rparr>"
  using authorized_commit [OF assms] .

theorem authorization_requires_commit_witness:
  "AuthorizesInvocation \<lparr>cx_outcome = ClaimNewlyCommitted, cx_task_id = sample_task\<rparr>
   \<and> sample_db2 = sample_db1\<lparr>db_tables := arm_effect sample_claim (db_tables sample_db1)\<rparr>"
  using authorization_requires_commit [OF sample_reachable1 sample_claimed]
  by (simp add: AuthorizesInvocation_def)

text \<open>C3: A due time of a schedule, and a task, are committed at most once over any run: after an
  authorizing claim, no later claim of the same due time or with the same task id, whatever the driver
  does meanwhile, authorizes an invocation.\<close>

theorem claim_commits_at_most_once:
  assumes "reachable s db" "ClaimAndArm s en c db = ((res, err), db1)" "AuthorizesInvocation res"
    and "runs s db1 db2" "ClaimAndArm s en' c' db2 = ((res', err'), db3)"
    and "cl_task_id c' = cl_task_id c
         \<or> cl_schedule_id c' = cl_schedule_id c \<and> t_ns (cl_due c') = t_ns (cl_due c)"
  shows "\<not> AuthorizesInvocation res'"
proof
  assume again: "AuthorizesInvocation res'"
  have db1: "db_tables db1 = arm_effect c (db_tables db)"
    using authorized_commit [OF assms(1-3)] by simp
  have r1: "reachable s db1"
    using reach_operation [OF assms(1), of en "OpClaim c"] assms(2) by simp
  have r2: "reachable s db2" using runs_reachable [OF assms(4) r1] .
  have "armed_row c \<in> set (tb_occurrences (db_tables db1))"
    by (simp add: db1 arm_effect_def)
  then obtain y where y: "y \<in> set (tb_occurrences (db_tables db2))" "occurrence_advances (armed_row c) y"
    using runs_advances [OF assms(4) r1] unfolding advances_def by blast
  then have id: "xr_task_id y = cl_task_id c" "xr_schedule_id y = cl_schedule_id c" "xr_due y = t_ns (cl_due c)"
    by (simp_all add: occurrence_advances_def same_identity_def armed_row_def)
  obtain t' where "armOccurrence en' c' (db_tables db2) = Inr t'"
    using authorized_claim_body [OF assms(5) again] by blast
  moreover have "schedules_ok (db_tables db2)"
    using reachable_store_ok [OF r2] by (simp add: store_ok_def tables_ok_def)
  ultimately have "insert_occurrence (armed_row c') (db_tables db2)
      = Inr ((db_tables db2)\<lparr>tb_occurrences := tb_occurrences (db_tables db2) @ [armed_row c']\<rparr>)"
    using armOccurrence_Inr by blast
  then have "xr_task_id y \<noteq> cl_task_id c'" "\<not> (xr_schedule_id y = cl_schedule_id c' \<and> xr_due y = t_ns (cl_due c'))"
    using y(1) by (auto simp: insert_occurrence_Inr armed_row_def)
  with id assms(6) show False by auto
qed

theorem claim_commits_at_most_once_witness:
  "\<not> AuthorizesInvocation (fst (fst (ClaimAndArm sample_store healthy_engine sample_claim sample_db2)))"
proof -
  obtain res err db where "ClaimAndArm sample_store healthy_engine sample_claim sample_db2 = ((res, err), db)"
    by (metis surj_pair)
  with claim_commits_at_most_once [OF sample_reachable1 sample_claimed _ runs_refl this]
  show ?thesis by (simp add: AuthorizesInvocation_def)
qed

section \<open>The other operations\<close>



text \<open>C13: A schedule created under a fresh id is read back exactly: the same definition, with its
  digests recomputed and verified, enabled, at its creation time.\<close>

theorem created_schedule_reads_back:
  assumes "currentGuard s en db = None" "faultless en" "prepared_row d = Inr row"
    and "\<not> has_schedule (dh_schedule_id (df_header d)) (db_tables db)"
    and "CreateSchedule s en d db = (r, db')" "currentGuard s en' db' = None" "faultless en'"
  shows "r = Inr () \<and> GetSchedule s en' (dh_schedule_id (df_header d)) db'
    = (Inr \<lparr>sc_definition = d, sc_state = StateEnabled, sc_cursor = dh_created_at (df_header d)\<rparr>, db')"
  using create_then_get [OF assms(1-3) _ assms(5-7)] assms(4) prepared_row_fields(1) [OF assms(3)] by simp

theorem created_schedule_reads_back_witness:
  "GetSchedule sample_store healthy_engine sample_id sample_db1
     = (Inr \<lparr>sc_definition = sample_definition, sc_state = StateEnabled, sc_cursor = utc_time 0\<rparr>, sample_db1)"
  using created_schedule_reads_back [OF sample_guard(1) faultless_healthy sample_prepared _ sample_create
      sample_guard(2) faultless_healthy]
  by (simp add: sample_definition_def sample_tables_db0 empty_tables_def has_schedule_def)

text \<open>C8: \<open>ChangeState\<close> implements its specification: the schedule must exist and be in the named
  state; pausing, deleting and resuming without a span only set the state; resuming with a paused span
  must also find the expected cursor, and then records the span and moves the cursor to its end in the
  same transaction.\<close>

theorem change_state_implements_specification:
  assumes "reachable s db" "currentGuard s en db = None" "faultless en" "ValidateStateChange c = None"
  shows "case change_spec c (db_tables db) of
      Inl k \<Rightarrow> \<exists>e. ChangeState s en c db = (Inl e, db) \<and> errors_is e k
    | Inr t \<Rightarrow> ChangeState s en c db = (Inr (), db\<lparr>db_tables := t\<rparr>)"
  using operate_writing_refines [of s en db "change_state_body en c" "change_spec c (db_tables db)", OF assms(2,3)
      change_state_body_faultless [OF assms(3) reachable_store_ok [OF assms(1)] assms(4)]]
  unfolding ChangeState_def assms(4) option.case .

theorem change_state_implements_specification_witness:
  "ChangeState sample_store healthy_engine
      \<lparr>ch_schedule_id = sample_id, ch_from = StateEnabled, ch_to = StatePaused, ch_resume = None\<rparr> sample_db2
    = (Inr (), sample_db2\<lparr>db_tables := modify_schedule sample_id (set_state StatePaused) (db_tables sample_db2)\<rparr>)"
proof -
  let ?c = "\<lparr>ch_schedule_id = sample_id, ch_from = StateEnabled, ch_to = StatePaused, ch_resume = None\<rparr>"
  have "ValidateStateChange ?c = None"
    by (simp add: ValidateStateChange_def first_error_None_iff validateScheduleID_def go_check
        ValidateState_None permittedTransition_def)
  from change_state_implements_specification [OF sample_reachable2 sample_guard(3) faultless_healthy this]
  show ?thesis
    by (simp add: change_spec_def find_schedule_def sample_tables_db2 sample_row_fields)
qed

text \<open>C9: \<open>RecordSkip\<close> implements its specification: on an enabled schedule at the expected
  cursor the span is recorded and the cursor moves to its end, atomically; otherwise nothing changes.\<close>

theorem skip_implements_specification:
  assumes "reachable s db" "currentGuard s en db = None" "faultless en" "ValidateSkip k = None"
  shows "case skip_spec k (db_tables db) of
      Inl c \<Rightarrow> \<exists>e. RecordSkip s en k db = (Inl e, db) \<and> errors_is e c
    | Inr t \<Rightarrow> RecordSkip s en k db = (Inr (), db\<lparr>db_tables := t\<rparr>)"
  using operate_writing_refines [of s en db "record_skip_body en k" "skip_spec k (db_tables db)", OF assms(2,3)
      record_skip_body_faultless [OF assms(3) reachable_store_ok [OF assms(1)] assms(4)]]
  unfolding RecordSkip_def assms(4) option.case .

theorem skip_implements_specification_witness:
  "RecordSkip sample_store healthy_engine sample_skip sample_db2
     = (Inr (), sample_db2\<lparr>db_tables := skip_effect sample_id (sk_span sample_skip) id (db_tables sample_db2)\<rparr>)"
  using skip_implements_specification [OF sample_reachable2 sample_guard(3) faultless_healthy sample_skip_valid]
  by (simp add: skip_spec_def find_schedule_def sample_tables_db2 sample_skip_def sample_row_fields)

text \<open>C10: \<open>Release\<close> implements its specification: the first release of an occurrence is stored,
  a repeat of the same fact is accepted without change, and any other release is a conflict.\<close>

theorem release_implements_specification:
  assumes "reachable s db" "currentGuard s en db = None" "faultless en" "ValidateOccurrenceRelease r = None"
  shows "case release_spec r (db_tables db) of
      Inl k \<Rightarrow> \<exists>e. Release s en r db = (Inl e, db) \<and> errors_is e k
    | Inr t \<Rightarrow> Release s en r db = (Inr (), db\<lparr>db_tables := t\<rparr>)"
  using operate_writing_refines [of s en db "release_body en r" "release_spec r (db_tables db)", OF assms(2,3) release_body_faultless [OF assms(3)
      reachable_store_ok [OF assms(1)] reachable_rows_decode [OF assms(1)] assms(4)]]
  unfolding Release_def assms(4) option.case .

theorem release_implements_specification_witness:
  "Release sample_store healthy_engine sample_release sample_db2
     = (Inr (), sample_db2\<lparr>db_tables :=
          modify_occurrence sample_task (set_release (or_release sample_release)) (db_tables sample_db2)\<rparr>)"
  using release_implements_specification [OF sample_reachable2 sample_guard(3) faultless_healthy sample_release_valid]
  by (simp add: release_spec_def find_occurrence_def sample_tables_db2 sample_release_def armed_row_def sample_claim_def)



section \<open>Pages\<close>

text \<open>A page of \<open>ListSchedules\<close> holds exactly the next \<open>limit\<close> stored ids after the
  given one, in byte order, and its flag says whether any remain.\<close>

theorem schedule_pages_are_complete:
  assumes "reachable s db" "currentGuard s en db = None" "faultless en" "ValidateSchedulePage page = None"
  shows "\<exists>res. ListSchedules s en page db = (Inr res, db)
      \<and> map (dh_schedule_id \<circ> sm_header) (pr_items res)
          = take (nat (pg_limit page))
              (sort (filter ((<) (pg_after_schedule_id page)) (map sr_id (tb_schedules (db_tables db)))))
      \<and> (pr_more res \<longleftrightarrow> nat (pg_limit page)
            < length (filter ((<) (pg_after_schedule_id page)) (map sr_id (tb_schedules (db_tables db)))))"
  using ListSchedules_answer [OF reachable_rows_decode [OF assms(1)] assms(2-4)] .

theorem schedule_pages_are_complete_witness:
  "\<exists>res. ListSchedules sample_store healthy_engine sample_page sample_db1 = (Inr res, sample_db1)
     \<and> map (dh_schedule_id \<circ> sm_header) (pr_items res) = [sample_id] \<and> \<not> pr_more res"
  using schedule_pages_are_complete [OF sample_reachable1 sample_guard(2) faultless_healthy sample_pages_valid(1)]
  by (simp add: sample_tables_db1 sample_tables_def sample_row_fields sample_page_def)

text \<open>A page of \<open>ActiveOccurrences\<close> holds exactly the next \<open>limit\<close> schedules that have
  an unreleased occurrence, each with that occurrence, and its flag says whether any remain.\<close>

theorem active_pages_are_complete:
  assumes "reachable s db" "currentGuard s en db = None" "faultless en" "ValidateActivePage page = None"
  shows "\<exists>res. ActiveOccurrences s en page db = (Inr res, db)
      \<and> map oc_schedule_id (pr_items res)
          = take (nat (pg_limit page)) (sort (filter ((<) (pg_after_schedule_id page))
              (map xr_schedule_id (filter active_row (tb_occurrences (db_tables db))))))
      \<and> (pr_more res \<longleftrightarrow> nat (pg_limit page)
            < length (filter ((<) (pg_after_schedule_id page))
                (map xr_schedule_id (filter active_row (tb_occurrences (db_tables db))))))
      \<and> (\<forall>x \<in> set (pr_items res). oc_release x = None)"
  using ActiveOccurrences_answer [OF reachable_rows_decode [OF assms(1)] assms(2-4)] .

theorem active_pages_are_complete_witness:
  "\<exists>res. ActiveOccurrences sample_store healthy_engine sample_page sample_db2 = (Inr res, sample_db2)
     \<and> map oc_schedule_id (pr_items res) = [sample_id] \<and> \<not> pr_more res"
  using active_pages_are_complete [OF sample_reachable2 sample_guard(3) faultless_healthy sample_pages_valid(2)]
  by (auto simp: sample_tables_db2 active_row_def armed_row_def sample_claim_def sample_page_def)

text \<open>C6: A history page holds exactly the newest \<open>limit\<close> endpoints below the bound, occurrences
  and skip spans merged in strictly descending order, every entry valid and of this schedule, and its flag says whether older
  ones remain.\<close>

theorem history_pages_are_complete:
  assumes "reachable s db" "currentGuard s en db = None" "faultless en" "ValidateHistoryPage page = None"
    and "has_schedule (hp_schedule_id page) (db_tables db)"
  shows "\<exists>res. History s en page db = (Inr res, db)
      \<and> map entry_ns (hr_entries res) = take (nat (hp_limit page))
          (descending (older page (history_endpoints (hp_schedule_id page) (db_tables db))))
      \<and> (hr_more res \<longleftrightarrow>
          nat (hp_limit page) < length (older page (history_endpoints (hp_schedule_id page) (db_tables db))))
      \<and> (\<forall>e \<in> set (hr_entries res). ValidateHistoryEntry (hp_schedule_id page) e = None)"
  using History_answer [OF reachable_store_ok [OF assms(1)] reachable_rows_decode [OF assms(1)] assms(2-5)] .

theorem history_pages_are_complete_witness:
  "\<exists>res. History sample_store healthy_engine sample_history_page sample_db2 = (Inr res, sample_db2)
     \<and> map entry_ns (hr_entries res) = [1] \<and> \<not> hr_more res"
  using history_pages_are_complete [OF sample_reachable2 sample_guard(3) faultless_healthy sample_pages_valid(3)]
    sample_has(2)
  by (auto simp: sample_history_page_def older_def below_def history_endpoints_def sample_tables_db2
      sample_tables_def empty_tables_def armed_row_def sample_claim_def descending_def max_int64_def)

text \<open>C7: Following \<open>Next\<close> loses and repeats nothing: a page and the page its \<open>Next\<close> asks for
  together are the page of twice the limit.\<close>

theorem next_page_continues:
  assumes "reachable s db" "currentGuard s en db = None" "faultless en" "ValidateHistoryPage page = None"
    and "has_schedule (hp_schedule_id page) (db_tables db)"
    and "History s en page db = (Inr res, db1)" "Next res page = Inr (Some page')"
    and "History s en page' db = (Inr res', db2)"
  shows "map entry_ns (hr_entries res @ hr_entries res') = take (2 * nat (hp_limit page))
          (descending (older page (history_endpoints (hp_schedule_id page) (db_tables db))))"
proof -
  note ok = reachable_store_ok [OF assms(1)]
  let ?n = "nat (hp_limit page)" and ?ns = "history_endpoints (hp_schedule_id page) (db_tables db)"
  let ?D = "descending (older page ?ns)"
  have r: "map entry_ns (hr_entries res) = take ?n ?D" "hr_more res \<longleftrightarrow> ?n < length (older page ?ns)"
    "\<forall>e \<in> set (hr_entries res). ValidateHistoryEntry (hp_schedule_id page) e = None"
    using History_answer [OF ok reachable_rows_decode [OF assms(1)] assms(2-5)] assms(6) by auto
  obtain t where t: "hr_more res" "hr_entries res \<noteq> []" "t_ns t = entry_ns (last (hr_entries res))"
    "page' = page\<lparr>hp_before := Some t\<rparr>" "ValidateHistoryPage page' = None"
    using Next_page [OF assms(7,4) r(3)] by blast
  have limit: "0 < ?n" using assms(4) by (auto simp: ValidateHistoryPage_def first_error_None_iff validateLimit_def)
  have more: "?n < length (older page ?ns)" using t(1) r(2) by simp
  have "t_ns t = last (take ?n ?D)" unfolding t(3) r(1) [symmetric] using t(2) by (simp add: last_map)
  also have "\<dots> = ?D ! (?n - 1)" using more limit by (intro last_take_nth) simp_all
  finally have bound: "t_ns t = ?D ! (?n - 1)" .
  have "distinct ?ns"
    using distinct_endpoints [OF ok, of "hp_schedule_id page"] by (simp add: history_endpoints_def)
  from next_page_older [OF this limit more bound] have "descending (older page' ?ns) = drop ?n ?D"
    by (simp add: older_def t(4))
  moreover have "map entry_ns (hr_entries res') = take ?n (descending (older page' ?ns))"
    using History_answer [OF ok reachable_rows_decode [OF assms(1)] assms(2,3) t(5)] assms(5,8)
    by (auto simp: t(4))
  ultimately show ?thesis using r(1) by (simp add: take_twice)
qed

theorem next_page_continues_witness:
  "\<exists>res page' res'. History sample_store healthy_engine sample_history_page sample_db3 = (Inr res, sample_db3)
     \<and> Next res sample_history_page = Inr (Some page')
     \<and> History sample_store healthy_engine page' sample_db3 = (Inr res', sample_db3)
     \<and> map entry_ns (hr_entries res @ hr_entries res') = [5, 1]"
proof -
  note ok = reachable_store_ok [OF sample_reachable3] and dec = reachable_rows_decode [OF sample_reachable3]
  note answer = History_answer [OF ok dec sample_guard3 faultless_healthy]
  have known: "has_schedule (hp_schedule_id p) (db_tables sample_db3)" if "hp_schedule_id p = sample_id" for p
    using sample_has3 that by simp
  have ns: "descending (older sample_history_page (history_endpoints sample_id (db_tables sample_db3))) = [5, 1]"
    "length (older sample_history_page (history_endpoints sample_id (db_tables sample_db3))) = 2"
    unfolding sample_endpoints3
    by (simp_all add: sample_history_page_def older_def below_def descending_def max_int64_def)
  have id: "hp_schedule_id sample_history_page = sample_id" "hp_limit sample_history_page = 1"
    by (simp_all add: sample_history_page_def)
  obtain res where res: "History sample_store healthy_engine sample_history_page sample_db3 = (Inr res, sample_db3)"
    "map entry_ns (hr_entries res) = [5]" "hr_more res"
    "\<forall>e \<in> set (hr_entries res). ValidateHistoryEntry sample_id e = None"
    using answer [OF sample_pages_valid(3) known [OF id(1)]] ns by (auto simp: id)
  obtain e where "hr_entries res = [e]" "entry_ns e = 5" using res(2) by auto
  then obtain page' where page': "Next res sample_history_page = Inr (Some page')"
    using res(3) by (cases e) (auto simp: Next_def Endpoint_def entry_ns_def)
  have valid: "ValidateHistoryPage page' = None" "hp_schedule_id page' = sample_id"
    using Next_page [OF page' sample_pages_valid(3)] res(4) by (auto simp: id)
  obtain res' where res': "History sample_store healthy_engine page' sample_db3 = (Inr res', sample_db3)"
    using answer [OF valid(1) known [OF valid(2)]] by blast
  have "map entry_ns (hr_entries res @ hr_entries res')
      = take (2 * nat 1) (descending (older sample_history_page (history_endpoints sample_id (db_tables sample_db3))))"
    using next_page_continues [OF sample_reachable3 sample_guard3 faultless_healthy sample_pages_valid(3)
        known [OF id(1)] res(1) page' res'] by (simp only: id)
  then show ?thesis using res(1) page' res' ns(1) by (simp add: id)
qed

section \<open>Transactions and the life of the file\<close>



text \<open>C15: Initializing the empty file on a working connection creates exactly the current schema bound
  to the root, which every later open and every operation's guard admits; initializing it again
  changes nothing.\<close>

theorem initialization_creates_current_database:
  assumes "working s en" "working s en'" "hexPattern (st_root_id s)"
  shows "initializeWithConnector s en schemaObjects empty_database = (Inr (), initialized s)
    \<and> openWithConnector s en' (initialized s) = (Inr s, initialized s)
    \<and> currentGuard s en' (initialized s) = None
    \<and> initializeWithConnector s en' schemaObjects (initialized s) = (Inr (), initialized s)"
  using initialize_new [OF assms(1,3)] open_current [OF assms(2) initialized_current]
    initialize_again [OF assms(2) initialized_current] initialized_current
  by (simp add: currentGuard_working [OF assms(2)])

theorem initialization_creates_current_database_witness:
  "initializeWithConnector sample_store healthy_engine schemaObjects empty_database = (Inr (), sample_db0)"
  using initialization_creates_current_database [OF working_healthy working_healthy, of sample_store]
  by (simp add: sample_db0_def)

text \<open>C16: The database of another root is never opened, initialized or changed: both calls report an
  identity mismatch and leave it as it is.\<close>

theorem other_root_is_refused:
  assumes "working s en" "current_database s' db" "st_root_id s' \<noteq> st_root_id s"
  shows "(\<exists>e. openWithConnector s en db = (Inl e, db) \<and> errors_is e ErrIdentityMismatch)
    \<and> (\<exists>e. initializeWithConnector s en objects db = (Inl e, db) \<and> errors_is e ErrIdentityMismatch)"
  using other_root_refused [OF assms] by blast

theorem other_root_is_refused_witness:
  "\<exists>e. openWithConnector (sample_store\<lparr>st_root_id := replicate 32 CHR ''9''\<rparr>) healthy_engine sample_db0
     = (Inl e, sample_db0) \<and> errors_is e ErrIdentityMismatch"
  using other_root_is_refused [OF working_healthy initialized_current,
      of sample_store "sample_store\<lparr>st_root_id := replicate 32 CHR ''9''\<rparr>"]
  by (simp add: sample_db0_def sample_store_def)

section \<open>The stored encoding\<close>

text \<open>C17: Encoding a request succeeds exactly when its fields are valid, its strings are UTF-8 and the
  canonical document fits, and the stored bytes are the one document that decodes to it.\<close>

theorem request_encoding_is_exact:
  "(MarshalRequest r = Inr bs \<longleftrightarrow> DecodeRequest bs = Inr r)
   \<and> (MarshalRequest r = Inr bs \<longleftrightarrow>
       validateRequestFields r = None \<and> request_text r \<and> bs = MarshalCanonical (request_json r)
       \<and> length bs \<le> MaxControlRecordSize)"
  using MarshalRequest_DecodeRequest encodeRequest_iff [of r bs] by (simp add: MarshalRequest_def)

text \<open>C18: The digests of a definition commit to all of it: two definitions with equal digests are equal
  unless SHA-256 collides on their briefs or on their digest documents.\<close>

theorem digests_commit_to_definition:
  assumes "DefinitionDigests d = Inr g" "DefinitionDigests d' = Inr g"
    and "ComputeSHA256 (df_brief d) = ComputeSHA256 (df_brief d') \<longrightarrow> df_brief d = df_brief d'"
    and "ComputeSHA256 (digest_document (df_header d) (dg_brief_sha256 g))
          = ComputeSHA256 (digest_document (df_header d') (dg_brief_sha256 g))
        \<longrightarrow> digest_document (df_header d) (dg_brief_sha256 g)
          = digest_document (df_header d') (dg_brief_sha256 g)"
  shows "d = d'"
  using digests_bind [OF assms(1,2)] assms(3,4) by blast

theorem digests_commit_to_definition_witness:
  "\<exists>g. DefinitionDigests sample_definition = Inr g \<and> sample_definition = sample_definition\<lparr>df_brief := ''hi''\<rparr>"
proof -
  have same: "sample_definition\<lparr>df_brief := ''hi''\<rparr> = sample_definition" by (simp add: sample_definition_def)
  obtain g where "DefinitionDigests sample_definition = Inr g" "DefinitionDigests (sample_definition\<lparr>df_brief := ''hi''\<rparr>) = Inr g"
    using sample_valid by (simp add: DefinitionDigests_Inr same)
  with digests_commit_to_definition [OF this] show ?thesis by (simp add: same)
qed

end
