(* ===== verification/Sched_Recurrence.thy ===== *)
theory Sched_Recurrence
  imports Sched_Contract
begin

text \<open>
  Recurrence (\<open>internal/scheduler/recurrence\<close>): the grammar fence, the search for the first eligible
  instant of a cron expression in a named zone, and the resolution of the local zone's name.

  Three things are outside the repository and are parameters. A \<open>zone\<close> is what Go's
  \<open>Location.lookup\<close> answers from the installed time-zone data: the offset at a Unix second and the
  bounds of the interval with that offset. A \<open>cron_backend\<close> is gocron's \<open>Cron\<close>. The \<open>filesystem\<close>
  resolves links and identifies files.
\<close>

section \<open>Grammar (\<open>grammar.go\<close>)\<close>

definition all_digits :: "string \<Rightarrow> bool" where
  "all_digits s \<longleftrightarrow> s \<noteq> [] \<and> list_all digit s"

text \<open>
  \<open>^(\*|([0-9]+|[A-Za-z]{3})(-([0-9]+|[A-Za-z]{3}))?)(/[0-9]+)?$\<close>: the two separators occur in no
  alternative, so the first of each splits the element.
\<close>

definition field_value :: "string \<Rightarrow> bool" where
  "field_value s \<longleftrightarrow> all_digits s \<or> length s = 3 \<and> list_all letter s"

definition field_range :: "string \<Rightarrow> bool" where
  "field_range s \<longleftrightarrow> s = ''*''
     \<or> (case cut CHR ''-'' s of (a, b, found) \<Rightarrow> field_value a \<and> (found \<longrightarrow> field_value b))"

definition fieldElement :: "string \<Rightarrow> bool" where
  "fieldElement s \<longleftrightarrow>
     (case cut CHR ''/'' s of (a, b, found) \<Rightarrow> field_range a \<and> (found \<longrightarrow> all_digits b))"

definition validateGrammar :: "string \<Rightarrow> error option" where
  "validateGrammar expression =
     (if length expression > MaxOpaqueTextBytes \<or> contains_control expression
      then Some (Wrap ''too long or control characters'' (Leaf ErrInvalidExpression))
      else if length (Go_Text.fields expression) \<noteq> 5
      then Some (Wrap ''expected five fields'' (Leaf ErrInvalidExpression))
      else first_error
        (map (\<lambda>element. require (fieldElement element)
                (Wrap ''unsupported field element'' (Leaf ErrInvalidExpression)))
          (concat (map (split_on CHR '','') (Go_Text.fields expression)))))"

section \<open>Zones\<close>

record zone =
  z_lookup :: "int \<Rightarrow> int \<times> int option \<times> int option"
  z_utc :: bool

definition unix_seconds :: "go_time \<Rightarrow> int" where
  "unix_seconds t = t_ns t div ns_per_second"

definition in_location :: "zone \<Rightarrow> go_time \<Rightarrow> go_time" where
  "in_location z t = t\<lparr>t_utc := z_utc z\<rparr>"

text \<open>\<open>Time.Zone\<close> and \<open>Time.ZoneBounds\<close>; a missing bound is the zero time.\<close>

definition zone_offset :: "zone \<Rightarrow> go_time \<Rightarrow> int" where
  "zone_offset z t = fst (z_lookup z (unix_seconds t))"

definition bound_time :: "zone \<Rightarrow> int option \<Rightarrow> go_time" where
  "bound_time z b = (case b of None \<Rightarrow> zero_time
     | Some s \<Rightarrow> \<lparr>t_ns = s * ns_per_second, t_utc = z_utc z\<rparr>)"

definition zone_bounds :: "zone \<Rightarrow> go_time \<Rightarrow> go_time \<times> go_time" where
  "zone_bounds z t = (case z_lookup z (unix_seconds t) of
     (offset, s, e) \<Rightarrow> (bound_time z s, bound_time z e))"

section \<open>First realizations (\<open>fold.go\<close>)\<close>

text \<open>\<open>time.Date\<close> of the local fields, read in UTC, is the instant moved by the offset.\<close>

definition wallPoint :: "zone \<Rightarrow> go_time \<Rightarrow> go_time" where
  "wallPoint z t = utc_time (t_ns t + zone_offset z t * ns_per_second)"

text \<open>
  The loop over the zone's intervals, backwards from the candidate. Its end depends on the zone's data,
  so it is a partial function: \<open>None\<close> is a loop that does not return.
\<close>

partial_function (option) realization_loop ::
  "zone \<Rightarrow> go_time \<Rightarrow> go_time \<Rightarrow> int list \<Rightarrow> go_time \<Rightarrow> (error + bool) option" where
  "realization_loop z candidate wall seen probe =
     (let offset = zone_offset z probe;
          alternative = utc_time (t_ns wall - offset * ns_per_second);
          start = fst (zone_bounds z probe);
          previous = add_ns start (- 1)
      in if offset \<notin> set seen \<and> before alternative candidate
            \<and> same_instant (wallPoint z alternative) wall
         then Some (Inr False)
         else if is_zero start then Some (Inr True)
         else if \<not> before previous probe
         then Some (Inl (Wrap ''native zone interval did not progress backwards'' (Leaf ErrLookup)))
         else realization_loop z candidate wall (List.insert offset seen) (in_location z previous))"

definition firstRealization :: "zone \<Rightarrow> go_time \<Rightarrow> (error + bool) option" where
  "firstRealization z candidate =
     realization_loop z candidate (wallPoint z candidate) [] (in_location z candidate)"

section \<open>The backend (\<open>lookup.go\<close>)\<close>

record cron_backend =
  cr_valid :: "string \<Rightarrow> go_time \<Rightarrow> error option"
  cr_next :: "string \<Rightarrow> go_time \<Rightarrow> go_time"

fun onlyNoCandidate :: "error \<Rightarrow> bool" where
  "onlyNoCandidate (Leaf s) \<longleftrightarrow> s = ErrCronJobInvalid"
| "onlyNoCandidate (Opaque m) \<longleftrightarrow> False"
| "onlyNoCandidate (DriverError c) \<longleftrightarrow> False"
| "onlyNoCandidate (Wrap m e) \<longleftrightarrow> errors_is e ErrCronJobInvalid \<and> onlyNoCandidate e"
| "onlyNoCandidate (Joined es) \<longleftrightarrow>
     list_ex (\<lambda>e. errors_is e ErrCronJobInvalid) es \<and> list_all onlyNoCandidate es"

definition minute_aligned :: "go_time \<Rightarrow> bool" where
  "minute_aligned t \<longleftrightarrow> t_ns t mod (60 * ns_per_second) = 0"

text \<open>
  \<open>lookupBetween\<close> with the location its caller passes, \<open>time.UTC\<close>. \<open>factory = None\<close> is a nil cron. The
  loop ends because each probe is checked to be later than the last.
\<close>

function lookupBetween ::
  "string \<Rightarrow> cron_backend option \<Rightarrow> go_time \<Rightarrow> go_time \<Rightarrow> error + go_time option" where
  "lookupBetween expression factory probe through =
     (if \<not> before probe through then Inr None
      else case factory of
        None \<Rightarrow> Inl (Wrap ''nil cron implementation'' (Leaf ErrLookup))
      | Some cron \<Rightarrow> (case cr_valid cron expression probe of
          None \<Rightarrow>
            (let candidate = cr_next cron expression probe in
             if \<not> after candidate probe \<or> \<not> minute_aligned candidate
             then Inl (Wrap ''backend candidate does not progress at minute precision'' (Leaf ErrLookup))
             else Inr (if after candidate through then None else Some candidate))
        | Some err \<Rightarrow>
            if errors_is err ErrCronJobParse then Inl (Joined [Leaf ErrInvalidExpression, err])
            else if \<not> onlyNoCandidate err then Inl (Joined [Leaf ErrLookup, err])
            else let nxt = add_years probe 4 in
              if \<not> after nxt probe
              then Inl (Wrap ''calendar probe did not progress'' (Leaf ErrLookup))
              else lookupBetween expression factory nxt through))"
  by pat_completeness auto
termination
  by (relation "measure (\<lambda>(x, f, probe, through). nat (t_ns through - t_ns probe))")
    (auto simp: before_def after_def)

declare lookupBetween.simps [simp del]

section \<open>The search (\<open>next.go\<close>)\<close>

definition shiftSeconds :: "go_time \<Rightarrow> int \<Rightarrow> go_time" where
  "shiftSeconds t seconds = utc_time (t_ns t + seconds * ns_per_second)"

definition year_start :: "go_time \<Rightarrow> go_time" where
  "year_start t = utc_time (days_from_civil (year_of t) 1 1 * ns_per_day)"

definition intervalUpper :: "go_time \<Rightarrow> go_time \<Rightarrow> go_time \<Rightarrow> error + go_time" where
  "intervalUpper probe interval_end through =
     (let yearStart = year_start probe;
          nextYear = add_years yearStart 1;
          leapYear = (sub_ns nextYear yearStart = 366 * ns_per_day);
          upto = (\<lambda>e. if \<not> is_zero e \<and> \<not> after e through then add_ns e (- 1) else through)
      in if \<not> is_zero interval_end \<and> \<not> after interval_end probe then
           if \<not> leapYear \<or> \<not> same_instant interval_end (add_ns yearStart (365 * ns_per_day))
              \<or> \<not> before probe nextYear
           then Inl (Wrap ''native interval ends before its probe'' (Leaf ErrLookup))
           else Inr (upto nextYear)
         else Inr (upto interval_end))"

function nextInZone ::
  "string \<Rightarrow> zone \<Rightarrow> go_time \<Rightarrow> go_time \<Rightarrow> cron_backend option \<Rightarrow> (error + go_time) option" where
  "nextInZone expression z cursor through factory =
     (if \<not> before cursor through then Some (Inl (Leaf ErrRangeExhausted))
      else let probe = in_location z (add_ns cursor 1);
               offset = zone_offset z probe
           in case intervalUpper probe (snd (zone_bounds z probe)) through of
        Inl e \<Rightarrow> Some (Inl e)
      | Inr upper \<Rightarrow>
        (case lookupBetween expression factory (shiftSeconds cursor offset) (shiftSeconds upper offset) of
          Inl e \<Rightarrow> Some (Inl e)
        | Inr (Some candidate) \<Rightarrow>
            (let actual = shiftSeconds candidate (- offset) in
             if \<not> after actual cursor \<or> after actual upper
                \<or> \<not> same_instant (wallPoint z actual) candidate
             then Some (Inl (Wrap ''calendar candidate failed its native interval round trip''
                              (Leaf ErrLookup)))
             else (case firstRealization z actual of
                 None \<Rightarrow> None
               | Some (Inl e) \<Rightarrow> Some (Inl e)
               | Some (Inr True) \<Rightarrow> Some (Inr (to_utc actual))
               | Some (Inr False) \<Rightarrow> nextInZone expression z actual through factory))
        | Inr None \<Rightarrow>
            if \<not> after upper cursor
            then Some (Inl (Wrap ''native interval did not progress'' (Leaf ErrLookup)))
            else nextInZone expression z upper through factory))"
  by pat_completeness auto
termination
  by (relation "measure (\<lambda>(x, z, cursor, through, f). nat (t_ns through - t_ns cursor))")
    (auto simp: before_def after_def)

declare nextInZone.simps [simp del]

record recurrence_env =
  re_zone :: "string \<Rightarrow> error + zone"
  re_cron :: "cron_backend option"

definition namedLocation :: "recurrence_env \<Rightarrow> string \<Rightarrow> error + zone" where
  "namedLocation env name =
     (if name = [] \<or> name = ''Local'' \<or> length name > MaxOpaqueTextBytes \<or> contains_space name
      then Inl (Wrap ''supply a nonempty named timezone other than Local'' (Leaf ErrInvalidTimezone))
      else map_err (\<lambda>e. Joined [Leaf ErrInvalidTimezone, e]) (re_zone env name))"

text \<open>\<open>Next\<close> of \<open>next.go\<close>; the contract has another function of that name.\<close>

definition recurrence_next ::
  "recurrence_env \<Rightarrow> string \<Rightarrow> string \<Rightarrow> go_time \<Rightarrow> (error + go_time) option" where
  "recurrence_next env expression name after_time =
     (case validateGrammar expression of
        Some e \<Rightarrow> Some (Inl e)
      | None \<Rightarrow> (case namedLocation env name of
          Inl e \<Rightarrow> Some (Inl e)
        | Inr z \<Rightarrow>
            (let start = to_utc after_time in
             case ValidateInstant ''schedule after'' start of
               Some e \<Rightarrow> Some (Inl (Joined [Leaf ErrRangeExhausted, e]))
             | None \<Rightarrow> nextInZone expression z start (InstantFromUnixNanos max_int64) (re_cron env))))"

section \<open>Warnings (\<open>warnings.go\<close>)\<close>

datatype recurrence_warning = CalendarOmission | TimezoneOmission

definition Warnings :: "recurrence_env \<Rightarrow> string \<Rightarrow> string \<Rightarrow> recurrence_warning list" where
  "Warnings env expression name =
     (case validateGrammar expression of
        Some e \<Rightarrow> []
      | None \<Rightarrow> (case namedLocation env name of
          Inl e \<Rightarrow> []
        | Inr z \<Rightarrow> (case zone_bounds z (utc_time 0) of (s, e) \<Rightarrow>
            CalendarOmission # (if \<not> is_zero s \<or> \<not> is_zero e then [TimezoneOmission] else []))))"

section \<open>The local zone's name (\<open>timezone.go\<close>)\<close>

text \<open>\<open>EvalSymlinks\<close>, and \<open>os.Stat\<close> as the identity that \<open>os.SameFile\<close> compares.\<close>

record filesystem =
  fs_resolve :: "string \<Rightarrow> error + string"
  fs_stat :: "string \<Rightarrow> error + nat"

record zone_source =
  zs_tz :: string
  zs_tz_present :: bool
  zs_localtime :: string
  zs_roots :: "string list"

definition path_parts :: "string \<Rightarrow> string list" where
  "path_parts p = filter (\<lambda>x. x \<noteq> []) (split_on CHR ''/'' p)"

fun rel_parts :: "string list \<Rightarrow> string list \<Rightarrow> string list option" where
  "rel_parts [] ts = Some ts"
| "rel_parts bs [] = Some (replicate (length bs) ''..'')"
| "rel_parts (b # bs) (t # ts) =
     (if b = t then rel_parts bs ts
      else if b = ''..'' then None
      else Some (replicate (length (b # bs)) ''..'' @ t # ts))"

text \<open>\<open>filepath.Rel\<close>.\<close>

definition filepath_rel :: "string \<Rightarrow> string \<Rightarrow> error + string" where
  "filepath_rel base target =
     (let b = path_clean base; t = path_clean target in
      if b = t then Inr ''.''
      else let b' = (if b = ''.'' then [] else b) in
        if is_abs b' \<noteq> is_abs t then Inl (Opaque ''Rel: can't make relative'')
        else case rel_parts (path_parts b') (path_parts t) of
            None \<Rightarrow> Inl (Opaque ''Rel: can't make relative'')
          | Some ps \<Rightarrow> Inr (join_slash ps))"

definition relativeZonePath :: "string \<Rightarrow> string \<Rightarrow> string option" where
  "relativeZonePath root path = (case filepath_rel root path of
     Inl e \<Rightarrow> None
   | Inr relative \<Rightarrow>
       if relative = ''.'' \<or> relative = ''..'' \<or> is_abs relative \<or> has_prefix ''../'' relative
       then None else Some relative)"

definition local_error :: "error \<Rightarrow> error" where
  "local_error e = Joined [Leaf ErrLocalTimezone, e]"

definition zoneNameInRoot ::
  "recurrence_env \<Rightarrow> filesystem \<Rightarrow> string \<Rightarrow> string \<Rightarrow> nat \<Rightarrow> string \<Rightarrow> error + string option" where
  "zoneNameInRoot env fs path resolved target root = (case fs_resolve fs root of
     Inl e \<Rightarrow> if errors_is e ErrNotExist then Inr None else Inl (local_error e)
   | Inr physicalRoot \<Rightarrow> (case relativeZonePath physicalRoot resolved of
       None \<Rightarrow> Inr None
     | Some inside \<Rightarrow>
         (let relative = (case relativeZonePath root path of Some alias \<Rightarrow> alias | None \<Rightarrow> inside) in
          bind_result (map_err local_error (namedLocation env relative)) (\<lambda>_.
          bind_result (map_err local_error (fs_stat fs (filepath_join root relative))) (\<lambda>named.
            if target \<noteq> named
            then Inl (Wrap ''timezone file identity differs'' (Leaf ErrLocalTimezone))
            else Inr (Some relative))))))"

fun zone_in_roots ::
  "recurrence_env \<Rightarrow> filesystem \<Rightarrow> string \<Rightarrow> string \<Rightarrow> nat \<Rightarrow> string list \<Rightarrow> error + string" where
  "zone_in_roots env fs path resolved target [] =
     Inl (Wrap ''timezone file has no established zoneinfo name'' (Leaf ErrLocalTimezone))"
| "zone_in_roots env fs path resolved target (root # roots) =
     bind_result (zoneNameInRoot env fs path resolved target root) (\<lambda>found.
       case found of Some name \<Rightarrow> Inr name
                   | None \<Rightarrow> zone_in_roots env fs path resolved target roots)"

definition zoneNameFromPath ::
  "recurrence_env \<Rightarrow> filesystem \<Rightarrow> string \<Rightarrow> string list \<Rightarrow> error + string" where
  "zoneNameFromPath env fs path roots =
     bind_result (map_err local_error (fs_resolve fs path)) (\<lambda>resolved.
     bind_result (map_err local_error (fs_stat fs resolved)) (\<lambda>target.
       zone_in_roots env fs path resolved target roots))"

definition resolveLocalTimezone ::
  "recurrence_env \<Rightarrow> filesystem \<Rightarrow> zone_source \<Rightarrow> error + string" where
  "resolveLocalTimezone env fs source =
     (if \<not> zs_tz_present source then zoneNameFromPath env fs (zs_localtime source) (zs_roots source)
      else if zs_tz source = [] then Inr ''UTC''
      else let name = (if has_prefix '':'' (zs_tz source) then tl (zs_tz source) else zs_tz source) in
        if name = [] \<or> name = ''UTC'' then Inr ''UTC''
        else if is_abs name then zoneNameFromPath env fs name (zs_roots source)
        else bind_result (map_err (\<lambda>e. Wrap ''TZ'' (local_error e)) (namedLocation env name))
          (\<lambda>_. Inr name))"

definition zoneinfo_roots :: "string list" where
  "zoneinfo_roots = [''/usr/share/zoneinfo'', ''/usr/share/lib/zoneinfo'', ''/usr/lib/locale/TZ'',
     ''/etc/zoneinfo'', ''/var/db/timezone/zoneinfo'']"

text \<open>\<open>ResolveTimezone\<close> with the process's \<open>TZ\<close> variable.\<close>

definition ResolveTimezone ::
  "recurrence_env \<Rightarrow> filesystem \<Rightarrow> string option \<Rightarrow> string \<Rightarrow> error + string" where
  "ResolveTimezone env fs tz explicit =
     (if explicit \<noteq> [] then bind_result (namedLocation env explicit) (\<lambda>_. Inr explicit)
      else resolveLocalTimezone env fs
        \<lparr>zs_tz = (case tz of None \<Rightarrow> [] | Some v \<Rightarrow> v), zs_tz_present = (tz \<noteq> None),
         zs_localtime = ''/etc/localtime'', zs_roots = zoneinfo_roots\<rparr>)"

end
