(* ===== verification/Recurrence_Search.thy ===== *)
theory Recurrence_Search
  imports Sched_Recurrence
begin

text \<open>
  The search of \<open>next.go\<close> finds the first eligible instant. What the two outside components promise is
  stated as \<open>zone_ok\<close> (Go's \<open>Location.lookup\<close>) and \<open>cron_ok\<close> (gocron's \<open>IsValid\<close> and \<open>Next\<close> against
  the set of nominal minutes an expression names). Eligibility does not mention the search: the local
  reading of the instant is one of those minutes, and no earlier instant has the same reading.
\<close>

definition offset_at :: "zone \<Rightarrow> int \<Rightarrow> int" where
  "offset_at z n = fst (z_lookup z (n div ns_per_second))"

definition wall_of :: "zone \<Rightarrow> int \<Rightarrow> int" where
  "wall_of z n = n + offset_at z n * ns_per_second"

definition eligible :: "zone \<Rightarrow> int set \<Rightarrow> int \<Rightarrow> bool" where
  "eligible z M n \<longleftrightarrow> wall_of z n \<in> M \<and> (\<forall>m < n. wall_of z m \<noteq> wall_of z n)"

text \<open>The end of the interval, allowing for the bound Go synthesizes 365 days into a leap year.\<close>

definition interval_limit :: "int \<Rightarrow> int \<Rightarrow> int" where
  "interval_limit s b = (if s < b then b * ns_per_second
     else t_ns (add_years (year_start (utc_time (s * ns_per_second))) 1))"

definition zone_starts :: "zone \<Rightarrow> int \<Rightarrow> int set" where
  "zone_starts z s = {a. a \<le> s \<and> (\<exists>s'. fst (snd (z_lookup z s')) = Some a)}"

definition zone_ok :: "zone \<Rightarrow> bool" where
  "zone_ok z \<longleftrightarrow>
     (\<forall>s. finite (zone_starts z s)) \<and>
     (\<forall>s off lo hi. z_lookup z s = (off, lo, hi) \<longrightarrow>
        (\<forall>a. lo = Some a \<longrightarrow> a \<le> s \<and> a * ns_per_second \<noteq> t_ns zero_time)
        \<and> (\<forall>b. hi = Some b \<longrightarrow> b * ns_per_second \<noteq> t_ns zero_time)
        \<and> (\<forall>s' \<le> s. (\<forall>a. lo = Some a \<longrightarrow> a \<le> s') \<longrightarrow> fst (z_lookup z s') = off)
        \<and> (\<forall>s' \<ge> s. (\<forall>b. hi = Some b \<longrightarrow> s' * ns_per_second < interval_limit s b)
             \<longrightarrow> fst (z_lookup z s') = off))"

definition cron_ok :: "cron_backend \<Rightarrow> string \<Rightarrow> int set \<Rightarrow> bool" where
  "cron_ok cron expression M \<longleftrightarrow> (\<forall>probe. case cr_valid cron expression probe of
       None \<Rightarrow> t_ns (cr_next cron expression probe) \<in> M
         \<and> (\<forall>m \<in> M. t_ns probe < m \<longrightarrow> t_ns (cr_next cron expression probe) \<le> m)
     | Some e \<Rightarrow> onlyNoCandidate e
         \<longrightarrow> (\<forall>m \<in> M. t_ns probe < m \<longrightarrow> t_ns (add_years probe 4) < m))"

lemma ns_per_second_pos [simp]: "0 < ns_per_second" "0 \<le> ns_per_second"
  by (simp_all add: ns_per_second_def)

lemma zone_offset_at: "zone_offset z t = offset_at z (t_ns t)"
  by (simp add: zone_offset_def offset_at_def unix_seconds_def)

lemma wallPoint_ns [simp]: "t_ns (wallPoint z t) = wall_of z (t_ns t)"
  by (simp add: wallPoint_def wall_of_def zone_offset_at)

lemma in_location_ns [simp]: "t_ns (in_location z t) = t_ns t"
  by (simp add: in_location_def)

lemma shiftSeconds_ns [simp]: "t_ns (shiftSeconds t k) = t_ns t + k * ns_per_second"
  by (simp add: shiftSeconds_def)

section \<open>Consequences of the zone's laws\<close>

lemma zone_ok_finite: "zone_ok z \<Longrightarrow> finite (zone_starts z s)"
  by (simp add: zone_ok_def)

lemma zone_ok_start:
  assumes "zone_ok z" "z_lookup z s = (off, Some a, hi)"
  shows "a \<le> s \<and> a * ns_per_second \<noteq> t_ns zero_time"
  using assms by (auto simp: zone_ok_def)

lemma zone_ok_back:
  assumes "zone_ok z" "z_lookup z s = (off, lo, hi)" "n div ns_per_second \<le> s"
    "\<And>a. lo = Some a \<Longrightarrow> a \<le> n div ns_per_second"
  shows "offset_at z n = off"
  using assms unfolding zone_ok_def offset_at_def by blast

lemma zone_ok_ahead:
  assumes "zone_ok z" "z_lookup z s = (off, lo, hi)" "s \<le> n div ns_per_second"
    "\<And>b. hi = Some b \<Longrightarrow> n div ns_per_second * ns_per_second < interval_limit s b"
  shows "offset_at z n = off"
  using assms unfolding zone_ok_def offset_at_def by blast

lemma seconds_below: "n div ns_per_second * ns_per_second \<le> n"
  using minus_mod_eq_div_mult [of n ns_per_second] pos_mod_sign [OF ns_per_second_pos(1), of n] by linarith

lemma seconds_above: "n < n div ns_per_second * ns_per_second + ns_per_second"
  using minus_mod_eq_div_mult [of n ns_per_second] pos_mod_bound [OF ns_per_second_pos(1), of n] by linarith

lemma day_of_second: "(n div ns_per_second * ns_per_second) div ns_per_day = n div ns_per_day"
proof -
  have day: "ns_per_day = ns_per_second * 86400" by (simp add: ns_per_day_def ns_per_second_def)
  show ?thesis
    unfolding day zdiv_zmult2_eq [OF order.strict_implies_order [OF zero_less_numeral]]
    by (simp add: zdiv_zmult2_eq)
qed

lemma year_start_second:
  "year_start (utc_time (unix_seconds t * ns_per_second)) = year_start t"
  by (simp add: year_start_def year_of_def unix_seconds_def day_of_second)

section \<open>First realizations\<close>

lemma realization_loop_decides:
  assumes "zone_ok z" "t_ns wall = wall_of z (t_ns candidate)"
    and "\<forall>off \<in> set seen. \<not> (t_ns wall - off * ns_per_second < t_ns candidate
           \<and> wall_of z (t_ns wall - off * ns_per_second) = t_ns wall)"
    and "\<forall>n < t_ns candidate. unix_seconds probe < n div ns_per_second \<longrightarrow> offset_at z n \<in> set seen"
  shows "realization_loop z candidate wall seen probe
    = Some (Inr (\<forall>m < t_ns candidate. wall_of z m \<noteq> t_ns wall))"
  using assms(3,4)
proof (induction "card (zone_starts z (unix_seconds probe))" arbitrary: seen probe rule: less_induct)
  case less
  define off where "off = zone_offset z probe"
  define alt where "alt = t_ns wall - off * ns_per_second"
  obtain lo hi where look: "z_lookup z (unix_seconds probe) = (off, lo, hi)"
    by (metis off_def zone_offset_def prod.collapse)
  have start: "fst (zone_bounds z probe) = bound_time z lo"
    by (simp add: zone_bounds_def look)
  show ?case
  proof (cases "off \<notin> set seen \<and> alt < t_ns candidate \<and> wall_of z alt = t_ns wall")
    case True
    then show ?thesis
      by (subst realization_loop.simps)
        (auto simp: Let_def before_def same_instant_def alt_def off_def)
  next
    case False
    define seen' where "seen' = List.insert off seen"
    have seen': "\<forall>off \<in> set seen'. \<not> (t_ns wall - off * ns_per_second < t_ns candidate
           \<and> wall_of z (t_ns wall - off * ns_per_second) = t_ns wall)"
      using False less.prems(1) by (auto simp: seen'_def alt_def)
    have here: "offset_at z n \<in> set seen'"
      if "n < t_ns candidate" "\<And>a. lo = Some a \<Longrightarrow> a \<le> n div ns_per_second" for n
    proof (cases "n div ns_per_second \<le> unix_seconds probe")
      case True
      with zone_ok_back [OF assms(1) look _ that(2)] show ?thesis by (simp add: seen'_def)
    next
      case False
      with less.prems(2) that(1) show ?thesis by (simp add: seen'_def)
    qed
    have unmatched: "wall_of z m \<noteq> t_ns wall"
      if "m < t_ns candidate" "offset_at z m \<in> set seen'" for m
    proof
      assume m: "wall_of z m = t_ns wall"
      then have "m = t_ns wall - offset_at z m * ns_per_second" by (simp add: wall_of_def)
      with seen' that m show False by metis
    qed
    show ?thesis
    proof (cases lo)
      case None
      then have "is_zero (fst (zone_bounds z probe))" by (simp add: start bound_time_def is_zero_def)
      moreover have "\<forall>m < t_ns candidate. wall_of z m \<noteq> t_ns wall"
        using unmatched here None by simp
      ultimately show ?thesis
        using False
        by (subst realization_loop.simps)
          (auto simp: Let_def before_def same_instant_def alt_def off_def)
    next
      case (Some a)
      note a = zone_ok_start [OF assms(1) look [unfolded Some]]
      define previous where "previous = in_location z (add_ns (fst (zone_bounds z probe)) (- 1))"
      have prev_ns: "t_ns previous = a * ns_per_second - 1"
        by (simp add: previous_def start Some bound_time_def)
      then have prev_s: "unix_seconds previous = a - 1"
        by (simp add: unix_seconds_def ns_per_second_def)
      have probe: "unix_seconds probe * ns_per_second \<le> t_ns probe"
        by (simp add: unix_seconds_def seconds_below)
      moreover have "a * ns_per_second \<le> unix_seconds probe * ns_per_second"
        using a by (simp add: mult_right_mono)
      ultimately have behind: "a * ns_per_second - 1 < t_ns probe" by linarith
      have "a \<in> zone_starts z (unix_seconds probe)" "a \<notin> zone_starts z (a - 1)"
        using a look Some by (auto simp: zone_starts_def intro: exI [of _ "unix_seconds probe"])
      moreover have "zone_starts z (a - 1) \<subseteq> zone_starts z (unix_seconds probe)"
        using a by (auto simp: zone_starts_def)
      ultimately have "zone_starts z (unix_seconds previous) \<subset> zone_starts z (unix_seconds probe)"
        unfolding prev_s by blast
      then have smaller: "card (zone_starts z (unix_seconds previous)) < card (zone_starts z (unix_seconds probe))"
        by (rule psubset_card_mono [OF zone_ok_finite [OF assms(1)]])
      have covered: "\<forall>n < t_ns candidate. unix_seconds previous < n div ns_per_second
          \<longrightarrow> offset_at z n \<in> set seen'"
        using here Some by (auto simp: prev_s)
      have "realization_loop z candidate wall seen probe = realization_loop z candidate wall seen' previous"
        using False a behind
        by (subst realization_loop.simps)
          (auto simp: Let_def before_def same_instant_def alt_def off_def seen'_def previous_def
            start Some bound_time_def is_zero_def)
      then show ?thesis using less.hyps [OF smaller seen' covered] by simp
    qed
  qed
qed

lemma firstRealization_decides:
  assumes "zone_ok z"
  shows "firstRealization z t = Some (Inr (\<forall>m < t_ns t. wall_of z m \<noteq> wall_of z (t_ns t)))"
proof -
  have "offset_at z n \<in> set []"
    if "n < t_ns t" "unix_seconds (in_location z t) < n div ns_per_second" for n
    using that zdiv_mono1 [of n "t_ns t" ns_per_second] by (simp add: unix_seconds_def)
  then show ?thesis
    unfolding firstRealization_def
    by (subst realization_loop_decides [OF assms]) auto
qed

section \<open>The backend\<close>

lemma lookupBetween_found:
  assumes "cron_ok cron expression M" "lookupBetween expression (Some cron) probe through = Inr r"
  shows "(case r of
      Some c \<Rightarrow> t_ns c \<in> M \<and> t_ns probe < t_ns c \<and> t_ns c \<le> t_ns through
        \<and> (\<forall>m \<in> M. t_ns probe < m \<longrightarrow> t_ns c \<le> m)
    | None \<Rightarrow> \<forall>m \<in> M. t_ns probe < m \<longrightarrow> t_ns through < m)"
  using assms
proof (induction expression "Some cron" probe through rule: lookupBetween.induct)
  case (1 expression probe through)
  note law = "1.prems"(1) [unfolded cron_ok_def, rule_format, of probe]
  note step = "1.prems"(2) [unfolded lookupBetween.simps [of expression _ probe]]
  show ?case
  proof (cases "before probe through")
    case False
    with step show ?thesis by (auto simp: before_def)
  next
    case True
    show ?thesis
    proof (cases "cr_valid cron expression probe")
      case None
      define c where "c = cr_next cron expression probe"
      have "r = (if after c through then None else Some c)" "after c probe"
        using step True None by (simp_all add: c_def Let_def split: if_splits)
      then show ?thesis
        using law None by (auto simp: c_def after_def)
    next
      case (Some err)
      with True step have none: "\<not> errors_is err ErrCronJobParse" "onlyNoCandidate err"
          "after (add_years probe 4) probe"
        and rest: "lookupBetween expression (Some cron) (add_years probe 4) through = Inr r"
        by (simp_all add: Let_def split: if_splits)
      have gap: "\<forall>m \<in> M. t_ns probe < m \<longrightarrow> t_ns (add_years probe 4) < m"
        using law none(2) Some by simp
      note later = "1.hyps" [of cron err "add_years probe 4", simplified, OF True Some none "1.prems"(1) rest]
      show ?thesis
        using later gap none(3) by (auto simp: after_def split: option.splits)
    qed
  qed
qed

lemma lookupBetween_fault:
  "lookupBetween expression factory probe through = Inl e \<Longrightarrow> e \<noteq> Leaf ErrRangeExhausted"
  by (induction expression factory probe through rule: lookupBetween.induct)
    (subst (asm) (2) lookupBetween.simps, auto simp: Let_def split: if_splits option.splits)

section \<open>Intervals\<close>

lemma intervalUpper_constant:
  assumes zone: "zone_ok z" and probe: "t_ns zero_time < t_ns probe"
    and upper: "intervalUpper probe (snd (zone_bounds z probe)) through = Inr upper"
  shows "t_ns upper \<le> t_ns through
    \<and> (\<forall>n. t_ns probe \<le> n \<and> n \<le> t_ns upper \<longrightarrow> offset_at z n = zone_offset z probe)"
proof -
  obtain lo hi where look: "z_lookup z (unix_seconds probe) = (zone_offset z probe, lo, hi)"
    by (metis zone_offset_def prod.collapse)
  have bound: "snd (zone_bounds z probe) = bound_time z hi" by (simp add: zone_bounds_def look)
  have le: "unix_seconds probe \<le> n div ns_per_second" if "t_ns probe \<le> n" for n
    using that by (simp add: unix_seconds_def zdiv_mono1)
  note ahead = zone_ok_ahead [OF zone look le]
  show ?thesis
  proof (cases hi)
    case None
    then show ?thesis using upper ahead
      by (auto simp: bound bound_time_def intervalUpper_def is_zero_def Let_def)
  next
    case (Some b)
    then have nonzero: "\<not> is_zero (bound_time z hi)"
      using zone look by (auto simp: zone_ok_def bound_time_def is_zero_def)
    define limit where "limit = interval_limit (unix_seconds probe) b"
    have "t_ns upper \<le> t_ns through \<and> t_ns upper < limit"
    proof (cases "unix_seconds probe < b")
      case True
      then have "(unix_seconds probe + 1) * ns_per_second \<le> b * ns_per_second"
        by (intro mult_right_mono) simp_all
      then have "after (bound_time z hi) probe"
        using seconds_above [of "t_ns probe"]
        by (simp add: after_def bound_time_def Some unix_seconds_def distrib_right)
      with True nonzero show ?thesis
        using upper
        by (auto simp: bound intervalUpper_def Let_def limit_def interval_limit_def after_def
            bound_time_def Some split: if_splits)
    next
      case False
      then have "b * ns_per_second \<le> unix_seconds probe * ns_per_second"
        by (intro mult_right_mono) simp_all
      then have "b * ns_per_second \<le> t_ns probe"
        using seconds_below [of "t_ns probe"] unfolding unix_seconds_def by linarith
      then have tail: "\<not> after (bound_time z hi) probe"
        by (simp add: after_def bound_time_def Some)
      have limit: "limit = t_ns (add_years (year_start probe) 1)"
        using False by (simp add: limit_def interval_limit_def year_start_second)
      have "before probe (add_years (year_start probe) 1)"
        using upper nonzero tail by (auto simp: bound intervalUpper_def Let_def split: if_splits)
      then have "\<not> is_zero (add_years (year_start probe) 1)"
        using probe by (auto simp: is_zero_def before_def)
      with nonzero tail show ?thesis
        using upper unfolding limit bound intervalUpper_def Let_def
        by (auto simp: after_def split: if_splits)
    qed
    moreover have "n div ns_per_second * ns_per_second < limit" if "n < limit" for n
      using that seconds_below [of n] by linarith
    ultimately show ?thesis using ahead Some by (auto simp: limit_def)
  qed
qed

section \<open>The search\<close>

lemma first_require_fault:
  "first_error (map (\<lambda>x. require (P x) (Wrap m f)) xs) \<noteq> Some (Leaf s)"
  by (induction xs) (simp_all add: first_error_Cons require_def)

lemma validateGrammar_fault: "validateGrammar expression = Some e \<Longrightarrow> e \<noteq> Leaf ErrRangeExhausted"
  by (auto simp: validateGrammar_def first_require_fault split: if_splits)

definition first_eligible_after :: "zone \<Rightarrow> int set \<Rightarrow> int \<Rightarrow> int \<Rightarrow> int \<Rightarrow> bool" where
  "first_eligible_after z M start through t \<longleftrightarrow>
     start < t \<and> t \<le> through \<and> eligible z M t \<and> (\<forall>n. start < n \<and> n < t \<longrightarrow> \<not> eligible z M n)"

text \<open>What an answer of the search says; faults other than exhaustion say nothing.\<close>

definition search_answer :: "zone \<Rightarrow> int set \<Rightarrow> int \<Rightarrow> int \<Rightarrow> error + go_time \<Rightarrow> bool" where
  "search_answer z M start through r = (case r of
     Inr t \<Rightarrow> t_utc t \<and> first_eligible_after z M start through (t_ns t)
   | Inl e \<Rightarrow> e = Leaf ErrRangeExhausted
       \<longrightarrow> (\<forall>n. start < n \<and> n \<le> through \<longrightarrow> \<not> eligible z M n))"

lemma search_answer_skip:
  assumes "search_answer z M middle through r" "start \<le> middle"
    "\<forall>n. start < n \<and> n \<le> middle \<longrightarrow> \<not> eligible z M n"
  shows "search_answer z M start through r"
  using assms
  by (auto simp: search_answer_def first_eligible_after_def split: sum.splits) (metis linorder_not_le)+

lemma nextInZone_answer:
  assumes "zone_ok z" "cron_ok cron expression M" "t_ns zero_time \<le> t_ns cursor"
  shows "\<exists>r. nextInZone expression z cursor through (Some cron) = Some r
    \<and> search_answer z M (t_ns cursor) (t_ns through) r"
  using assms
proof (induction expression z cursor through "Some cron" rule: nextInZone.induct)
  case (1 expression z cursor through)
  note unfold = nextInZone.simps [of expression z cursor through "Some cron"]
  define probe where "probe = in_location z (add_ns cursor 1)"
  define off where "off = zone_offset z probe"
  have probe_ns: "t_ns probe = t_ns cursor + 1" by (simp add: probe_def)
  show ?case
  proof (cases "before cursor through")
    case False
    then show ?thesis by (subst unfold) (auto simp: search_answer_def before_def)
  next
    case True
    show ?thesis
    proof (cases "intervalUpper probe (snd (zone_bounds z probe)) through")
      case (Inl e)
      have "e \<noteq> Leaf ErrRangeExhausted"
        using Inl by (auto simp: intervalUpper_def Let_def split: if_splits)
      with True Inl show ?thesis
        by (subst unfold) (auto simp: search_answer_def Let_def probe_def)
    next
      case (Inr upper)
      have "t_ns upper \<le> t_ns through" and same: "\<And>n. t_ns cursor < n \<Longrightarrow> n \<le> t_ns upper \<Longrightarrow> offset_at z n = off"
        using intervalUpper_constant [OF "1.prems"(1) _ Inr] "1.prems"(3) by (auto simp: probe_ns off_def)
      have wall: "wall_of z n = n + off * ns_per_second" if "t_ns cursor < n" "n \<le> t_ns upper" for n
        using same [OF that] by (simp add: wall_of_def)
      let ?lookup = "lookupBetween expression (Some cron) (shiftSeconds cursor off) (shiftSeconds upper off)"
      have found: "case r of
          Some c \<Rightarrow> t_ns c \<in> M \<and> t_ns cursor + off * ns_per_second < t_ns c
            \<and> t_ns c \<le> t_ns upper + off * ns_per_second
            \<and> (\<forall>m \<in> M. t_ns cursor + off * ns_per_second < m \<longrightarrow> t_ns c \<le> m)
        | None \<Rightarrow> \<forall>m \<in> M. t_ns cursor + off * ns_per_second < m
            \<longrightarrow> t_ns upper + off * ns_per_second < m" if "?lookup = Inr r" for r
        using lookupBetween_found [OF "1.prems"(2) that] unfolding shiftSeconds_ns .
      consider e where "?lookup = Inl e" | "?lookup = Inr None" | c where "?lookup = Inr (Some c)"
        by (metis not_Some_eq sum.exhaust)
      then show ?thesis
      proof cases
        case (1 e)
        then have "e \<noteq> Leaf ErrRangeExhausted" by (rule lookupBetween_fault)
        with True Inr 1 show ?thesis
          by (subst unfold) (auto simp: search_answer_def Let_def probe_def off_def)
      next
        case 2
        have none: "\<forall>n. t_ns cursor < n \<and> n \<le> t_ns upper \<longrightarrow> \<not> eligible z M n"
          using found [OF 2] wall by (auto simp: eligible_def)
        show ?thesis
        proof (cases "after upper cursor")
          case False
          with True Inr 2 show ?thesis
            by (subst unfold) (auto simp: search_answer_def Let_def probe_def off_def)
        next
          case later: True
          then have "t_ns cursor \<le> t_ns upper" by (simp add: after_def)
          have "\<exists>r. nextInZone expression z upper through (Some cron) = Some r
              \<and> search_answer z M (t_ns upper) (t_ns through) r"
            using "1.hyps"(1) [OF _ refl refl] True Inr 2 later "1.prems" \<open>t_ns cursor \<le> t_ns upper\<close>
            by (simp add: probe_def off_def)
          with True Inr 2 later search_answer_skip [OF _ \<open>t_ns cursor \<le> t_ns upper\<close> none] show ?thesis
            by (subst unfold) (auto simp: Let_def probe_def off_def)
        qed
      next
        case (3 c)
        define actual where "actual = shiftSeconds c (- off)"
        have actual: "t_ns actual = t_ns c - off * ns_per_second" "t_utc actual"
          by (simp_all add: actual_def shiftSeconds_def)
        have here: "t_ns cursor < t_ns actual" "t_ns actual \<le> t_ns upper" "t_ns c \<in> M"
          and least: "\<And>m. m \<in> M \<Longrightarrow> t_ns cursor + off * ns_per_second < m \<Longrightarrow> t_ns c \<le> m"
          using found [OF 3] by (auto simp: actual)
        have reading: "wall_of z (t_ns actual) = t_ns c" using wall [OF here(1,2)] by (simp add: actual)
        have gap: "\<not> eligible z M n" if "t_ns cursor < n" "n < t_ns actual" for n
        proof -
          have "wall_of z n = n + off * ns_per_second" using wall that here(2) by simp
          then show ?thesis using least [of "wall_of z n"] that by (auto simp: eligible_def actual)
        qed
        have tests: "after actual cursor" "\<not> after actual upper" "same_instant (wallPoint z actual) c"
          using here reading by (simp_all add: after_def same_instant_def)
        show ?thesis
        proof (cases "\<forall>m < t_ns actual. wall_of z m \<noteq> wall_of z (t_ns actual)")
          case first: True
          then have "nextInZone expression z cursor through (Some cron) = Some (Inr (to_utc actual))"
            using True Inr 3 tests
            by (subst unfold) (simp add: Let_def firstRealization_decides [OF "1.prems"(1)]
                flip: probe_def off_def actual_def)
          then show ?thesis
            using here reading first gap \<open>t_ns upper \<le> t_ns through\<close>
            by (simp add: search_answer_def first_eligible_after_def eligible_def)
        next
          case repeated: False
          then have again: "firstRealization z actual = Some (Inr False)"
            by (simp add: firstRealization_decides [OF "1.prems"(1)])
          then have "nextInZone expression z cursor through (Some cron)
              = nextInZone expression z actual through (Some cron)"
            using True Inr 3 tests
            by (subst unfold) (simp add: Let_def flip: probe_def off_def actual_def)
          moreover have "\<exists>r. nextInZone expression z actual through (Some cron) = Some r
              \<and> search_answer z M (t_ns actual) (t_ns through) r"
            using "1.hyps"(2) [OF _ refl refl] True Inr 3 tests again "1.prems" here(1)
            by (simp add: actual_def flip: probe_def off_def)
          moreover have "\<forall>n. t_ns cursor < n \<and> n \<le> t_ns actual \<longrightarrow> \<not> eligible z M n"
            using gap repeated by (auto simp: eligible_def order_le_less)
          ultimately show ?thesis using search_answer_skip here(1) by fastforce
        qed
      qed
    qed
  qed
qed

end
