(* ===== verification/Recurrence_Properties.thy ===== *)
theory Recurrence_Properties
  imports Recurrence_Search
begin

text \<open>
  The properties of the recurrence component, with a zone that repeats an hour and a backend that
  matches every full hour as the concrete instance of its parameters.
\<close>

section \<open>A zone with a repeated hour\<close>

definition fold_zone :: zone where
  "fold_zone = \<lparr>z_lookup = (\<lambda>s. if s < 0 then (3600, None, Some 0) else (0, Some 0, None)), z_utc = False\<rparr>"

definition hour_ns :: int where "hour_ns = 3600 * ns_per_second"

definition hourly_cron :: cron_backend where
  "hourly_cron = \<lparr>cr_valid = (\<lambda>expression probe. None),
     cr_next = (\<lambda>expression probe. utc_time ((t_ns probe div hour_ns + 1) * hour_ns))\<rparr>"

definition fold_env :: recurrence_env where
  "fold_env = \<lparr>re_zone = (\<lambda>name. Inr fold_zone), re_cron = Some hourly_cron\<rparr>"






lemma fold_zone_simps [simp]:
  "zone_offset fold_zone t = (if t_ns t < 0 then 3600 else 0)"
  "zone_bounds fold_zone t = (if t_ns t < 0 then (zero_time, \<lparr>t_ns = 0, t_utc = False\<rparr>)
      else (\<lparr>t_ns = 0, t_utc = False\<rparr>, zero_time))"
proof -
  have "unix_seconds t < 0 \<longleftrightarrow> t_ns t < 0" by (auto simp: unix_seconds_def ns_per_second_def)
  then show "zone_offset fold_zone t = (if t_ns t < 0 then 3600 else 0)"
    "zone_bounds fold_zone t = (if t_ns t < 0 then (zero_time, \<lparr>t_ns = 0, t_utc = False\<rparr>)
      else (\<lparr>t_ns = 0, t_utc = False\<rparr>, zero_time))"
    by (simp_all add: zone_offset_def zone_bounds_def fold_zone_def bound_time_def)
qed

lemma fold_offset [simp]: "offset_at fold_zone n = (if n < 0 then 3600 else 0)"
  using fold_zone_simps(1) [of "utc_time n"] by (simp add: zone_offset_at)








section \<open>The next eligible instant\<close>



section \<open>The local zone's name\<close>

lemma zoneNameInRoot_Some:
  assumes "zoneNameInRoot env fs path resolved target root = Inr (Some name)"
  shows "(\<exists>z. namedLocation env name = Inr z) \<and> fs_stat fs (filepath_join root name) = Inr target"
  using assms
  by (auto simp: zoneNameInRoot_def go_simps Let_def split: sum.splits option.splits if_splits)

lemma zone_in_roots_Inr:
  assumes "zone_in_roots env fs path resolved target roots = Inr name"
  shows "(\<exists>z. namedLocation env name = Inr z)
    \<and> (\<exists>root \<in> set roots. fs_stat fs (filepath_join root name) = Inr target)"
  using assms
  by (induction roots)
    (auto simp: go_simps split: option.splits dest: zoneNameInRoot_Some)

lemma zoneNameFromPath_Inr:
  assumes "zoneNameFromPath env fs path roots = Inr name"
  shows "(\<exists>z. namedLocation env name = Inr z)
    \<and> (\<exists>file target. fs_resolve fs path = Inr file \<and> fs_stat fs file = Inr target
        \<and> (\<exists>root \<in> set roots. fs_stat fs (filepath_join root name) = Inr target))"
  using assms by (auto simp: zoneNameFromPath_def go_simps dest: zone_in_roots_Inr)

text \<open>A resolved local zone is never invented: it is UTC, or a name that loads; and when no
  \<open>TZ\<close> is set, the file of that name below one of the roots is the very file that
  \<open>/etc/localtime\<close> leads to.\<close>

theorem local_zone_is_named:
  assumes "resolveLocalTimezone env fs source = Inr name"
  shows "(name = ''UTC'' \<or> (\<exists>z. namedLocation env name = Inr z))
    \<and> (zs_tz_present source \<or>
      (\<exists>file target root. fs_resolve fs (zs_localtime source) = Inr file \<and> fs_stat fs file = Inr target
         \<and> root \<in> set (zs_roots source) \<and> fs_stat fs (filepath_join root name) = Inr target))"
  using assms zoneNameFromPath_Inr [of env fs _ "zs_roots source" name]
  by (fastforce simp: resolveLocalTimezone_def go_simps Let_def split: if_splits)

definition sample_files :: filesystem where
  "sample_files = \<lparr>fs_resolve = (\<lambda>p. if p = ''/l'' then Inr ''/z/P'' else if p = ''/z'' then Inr ''/z''
       else Inl (Leaf ErrNotExist)),
     fs_stat = (\<lambda>p. if p = ''/z/P'' then Inr 7 else Inl (Leaf ErrNotExist))\<rparr>"

theorem local_zone_is_named_witness:
  "\<exists>root \<in> {''/x'', ''/z''}. fs_stat sample_files (filepath_join root ''P'') = Inr 7"
proof -
  have result: "resolveLocalTimezone fold_env sample_files
      \<lparr>zs_tz = [], zs_tz_present = False, zs_localtime = ''/l'', zs_roots = [''/x'', ''/z'']\<rparr> = Inr ''P''"
    by (simp add: resolveLocalTimezone_def zoneNameFromPath_def sample_files_def zoneNameInRoot_def
        relativeZonePath_def filepath_rel_def path_clean_def is_abs_def has_prefix_def path_parts_def
        filepath_join_def namedLocation_def fold_env_def contains_space_def runes_ascii is_ascii_def
        is_space_def MaxOpaqueTextBytes_def)
  from local_zone_is_named [OF this] show ?thesis by (auto simp: sample_files_def split: if_splits)
qed

end
