(* ===== verification/Go_Effects.thy ===== *)
theory Go_Effects
  imports Prelude "HOL-Library.State_Monad"
begin

text \<open>
  Effectful Go functions in the state monad. A function returning an error as well is one into
  \<open>error + 'a\<close>; \<open>attempt\<close> and \<open>unless_error\<close> are its early returns. \<open>triple P m Q\<close> says that from a
  state with \<open>P\<close> the program ends in a result and state with \<open>Q\<close>; the rules in \<open>go_triple\<close> follow the
  program's text backwards.
\<close>

named_theorems go_triple \<open>rules for triples\<close>

definition attempt ::
  "('s, error + 'a) state \<Rightarrow> ('a \<Rightarrow> ('s, error + 'b) state) \<Rightarrow> ('s, error + 'b) state" where
  "attempt m f = do {
     r \<leftarrow> m;
     case r of Inl e \<Rightarrow> State_Monad.return (Inl e) | Inr x \<Rightarrow> f x
   }"

definition unless_error :: "error option \<Rightarrow> ('s, error + 'b) state \<Rightarrow> ('s, error + 'b) state" where
  "unless_error c m = (case c of Some e \<Rightarrow> State_Monad.return (Inl e) | None \<Rightarrow> m)"

abbreviation failing :: "error \<Rightarrow> ('s, error + 'a) state" where
  "failing e \<equiv> State_Monad.return (Inl e)"

abbreviation giving :: "'a \<Rightarrow> ('s, error + 'a) state" where
  "giving x \<equiv> State_Monad.return (Inr x)"

definition asks :: "('s \<Rightarrow> 'a) \<Rightarrow> ('s, 'a) state" where
  "asks f = State (\<lambda>s. (f s, s))"

definition modify :: "('s \<Rightarrow> 's) \<Rightarrow> ('s, unit) state" where
  "modify f = State (\<lambda>s. ((), f s))"

lemma run_asks [simp]: "run_state (asks f) s = (f s, s)"
  by (simp add: asks_def)

lemma run_modify [simp]: "run_state (modify f) s = ((), f s)"
  by (simp add: modify_def)

lemma run_attempt:
  "run_state (attempt m f) s = (case run_state m s of
     (Inl e, s') \<Rightarrow> (Inl e, s') | (Inr x, s') \<Rightarrow> run_state (f x) s')"
  by (simp add: attempt_def split: prod.split sum.split)

section \<open>Triples\<close>

definition triple :: "('s \<Rightarrow> bool) \<Rightarrow> ('s, 'a) state \<Rightarrow> ('a \<Rightarrow> 's \<Rightarrow> bool) \<Rightarrow> bool" where
  "triple P m Q \<longleftrightarrow> (\<forall>s. P s \<longrightarrow> (case run_state m s of (x, s') \<Rightarrow> Q x s'))"

lemma tripleI: "(\<And>s x s'. P s \<Longrightarrow> run_state m s = (x, s') \<Longrightarrow> Q x s') \<Longrightarrow> triple P m Q"
  by (auto simp: triple_def)

lemma tripleD: "triple P m Q \<Longrightarrow> P s \<Longrightarrow> run_state m s = (x, s') \<Longrightarrow> Q x s'"
  by (auto simp: triple_def)

lemma triple_conseq:
  "triple P m Q \<Longrightarrow> (\<And>s. P' s \<Longrightarrow> P s) \<Longrightarrow> (\<And>x s. Q x s \<Longrightarrow> Q' x s) \<Longrightarrow> triple P' m Q'"
  by (fastforce simp: triple_def)

lemma triple_weaken: "triple P m Q \<Longrightarrow> (\<And>x s. Q x s \<Longrightarrow> Q' x s) \<Longrightarrow> triple P m Q'"
  by (rule triple_conseq)

lemma triple_return [go_triple]: "(\<And>s. P s \<Longrightarrow> Q x s) \<Longrightarrow> triple P (State_Monad.return x) Q"
  by (simp add: triple_def)

lemma triple_asks [go_triple]: "(\<And>s. P s \<Longrightarrow> Q (f s) s) \<Longrightarrow> triple P (asks f) Q"
  by (simp add: triple_def)

lemma triple_modify [go_triple]: "(\<And>s. P s \<Longrightarrow> Q () (f s)) \<Longrightarrow> triple P (modify f) Q"
  by (simp add: triple_def)

lemma triple_bind:
  "triple P m R \<Longrightarrow> (\<And>x. triple (R x) (f x) Q) \<Longrightarrow> triple P (m \<bind> f) Q"
  by (fastforce simp: triple_def split: prod.splits)

lemma triple_attempt:
  "triple P m (\<lambda>r s. case r of Inl e \<Rightarrow> Q (Inl e) s | Inr x \<Rightarrow> R x s)
     \<Longrightarrow> (\<And>x. triple (R x) (f x) Q) \<Longrightarrow> triple P (attempt m f) Q"
  by (fastforce simp: triple_def run_attempt split: prod.splits sum.splits)

lemma triple_unless_error [go_triple]:
  "(\<And>e s. c = Some e \<Longrightarrow> P s \<Longrightarrow> Q (Inl e) s) \<Longrightarrow> (c = None \<Longrightarrow> triple P m Q)
     \<Longrightarrow> triple P (unless_error c m) Q"
  by (auto simp: unless_error_def triple_def split: option.split)

lemma triple_if [go_triple]:
  "(b \<Longrightarrow> triple P m Q) \<Longrightarrow> (\<not> b \<Longrightarrow> triple P n Q) \<Longrightarrow> triple P (if b then m else n) Q"
  by simp

lemma triple_pre: "(\<And>s. P s \<Longrightarrow> A) \<Longrightarrow> (A \<Longrightarrow> triple P m Q) \<Longrightarrow> triple P m Q"
  by (auto simp: triple_def)

text \<open>An invariant of a program, whatever it returns.\<close>

abbreviation keeps :: "('s \<Rightarrow> bool) \<Rightarrow> ('s, 'a) state \<Rightarrow> bool" where
  "keeps I m \<equiv> triple I m (\<lambda>_. I)"

lemma keeps_bind [go_triple]: "keeps I m \<Longrightarrow> (\<And>x. keeps I (f x)) \<Longrightarrow> keeps I (m \<bind> f)"
  by (rule triple_bind)

lemma keeps_attempt [go_triple]: "keeps I m \<Longrightarrow> (\<And>x. keeps I (f x)) \<Longrightarrow> keeps I (attempt m f)"
  by (rule triple_attempt [where R = "\<lambda>_. I"]) (auto elim!: triple_weaken split: sum.split)

lemma keeps_option [go_triple]:
  "(x = None \<Longrightarrow> keeps I m) \<Longrightarrow> (\<And>y. x = Some y \<Longrightarrow> keeps I (f y)) \<Longrightarrow> keeps I (case x of None \<Rightarrow> m | Some y \<Rightarrow> f y)"
  by (cases x) auto

lemma keeps_prod [go_triple]:
  "(\<And>a b. x = (a, b) \<Longrightarrow> keeps I (f a b)) \<Longrightarrow> keeps I (case x of (a, b) \<Rightarrow> f a b)"
  by (cases x) auto

lemma keeps_sum [go_triple]:
  "(\<And>a. x = Inl a \<Longrightarrow> keeps I (f a)) \<Longrightarrow> (\<And>b. x = Inr b \<Longrightarrow> keeps I (g b))
     \<Longrightarrow> keeps I (case x of Inl a \<Rightarrow> f a | Inr b \<Rightarrow> g b)"
  by (cases x) auto

end
