(* ===== verification/Sched_Runtime.thy ===== *)
theory Sched_Runtime
  imports Go_Effects Sched_Store
begin

text \<open>
  The scheduler's loop (\<open>internal/scheduler/runtime\<close>). The loop's fields are a record; what it calls is
  a \<open>port\<close> of operations on a world of type \<open>'w\<close>: the store, the clock, \<open>ctx.Err()\<close>, the task
  identifiers and the recurrence. Goroutines are jobs in the record: a running job may at any time
  become a result in the channel, and the loop's code runs between such events
  (\<open>Runtime_Steps\<close>). \<open>Report\<close> calls are appended to \<open>lp_events\<close>, started jobs to \<open>lp_started\<close>.
\<close>

section \<open>Ports (\<open>ports.go\<close>)\<close>

definition AdmissionLimit :: int where "AdmissionLimit = 4"
definition ClaimWindow :: int where "ClaimWindow = 5 * ns_per_second"
definition IdleInterval :: int where "IdleInterval = ns_per_second"

record dispatch_request =
  dr_task_id :: string
  dr_definition :: schedule_definition

record task_state =
  ts_observation :: observation
  ts_release :: "release option"

record report_event =
  ev_schedule_id :: string
  ev_task_id :: string
  ev_phase :: string
  ev_code :: string

record 'w port =
  pt_get_schedule :: "string \<Rightarrow> ('w, error + schedule) state"
  pt_list :: "schedule_page \<Rightarrow> ('w, error + schedule_summary page_result) state"
  pt_claim :: "claim \<Rightarrow> ('w, claim_result \<times> error option) state"
  pt_observe :: "occurrence_observation \<Rightarrow> ('w, error + unit) state"
  pt_release :: "occurrence_release \<Rightarrow> ('w, error + unit) state"
  pt_skip :: "skip_request \<Rightarrow> ('w, error + unit) state"
  pt_get_occurrence :: "string \<Rightarrow> ('w, error + occurrence) state"
  pt_active :: "schedule_page \<Rightarrow> ('w, error + occurrence page_result) state"
  pt_now :: "('w, go_time) state"
  pt_ctx :: "('w, error option) state"
  pt_task_id :: "('w, error + string) state"
  pt_next :: "string \<Rightarrow> string \<Rightarrow> go_time \<Rightarrow> error + go_time"

section \<open>The loop (\<open>loop.go\<close>)\<close>

datatype job = DispatchJob occurrence dispatch_request | ObserveJob occurrence

record task_result =
  tr_occurrence :: occurrence
  tr_state :: task_state
  tr_err :: "error option"
  tr_dispatch :: bool

record loop =
  lp_startup :: go_time
  lp_live :: "string set"
  lp_held :: "string \<Rightarrow> go_time option"
  lp_admissions :: int
  lp_reconciling :: string
  lp_selection_after :: string
  lp_idle_after :: string
  lp_observed_round :: "string \<Rightarrow> 64 word option"
  lp_observed_due :: "string \<Rightarrow> go_time option"
  lp_observation_round :: "64 word"
  lp_observation_at :: go_time
  lp_workers :: "job list"
  lp_results :: "task_result list"
  lp_started :: "job list"
  lp_events :: "report_event list"

record 'w rt =
  rt_loop :: loop
  rt_world :: 'w

definition in_world :: "('w, 'a) state \<Rightarrow> ('w rt, 'a) state" where
  "in_world m = State (\<lambda>s. case run_state m (rt_world s) of (x, w) \<Rightarrow> (x, s\<lparr>rt_world := w\<rparr>))"

definition loop_asks :: "(loop \<Rightarrow> 'a) \<Rightarrow> ('w rt, 'a) state" where
  "loop_asks f = asks (\<lambda>s. f (rt_loop s))"

definition loop_update :: "(loop \<Rightarrow> loop) \<Rightarrow> ('w rt, unit) state" where
  "loop_update f = modify (\<lambda>s. s\<lparr>rt_loop := f (rt_loop s)\<rparr>)"

text \<open>A missing key of a Go map of instants reads as the zero time.\<close>

definition held_time :: "(string \<Rightarrow> go_time option) \<Rightarrow> string \<Rightarrow> go_time" where
  "held_time m k = (case m k of None \<Rightarrow> zero_time | Some t \<Rightarrow> t)"

definition event :: "string \<Rightarrow> string \<Rightarrow> string \<Rightarrow> string \<Rightarrow> ('w rt, unit) state" where
  "event sid tid phase code = loop_update (\<lambda>l. l\<lparr>lp_events := lp_events l
     @ [\<lparr>ev_schedule_id = sid, ev_task_id = tid, ev_phase = phase, ev_code = code\<rparr>]\<rparr>)"

definition occurrence_event :: "occurrence \<Rightarrow> string \<Rightarrow> string \<Rightarrow> ('w rt, unit) state" where
  "occurrence_event x = event (oc_schedule_id x) (oc_task_id x)"

definition start_job :: "job \<Rightarrow> ('w rt, unit) state" where
  "start_job j = loop_update (\<lambda>l. l\<lparr>lp_workers := lp_workers l @ [j], lp_started := lp_started l @ [j]\<rparr>)"

fun only_causes :: "sentinel list \<Rightarrow> error \<Rightarrow> bool" where
  "only_causes allowed (Joined es) = (list_all (only_causes allowed) es \<and> es \<noteq> [])"
| "only_causes allowed (Wrap m e) = only_causes allowed e"
| "only_causes allowed e = list_ex (errors_is e) allowed"

definition onlyCauses :: "error option \<Rightarrow> sentinel list \<Rightarrow> bool" where
  "onlyCauses err allowed = (case err of None \<Rightarrow> True | Some e \<Rightarrow> only_causes allowed e)"

definition cancellationOnly :: "error option \<Rightarrow> bool" where
  "cancellationOnly err = onlyCauses err [ErrCanceled, ErrDeadlineExceeded]"

definition storeError :: "string \<Rightarrow> error option \<Rightarrow> error" where
  "storeError label err = (case err of None \<Rightarrow> Opaque label | Some e \<Rightarrow> Wrap label e)"

abbreviation invariant_fault :: "string \<Rightarrow> error" where
  "invariant_fault m \<equiv> Wrap m (Leaf ErrInvariantFault)"

section \<open>Decisions (\<open>decision.go\<close>)\<close>

record tick_input =
  ti_summary :: schedule_summary
  ti_startup :: go_time
  ti_now :: go_time
  ti_held :: go_time
  ti_active :: "occurrence option"
  ti_available :: bool

datatype tick_decision = TickNothing | TickSkip skip_span | TickDue go_time bool

definition skippedTick :: "go_time \<Rightarrow> go_time \<Rightarrow> string \<Rightarrow> tick_decision" where
  "skippedTick start till reason = TickSkip \<lparr>sp_from = start, sp_to = till, sp_reason = reason\<rparr>"

definition blockerReason :: "occurrence option \<Rightarrow> string" where
  "blockerReason active = (case active of
     None \<Rightarrow> SkipMissedUnavailable
   | Some x \<Rightarrow> (case oc_observation x of
       Some ob \<Rightarrow> if ob_admission ob = AdmissionAdmitted then SkipOverlapActive else SkipBlockedUncertain
     | None \<Rightarrow> SkipBlockedUncertain))"

definition decideTick ::
  "(string \<Rightarrow> string \<Rightarrow> go_time \<Rightarrow> error + go_time) \<Rightarrow> tick_input \<Rightarrow> error + tick_decision" where
  "decideTick next_time i =
     (let summary = ti_summary i; cursor = sm_cursor summary; now = ti_now i in
      if sm_state summary \<noteq> StateEnabled then Inr TickNothing
      else bind_result (next_time (dh_cron (sm_header summary)) (dh_timezone (sm_header summary)) cursor)
       (\<lambda>due.
         if \<not> after due (ti_startup i) then Inr (skippedTick cursor (ti_startup i) SkipMissedUnavailable)
         else if after due now then Inr TickNothing
         else if \<not> before now (add_ns due ClaimWindow) then
           (if same_instant due (ti_held i) then
              (if ti_active i = None \<and> \<not> ti_available i
               then Inr (skippedTick cursor due SkipMissedCapacity)
               else Inr (skippedTick cursor due (blockerReason (ti_active i))))
            else Inr (skippedTick cursor (add_ns now (- ClaimWindow)) SkipMissedUnavailable))
         else if ti_active i = None \<and> \<not> ti_available i
         then Inr (skippedTick cursor due SkipMissedCapacity)
         else Inr (TickDue due (ti_active i \<noteq> None))))"

definition sameOccurrence :: "occurrence \<Rightarrow> occurrence \<Rightarrow> bool" where
  "sameOccurrence a b \<longleftrightarrow> oc_task_id a = oc_task_id b \<and> oc_schedule_id a = oc_schedule_id b
     \<and> same_instant (oc_due a) (oc_due b) \<and> same_instant (oc_armed_at a) (oc_armed_at b)"

definition claimOccurrence :: "claim \<Rightarrow> occurrence" where
  "claimOccurrence c = \<lparr>oc_task_id = cl_task_id c, oc_schedule_id = cl_schedule_id c, oc_due = cl_due c,
     oc_armed_at = cl_armed_at c, oc_observation = None, oc_release = None\<rparr>"

section \<open>Admission (\<open>admission.go\<close>)\<close>

definition prepareCandidate ::
  "'w port \<Rightarrow> schedule_summary \<Rightarrow> go_time \<Rightarrow> ('w rt, error + (claim \<times> schedule_definition) option) state" where
  "prepareCandidate p summary due = do {
     found \<leftarrow> in_world (pt_get_schedule p (dh_schedule_id (sm_header summary)));
     case found of
       Inl e \<Rightarrow> failing (Wrap ''scheduler definition'' e)
     | Inr sched \<Rightarrow> unless_error (ValidateSchedule sched)
        (unless_error (VerifyDefinitionDigests (sc_definition sched) (sm_digests summary))
        (if sc_state sched \<noteq> StateEnabled \<or> \<not> same_instant (sc_cursor sched) (sm_cursor summary)
         then giving None
         else do {
           made \<leftarrow> in_world (pt_task_id p);
           case made of
             Inl e \<Rightarrow> failing (Wrap ''scheduler task identity'' e)
           | Inr tid \<Rightarrow> do {
               now \<leftarrow> in_world (pt_now p);
               let c = \<lparr>cl_schedule_id = dh_schedule_id (sm_header summary),
                 cl_expected_cursor = sc_cursor sched, cl_due = due, cl_task_id = tid,
                 cl_armed_at = to_utc now\<rparr>;
               unless_error (ValidateClaim c) (giving (Some (c, sc_definition sched)))
             }
         }))
   }"

definition in_window :: "go_time \<Rightarrow> go_time \<Rightarrow> bool" where
  "in_window due now \<longleftrightarrow> \<not> before now due \<and> before now (add_ns due ClaimWindow)"

definition existingClaim :: "'w port \<Rightarrow> claim \<Rightarrow> string \<Rightarrow> error option \<Rightarrow> ('w rt, error + unit) state" where
  "existingClaim p c tid claim_err = (case claim_err of
     Some e \<Rightarrow> failing (storeError ''existing claim'' (Some e))
   | None \<Rightarrow> do {
       found \<leftarrow> in_world (pt_get_occurrence p tid);
       case found of
         Inl e \<Rightarrow> failing (storeError ''existing claim readback'' (Some e))
       | Inr stored \<Rightarrow>
           if oc_schedule_id stored \<noteq> cl_schedule_id c \<or> \<not> same_instant (oc_due stored) (cl_due c)
           then failing (invariant_fault ''conflicting existing occurrence'')
           else giving ()
     })"

text \<open>The value says whether the claim is to be tried again.\<close>

definition resolveUnknown :: "'w port \<Rightarrow> claim \<Rightarrow> error option \<Rightarrow> ('w rt, error + bool) state" where
  "resolveUnknown p c claim_err = do {
     found \<leftarrow> in_world (pt_get_occurrence p (cl_task_id c));
     if error_is claim_err ErrInvariantFault then failing (storeError ''claim'' claim_err)
     else case found of
       Inr stored \<Rightarrow>
         if \<not> sameOccurrence stored (claimOccurrence c)
         then failing (invariant_fault ''conflicting claim readback'')
         else do {
           occurrence_event stored ''claim'' ''uncertain_commit'';
           giving False
         }
     | Inl read_err \<Rightarrow>
         if \<not> onlyCauses (Some read_err) [ErrNotExist]
         then failing (storeError ''claim readback'' (Some read_err))
         else case claim_err of
           None \<Rightarrow> failing (invariant_fault ''unknown claim without error'')
         | Some e \<Rightarrow>
             if onlyCauses claim_err [ErrConflict] then do {
               schedule_read \<leftarrow> in_world (pt_get_schedule p (cl_schedule_id c));
               (case schedule_read of Inl e' \<Rightarrow> failing e' | Inr _ \<Rightarrow> giving False)
             }
             else do {
               stop \<leftarrow> in_world (pt_ctx p);
               unless_error stop (do {
                 now \<leftarrow> in_world (pt_now p);
                 if \<not> in_window (cl_due c) (to_utc now) then failing (storeError ''claim'' claim_err)
                 else giving True
               })
             }
   }"

record claim_decision =
  cd_invoke :: bool
  cd_retry :: bool

definition resolveClaim ::
  "'w port \<Rightarrow> claim \<Rightarrow> claim_result \<Rightarrow> error option \<Rightarrow> ('w rt, error + claim_decision) state" where
  "resolveClaim p c result claim_err = (case cx_outcome result of
     ClaimNewlyCommitted \<Rightarrow>
       if claim_err \<noteq> None \<or> cx_task_id result \<noteq> cl_task_id c
       then failing (invariant_fault ''invalid newly committed claim result'')
       else giving \<lparr>cd_invoke = True, cd_retry = False\<rparr>
   | ClaimExisting \<Rightarrow> attempt (existingClaim p c (cx_task_id result) claim_err)
       (\<lambda>_. giving \<lparr>cd_invoke = False, cd_retry = False\<rparr>)
   | ClaimUnknown \<Rightarrow> attempt (resolveUnknown p c claim_err)
       (\<lambda>retry. giving \<lparr>cd_invoke = False, cd_retry = retry\<rparr>))"

text \<open>\<open>claim\<close>: the first argument counts the attempts left, two at first.\<close>

fun claim_attempts :: "nat \<Rightarrow> 'w port \<Rightarrow> claim \<Rightarrow> ('w rt, error + bool) state" where
  "claim_attempts 0 p c = failing (invariant_fault ''claim resolution exhausted'')"
| "claim_attempts (Suc n) p c = do {
     r \<leftarrow> in_world (pt_claim p c);
     case r of (result, claim_err) \<Rightarrow>
       attempt (resolveClaim p c result claim_err) (\<lambda>d.
         if \<not> cd_retry d then giving (cd_invoke d)
         else if n = 0 then failing (storeError ''claim'' claim_err)
         else claim_attempts n p c)
   }"

definition claim_occurrence_once :: "'w port \<Rightarrow> claim \<Rightarrow> ('w rt, error + bool) state" where
  "claim_occurrence_once p c = claim_attempts 2 p c"

text \<open>The rest of \<open>admit\<close> once a candidate is prepared: claim, and dispatch when this call committed it.\<close>

definition claim_and_dispatch ::
  "'w port \<Rightarrow> claim \<Rightarrow> schedule_definition \<Rightarrow> ('w rt, error + unit) state" where
  "claim_and_dispatch p c def_copy = do {
     loop_update (\<lambda>l. l\<lparr>lp_live := insert (cl_task_id c) (lp_live l),
       lp_admissions := lp_admissions l + 1\<rparr>);
     authorized \<leftarrow> claim_occurrence_once p c;
     if authorized \<noteq> Inr True then do {
       loop_update (\<lambda>l. l\<lparr>lp_live := lp_live l - {cl_task_id c},
         lp_admissions := lp_admissions l - 1\<rparr>);
       State_Monad.return (map_sum id (\<lambda>_. ()) authorized)
     }
     else do {
       loop_update (\<lambda>l. l\<lparr>lp_held := (lp_held l)(cl_schedule_id c := None),
         lp_selection_after := cl_schedule_id c\<rparr>);
       occurrence_event (claimOccurrence c) ''claim'' ''armed'';
       start_job (DispatchJob (claimOccurrence c)
         \<lparr>dr_task_id = cl_task_id c, dr_definition = def_copy\<rparr>);
       giving ()
     }
   }"

definition admit_candidate ::
  "'w port \<Rightarrow> go_time \<Rightarrow> claim \<Rightarrow> schedule_definition \<Rightarrow> ('w rt, error + unit) state" where
  "admit_candidate p due c def_copy = do {
     l \<leftarrow> loop_asks id;
     if cl_task_id c \<in> lp_live l \<or> lp_reconciling l = cl_task_id c
     then failing (invariant_fault ''scheduler reused live task'')
     else do {
       stop \<leftarrow> in_world (pt_ctx p);
       unless_error stop (do {
         now \<leftarrow> in_world (pt_now p);
         if \<not> in_window due (to_utc now) then giving ()
         else claim_and_dispatch p c def_copy
       })
     }
   }"

definition admit :: "'w port \<Rightarrow> schedule_summary \<Rightarrow> go_time \<Rightarrow> ('w rt, error + unit) state" where
  "admit p summary due = attempt (prepareCandidate p summary due) (\<lambda>candidate.
     case candidate of
       None \<Rightarrow> giving ()
     | Some (c, def_copy) \<Rightarrow> admit_candidate p due c def_copy)"

end
