(* ===== verification/Sched_Loop.thy ===== *)
theory Sched_Loop
  imports Sched_Runtime
begin

text \<open>
  The rest of the scheduler's loop: results of workers (\<open>observation.go\<close>), one scan of the schedules
  (\<open>scan.go\<close>), and the loop as a step relation (\<open>run\<close>, \<open>drain\<close>, \<open>wait\<close> and \<open>Run\<close> of \<open>loop.go\<close>).
\<close>

section \<open>Results (\<open>observation.go\<close>)\<close>

definition result_phase :: "task_result \<Rightarrow> string" where
  "result_phase r = (if tr_dispatch r then ''dispatch'' else ''observe'')"

definition reportTaskError :: "task_result \<Rightarrow> ('w rt, error option) state" where
  "reportTaskError r = (case tr_err r of
     None \<Rightarrow> State_Monad.return None
   | Some e \<Rightarrow> do {
       occurrence_event (tr_occurrence r) (result_phase r) ''task_error'';
       State_Monad.return (if errors_is e ErrRootIdentity \<or> errors_is e ErrTaskCleanupUnresolved
         then Some (storeError (result_phase r) (Some e)) else None)
     })"

definition readback :: "'w port \<Rightarrow> occurrence \<Rightarrow> ('w rt, error + occurrence) state" where
  "readback p original = do {
     found \<leftarrow> in_world (pt_get_occurrence p (oc_task_id original));
     case found of
       Inl e \<Rightarrow> failing (storeError ''readback'' (Some e))
     | Inr stored \<Rightarrow>
         if \<not> sameOccurrence stored original
         then failing (invariant_fault ''changed occurrence identity'')
         else giving stored
   }"

text \<open>Both loops try twice; the first argument counts the attempts left.\<close>

fun record_observation_attempts ::
  "nat \<Rightarrow> 'w port \<Rightarrow> occurrence \<Rightarrow> observation \<Rightarrow> ('w rt, error + unit) state" where
  "record_observation_attempts 0 p x ob = giving ()"
| "record_observation_attempts (Suc n) p x ob = do {
     r \<leftarrow> in_world (pt_observe p \<lparr>oo_task_id = oc_task_id x, oo_observation = ob\<rparr>);
     case r of
       Inr _ \<Rightarrow> giving ()
     | Inl e \<Rightarrow> attempt (readback p x) (\<lambda>stored.
         if errors_is e ErrInvariantFault then failing (storeError ''observation'' (Some e))
         else if (case oc_observation stored of
             Some old \<Rightarrow> \<not> before (ob_observed_at old) (ob_observed_at ob) | None \<Rightarrow> False)
         then giving ()
         else if onlyCauses (Some e) [ErrConflict] then do {
           occurrence_event x ''observe'' ''conflict'';
           giving ()
         }
         else do {
           stop \<leftarrow> in_world (pt_ctx p);
           unless_error stop (if n = 0 then failing (storeError ''observation'' (Some e))
             else record_observation_attempts n p x ob)
         })
   }"

definition recordObservation :: "'w port \<Rightarrow> occurrence \<Rightarrow> observation \<Rightarrow> ('w rt, error + unit) state" where
  "recordObservation p x ob = record_observation_attempts 2 p x ob"

fun record_release_attempts ::
  "nat \<Rightarrow> 'w port \<Rightarrow> occurrence \<Rightarrow> release \<Rightarrow> ('w rt, error + unit) state" where
  "record_release_attempts 0 p x rel = giving ()"
| "record_release_attempts (Suc n) p x rel = do {
     stop \<leftarrow> in_world (pt_ctx p);
     unless_error stop (do {
       r \<leftarrow> in_world (pt_release p \<lparr>or_task_id = oc_task_id x, or_release = rel\<rparr>);
       case r of
         Inr _ \<Rightarrow> do {
           occurrence_event x ''release'' (rl_kind rel);
           giving ()
         }
       | Inl e \<Rightarrow> attempt (readback p x) (\<lambda>stored.
           if errors_is e ErrInvariantFault then failing (storeError ''release'' (Some e))
           else case oc_release stored of
             Some winner \<Rightarrow> do {
               (if CheckRepeatedRelease winner rel \<noteq> None
                then occurrence_event x ''release'' ''conflict'' else State_Monad.return ());
               giving ()
             }
           | None \<Rightarrow>
               if n = 0 \<or> onlyCauses (Some e) [ErrConflict]
               then failing (storeError ''release'' (Some e))
               else record_release_attempts n p x rel)
     })
   }"

definition recordRelease :: "'w port \<Rightarrow> occurrence \<Rightarrow> release \<Rightarrow> ('w rt, error + unit) state" where
  "recordRelease p x rel = record_release_attempts 2 p x rel"

definition retire :: "task_result \<Rightarrow> loop \<Rightarrow> loop" where
  "retire r l = (if tr_dispatch r
     then l\<lparr>lp_live := lp_live l - {oc_task_id (tr_occurrence r)}, lp_admissions := lp_admissions l - 1\<rparr>
     else l\<lparr>lp_reconciling := []\<rparr>)"

definition finish :: "'w port \<Rightarrow> task_result \<Rightarrow> ('w rt, error + unit) state" where
  "finish p r = do {
     loop_update (retire r);
     fatal \<leftarrow> reportTaskError r;
     unless_error fatal (do {
       stop \<leftarrow> in_world (pt_ctx p);
       unless_error stop (
         let x = tr_occurrence r; ob = ts_observation (tr_state r); released = ts_release (tr_state r) in
         if is_zero (ob_observed_at ob) then
           (if tr_err r \<noteq> None \<and> released = None then giving ()
            else failing (invariant_fault ''missing task observation''))
         else case ValidateObservation ob of
           Some e \<Rightarrow> failing (storeError ''invalid observation'' (Some (Joined [Leaf ErrInvariantFault, e])))
         | None \<Rightarrow> attempt (recordObservation p x ob) (\<lambda>_. do {
             (if ob_fault_code ob \<noteq> [] then occurrence_event x (result_phase r) (ob_fault_code ob)
              else State_Monad.return ());
             case released of
               Some rel \<Rightarrow> (case ValidateRelease rel of
                   Some e \<Rightarrow> failing (storeError ''invalid release'' (Some (Joined [Leaf ErrInvariantFault, e])))
                 | None \<Rightarrow> recordRelease p x rel)
             | None \<Rightarrow> do {
                 occurrence_event x (result_phase r) ''observed'';
                 giving ()
               }
           }))
     })
   }"

text \<open>Shutdown collects the fatal errors of the results left in the channel.\<close>

fun settle_results :: "task_result list \<Rightarrow> error option \<Rightarrow> ('w rt, error option) state" where
  "settle_results [] faults = State_Monad.return faults"
| "settle_results (r # rs) faults = do {
     e \<leftarrow> reportTaskError r;
     settle_results rs (errors_join [faults, e])
   }"

definition settledErrors :: "('w rt, error option) state" where
  "settledErrors = do {
     rs \<leftarrow> loop_asks lp_results;
     loop_update (\<lambda>l. l\<lparr>lp_results := []\<rparr>);
     settle_results rs None
   }"

section \<open>Scans (\<open>scan.go\<close>)\<close>

definition refreshObservationRound :: "'w port \<Rightarrow> ('w rt, unit) state" where
  "refreshObservationRound p = do {
     now \<leftarrow> in_world (pt_now p);
     loop_update (\<lambda>l.
       if is_zero (lp_observation_at l) \<or> before now (lp_observation_at l)
          \<or> sub_ns now (lp_observation_at l) \<ge> IdleInterval
       then l\<lparr>lp_observation_round := lp_observation_round l + 1, lp_observation_at := now\<rparr> else l)
   }"

text \<open>The checks of one page of active occurrences; the value is the last schedule id.\<close>

fun take_active :: "string \<Rightarrow> occurrence list \<Rightarrow> error + string" where
  "take_active last_id [] = Inr last_id"
| "take_active last_id (x # xs) = (case ValidateOccurrence x of
     Some e \<Rightarrow> Inl (storeError ''active occurrence'' (Some e))
   | None \<Rightarrow>
       if oc_schedule_id x \<le> last_id \<or> oc_release x \<noteq> None
       then Inl (invariant_fault ''invalid active occurrence page'')
       else take_active (oc_schedule_id x) xs)"

definition first_page :: "string \<Rightarrow> schedule_page" where
  "first_page last_id = \<lparr>pg_after_schedule_id = last_id, pg_limit = MaxPageLimit\<rparr>"

text \<open>
  One turn of \<open>readActive\<close>'s loop: everything read so far, and the next page when there is one. The
  loop's condition and its final \<open>return nil, ctx.Err()\<close> see the same cancelled context.
\<close>

definition read_active_page ::
  "'w port \<Rightarrow> occurrence list \<Rightarrow> schedule_page \<Rightarrow>
     ('w rt, error + occurrence list \<times> schedule_page option) state" where
  "read_active_page p active page = do {
     stop \<leftarrow> in_world (pt_ctx p);
     unless_error stop (do {
       answer \<leftarrow> in_world (pt_active p page);
       case answer of
         Inl e \<Rightarrow> failing (Wrap ''scheduler active occurrences'' e)
       | Inr r \<Rightarrow> (case take_active (pg_after_schedule_id page) (pr_items r) of
           Inl e \<Rightarrow> failing e
         | Inr last_id \<Rightarrow>
             if \<not> pr_more r then giving (active @ pr_items r, None)
             else if pr_items r = [] then failing (invariant_fault ''empty active continuation page'')
             else giving (active @ pr_items r, Some (first_page last_id)))
     })
   }"

definition by_schedule :: "occurrence list \<Rightarrow> string \<Rightarrow> occurrence option" where
  "by_schedule active sid = List.find (\<lambda>x. oc_schedule_id x = sid) (rev active)"

text \<open>Rounds of tasks that are no longer active are forgotten.\<close>

definition forget_inactive :: "occurrence list \<Rightarrow> loop \<Rightarrow> loop" where
  "forget_inactive active l =
     (let ids = map oc_task_id active;
          stale = (\<lambda>tid. lp_observed_round l tid \<noteq> None \<and> \<not> list_ex (\<lambda>i. i = tid) ids)
      in l\<lparr>lp_observed_round := (\<lambda>tid. if stale tid then None else lp_observed_round l tid),
           lp_observed_due := (\<lambda>tid. if stale tid then None else lp_observed_due l tid)\<rparr>)"

definition recordSkip :: "'w port \<Rightarrow> schedule_summary \<Rightarrow> skip_span \<Rightarrow> ('w rt, error + unit) state" where
  "recordSkip p summary span = do {
     let sid = dh_schedule_id (sm_header summary);
     r \<leftarrow> in_world (pt_skip p \<lparr>sk_schedule_id = sid, sk_expected_cursor = sm_cursor summary, sk_span = span\<rparr>);
     case r of
       Inr _ \<Rightarrow> do {
         event sid [] ''skip'' (sp_reason span);
         giving ()
       }
     | Inl e \<Rightarrow> do {
         schedule_read \<leftarrow> in_world (pt_get_schedule p sid);
         case schedule_read of
           Inl read_err \<Rightarrow> failing (Wrap ''scheduler skip readback'' read_err)
         | Inr _ \<Rightarrow>
             if onlyCauses (Some e) [ErrConflict] then failing (Leaf ErrSkipConflict)
             else failing (Wrap ''scheduler skip'' e)
       }
   }"

text \<open>\<open>skipTick\<close>: the summary with its cursor moved, or nothing when the skip lost a race.\<close>

definition skipTick ::
  "'w port \<Rightarrow> schedule_summary \<Rightarrow> skip_span \<Rightarrow> ('w rt, error + schedule_summary option) state" where
  "skipTick p summary span = do {
     r \<leftarrow> recordSkip p summary span;
     case r of
       Inl e \<Rightarrow> if errors_is e ErrSkipConflict then giving None else failing e
     | Inr _ \<Rightarrow> do {
         loop_update (\<lambda>l. l\<lparr>lp_held := (lp_held l)(dh_schedule_id (sm_header summary) := None)\<rparr>);
         giving (Some (summary\<lparr>sm_cursor := sp_to span\<rparr>))
       }
   }"

text \<open>The loop of \<open>consider\<close>; the value is the set of tasks whose observation has priority.\<close>

fun consider_turns ::
  "nat \<Rightarrow> 'w port \<Rightarrow> occurrence option \<Rightarrow> schedule_summary \<Rightarrow> string set \<Rightarrow> ('w rt, error + string set) state" where
  "consider_turns 0 p prior summary priority = giving priority"
| "consider_turns (Suc n) p prior summary priority = do {
     stop \<leftarrow> in_world (pt_ctx p);
     unless_error stop (do {
       now \<leftarrow> in_world (pt_now p);
       l \<leftarrow> loop_asks id;
       case decideTick (pt_next p) \<lparr>ti_summary = summary, ti_startup = lp_startup l, ti_now = to_utc now,
           ti_held = held_time (lp_held l) (dh_schedule_id (sm_header summary)), ti_active = prior,
           ti_available = (lp_admissions l < AdmissionLimit)\<rparr> of
         Inl e \<Rightarrow> failing (Wrap ''scheduler recurrence'' e)
       | Inr TickNothing \<Rightarrow> giving priority
       | Inr (TickSkip span) \<Rightarrow> attempt (skipTick p summary span) (\<lambda>moved.
           case moved of
             None \<Rightarrow> giving priority
           | Some summary' \<Rightarrow> consider_turns n p prior summary' priority)
       | Inr (TickDue due hold) \<Rightarrow>
           if is_zero due then giving priority
           else (case (hold, prior) of
             (True, Some x) \<Rightarrow> do {
               loop_update (\<lambda>l. l\<lparr>lp_held := (lp_held l)(dh_schedule_id (sm_header summary) := Some due)\<rparr>);
               giving (insert (oc_task_id x) priority)
             }
           | _ \<Rightarrow> attempt (admit p summary due) (\<lambda>_. giving priority))
     })
   }"

definition consider_schedule ::
  "'w port \<Rightarrow> occurrence list \<Rightarrow> schedule_summary \<Rightarrow> string set \<Rightarrow> ('w rt, error + string set) state" where
  "consider_schedule p active summary priority = (case ValidateSummary summary of
     Some e \<Rightarrow> failing (Wrap ''scheduler metadata'' e)
   | None \<Rightarrow> do {
       let sid = dh_schedule_id (sm_header summary);
       loop_update (\<lambda>l.
         if sm_state summary \<noteq> StateEnabled \<or> \<not> after (held_time (lp_held l) sid) (sm_cursor summary)
         then l\<lparr>lp_held := (lp_held l)(sid := None)\<rparr> else l);
       consider_turns 3 p (by_schedule active sid) summary priority
     })"

text \<open>The schedules of one page, up to \<open>through\<close> when it is given; the flag says it was passed.\<close>

fun consider_page ::
  "'w port \<Rightarrow> occurrence list \<Rightarrow> string \<Rightarrow> string \<Rightarrow> schedule_summary list \<Rightarrow> string set
     \<Rightarrow> ('w rt, error + string set \<times> string \<times> bool) state" where
  "consider_page p active through last_id [] priority = giving (priority, last_id, False)"
| "consider_page p active through last_id (summary # rest) priority =
     (let sid = dh_schedule_id (sm_header summary) in
      if through \<noteq> [] \<and> through < sid then giving (priority, last_id, True)
      else if sid \<le> last_id then failing (invariant_fault ''unordered schedule page'')
      else attempt (consider_schedule p active summary priority)
        (\<lambda>priority'. consider_page p active through sid rest priority'))"

text \<open>One turn of \<open>scanRange\<close>'s loop.\<close>

definition scan_page ::
  "'w port \<Rightarrow> occurrence list \<Rightarrow> string \<Rightarrow> schedule_page \<Rightarrow> string set
     \<Rightarrow> ('w rt, error + string set \<times> schedule_page option) state" where
  "scan_page p active through page priority = do {
     stop \<leftarrow> in_world (pt_ctx p);
     unless_error stop (do {
       answer \<leftarrow> in_world (pt_list p page);
       case answer of
         Inl e \<Rightarrow> failing (Wrap ''scheduler list schedules'' e)
       | Inr r \<Rightarrow> attempt (consider_page p active through (pg_after_schedule_id page) (pr_items r) priority)
           (\<lambda>(priority', last_id, passed).
             if passed \<or> \<not> pr_more r then giving (priority', None)
             else if pr_items r = [] then failing (invariant_fault ''empty schedule continuation page'')
             else giving (priority', Some (first_page last_id)))
     })
   }"

definition observable :: "loop \<Rightarrow> string set \<Rightarrow> bool \<Rightarrow> occurrence \<Rightarrow> bool" where
  "observable l priority due_only x \<longleftrightarrow>
     (let tid = oc_task_id x;
          fresh_due = (due_only \<and> \<not> same_instant (held_time (lp_observed_due l) tid)
                                     (held_time (lp_held l) (oc_schedule_id x)))
      in tid \<notin> lp_live l \<and> (due_only \<longrightarrow> tid \<in> priority)
         \<and> \<not> (lp_observed_round l tid = Some (lp_observation_round l) \<and> \<not> fresh_due))"

text \<open>
  \<open>sort.Search\<close> on the ascending pages is the first occurrence after \<open>idleAfter\<close>; the two passes go
  round from there.
\<close>

definition observation_order :: "loop \<Rightarrow> occurrence list \<Rightarrow> occurrence list" where
  "observation_order l active =
     (let start = length (takeWhile (\<lambda>x. oc_schedule_id x \<le> lp_idle_after l) active)
      in drop start active @ take start active)"

definition observation_choice :: "loop \<Rightarrow> occurrence list \<Rightarrow> string set \<Rightarrow> (occurrence \<times> bool) option" where
  "observation_choice l active priority =
     (let order = observation_order l active in
      case List.find (observable l priority True) order of
        Some x \<Rightarrow> Some (x, True)
      | None \<Rightarrow> map_option (\<lambda>x. (x, False)) (List.find (observable l priority False) order))"

definition mark_observed :: "occurrence \<Rightarrow> bool \<Rightarrow> loop \<Rightarrow> loop" where
  "mark_observed x due_only l =
     (let tid = oc_task_id x in
      l\<lparr>lp_reconciling := tid,
        lp_observed_round := (lp_observed_round l)(tid := Some (lp_observation_round l)),
        lp_observed_due := (if due_only
          then (lp_observed_due l)(tid := Some (held_time (lp_held l) (oc_schedule_id x)))
          else lp_observed_due l),
        lp_idle_after := oc_schedule_id x\<rparr>)"

definition startObservation ::
  "'w port \<Rightarrow> occurrence list \<Rightarrow> string set \<Rightarrow> ('w rt, unit) state" where
  "startObservation p active priority = do {
     l \<leftarrow> loop_asks id;
     if lp_reconciling l \<noteq> [] then State_Monad.return ()
     else do {
       stop \<leftarrow> in_world (pt_ctx p);
       if stop \<noteq> None then State_Monad.return ()
       else case observation_choice l active priority of
         None \<Rightarrow> State_Monad.return ()
       | Some (x, due_only) \<Rightarrow> do {
           loop_update (mark_observed x due_only);
           start_job (ObserveJob x)
         }
     }
   }"

end
