(* ===== verification/Runtime_Steps.thy ===== *)
theory Runtime_Steps
  imports Sched_Loop
begin

text \<open>
  \<open>Run\<close> as a step relation. A phase says where the loop's code stands; \<open>loop_turn\<close> is the code up to
  the next phase. Between turns any running goroutine may end, with any state and error, by sending
  its result; in \<open>Waiting\<close> the waker decides with any answer. Nothing bounds the number of turns: a
  run is a sequence of steps.
\<close>

datatype phase =
    Top
  | Draining
  | ReadingActive "occurrence list" schedule_page
  | Scanning "occurrence list" "string set" string string schedule_page
  | Waiting
  | Exiting "error option"
  | Joining "error option"
  | Returned "error option"

definition next_result :: "('w rt, task_result option) state" where
  "next_result = do {
     rs \<leftarrow> loop_asks lp_results;
     case rs of
       [] \<Rightarrow> State_Monad.return None
     | r # rest \<Rightarrow> do {
         loop_update (\<lambda>l. l\<lparr>lp_results := rest\<rparr>);
         State_Monad.return (Some r)
       }
   }"

text \<open>
  \<open>Scanning active priority start through page\<close> is inside \<open>scanRange\<close>: the first range begins after
  \<open>start\<close> and has no end, the second begins at the first schedule and ends at \<open>through = start\<close>.
\<close>

fun loop_turn :: "'w port \<Rightarrow> phase \<Rightarrow> ('w rt, phase) state" where
  "loop_turn p Top = do {
     stop \<leftarrow> in_world (pt_ctx p);
     State_Monad.return (if stop = None then Draining else Exiting None)
   }"
| "loop_turn p Draining = do {
     next_one \<leftarrow> next_result;
     case next_one of
       Some r \<Rightarrow> do {
         done_one \<leftarrow> finish p r;
         State_Monad.return (case done_one of Inl e \<Rightarrow> Exiting (Some e) | Inr _ \<Rightarrow> Draining)
       }
     | None \<Rightarrow> do {
         refreshObservationRound p;
         State_Monad.return (ReadingActive [] (first_page []))
       }
   }"
| "loop_turn p (ReadingActive active page) = do {
     answer \<leftarrow> read_active_page p active page;
     case answer of
       Inl e \<Rightarrow> State_Monad.return (Exiting (Some e))
     | Inr (active', Some page') \<Rightarrow> State_Monad.return (ReadingActive active' page')
     | Inr (active', None) \<Rightarrow> do {
         loop_update (forget_inactive active');
         start \<leftarrow> loop_asks lp_selection_after;
         State_Monad.return (Scanning active' {} start [] (first_page start))
       }
   }"
| "loop_turn p (Scanning active priority start through page) = do {
     answer \<leftarrow> scan_page p active through page priority;
     case answer of
       Inl e \<Rightarrow> State_Monad.return (Exiting (Some e))
     | Inr (priority', Some page') \<Rightarrow> State_Monad.return (Scanning active priority' start through page')
     | Inr (priority', None) \<Rightarrow>
         if through = [] \<and> start \<noteq> []
         then State_Monad.return (Scanning active priority' start start (first_page []))
         else do {
           startObservation p active priority';
           State_Monad.return Waiting
         }
   }"
| "loop_turn p Waiting = State_Monad.return Waiting"
| "loop_turn p (Exiting e) = do {
     stop \<leftarrow> in_world (pt_ctx p);
     State_Monad.return (Joining (if stop \<noteq> None \<and> cancellationOnly e then None else e))
   }"
| "loop_turn p (Joining e) = do {
     faults \<leftarrow> settledErrors;
     State_Monad.return (Returned (errors_join [e, faults]))
   }"
| "loop_turn p (Returned e) = State_Monad.return (Returned e)"

text \<open>A wait that a worker's result ends first: the waiter is cancelled and joined.\<close>

definition wait_result :: "'w port \<Rightarrow> task_result \<Rightarrow> error option \<Rightarrow> ('w rt, phase) state" where
  "wait_result p r wait_err =
     (if \<not> cancellationOnly wait_err then do {
        e \<leftarrow> reportTaskError r;
        State_Monad.return (Exiting (errors_join [wait_err, e]))
      }
      else do {
        done_one \<leftarrow> finish p r;
        State_Monad.return (case done_one of Inl e \<Rightarrow> Exiting (Some e) | Inr _ \<Rightarrow> Top)
      })"

fun job_result :: "job \<Rightarrow> task_state \<Rightarrow> error option \<Rightarrow> task_result" where
  "job_result (DispatchJob x q) st err =
     \<lparr>tr_occurrence = x, tr_state = st, tr_err = err, tr_dispatch = True\<rparr>"
| "job_result (ObserveJob x) st err =
     \<lparr>tr_occurrence = x, tr_state = st, tr_err = err, tr_dispatch = False\<rparr>"

text \<open>The channel's capacity.\<close>

definition result_capacity :: nat where "result_capacity = nat (AdmissionLimit + 1)"

inductive rt_step :: "'w port \<Rightarrow> phase \<times> 'w rt \<Rightarrow> phase \<times> 'w rt \<Rightarrow> bool" for p where
  turn: "run_state (loop_turn p ph) s = (ph', s') \<Longrightarrow> ph \<noteq> Waiting \<Longrightarrow> (\<nexists>e. ph = Returned e)
    \<Longrightarrow> ((\<exists>e. ph = Joining e) \<Longrightarrow> lp_workers (rt_loop s) = []) \<Longrightarrow> rt_step p (ph, s) (ph', s')"
| woken: "rt_step p (Waiting, s) (case wait_err of None \<Rightarrow> Top | Some e \<Rightarrow> Exiting (Some e), s)"
| interrupted: "run_state next_result s = (Some r, s1) \<Longrightarrow> run_state (wait_result p r wait_err) s1 = (ph', s')
    \<Longrightarrow> rt_step p (Waiting, s) (ph', s')"
| settled: "lp_workers (rt_loop s) = before_j @ j # after_j
    \<Longrightarrow> length (lp_results (rt_loop s)) < result_capacity
    \<Longrightarrow> rt_step p (ph, s) (ph, s\<lparr>rt_loop := (rt_loop s)\<lparr>lp_workers := before_j @ after_j,
          lp_results := lp_results (rt_loop s) @ [job_result j st err]\<rparr>\<rparr>)"

definition new_loop :: "go_time \<Rightarrow> loop" where
  "new_loop startup = \<lparr>lp_startup = startup, lp_live = {}, lp_held = (\<lambda>_. None), lp_admissions = 0,
     lp_reconciling = [], lp_selection_after = [], lp_idle_after = [], lp_observed_round = (\<lambda>_. None),
     lp_observed_due = (\<lambda>_. None), lp_observation_round = 0, lp_observation_at = zero_time,
     lp_workers = [], lp_results = [], lp_started = [], lp_events = []\<rparr>"

text \<open>\<open>Run\<close> up to the loop; an invalid startup instant returns through the same deferred function.\<close>

definition run_start :: "'w port \<Rightarrow> 'w \<Rightarrow> phase \<times> 'w rt" where
  "run_start p w = (case run_state (pt_now p) w of (now, w') \<Rightarrow>
     (let l = new_loop (to_utc now) in
      case ValidateInstant ''scheduler startup'' (lp_startup l) of
        Some e \<Rightarrow> (Joining (Some e), \<lparr>rt_loop = l, rt_world = w'\<rparr>)
      | None \<Rightarrow> (Top, snd (run_state (event [] [] ''runtime'' ''ready'') \<lparr>rt_loop = l, rt_world = w'\<rparr>))))"

inductive rt_reach :: "'w port \<Rightarrow> 'w \<Rightarrow> phase \<times> 'w rt \<Rightarrow> bool" for p w where
  reach_start: "rt_reach p w (run_start p w)"
| reach_step: "rt_reach p w c \<Longrightarrow> rt_step p c c' \<Longrightarrow> rt_reach p w c'"

end
