(* ===== verification/Runtime_Bounds.thy ===== *)
theory Runtime_Bounds
  imports Runtime_Steps "HOL-Library.Multiset"
begin

text \<open>
  The loop's bookkeeping: which fields its functions touch, and the invariant that ties admissions,
  live tasks and the task under observation to the goroutines that are still outstanding.
\<close>

section \<open>Programs that leave the bookkeeping alone\<close>

type_synonym core = "string set \<times> int \<times> string \<times> job list \<times> task_result list \<times> job list"

definition core :: "loop \<Rightarrow> core" where
  "core l = (lp_live l, lp_admissions l, lp_reconciling l, lp_workers l, lp_results l, lp_started l)"

lemma run_in_world [simp]:
  "run_state (in_world m) s = (case run_state m (rt_world s) of (x, w) \<Rightarrow> (x, s\<lparr>rt_world := w\<rparr>))"
  by (simp add: in_world_def)

lemma run_loop_asks [simp]: "run_state (loop_asks f) s = (f (rt_loop s), s)"
  by (simp add: loop_asks_def)

lemma run_loop_update [simp]: "run_state (loop_update f) s = ((), s\<lparr>rt_loop := f (rt_loop s)\<rparr>)"
  by (simp add: loop_update_def)

text \<open>
  The functions that only call the port and report events keep every condition that the port's calls
  and the bookkeeping-free updates keep. The contract is a locale: its first interpretation is for
  conditions on the bookkeeping itself, another one is for the store's ledger (\<open>Runtime_Ledger\<close>).
\<close>

locale port_frame =
  fixes p :: "'w port" and I :: "'w rt \<Rightarrow> bool"
  assumes world_get: "keeps I (in_world (pt_get_schedule p i))"
    and world_list: "keeps I (in_world (pt_list p page))"
    and world_observe: "keeps I (in_world (pt_observe p obs))"
    and world_release: "keeps I (in_world (pt_release p rels))"
    and world_skip: "keeps I (in_world (pt_skip p k))"
    and world_occurrence: "keeps I (in_world (pt_get_occurrence p t))"
    and world_active: "keeps I (in_world (pt_active p page))"
    and world_claim: "keeps I (in_world (pt_claim p c))"
    and world_now: "keeps I (in_world (pt_now p))"
    and world_ctx: "keeps I (in_world (pt_ctx p))"
    and world_task_id: "keeps I (in_world (pt_task_id p))"
    and frame: "(\<And>l. core (f l) = core l) \<Longrightarrow> keeps I (loop_update f)"
begin

lemma keeps_asks: "keeps I (loop_asks f)"
  by (rule tripleI) simp

lemma keeps_event: "keeps I (event a b c d)" "keeps I (occurrence_event x c d)"
  unfolding event_def occurrence_event_def by (rule frame, simp add: core_def)+

lemma keeps_return: "keeps I (State_Monad.return x)"
  by (rule triple_return)

lemma keeps_unless: "keeps I m \<Longrightarrow> keeps I (unless_error c m)"
  by (rule triple_unless_error)

lemmas rules = world_get world_list world_observe world_release world_skip world_occurrence world_active
  world_claim world_now world_ctx world_task_id keeps_asks keeps_event keeps_return keeps_unless
  keeps_bind keeps_attempt keeps_option keeps_prod keeps_sum triple_if

lemma keeps_prepare: "keeps I (prepareCandidate p summary due)"
  unfolding prepareCandidate_def Let_def by (intro rules)

lemma keeps_existing: "keeps I (existingClaim p c tid err)"
  unfolding existingClaim_def by (intro rules)

lemma keeps_unknown: "keeps I (resolveUnknown p c err)"
  unfolding resolveUnknown_def by (intro rules)

lemma keeps_resolve: "keeps I (resolveClaim p c r err)"
  unfolding resolveClaim_def
  by (cases "cx_outcome r") (auto intro!: rules keeps_existing keeps_unknown)

lemma keeps_claim: "keeps I (claim_attempts n p c)"
  by (induction n) (auto intro!: rules keeps_resolve)

lemma keeps_report: "keeps I (reportTaskError r)"
  unfolding reportTaskError_def by (intro rules)

lemma keeps_readback: "keeps I (readback p x)"
  unfolding readback_def by (intro rules)

lemma keeps_observation: "keeps I (record_observation_attempts n p x ob)"
  by (induction n) (auto intro!: rules keeps_readback)

lemma keeps_release: "keeps I (record_release_attempts n p x rel)"
  by (induction n) (auto intro!: rules keeps_readback)

lemma keeps_settle: "keeps I (settle_results rs e)"
  by (induction rs arbitrary: e) (auto intro!: rules keeps_report)

lemma keeps_refresh: "keeps I (refreshObservationRound p)"
  unfolding refreshObservationRound_def
  by (intro rules frame) (simp add: core_def)

lemma keeps_active: "keeps I (read_active_page p active page)"
  unfolding read_active_page_def by (intro rules)

lemma keeps_skip: "keeps I (skipTick p summary span)"
  unfolding skipTick_def recordSkip_def Let_def
  by (intro rules frame) (simp_all add: core_def)

end

text \<open>\<open>K\<close> is any condition on the bookkeeping.\<close>

abbreviation core_holds :: "(core \<Rightarrow> bool) \<Rightarrow> 'w rt \<Rightarrow> bool" where
  "core_holds K s \<equiv> K (core (rt_loop s))"

lemma keeps_core_world: "keeps (core_holds K) (in_world m)"
  by (rule tripleI) (auto split: prod.splits)

interpretation book: port_frame p "core_holds K" for p K
  by unfold_locales ((rule keeps_core_world)+, simp add: triple_def)

lemmas core_rules = keeps_core_world book.rules

lemma core_frame [simp]:
  "core (l\<lparr>lp_held := h, lp_selection_after := a\<rparr>) = core l"
  "core (l\<lparr>lp_held := h\<rparr>) = core l"
  "core (forget_inactive active l) = core l"
  by (simp_all add: core_def forget_inactive_def Let_def)

section \<open>The books\<close>

text \<open>
  The outstanding goroutines, running or with their result in the channel, are exactly one dispatch for
  every live task and one observation of the task named in \<open>reconciling\<close>, if any.
\<close>

fun job_key :: "job \<Rightarrow> bool \<times> string" where
  "job_key (DispatchJob x q) = (True, oc_task_id x)"
| "job_key (ObserveJob x) = (False, oc_task_id x)"

definition result_key :: "task_result \<Rightarrow> bool \<times> string" where
  "result_key r = (tr_dispatch r, oc_task_id (tr_occurrence r))"

definition outstanding :: "job list \<Rightarrow> task_result list \<Rightarrow> (bool \<times> string) multiset" where
  "outstanding ws rs = mset (map job_key ws) + mset (map result_key rs)"

fun books :: "core \<Rightarrow> bool" where
  "books (live, admissions, reconciling, ws, rs, started) \<longleftrightarrow>
     finite live \<and> admissions = int (card live) \<and> admissions \<le> AdmissionLimit
     \<and> reconciling \<notin> live \<and> [] \<notin> live
     \<and> outstanding ws rs = mset_set (Pair True ` live)
         + (if reconciling = [] then {#} else {#(False, reconciling)#})"

fun room :: "core \<Rightarrow> bool" where
  "room (live, admissions, rest) \<longleftrightarrow> books (live, admissions, rest) \<and> admissions < AdmissionLimit"

fun claiming :: "string \<Rightarrow> core \<Rightarrow> bool" where
  "claiming t (live, admissions, reconciling, rest) \<longleftrightarrow>
     t \<in> live \<and> t \<noteq> reconciling \<and> t \<noteq> [] \<and> room (live - {t}, admissions - 1, reconciling, rest)"

lemma books_new [simp]: "books (core (new_loop t))"
  by (simp add: new_loop_def core_def outstanding_def AdmissionLimit_def)

lemma outstanding_size:
  assumes "books (live, admissions, reconciling, ws, rs, started)"
  shows "int (length ws + length rs) \<le> AdmissionLimit + 1"
proof -
  have "size (outstanding ws rs) = length ws + length rs" by (simp add: outstanding_def)
  moreover have "size (mset_set (Pair True ` live)) = card live"
    by (simp add: card_image inj_on_def)
  ultimately show ?thesis using assms by (auto split: if_splits)
qed

lemma room_claim:
  "room (core l) \<Longrightarrow> t \<notin> lp_live l \<Longrightarrow> lp_reconciling l \<noteq> t \<Longrightarrow> t \<noteq> []
     \<Longrightarrow> claiming t (core (l\<lparr>lp_live := insert t (lp_live l), lp_admissions := lp_admissions l + 1\<rparr>))"
  by (auto simp: core_def)

lemma claiming_abort:
  "claiming t (core l)
     \<Longrightarrow> room (core (l\<lparr>lp_live := lp_live l - {t}, lp_admissions := lp_admissions l - 1\<rparr>))"
  by (auto simp: core_def simp del: card_Diff_insert card_Diff_singleton)

lemma claiming_start:
  assumes "claiming t (core l)" "oc_task_id x = t"
  shows "books (core (l\<lparr>lp_workers := lp_workers l @ [DispatchJob x q], lp_started := st\<rparr>))"
proof -
  define live where "live = lp_live l - {t}"
  have l: "lp_live l = insert t live" "t \<notin> live" "finite live"
    using assms(1) by (auto simp: live_def core_def)
  moreover have "card (lp_live l) = Suc (card live)" using l by simp
  ultimately show ?thesis
    using assms by (auto simp: core_def outstanding_def image_iff)
qed

lemma mark_observed_jobs [simp]:
  "lp_workers (mark_observed x d l) = lp_workers l" "lp_started (mark_observed x d l) = lp_started l"
  "lp_results (mark_observed x d l) = lp_results l"
  by (simp_all add: mark_observed_def Let_def)

lemma books_observe:
  assumes "books (core l)" "lp_reconciling l = []" "oc_task_id x \<noteq> []" "oc_task_id x \<notin> lp_live l"
  shows "books (core (mark_observed x d l\<lparr>lp_workers := lp_workers l @ [ObserveJob x], lp_started := st\<rparr>))"
  using assms by (simp add: core_def mark_observed_def Let_def outstanding_def)

lemma books_retire:
  assumes "books (core l)" "lp_results l = r # rs"
  shows "books (core (retire r (l\<lparr>lp_results := rs\<rparr>)))"
proof -
  let ?live = "lp_live l" and ?t = "oc_task_id (tr_occurrence r)"
  have b: "finite ?live" "lp_admissions l = int (card ?live)" "lp_admissions l \<le> AdmissionLimit"
    "lp_reconciling l \<notin> ?live" "[] \<notin> ?live"
    and keys: "add_mset (result_key r) (outstanding (lp_workers l) rs) = mset_set (Pair True ` ?live)
      + (if lp_reconciling l = [] then {#} else {#(False, lp_reconciling l)#})"
    using assms by (simp_all add: core_def outstanding_def)
  show ?thesis
  proof (cases "tr_dispatch r")
    case True
    then have "(True, ?t) \<in># mset_set (Pair True ` ?live)
        + (if lp_reconciling l = [] then {#} else {#(False, lp_reconciling l)#})"
      unfolding keys [symmetric] by (simp add: result_key_def)
    then have live: "?t \<in> ?live" using b(1) by (auto split: if_splits)
    define others where "others = ?live - {?t}"
    have split: "?live = insert ?t others" "?t \<notin> others" "finite others"
      using live b(1) by (auto simp: others_def)
    then have "outstanding (lp_workers l) rs = mset_set (Pair True ` others)
      + (if lp_reconciling l = [] then {#} else {#(False, lp_reconciling l)#})"
      using keys True by (simp add: result_key_def image_iff)
    then show ?thesis
      using b split True by (simp add: core_def retire_def)
  next
    case False
    then have "(False, ?t) \<in># mset_set (Pair True ` ?live)
        + (if lp_reconciling l = [] then {#} else {#(False, lp_reconciling l)#})"
      unfolding keys [symmetric] by (simp add: result_key_def)
    then have "lp_reconciling l = ?t" "?t \<noteq> []" using b(1) by (auto split: if_splits)
    then have "outstanding (lp_workers l) rs = mset_set (Pair True ` ?live)"
      using keys False by (simp add: result_key_def)
    then show ?thesis
      using b False by (simp add: core_def retire_def)
  qed
qed

lemma books_settle:
  assumes "books (core l)" "lp_workers l = ws @ j # ws'"
  shows "books (core (l\<lparr>lp_workers := ws @ ws', lp_results := lp_results l @ [job_result j st err]\<rparr>))"
proof -
  have "result_key (job_result j st err) = job_key j" by (cases j) (simp_all add: result_key_def)
  then show ?thesis using assms by (simp add: core_def outstanding_def)
qed

lemma room_books: "room c \<Longrightarrow> books c"
  by (cases c) simp

lemma room_iff: "room (core l) \<longleftrightarrow> books (core l) \<and> lp_admissions l < AdmissionLimit"
  by (simp add: core_def)

declare books.simps [simp del] room.simps [simp del] claiming.simps [simp del]

end
