(* ===== verification/Runtime_Invariant.thy ===== *)
theory Runtime_Invariant
  imports Runtime_Bounds
begin

text \<open>
  Every reachable state of the loop keeps its books: one triple for each function that changes them,
  collected over the phases and the steps.
\<close>

section \<open>Rules\<close>

lemma triple_asks_bind:
  "(\<And>x. triple (\<lambda>s. P s \<and> x = f (rt_loop s)) (g x) Q) \<Longrightarrow> triple P (loop_asks f \<bind> g) Q"
  by (simp add: triple_def)

lemma triple_update_bind:
  "triple R (g ()) Q \<Longrightarrow> (\<And>s. P s \<Longrightarrow> R (s\<lparr>rt_loop := f (rt_loop s)\<rparr>)) \<Longrightarrow> triple P (loop_update f \<bind> g) Q"
  by (simp add: triple_def)

lemma triple_start_job:
  "(\<And>s. P s \<Longrightarrow> Q () (s\<lparr>rt_loop := (rt_loop s)\<lparr>lp_workers := lp_workers (rt_loop s) @ [j],
       lp_started := lp_started (rt_loop s) @ [j]\<rparr>\<rparr>)) \<Longrightarrow> triple P (start_job j) Q"
  by (simp add: triple_def start_job_def)

text \<open>What a program returns, whatever the state.\<close>

definition yields :: "('s, 'a) state \<Rightarrow> ('a \<Rightarrow> bool) \<Rightarrow> bool" where
  "yields m R \<longleftrightarrow> (\<forall>s. R (fst (run_state m s)))"

lemma triple_yields:
  "triple P m Q \<Longrightarrow> yields m R \<Longrightarrow> (\<And>x s. Q x s \<Longrightarrow> R x \<Longrightarrow> Q' x s) \<Longrightarrow> triple P m Q'"
  unfolding triple_def yields_def by (metis (mono_tags, lifting) case_prodD case_prodI2 fst_conv)

lemma yields_attempt:
  "(\<And>e. R (Inl e)) \<Longrightarrow> (\<And>x. yields (f x) R) \<Longrightarrow> yields (attempt m f) R"
  by (auto simp: yields_def run_attempt split: prod.split sum.split)

lemma yields_return: "R x \<Longrightarrow> yields (State_Monad.return x) R"
  by (simp add: yields_def)

section \<open>Decisions\<close>

lemma decideTick_due:
  assumes "decideTick next_time i = Inr (TickDue due hold)"
  shows "next_time (dh_cron (sm_header (ti_summary i))) (dh_timezone (sm_header (ti_summary i)))
      (sm_cursor (ti_summary i)) = Inr due
    \<and> sm_state (ti_summary i) = StateEnabled
    \<and> after due (ti_startup i) \<and> in_window due (ti_now i)
    \<and> hold = (ti_active i \<noteq> None) \<and> (ti_active i = None \<longrightarrow> ti_available i)"
  using assms
  by (auto simp: decideTick_def Let_def bind_result_Inr_iff skippedTick_def in_window_def after_def before_def
      split: if_splits)

section \<open>Admission\<close>

definition candidate_ok :: "schedule_summary \<Rightarrow> go_time \<Rightarrow> error + (claim \<times> schedule_definition) option \<Rightarrow> bool" where
  "candidate_ok summary due r \<longleftrightarrow> (\<forall>c d. r = Inr (Some (c, d)) \<longrightarrow>
     ValidateClaim c = None \<and> cl_due c = due \<and> cl_schedule_id c = dh_schedule_id (sm_header summary)
     \<and> same_instant (cl_expected_cursor c) (sm_cursor summary))"

lemma prepareCandidate_yields: "yields (prepareCandidate p summary due) (candidate_ok summary due)"
  by (auto simp: yields_def candidate_ok_def prepareCandidate_def Let_def unless_error_def
      split: prod.splits sum.splits option.splits)

lemma ValidateClaim_task: "ValidateClaim c = None \<Longrightarrow> cl_task_id c \<noteq> []"
  by (auto simp: ValidateClaim_def first_error_None_iff go_check hexPattern_def)

lemma claim_and_dispatch_books:
  "triple (\<lambda>s. core_holds room s \<and> cl_task_id c \<notin> lp_live (rt_loop s)
      \<and> lp_reconciling (rt_loop s) \<noteq> cl_task_id c \<and> cl_task_id c \<noteq> [])
    (claim_and_dispatch p c d) (\<lambda>_. core_holds books)"
  unfolding claim_and_dispatch_def claim_occurrence_once_def
  apply (rule triple_update_bind [where R = "core_holds (claiming (cl_task_id c))"])
   apply (rule triple_bind [OF book.keeps_claim])
   apply (rule triple_if)
    apply (rule triple_update_bind [where R = "core_holds books"])
     apply (rule triple_return, assumption)
    apply (drule claiming_abort, simp add: room_books)
   apply (rule triple_update_bind [where R = "core_holds (claiming (cl_task_id c))"])
    apply (rule triple_bind [OF book.keeps_event(2)])
    apply (rule triple_bind [where R = "\<lambda>_. core_holds books"])
     apply (rule triple_start_job)
     apply (simp add: claiming_start claimOccurrence_def)
    apply (rule triple_return, assumption)
   apply simp
  apply (simp add: room_claim)
  done

lemma admit_candidate_books:
  assumes "cl_task_id c \<noteq> []"
  shows "triple (core_holds room) (admit_candidate p due c d) (\<lambda>_. core_holds books)"
proof -
  let ?free = "\<lambda>k :: core. room k \<and> cl_task_id c \<notin> fst k \<and> fst (snd (snd k)) \<noteq> cl_task_id c"
  have "triple (core_holds ?free) (claim_and_dispatch p c d) (\<lambda>_. core_holds books)"
    by (rule triple_conseq [OF claim_and_dispatch_books]) (auto simp: core_def assms)
  then show ?thesis
    unfolding admit_candidate_def
    apply (intro triple_asks_bind triple_if triple_return)
     apply (auto simp: room_books)[1]
    apply (rule triple_conseq [where P = "core_holds ?free" and Q = "\<lambda>_. core_holds books"])
      apply (rule triple_bind [OF keeps_core_world])
      apply (rule triple_unless_error)
       apply (simp add: room_books)
      apply (rule triple_bind [OF keeps_core_world])
      apply (rule triple_if)
       apply (rule triple_return, simp add: room_books)
      apply assumption
      apply (auto simp: core_def)
    done
qed

lemma admit_books: "triple (core_holds room) (admit p summary due) (\<lambda>_. core_holds books)"
  unfolding admit_def
proof (rule triple_attempt [where R = "\<lambda>cand s. core_holds room s \<and> candidate_ok summary due (Inr cand)"])
  show "triple (core_holds room) (prepareCandidate p summary due)
      (\<lambda>r s. case r of Inl e \<Rightarrow> core_holds books s | Inr x \<Rightarrow> core_holds room s \<and> candidate_ok summary due (Inr x))"
    by (rule triple_yields [OF book.keeps_prepare prepareCandidate_yields])
      (auto simp: room_books split: sum.split)
next
  fix cand :: "(claim \<times> schedule_definition) option"
  show "triple (\<lambda>s. core_holds room s \<and> candidate_ok summary due (Inr cand))
    (case cand of None \<Rightarrow> giving () | Some (c, d) \<Rightarrow> admit_candidate p due c d) (\<lambda>_. core_holds books)"
  proof (cases cand)
    case None
    then show ?thesis by (auto simp: room_books intro!: triple_return)
  next
    case (Some cd)
    obtain c d where cd: "cd = (c, d)" by (cases cd)
    have "triple (\<lambda>s. core_holds room s \<and> candidate_ok summary due (Inr (Some (c, d))))
        (admit_candidate p due c d) (\<lambda>_. core_holds books)"
      by (rule triple_pre [where A = "cl_task_id c \<noteq> []"])
        (auto simp: candidate_ok_def dest: ValidateClaim_task intro: triple_conseq [OF admit_candidate_books])
    then show ?thesis by (simp add: Some cd)
  qed
qed

section \<open>Scans\<close>

lemma consider_turns_books: "keeps (core_holds books) (consider_turns n p prior summary priority)"
proof (induction n arbitrary: summary priority)
  case (Suc n)
  have turn: "triple (\<lambda>s. core_holds books s \<and> l = id (rt_loop s))
    (case d of
         Inl e \<Rightarrow> failing (Wrap ''scheduler recurrence'' e)
       | Inr TickNothing \<Rightarrow> giving priority
       | Inr (TickSkip span) \<Rightarrow> attempt (skipTick p summary span) (\<lambda>moved.
           case moved of
             None \<Rightarrow> giving priority
           | Some summary' \<Rightarrow> consider_turns n p prior summary' priority)
       | Inr (TickDue due hold) \<Rightarrow>
           if is_zero due then giving priority
           else (case (hold, prior) of
             (True, Some x) \<Rightarrow> do {
               loop_update (\<lambda>l. l\<lparr>lp_held := (lp_held l)(dh_schedule_id (sm_header summary) := Some due)\<rparr>);
               giving (insert (oc_task_id x) priority)
             }
           | _ \<Rightarrow> attempt (admit p summary due) (\<lambda>_. giving priority))) (\<lambda>_. core_holds books)"
    if d: "\<And>due hold. d = Inr (TickDue due hold)
        \<Longrightarrow> hold = (prior \<noteq> None) \<and> (prior = None \<longrightarrow> lp_admissions l < AdmissionLimit)" for l d
  proof -
    have skip: "keeps (core_holds books) (attempt (skipTick p summary span) (\<lambda>moved.
           case moved of None \<Rightarrow> giving priority | Some summary' \<Rightarrow> consider_turns n p prior summary' priority))" for span
      by (intro keeps_attempt keeps_option book.keeps_skip book.keeps_return Suc.IH)
    have admit: "triple (core_holds room) (attempt (admit p summary due) (\<lambda>_. giving priority)) (\<lambda>_. core_holds books)"
      for due
      by (rule triple_attempt [where R = "\<lambda>_. core_holds books"])
        (auto intro: triple_weaken [OF admit_books] triple_return split: sum.split)
    show ?thesis
    proof (cases d)
      case (Inl e)
      then show ?thesis by (auto intro: triple_return)
    next
      case (Inr t)
      show ?thesis
      proof (cases t)
        case TickNothing
        then show ?thesis using Inr by (auto intro: triple_return)
      next
        case (TickSkip span)
        then show ?thesis using Inr by (auto intro: triple_conseq [OF skip])
      next
        case (TickDue due hold)
        note fact = d [OF Inr [unfolded TickDue]]
        show ?thesis
        proof (cases prior)
          case None
          then show ?thesis
            using fact by (auto simp: Inr TickDue room_iff intro!: triple_return triple_conseq [OF admit])
        next
          case (Some x)
          then show ?thesis
            using fact by (auto simp: Inr TickDue intro!: triple_return triple_update_bind [where R = "core_holds books"])
        qed
      qed
    qed
  qed
  show ?case
    unfolding consider_turns.simps
    by (intro keeps_bind keeps_core_world book.keeps_unless triple_asks_bind turn)
      (auto dest: decideTick_due)
qed (auto intro: core_rules)

lemma consider_books: "keeps (core_holds books) (consider_schedule p active summary priority)"
  unfolding consider_schedule_def Let_def
  by (intro keeps_option keeps_bind book.keeps_return book.frame consider_turns_books) simp

lemma consider_page_books: "keeps (core_holds books) (consider_page p active through last_id summaries priority)"
  by (induction summaries arbitrary: last_id priority)
    (auto simp: Let_def intro!: triple_if keeps_attempt book.keeps_return consider_books)

lemma scan_page_books: "keeps (core_holds books) (scan_page p active through page priority)"
  unfolding scan_page_def
  by (intro keeps_bind keeps_core_world book.keeps_unless keeps_sum keeps_attempt keeps_prod triple_if
      book.keeps_return consider_page_books)

lemma find_SomeD: "List.find P xs = Some x \<Longrightarrow> x \<in> set xs \<and> P x"
  by (induction xs) (auto split: if_splits)

lemma set_observation_order [simp]: "set (observation_order l active) = set active"
  unfolding observation_order_def Let_def by (metis append_take_drop_id set_append Un_commute)

lemma startObservation_books:
  assumes "\<forall>x \<in> set active. oc_task_id x \<noteq> []"
  shows "keeps (core_holds books) (startObservation p active priority)"
proof -
  have chosen: "oc_task_id x \<noteq> [] \<and> oc_task_id x \<notin> lp_live l"
    if "observation_choice l active priority = Some (x, d)" for x d l
  proof -
    have "x \<in> set (observation_order l active) \<and> (\<exists>b. observable l priority b x)"
      using that by (auto simp: observation_choice_def Let_def split: option.splits dest: find_SomeD)
    then have "x \<in> set active \<and> (\<exists>b. observable l priority b x)" by simp
    then show ?thesis using assms by (auto simp: observable_def Let_def)
  qed
  have job: "triple (\<lambda>s. core_holds books s \<and> l = rt_loop s)
      (do { loop_update (mark_observed x d); start_job (ObserveJob x) }) (\<lambda>_. core_holds books)"
    if "lp_reconciling l = []" "observation_choice l active priority = Some (x, d)" for l x d
    by (rule triple_update_bind [OF triple_start_job, where R = "\<lambda>s. \<exists>l'. books (core l')
          \<and> lp_reconciling l' = [] \<and> oc_task_id x \<notin> lp_live l' \<and> rt_loop s = mark_observed x d l'"])
      (use that chosen [OF that(2)] in \<open>auto simp: books_observe\<close>)
  have world: "triple (\<lambda>s. core_holds books s \<and> l = id (rt_loop s)) (in_world m)
      (\<lambda>_ s. core_holds books s \<and> l = id (rt_loop s))" for l and m :: "('b, 'c) state"
    by (rule tripleI) (auto split: prod.splits)
  show ?thesis
    unfolding startObservation_def
    apply (intro triple_asks_bind triple_if)
     apply (rule triple_return, simp)
    apply (rule triple_bind [OF world])
    apply (rule triple_if)
     apply (rule triple_return, simp)
    apply (case_tac "observation_choice x active priority")
     apply (simp, rule triple_return, simp)
    apply (auto simp: job)
    done
qed

section \<open>Results\<close>

text \<open>After a result is taken the books balance again as soon as it is retired.\<close>

definition taken :: "task_result \<Rightarrow> 'w rt \<Rightarrow> bool" where
  "taken r s \<longleftrightarrow> books (core (retire r (rt_loop s)))"

lemma next_result_Some:
  assumes "run_state next_result s = (Some r, s')" "core_holds books s"
  shows "taken r s'"
  using assms books_retire [of "rt_loop s" r]
  by (auto simp: next_result_def taken_def split: list.splits)

lemma next_result_None: "run_state next_result s = (None, s') \<Longrightarrow> s' = s"
  by (auto simp: next_result_def split: list.splits)

lemma finish_books: "triple (taken r) (finish p r) (\<lambda>_. core_holds books)"
  unfolding finish_def Let_def
  by (rule triple_update_bind [where R = "core_holds books"])
    (auto simp: taken_def recordObservation_def recordRelease_def
      intro!: core_rules book.keeps_report book.keeps_observation book.keeps_release)

section \<open>Steps\<close>

fun phase_active :: "phase \<Rightarrow> occurrence list" where
  "phase_active (ReadingActive active page) = active"
| "phase_active (Scanning active priority start through page) = active"
| "phase_active _ = []"

fun running :: "phase \<Rightarrow> bool" where
  "running (Exiting e) = False"
| "running (Joining e) = False"
| "running (Returned e) = False"
| "running _ = True"

definition channel_fits :: "core \<Rightarrow> bool" where
  "channel_fits c = (case c of (live, admissions, reconciling, ws, rs, started) \<Rightarrow>
     length ws + length rs \<le> result_capacity)"

lemma books_fit: "books c \<Longrightarrow> channel_fits c"
  using outstanding_size
  by (cases c) (fastforce simp: channel_fits_def result_capacity_def AdmissionLimit_def)

lemma taken_fits: "taken r s \<Longrightarrow> core_holds channel_fits s"
  by (drule books_fit [of "core (retire r (rt_loop s))", folded taken_def])
    (simp add: channel_fits_def core_def retire_def split: if_splits)

definition config_ok :: "phase \<times> 'w rt \<Rightarrow> bool" where
  "config_ok c = (case c of (ph, s) \<Rightarrow>
     core_holds channel_fits s \<and> (running ph \<longrightarrow> core_holds books s)
     \<and> (\<forall>x \<in> set (phase_active ph). oc_task_id x \<noteq> []))"

lemma take_active_valid: "take_active i xs = Inr j \<Longrightarrow> \<forall>x \<in> set xs. oc_task_id x \<noteq> []"
  by (induction xs arbitrary: i)
    (auto simp: ValidateOccurrence_def first_error_None_iff go_check hexPattern_def
      split: option.splits if_splits)

lemma read_active_page_yields:
  "(\<forall>x \<in> set active. oc_task_id x \<noteq> []) \<Longrightarrow>
     yields (read_active_page p active page) (\<lambda>r. \<forall>a b. r = Inr (a, b) \<longrightarrow> (\<forall>x \<in> set a. oc_task_id x \<noteq> []))"
  by (auto simp: yields_def read_active_page_def unless_error_def
      split: prod.splits sum.splits option.splits if_splits dest: take_active_valid)

abbreviation known :: "occurrence list \<Rightarrow> bool" where
  "known active \<equiv> \<forall>x \<in> set active. oc_task_id x \<noteq> []"

lemma next_result_books:
  "triple (core_holds books) next_result (\<lambda>v s. case v of None \<Rightarrow> core_holds books s | Some r \<Rightarrow> taken r s)"
  by (rule tripleI) (auto split: option.split dest: next_result_None next_result_Some)

lemma reading_books:
  assumes "known active"
  shows "triple (core_holds books) (read_active_page p active page)
    (\<lambda>r s. core_holds books s \<and> (\<forall>a b. r = Inr (a, b) \<longrightarrow> known a))"
  by (rule triple_yields [OF book.keeps_active read_active_page_yields [OF assms]]) auto

lemma turn_books:
  assumes "running ph" "known (phase_active ph)"
  shows "triple (core_holds books) (loop_turn p ph) (\<lambda>ph' s. core_holds books s \<and> known (phase_active ph'))"
proof (cases ph)
  case Top
  show ?thesis
    unfolding Top loop_turn.simps
    by (rule triple_bind [OF keeps_core_world]) (auto intro: triple_return)
next
  case Draining
  show ?thesis
    unfolding Draining loop_turn.simps
    apply (rule triple_bind [OF next_result_books])
    apply (case_tac x)
     apply simp
     apply (rule triple_bind [OF book.keeps_refresh], rule triple_return, simp)
    apply simp
    apply (rule triple_bind [OF finish_books], rule triple_return)
    apply (simp split: sum.split)
    done
next
  case (ReadingActive active page)
  then have active: "known active" using assms(2) by simp
  have over: "triple (\<lambda>s. core_holds books s \<and> known a)
      (do { loop_update (forget_inactive a); start \<leftarrow> loop_asks lp_selection_after;
            State_Monad.return (Scanning a {} start [] (first_page start)) })
      (\<lambda>ph' s. core_holds books s \<and> known (phase_active ph'))" for a
    by (rule triple_update_bind [where R = "\<lambda>s. core_holds books s \<and> known a"])
      (auto intro!: triple_asks_bind triple_return)
  show ?thesis
    unfolding ReadingActive loop_turn.simps
    apply (rule triple_bind [OF reading_books [OF active]])
    apply (auto split: sum.split prod.split option.split intro!: triple_return intro: triple_conseq [OF over])
    done
next
  case (Scanning active priority start through page)
  then have active: "known active" using assms(2) by simp
  have watch: "triple (core_holds books) (do { startObservation p active pr; State_Monad.return Waiting })
      (\<lambda>ph' s. core_holds books s \<and> known (phase_active ph'))" for pr
    by (rule triple_bind [OF startObservation_books [OF active]]) (auto intro: triple_return)
  show ?thesis
    unfolding Scanning loop_turn.simps
    by (rule triple_bind [OF scan_page_books])
      (use active in \<open>auto split: sum.split prod.split option.split intro!: triple_return intro: watch\<close>)
next
  case Waiting
  then show ?thesis by (auto intro: triple_return)
qed (use assms(1) in auto)

lemma turn_config_ok:
  assumes "config_ok (ph, s)" "run_state (loop_turn p ph) s = (ph', s')"
  shows "config_ok (ph', s')"
proof (cases "running ph")
  case True
  then have "core_holds books s' \<and> known (phase_active ph')"
    using tripleD [OF turn_books [OF True] _ assms(2)] assms(1) by (simp add: config_ok_def)
  then show ?thesis by (simp add: config_ok_def books_fit)
next
  case False
  have exit: "triple (core_holds channel_fits) (loop_turn p (Exiting e))
      (\<lambda>ph' s. core_holds channel_fits s \<and> (\<exists>e. ph' = Joining e))" for e
    unfolding loop_turn.simps by (rule triple_bind [OF keeps_core_world]) (auto intro: triple_return)
  have join: "triple (core_holds channel_fits) (loop_turn p (Joining e))
      (\<lambda>ph' s. core_holds channel_fits s \<and> (\<exists>e. ph' = Returned e))" for e
    unfolding loop_turn.simps settledErrors_def bind_assoc
    apply (rule triple_asks_bind)
    apply (rule triple_update_bind [where R = "core_holds channel_fits"])
     apply (rule triple_bind [OF book.keeps_settle])
     apply (auto intro: triple_return simp: channel_fits_def core_def)
    done
  have fits: "core_holds channel_fits s" using assms(1) by (simp add: config_ok_def)
  show ?thesis
  proof (cases ph)
    case (Exiting e)
    then show ?thesis using tripleD [OF exit fits] assms(2) by (fastforce simp: config_ok_def)
  next
    case (Joining e)
    then show ?thesis using tripleD [OF join fits] assms(2) by (fastforce simp: config_ok_def)
  next
    case (Returned e)
    then show ?thesis using assms by simp
  qed (use False in auto)
qed

lemma wait_result_config_ok:
  assumes "taken r s" "run_state (wait_result p r wait_err) s = (ph', s')"
  shows "config_ok (ph', s')"
proof (cases "cancellationOnly wait_err")
  case True
  have "triple (taken r) (wait_result p r wait_err)
      (\<lambda>ph' s. core_holds books s \<and> ph' \<in> insert Top (range Exiting))"
    using True unfolding wait_result_def
    by (auto intro!: triple_bind [OF finish_books] triple_return split: sum.split)
  from tripleD [OF this assms] show ?thesis by (auto simp: config_ok_def books_fit)
next
  case False
  have "triple (core_holds channel_fits) (wait_result p r wait_err)
      (\<lambda>ph' s. core_holds channel_fits s \<and> ph' \<in> range Exiting)"
    using False unfolding wait_result_def
    by (auto intro!: triple_bind [OF book.keeps_report] triple_return)
  from tripleD [OF this taken_fits [OF assms(1)] assms(2)] show ?thesis by (auto simp: config_ok_def)
qed

lemma rt_step_config_ok: "rt_step p c c' \<Longrightarrow> config_ok c \<Longrightarrow> config_ok c'"
proof (induction rule: rt_step.induct)
  case (turn ph s ph' s')
  then show ?case using turn_config_ok by blast
next
  case (woken s wait_err)
  then show ?case by (auto simp: config_ok_def split: option.split)
next
  case (interrupted s r s1 wait_err ph' s')
  then have "taken r s1" using next_result_Some [OF interrupted(1)] by (simp add: config_ok_def)
  then show ?case using wait_result_config_ok interrupted(2) by blast
next
  case (settled s before_j j after_j ph st err)
  then show ?case
    using books_settle [of "rt_loop s" before_j j after_j st err]
    by (auto simp: config_ok_def channel_fits_def core_def)
qed

lemma rt_reach_config_ok: "rt_reach p w c \<Longrightarrow> config_ok c"
proof (induction rule: rt_reach.induct)
  case reach_start
  have "core (rt_loop (snd (run_start p w))) = core (new_loop t)" for t
    by (auto simp: run_start_def event_def core_def new_loop_def Let_def split: prod.splits option.splits)
  then have "core_holds books (snd (run_start p w))" using books_new by metis
  moreover have "phase_active (fst (run_start p w)) = []"
    by (auto simp: run_start_def Let_def split: prod.splits option.splits)
  ultimately show ?case
    by (cases "run_start p w") (simp add: config_ok_def books_fit)
qed (use rt_step_config_ok in blast)

end
