(* ===== verification/Runtime_Ledger.thy ===== *)
theory Runtime_Ledger
  imports Runtime_Invariant
begin

text \<open>
  Dispatch authority. The contract the loop needs of a store is a ledger of committed claims: it only
  grows, and a call of \<open>ClaimAndArm\<close> that reports a new commit added an entry whose task and due
  time were not in it. Under that contract no reachable state of the loop has started two dispatches
  with one task, or for one due time of one schedule.
\<close>

type_synonym entry = "string \<times> int \<times> string"

definition claim_entry :: "claim \<Rightarrow> entry" where
  "claim_entry c = (cl_schedule_id c, t_ns (cl_due c), cl_task_id c)"

definition fresh_entry :: "entry \<Rightarrow> entry set \<Rightarrow> bool" where
  "fresh_entry e E = (case e of (sid, due, tid) \<Rightarrow>
     \<forall>(s, d, t) \<in> E. t \<noteq> tid \<and> \<not> (s = sid \<and> d = due))"

definition grows :: "('w \<Rightarrow> bool) \<Rightarrow> ('w \<Rightarrow> entry set) \<Rightarrow> ('w, 'a) state \<Rightarrow> bool" where
  "grows ok committed m \<longleftrightarrow> (\<forall>w x w'. ok w \<longrightarrow> run_state m w = (x, w') \<longrightarrow> ok w' \<and> committed w \<subseteq> committed w')"

locale claim_ledger =
  fixes p :: "'w port" and ok :: "'w \<Rightarrow> bool" and committed :: "'w \<Rightarrow> entry set"
  assumes grows_get: "grows ok committed (pt_get_schedule p i)"
    and grows_list: "grows ok committed (pt_list p page)"
    and grows_observe: "grows ok committed (pt_observe p obs)"
    and grows_release: "grows ok committed (pt_release p rels)"
    and grows_skip: "grows ok committed (pt_skip p k)"
    and grows_occurrence: "grows ok committed (pt_get_occurrence p t)"
    and grows_active: "grows ok committed (pt_active p page)"
    and grows_claim: "grows ok committed (pt_claim p c)"
    and grows_now: "grows ok committed (pt_now p)"
    and grows_ctx: "grows ok committed (pt_ctx p)"
    and grows_task_id: "grows ok committed (pt_task_id p)"
    and claim_commits: "ok w \<Longrightarrow> run_state (pt_claim p c) w = ((res, None), w')
      \<Longrightarrow> cx_outcome res = ClaimNewlyCommitted
      \<Longrightarrow> fresh_entry (claim_entry c) (committed w) \<and> claim_entry c \<in> committed w'"

section \<open>The dispatches of a run\<close>

fun dispatch_entry :: "job \<Rightarrow> entry list" where
  "dispatch_entry (DispatchJob x q) = [(oc_schedule_id x, t_ns (oc_due x), oc_task_id x)]"
| "dispatch_entry (ObserveJob x) = []"

definition dispatches :: "job list \<Rightarrow> entry list" where
  "dispatches js = concat (map dispatch_entry js)"

definition entry_task :: "entry \<Rightarrow> string" where "entry_task e = snd (snd e)"
definition entry_due :: "entry \<Rightarrow> string \<times> int" where "entry_due e = (fst e, fst (snd e))"

definition at_most_once :: "entry list \<Rightarrow> bool" where
  "at_most_once es \<longleftrightarrow> distinct (map entry_task es) \<and> distinct (map entry_due es)"

lemma at_most_once_append:
  assumes "at_most_once es" "fresh_entry e E" "set es \<subseteq> E"
  shows "at_most_once (es @ [e])"
  using assms
  by (cases e) (fastforce simp: at_most_once_def fresh_entry_def entry_task_def entry_due_def)

lemma dispatches_append [simp]:
  "dispatches (js @ [DispatchJob x q]) = dispatches js @ [(oc_schedule_id x, t_ns (oc_due x), oc_task_id x)]"
  "dispatches (js @ [ObserveJob x]) = dispatches js"
  by (simp_all add: dispatches_def)

context claim_ledger begin

definition recorded :: "'w rt \<Rightarrow> bool" where
  "recorded s \<longleftrightarrow> ok (rt_world s) \<and> set (dispatches (lp_started (rt_loop s))) \<subseteq> committed (rt_world s)
     \<and> at_most_once (dispatches (lp_started (rt_loop s)))"

lemma recorded_world: "grows ok committed m \<Longrightarrow> keeps recorded (in_world m)"
  by (rule tripleI) (fastforce simp: recorded_def grows_def split: prod.splits)

lemma recorded_frame: "(\<And>l. lp_started (f l) = lp_started l) \<Longrightarrow> keeps recorded (loop_update f)"
  by (rule tripleI) (auto simp: recorded_def)

lemma core_started: "core l = core l' \<Longrightarrow> lp_started l = lp_started l'"
  by (simp add: core_def)

text \<open>The claim is in the ledger and still new to the dispatches.\<close>

definition entered :: "claim \<Rightarrow> 'w rt \<Rightarrow> bool" where
  "entered c s \<longleftrightarrow> recorded s \<and> claim_entry c \<in> committed (rt_world s)
     \<and> fresh_entry (claim_entry c) (set (dispatches (lp_started (rt_loop s))))"

lemma entered_world: "grows ok committed m \<Longrightarrow> keeps (entered c) (in_world m)"
  by (rule tripleI) (fastforce simp: entered_def recorded_def grows_def split: prod.splits)

lemma entered_frame: "(\<And>l. lp_started (f l) = lp_started l) \<Longrightarrow> keeps (entered c) (loop_update f)"
  by (rule tripleI) (auto simp: entered_def recorded_def)

lemmas all_grow = grows_get grows_list grows_observe grows_release grows_skip
  grows_occurrence grows_active grows_claim grows_now grows_ctx grows_task_id

sublocale ledger: port_frame p recorded
  by unfold_locales ((rule recorded_world, rule all_grow)+, rule recorded_frame, rule core_started)

sublocale entry: port_frame p "entered c" for c
  by unfold_locales ((rule entered_world, rule all_grow)+, rule entered_frame, rule core_started)

lemma claim_call:
  "triple recorded (in_world (pt_claim p c))
    (\<lambda>r s. recorded s \<and> (snd r = None \<and> cx_outcome (fst r) = ClaimNewlyCommitted \<longrightarrow> entered c s))"
proof (rule tripleI)
  fix s r and s' :: "'w rt"
  assume s: "recorded s" and run: "run_state (in_world (pt_claim p c)) s = (r, s')"
  obtain res err w where w: "run_state (pt_claim p c) (rt_world s) = ((res, err), w)"
    by (metis prod.exhaust)
  then have s': "r = (res, err)" "s' = s\<lparr>rt_world := w\<rparr>" using run by auto
  have rec: "recorded s'" using tripleD [OF ledger.world_claim s run] .
  have "entered c s'" if "err = None" "cx_outcome res = ClaimNewlyCommitted"
  proof -
    have "fresh_entry (claim_entry c) (committed (rt_world s))" "claim_entry c \<in> committed w"
      using claim_commits [OF _ w [unfolded that(1)] that(2)] s by (simp_all add: recorded_def)
    then show ?thesis using s rec by (auto simp: entered_def s' recorded_def fresh_entry_def)
  qed
  then show "recorded s' \<and> (snd r = None \<and> cx_outcome (fst r) = ClaimNewlyCommitted \<longrightarrow> entered c s')"
    using rec by (simp add: s')
qed

lemma resolve_ledger:
  "triple (\<lambda>s. recorded s \<and> (err = None \<and> cx_outcome res = ClaimNewlyCommitted \<longrightarrow> entered c s))
    (resolveClaim p c res err)
    (\<lambda>r s. recorded s \<and> (\<forall>d. r = Inr d \<and> cd_invoke d \<longrightarrow> entered c s))"
proof (cases "err = None \<and> cx_outcome res = ClaimNewlyCommitted")
  case True
  show ?thesis
    by (rule triple_conseq [OF entry.keeps_resolve [of c c res err]]) (use True in \<open>auto simp: entered_def\<close>)
next
  case False
  have "yields (resolveClaim p c res err) (\<lambda>r. \<forall>d. r = Inr d \<longrightarrow> \<not> cd_invoke d)"
  proof (cases "cx_outcome res")
    case ClaimNewlyCommitted
    then show ?thesis using False by (auto simp: resolveClaim_def yields_def)
  qed (auto simp: resolveClaim_def intro!: yields_attempt yields_return)
  from triple_yields [OF ledger.keeps_resolve [of c res err] this] show ?thesis
    by (rule triple_conseq) auto
qed

lemma claim_attempts_ledger:
  "triple recorded (claim_attempts n p c) (\<lambda>r s. recorded s \<and> (r = Inr True \<longrightarrow> entered c s))"
proof (induction n)
  case 0
  then show ?case by (auto intro: triple_return)
next
  case (Suc n)
  have next_try: "triple (\<lambda>s. recorded s \<and> (cd_invoke d \<longrightarrow> entered c s))
      (if \<not> cd_retry d then giving (cd_invoke d) else if n = 0 then failing e else claim_attempts n p c)
      (\<lambda>r s. recorded s \<and> (r = Inr True \<longrightarrow> entered c s))" for d e
    by (auto intro!: triple_if triple_return intro: triple_conseq [OF Suc])
  have turn: "triple (\<lambda>s. recorded s \<and> (err = None \<and> cx_outcome res = ClaimNewlyCommitted \<longrightarrow> entered c s))
      (attempt (resolveClaim p c res err) (\<lambda>d.
         if \<not> cd_retry d then giving (cd_invoke d)
         else if n = 0 then failing (storeError ''claim'' err) else claim_attempts n p c))
      (\<lambda>r s. recorded s \<and> (r = Inr True \<longrightarrow> entered c s))" for res err
    by (rule triple_attempt [OF triple_weaken [OF resolve_ledger] next_try]) (auto split: sum.split)
  show ?case
    unfolding claim_attempts.simps
    by (rule triple_bind [OF claim_call]) (auto simp: turn split: prod.split)
qed

lemma entered_start:
  assumes "entered c s"
  shows "recorded (s\<lparr>rt_loop := (rt_loop s)\<lparr>lp_workers := ws,
      lp_started := lp_started (rt_loop s) @ [DispatchJob (claimOccurrence c) q]\<rparr>\<rparr>)"
  using assms at_most_once_append [of "dispatches (lp_started (rt_loop s))" "claim_entry c"
      "set (dispatches (lp_started (rt_loop s)))"]
  by (simp add: entered_def recorded_def claim_entry_def claimOccurrence_def)

lemma dispatch_ledger: "keeps recorded (claim_and_dispatch p c d)"
  unfolding claim_and_dispatch_def claim_occurrence_once_def
  apply (rule keeps_bind [OF recorded_frame], simp)
  apply (rule triple_bind [OF claim_attempts_ledger])
  apply (rule triple_if)
   apply (rule triple_conseq [where P = recorded and Q = "\<lambda>_. recorded"])
     apply (intro keeps_bind recorded_frame ledger.keeps_return)
     apply simp_all
  apply (rule triple_conseq [where P = "entered c" and Q = "\<lambda>_. recorded"])
    apply (rule triple_bind [OF entered_frame], simp)
    apply (rule triple_bind [OF entry.keeps_event(2)])
    apply (rule triple_bind [where R = "\<lambda>_. recorded"])
     apply (rule triple_start_job, erule entered_start)
    apply (rule ledger.keeps_return)
   apply simp_all
  done

end

section \<open>Conditions of the whole loop\<close>

text \<open>
  A condition that survives the port's calls, every update that starts no job, the start of an
  observation, and claiming with its dispatch, holds in every reachable state.
\<close>

locale loop_frame = port_frame +
  assumes jobs: "(\<And>l. lp_started (f l) = lp_started l) \<Longrightarrow> keeps I (loop_update f)"
    and observe: "keeps I (start_job (ObserveJob x))"
    and dispatch: "keeps I (claim_and_dispatch p c d)"
begin

lemma keeps_admit: "keeps I (admit p summary due)"
  unfolding admit_def admit_candidate_def by (intro rules keeps_prepare dispatch)

lemma keeps_consider_turns: "keeps I (consider_turns n p prior summary priority)"
proof (induction n arbitrary: summary priority)
  case (Suc n)
  have turn: "keeps I (case d of
         Inl e \<Rightarrow> failing (Wrap ''scheduler recurrence'' e)
       | Inr TickNothing \<Rightarrow> giving priority
       | Inr (TickSkip span) \<Rightarrow> attempt (skipTick p summary span) (\<lambda>moved.
           case moved of
             None \<Rightarrow> giving priority
           | Some summary' \<Rightarrow> consider_turns n p prior summary' priority)
       | Inr (TickDue due hold) \<Rightarrow>
           if is_zero due then giving priority
           else (case (hold, prior) of
             (True, Some x) \<Rightarrow> do {
               loop_update (\<lambda>l. l\<lparr>lp_held := (lp_held l)(dh_schedule_id (sm_header summary) := Some due)\<rparr>);
               giving (insert (oc_task_id x) priority)
             }
           | _ \<Rightarrow> attempt (admit p summary due) (\<lambda>_. giving priority)))" for d
    by (intro rules) (auto split: tick_decision.split bool.split option.split
        intro!: rules keeps_skip keeps_admit jobs Suc.IH)
  show ?case
    unfolding consider_turns.simps by (intro keeps_bind world_ctx world_now keeps_unless keeps_asks turn)
qed (auto intro: rules)

lemma keeps_consider: "keeps I (consider_schedule p active summary priority)"
  unfolding consider_schedule_def Let_def by (intro rules jobs keeps_consider_turns) simp

lemma keeps_consider_page: "keeps I (consider_page p active through last_id summaries priority)"
  by (induction summaries arbitrary: last_id priority) (auto simp: Let_def intro!: rules keeps_consider)

lemma keeps_scan_page: "keeps I (scan_page p active through page priority)"
  unfolding scan_page_def by (intro rules keeps_consider_page)

lemma keeps_start_observation: "keeps I (startObservation p active priority)"
  unfolding startObservation_def
  by (intro rules jobs observe) (simp add: mark_observed_def Let_def)

lemma keeps_next: "keeps I next_result"
  unfolding next_result_def
  by (intro keeps_bind keeps_asks, case_tac x) (auto intro!: rules jobs)

lemma keeps_finish: "keeps I (finish p r)"
  unfolding finish_def Let_def recordObservation_def recordRelease_def
  by (intro rules jobs keeps_report keeps_observation keeps_release) (simp add: retire_def)

lemma keeps_turn: "keeps I (loop_turn p ph)"
proof (cases ph)
  case Draining
  then show ?thesis by (auto intro!: rules keeps_next keeps_finish keeps_refresh)
next
  case (ReadingActive active page)
  have "(\<And>l. lp_started (forget_inactive a l) = lp_started l)" for a
    by (simp add: forget_inactive_def Let_def)
  then show ?thesis
    unfolding ReadingActive loop_turn.simps by (intro rules keeps_active jobs)
next
  case (Scanning active priority start through page)
  then show ?thesis
    unfolding Scanning loop_turn.simps by (intro rules keeps_scan_page keeps_start_observation)
next
  case (Joining e)
  then show ?thesis
    unfolding Joining loop_turn.simps settledErrors_def by (intro rules jobs keeps_settle) simp
qed (auto intro!: rules)

lemma keeps_wait: "keeps I (wait_result p r wait_err)"
  unfolding wait_result_def by (intro rules keeps_report keeps_finish)

lemma step_keeps: "rt_step p c c' \<Longrightarrow> I (snd c) \<Longrightarrow> I (snd c')"
proof (induction rule: rt_step.induct)
  case (turn ph s ph' s')
  then have "I s" by simp
  from tripleD [OF keeps_turn this turn(1)] show ?case by simp
next
  case (interrupted s r s1 wait_err ph' s')
  then have "I s" by simp
  from tripleD [OF keeps_wait tripleD [OF keeps_next this interrupted(1)] interrupted(2)]
  show ?case by simp
next
  case (settled s before_j j after_j ph st err)
  let ?f = "\<lambda>l. l\<lparr>lp_workers := before_j @ after_j, lp_results := lp_results l @ [job_result j st err]\<rparr>"
  have "keeps I (loop_update ?f)" by (rule jobs) simp
  with settled show ?case by (simp add: triple_def)
qed simp

lemma reach_keeps: "rt_reach p w c \<Longrightarrow> I (snd (run_start p w)) \<Longrightarrow> I (snd c)"
  by (induction rule: rt_reach.induct) (use step_keeps in blast)+

end

context claim_ledger begin

sublocale whole: loop_frame p recorded
proof unfold_locales
  show "keeps recorded (start_job (ObserveJob x))" for x
    by (rule triple_start_job) (simp add: recorded_def)
qed (simp_all add: recorded_frame dispatch_ledger)

lemma run_start_recorded:
  assumes "ok w"
  shows "recorded (snd (run_start p w))"
proof -
  obtain now w' where now: "run_state (pt_now p) w = (now, w')" by (metis prod.exhaust)
  then have "ok w'" using grows_now assms by (auto simp: grows_def)
  then show ?thesis
    by (auto simp: run_start_def now Let_def event_def recorded_def new_loop_def dispatches_def
        at_most_once_def split: option.split)
qed

text \<open>The client's theorem: no run dispatches a task or a due time twice.\<close>

lemma dispatched_once:
  assumes "rt_reach p w c" "ok w"
  shows "at_most_once (dispatches (lp_started (rt_loop (snd c))))
    \<and> set (dispatches (lp_started (rt_loop (snd c)))) \<subseteq> committed (rt_world (snd c))"
  using whole.reach_keeps [OF assms(1) run_start_recorded [OF assms(2)]] by (simp add: recorded_def)

end

end
