(* ===== verification/Sched_System.thy ===== *)
theory Sched_System
  imports Runtime_Ledger Sched_Answers Recurrence_Search
begin

text \<open>
  The loop over the real store. A \<open>system\<close> is one database file with everything outside the loop as
  given sequences: before each call of the loop other processes perform any operations on the file
  (\<open>sy_others\<close>), each call meets any behaviour of the driver (\<open>sy_engines\<close>), and the clock, the
  context and the identifier source answer as they like.
\<close>

record system =
  sy_store :: store
  sy_db :: database
  sy_calls :: nat
  sy_engines :: "nat \<Rightarrow> engine"
  sy_others :: "nat \<Rightarrow> (engine \<times> operation) list"
  sy_clock :: "nat \<Rightarrow> go_time"
  sy_context :: "nat \<Rightarrow> error option"
  sy_ids :: "nat \<Rightarrow> error + string"

fun others_act :: "store \<Rightarrow> (engine \<times> operation) list \<Rightarrow> database \<Rightarrow> database" where
  "others_act s [] db = db"
| "others_act s ((en, op) # ops) db = others_act s ops (perform s en op db)"

definition store_call :: "(store \<Rightarrow> engine \<Rightarrow> database \<Rightarrow> 'a \<times> database) \<Rightarrow> (system, 'a) state" where
  "store_call f = State (\<lambda>w.
     let db = others_act (sy_store w) (sy_others w (sy_calls w)) (sy_db w) in
     case f (sy_store w) (sy_engines w (sy_calls w)) db of
       (x, db') \<Rightarrow> (x, w\<lparr>sy_db := db', sy_calls := Suc (sy_calls w)\<rparr>))"

definition outside_call :: "(system \<Rightarrow> nat \<Rightarrow> 'a) \<Rightarrow> (system, 'a) state" where
  "outside_call f = State (\<lambda>w. (f w (sy_calls w), w\<lparr>sy_calls := Suc (sy_calls w)\<rparr>))"

definition sqlite_port :: "recurrence_env \<Rightarrow> system port" where
  "sqlite_port env = \<lparr>
     pt_get_schedule = (\<lambda>i. store_call (\<lambda>s en. GetSchedule s en i)),
     pt_list = (\<lambda>page. store_call (\<lambda>s en. ListSchedules s en page)),
     pt_claim = (\<lambda>c. store_call (\<lambda>s en. ClaimAndArm s en c)),
     pt_observe = (\<lambda>r. store_call (\<lambda>s en. RecordObservation s en r)),
     pt_release = (\<lambda>r. store_call (\<lambda>s en. Release s en r)),
     pt_skip = (\<lambda>k. store_call (\<lambda>s en. RecordSkip s en k)),
     pt_get_occurrence = (\<lambda>i. store_call (\<lambda>s en. GetOccurrence s en i)),
     pt_active = (\<lambda>page. store_call (\<lambda>s en. ActiveOccurrences s en page)),
     pt_now = outside_call sy_clock,
     pt_ctx = outside_call sy_context,
     pt_task_id = outside_call sy_ids,
     pt_next = (\<lambda>expression name t. the (recurrence_next env expression name t))\<rparr>"

text \<open>The ledger of a file: its occurrence rows.\<close>

definition file_ok :: "system \<Rightarrow> bool" where
  "file_ok w \<longleftrightarrow> reachable (sy_store w) (sy_db w)"

definition row_entry :: "occurrence_row \<Rightarrow> entry" where
  "row_entry r = (xr_schedule_id r, xr_due r, xr_task_id r)"

definition file_entries :: "database \<Rightarrow> entry set" where
  "file_entries db = row_entry ` set (tb_occurrences (db_tables db))"

lemma runs_others: "runs s db (others_act s ops db)"
proof -
  have "runs s db0 db \<Longrightarrow> runs s db0 (others_act s ops db)" for db0 db
    by (induction s ops db rule: others_act.induct) (auto intro: runs_step)
  then show ?thesis using runs_refl by blast
qed

lemma runs_entries:
  assumes "runs s db db'" "reachable s db"
  shows "file_entries db \<subseteq> file_entries db'"
proof -
  have same: "row_entry y = row_entry x" if "occurrence_advances x y" for x y
    using that by (simp add: occurrence_advances_def same_identity_def row_entry_def)
  have rows: "\<forall>x \<in> set (tb_occurrences (db_tables db)). \<exists>y \<in> set (tb_occurrences (db_tables db')). occurrence_advances x y"
    using runs_advances [OF assms] unfolding advances_def by blast
  show ?thesis
  proof
    fix e
    assume "e \<in> file_entries db"
    then obtain x where x: "x \<in> set (tb_occurrences (db_tables db))" "e = row_entry x"
      by (auto simp: file_entries_def)
    with rows obtain y where "y \<in> set (tb_occurrences (db_tables db'))" "occurrence_advances x y" by blast
    with same x(2) show "e \<in> file_entries db'" unfolding file_entries_def by (metis imageI)
  qed
qed

lemma store_call_grows:
  assumes "\<And>s en db. \<exists>op. snd (f s en db) = perform s en op db"
  shows "grows file_ok (\<lambda>w. file_entries (sy_db w)) (store_call f)"
proof -
  have step: "file_ok w' \<and> file_entries (sy_db w) \<subseteq> file_entries (sy_db w')"
    if ok: "file_ok w" and run: "run_state (store_call f) w = (x, w')" for w x w'
  proof -
    let ?db = "others_act (sy_store w) (sy_others w (sy_calls w)) (sy_db w)"
    obtain op where "sy_db w' = perform (sy_store w) (sy_engines w (sy_calls w)) op ?db" "sy_store w' = sy_store w"
      using run assms [of "sy_store w" "sy_engines w (sy_calls w)" ?db]
      by (auto simp: store_call_def Let_def split: prod.splits)
    then have "runs (sy_store w) (sy_db w) (sy_db w')" "sy_store w' = sy_store w"
      using runs_step [OF runs_others] by simp_all
    with ok show ?thesis
      using runs_reachable runs_entries by (auto simp: file_ok_def)
  qed
  then show ?thesis unfolding grows_def by blast
qed

lemma outside_call_grows: "grows file_ok (\<lambda>w. file_entries (sy_db w)) (outside_call f)"
  by (auto simp: grows_def outside_call_def file_ok_def)

lemma claim_call_commits:
  assumes "file_ok w" "run_state (store_call (\<lambda>s en. ClaimAndArm s en c)) w = ((res, None), w')"
    and "cx_outcome res = ClaimNewlyCommitted"
  shows "fresh_entry (claim_entry c) (file_entries (sy_db w)) \<and> claim_entry c \<in> file_entries (sy_db w')"
proof -
  let ?s = "sy_store w" and ?en = "sy_engines w (sy_calls w)"
  define db where "db = others_act ?s (sy_others w (sy_calls w)) (sy_db w)"
  have reach: "reachable ?s (sy_db w)" "reachable ?s db"
    using assms(1) runs_reachable [OF runs_others] by (auto simp: file_ok_def db_def)
  have call: "ClaimAndArm ?s ?en c db = ((res, None), sy_db w')"
    using assms(2) by (auto simp: store_call_def Let_def db_def split: prod.splits)
  have "AuthorizesInvocation res" using assms(3) by (simp add: AuthorizesInvocation_def)
  note commit = authorized_commit [OF reach(2) call this] authorized_claim_body [OF call this]
  have tables: "db_tables (sy_db w') = arm_effect c (db_tables db)" using commit(1) by simp
  have "schedules_ok (db_tables db)"
    using reachable_store_ok [OF reach(2)] by (simp add: store_ok_def tables_ok_def)
  then have "insert_occurrence (armed_row c) (db_tables db)
      = Inr ((db_tables db)\<lparr>tb_occurrences := tb_occurrences (db_tables db) @ [armed_row c]\<rparr>)"
    using commit(2) armOccurrence_Inr by blast
  then have "fresh_entry (claim_entry c) (file_entries db)"
    by (auto simp: insert_occurrence_Inr fresh_entry_def claim_entry_def file_entries_def row_entry_def armed_row_def)
  moreover have "file_entries (sy_db w) \<subseteq> file_entries db"
    using runs_entries [OF runs_others reach(1)] by (simp add: db_def)
  ultimately have "fresh_entry (claim_entry c) (file_entries (sy_db w))"
    by (fastforce simp: fresh_entry_def)
  moreover have "claim_entry c \<in> file_entries (sy_db w')"
    by (simp add: file_entries_def tables arm_effect_def claim_entry_def row_entry_def armed_row_def)
  ultimately show ?thesis by simp
qed

interpretation system: claim_ledger "sqlite_port env" file_ok "\<lambda>w. file_entries (sy_db w)" for env
proof unfold_locales
  show "grows file_ok (\<lambda>w. file_entries (sy_db w)) (pt_get_schedule (sqlite_port env) i)" for i
    unfolding sqlite_port_def port.simps by (rule store_call_grows) (metis perform.simps(2))
  show "grows file_ok (\<lambda>w. file_entries (sy_db w)) (pt_list (sqlite_port env) page)" for page
    unfolding sqlite_port_def port.simps by (rule store_call_grows) (metis perform.simps(3))
  show "grows file_ok (\<lambda>w. file_entries (sy_db w)) (pt_claim (sqlite_port env) c)" for c
    unfolding sqlite_port_def port.simps by (rule store_call_grows) (metis perform.simps(5))
  show "grows file_ok (\<lambda>w. file_entries (sy_db w)) (pt_observe (sqlite_port env) r)" for r
    unfolding sqlite_port_def port.simps by (rule store_call_grows) (metis perform.simps(6))
  show "grows file_ok (\<lambda>w. file_entries (sy_db w)) (pt_release (sqlite_port env) r)" for r
    unfolding sqlite_port_def port.simps by (rule store_call_grows) (metis perform.simps(7))
  show "grows file_ok (\<lambda>w. file_entries (sy_db w)) (pt_skip (sqlite_port env) k)" for k
    unfolding sqlite_port_def port.simps by (rule store_call_grows) (metis perform.simps(8))
  show "grows file_ok (\<lambda>w. file_entries (sy_db w)) (pt_get_occurrence (sqlite_port env) i)" for i
    unfolding sqlite_port_def port.simps by (rule store_call_grows) (metis perform.simps(9))
  show "grows file_ok (\<lambda>w. file_entries (sy_db w)) (pt_active (sqlite_port env) page)" for page
    unfolding sqlite_port_def port.simps by (rule store_call_grows) (metis perform.simps(11))
next
  fix w c res w'
  assume "file_ok w" "run_state (pt_claim (sqlite_port env) c) w = ((res, None), w')"
    "cx_outcome res = ClaimNewlyCommitted"
  then show "fresh_entry (claim_entry c) (file_entries (sy_db w)) \<and> claim_entry c \<in> file_entries (sy_db w')"
    using claim_call_commits by (simp add: sqlite_port_def)
qed (simp_all add: sqlite_port_def outside_call_grows)

end
