(* ===== verification/Runtime_Properties.thy ===== *)
theory Runtime_Properties
  imports Sched_System Sched_Sample
begin

text \<open>
  The properties of the scheduler's loop, alone for any port and over the SQLite store.
\<close>

section \<open>A sample system\<close>

definition sample_system :: system where
  "sample_system = \<lparr>sy_store = sample_store, sy_db = sample_db1, sy_calls = 0,
     sy_engines = (\<lambda>_. healthy_engine), sy_others = (\<lambda>_. []), sy_clock = (\<lambda>_. utc_time 1),
     sy_context = (\<lambda>_. None), sy_ids = (\<lambda>_. Inr sample_task)\<rparr>"

definition hourly_env :: recurrence_env where
  "hourly_env = \<lparr>re_zone = (\<lambda>_. Inl (Opaque ''no zones'')), re_cron = None\<rparr>"

abbreviation sample_port :: "system port" where
  "sample_port \<equiv> sqlite_port hourly_env"

lemma sample_system_ok: "file_ok sample_system"
  using sample_reachable1 by (simp add: file_ok_def sample_system_def)

lemma sample_starts: "\<exists>s. run_start sample_port sample_system = (Top, s) \<and> lp_workers (rt_loop s) = []
    \<and> lp_results (rt_loop s) = [] \<and> sy_calls (rt_world s) = 1 \<and> sy_context (rt_world s) = (\<lambda>_. None)"
proof -
  have "ValidateInstant ''scheduler startup'' (to_utc (utc_time 1)) = None"
    by (simp add: go_check valid_instant_def int64_def min_int64_def max_int64_def)
  then show ?thesis
    by (simp add: run_start_def sqlite_port_def outside_call_def sample_system_def new_loop_def event_def)
qed

section \<open>Dispatch\<close>

text \<open>C1: Over the SQLite store, whatever the driver, the clock and the other processes do and however
  the goroutines interleave, a run of the loop never starts two dispatches with one task id, nor two
  for one due time of one schedule, and every dispatch it started is an occurrence committed in the
  file.\<close>

theorem dispatches_at_most_once:
  assumes "file_ok w" "rt_reach (sqlite_port env) w (ph, s)"
  shows "at_most_once (dispatches (lp_started (rt_loop s)))
    \<and> set (dispatches (lp_started (rt_loop s))) \<subseteq> file_entries (sy_db (rt_world s))"
  using system.dispatched_once [OF assms(2,1)] by simp

theorem dispatches_at_most_once_witness:
  "at_most_once (dispatches (lp_started (rt_loop (snd (run_start sample_port sample_system)))))"
  using dispatches_at_most_once [OF sample_system_ok, of hourly_env "fst (run_start sample_port sample_system)"]
    reach_start by (metis prod.collapse)

text \<open>C19: The loop's accounts are exact: at every moment its running goroutines and pending results are
  one dispatch for each live task and one observation of the reconciling task if there is one, at
  most four admissions are open, no task is dispatched and observed at once, and a goroutine that
  ends always finds room in the result channel.\<close>

theorem admissions_are_bounded:
  assumes "rt_reach p w (ph, s)"
  shows "length (lp_workers (rt_loop s)) + length (lp_results (rt_loop s)) \<le> result_capacity
    \<and> (running ph \<longrightarrow>
        lp_admissions (rt_loop s) = int (card (lp_live (rt_loop s))) \<and> lp_admissions (rt_loop s) \<le> 4
        \<and> lp_reconciling (rt_loop s) \<notin> lp_live (rt_loop s)
        \<and> outstanding (lp_workers (rt_loop s)) (lp_results (rt_loop s))
          = mset_set (Pair True ` lp_live (rt_loop s))
            + (if lp_reconciling (rt_loop s) = [] then {#} else {#(False, lp_reconciling (rt_loop s))#}))"
  using rt_reach_config_ok [OF assms]
  by (auto simp: config_ok_def core_def channel_fits_def books.simps AdmissionLimit_def)

theorem admissions_are_bounded_witness:
  "length (lp_workers (rt_loop (snd (run_start sample_port sample_system)))) \<le> result_capacity"
proof -
  obtain s where s: "run_start sample_port sample_system = (Top, s)" using sample_starts by blast
  have "rt_reach sample_port sample_system (Top, s)" using reach_start [of sample_port sample_system] by (simp add: s)
  from conjunct1 [OF admissions_are_bounded [OF this]] show ?thesis by (simp add: s)
qed



section \<open>Decisions\<close>

text \<open>C21: A tick claims only a due time that the recurrence names after the cursor, later than the
  loop's start, and less than five seconds past; it waits exactly when the schedule has an active
  occurrence, and otherwise only claims with an admission free.\<close>

theorem ticks_claim_only_in_window:
  assumes "decideTick next_time i = Inr (TickDue due hold)"
  shows "next_time (dh_cron (sm_header (ti_summary i))) (dh_timezone (sm_header (ti_summary i)))
      (sm_cursor (ti_summary i)) = Inr due
    \<and> sm_state (ti_summary i) = StateEnabled
    \<and> t_ns (ti_startup i) < t_ns due
    \<and> t_ns due \<le> t_ns (ti_now i) \<and> t_ns (ti_now i) < t_ns due + 5 * ns_per_second
    \<and> hold = (ti_active i \<noteq> None) \<and> (hold \<or> ti_available i)"
  using decideTick_due [OF assms] by (auto simp: in_window_def before_def after_def ClaimWindow_def)

definition sample_tick :: "go_time \<Rightarrow> tick_input" where
  "sample_tick now = \<lparr>ti_summary = \<lparr>sm_header = df_header sample_definition,
       sm_digests = row_digests sample_row, sm_brief_length = 2, sm_state = StateEnabled, sm_cursor = utc_time 0\<rparr>,
     ti_startup = utc_time 0, ti_now = now, ti_held = zero_time, ti_active = None, ti_available = True\<rparr>"

lemma sample_decision:
  "decideTick (\<lambda>_ _ t. Inr (add_ns t 7)) (sample_tick (utc_time 9)) = Inr (TickDue (utc_time 7) False)"
  by (simp add: decideTick_def sample_tick_def Let_def before_def after_def add_ns_def utc_time_def
      ClaimWindow_def ns_per_second_def)

theorem ticks_claim_only_in_window_witness:
  "t_ns (ti_startup (sample_tick (utc_time 9))) < 7 \<and> (7 :: int) \<le> t_ns (ti_now (sample_tick (utc_time 9)))"
  using ticks_claim_only_in_window [OF sample_decision] by simp

text \<open>C22: A tick never gives up a due time that could still be claimed: the span it skips starts at
  the cursor, goes forward, contains the next due time, and ends at the loop's start, at least five
  seconds before now, or, when no admission is free, at the due time itself.\<close>

theorem ticks_skip_only_the_missed:
  assumes "decideTick next_time i = Inr (TickSkip sp)"
    and "next_time (dh_cron (sm_header (ti_summary i))) (dh_timezone (sm_header (ti_summary i)))
      (sm_cursor (ti_summary i)) = Inr due" "t_ns (sm_cursor (ti_summary i)) < t_ns due"
  shows "sp_from sp = sm_cursor (ti_summary i) \<and> t_ns (sp_from sp) < t_ns due \<and> t_ns due \<le> t_ns (sp_to sp)
    \<and> (sp_to sp = ti_startup i
       \<or> t_ns (sp_to sp) + 5 * ns_per_second \<le> t_ns (ti_now i)
       \<or> sp_to sp = due \<and> sp_reason sp = SkipMissedCapacity \<and> ti_active i = None \<and> \<not> ti_available i)"
  using assms
  by (auto simp: decideTick_def Let_def skippedTick_def before_def after_def same_instant_def ClaimWindow_def
      split: if_splits)

theorem ticks_skip_only_the_missed_witness:
  "\<exists>sp. decideTick (\<lambda>_ _ t. Inr (add_ns t 7)) (sample_tick (utc_time (9 * ns_per_second))) = Inr (TickSkip sp)
     \<and> t_ns (sp_to sp) = 4 * ns_per_second"
proof -
  obtain sp where sp: "decideTick (\<lambda>_ _ t. Inr (add_ns t 7)) (sample_tick (utc_time (9 * ns_per_second))) = Inr (TickSkip sp)"
      "t_ns (sp_to sp) = 4 * ns_per_second"
    by (simp add: decideTick_def sample_tick_def Let_def before_def after_def add_ns_def utc_time_def
        ClaimWindow_def ns_per_second_def skippedTick_def same_instant_def zero_time_def)
  from ticks_skip_only_the_missed [OF this(1)] sp show ?thesis by blast
qed

section \<open>Errors\<close>

text \<open>\<open>onlyCauses\<close> holds exactly when every leaf of the error graph is one of the allowed
  sentinels and no join in it is empty: an unexpected cause is never hidden by an expected one.\<close>

lemma only_causes_are_leaves:
  "onlyCauses (Some e) allowed \<longleftrightarrow> no_empty_join e \<and> set (leaves e) \<subseteq> Leaf ` set allowed"
proof -
  have "only_causes allowed e \<longleftrightarrow> no_empty_join e \<and> set (leaves e) \<subseteq> Leaf ` set allowed"
    by (induction e) (auto simp: list_all_iff list_ex_iff)
  then show ?thesis by (simp add: onlyCauses_def)
qed

text \<open>What \<open>errors.Join\<close> of two errors is, and what joining the reports of a list of results gives.\<close>

lemma errors_join_two [simp]:
  "errors_join [a, b] = None \<longleftrightarrow> a = None \<and> b = None"
  "error_is (errors_join [a, b]) k \<longleftrightarrow> error_is a k \<or> error_is b k"
  by (cases a; cases b; simp add: errors_join_def map_filter_simps)+

definition fatal_cause :: "error option \<Rightarrow> bool" where
  "fatal_cause e = (error_is e ErrRootIdentity \<or> error_is e ErrTaskCleanupUnresolved)"

lemma reportTaskError_causes:
  assumes "run_state (reportTaskError x) s = (e, s')"
  shows "(e = None \<longleftrightarrow> \<not> fatal_cause (tr_err x)) \<and> (error_is e k \<longleftrightarrow> fatal_cause (tr_err x) \<and> error_is (tr_err x) k)"
  using assms
  by (cases "tr_err x") (auto simp: reportTaskError_def storeError_def fatal_cause_def split: prod.splits if_splits)

lemma settle_results_causes:
  "run_state (settle_results rs faults) s = (r, s') \<Longrightarrow>
     (r = None \<longleftrightarrow> faults = None \<and> (\<forall>x \<in> set rs. \<not> fatal_cause (tr_err x)))
     \<and> (error_is r k \<longleftrightarrow> error_is faults k \<or> (\<exists>x \<in> set rs. fatal_cause (tr_err x) \<and> error_is (tr_err x) k))"
proof (induction rs arbitrary: faults s)
  case (Cons x rs)
  obtain e s1 where e: "run_state (reportTaskError x) s = (e, s1)" by fastforce
  then have "run_state (settle_results rs (errors_join [faults, e])) s1 = (r, s')" using Cons.prems by simp
  from Cons.IH [OF this] reportTaskError_causes [OF e, of k] show ?case by auto
qed simp

text \<open>At shutdown the loop drops no fatal error and invents none: the joined faults are nil exactly
  when no result left in the channel names a changed root or unresolved cleanup, and otherwise
  have exactly the causes of the results that do.\<close>

theorem shutdown_keeps_fatal_errors:
  assumes "run_state settledErrors s = (r, s')"
  shows "(r = None \<longleftrightarrow> (\<forall>x \<in> set (lp_results (rt_loop s)).
        \<not> error_is (tr_err x) ErrRootIdentity \<and> \<not> error_is (tr_err x) ErrTaskCleanupUnresolved))
    \<and> (\<forall>k. error_is r k \<longleftrightarrow> (\<exists>x \<in> set (lp_results (rt_loop s)).
        (error_is (tr_err x) ErrRootIdentity \<or> error_is (tr_err x) ErrTaskCleanupUnresolved)
        \<and> error_is (tr_err x) k))"
proof -
  obtain s1 where "run_state (settle_results (lp_results (rt_loop s)) None) s1 = (r, s')"
    using assms by (auto simp: settledErrors_def)
  from settle_results_causes [OF this] show ?thesis by (simp add: fatal_cause_def)
qed

definition sample_report :: task_result where
  "sample_report = \<lparr>tr_occurrence = \<lparr>oc_task_id = sample_task, oc_schedule_id = sample_id, oc_due = utc_time 1,
       oc_armed_at = utc_time 2, oc_observation = None, oc_release = None\<rparr>,
     tr_state = \<lparr>ts_observation = \<lparr>ob_observed_at = zero_time, ob_admission = AdmissionUnknown,
         ob_liveness = LivenessUndetermined, ob_publication = PublicationUnknown, ob_outcome_sha256 = [],
         ob_fault_code = []\<rparr>, ts_release = None\<rparr>,
     tr_err = Some (Leaf ErrRootIdentity), tr_dispatch = True\<rparr>"

theorem shutdown_keeps_fatal_errors_witness:
  "error_is (fst (run_state settledErrors
     \<lparr>rt_loop = (new_loop (utc_time 0))\<lparr>lp_results := [sample_report]\<rparr>, rt_world = sample_system\<rparr>)) ErrRootIdentity"
  using shutdown_keeps_fatal_errors
    [of "\<lparr>rt_loop = (new_loop (utc_time 0))\<lparr>lp_results := [sample_report]\<rparr>, rt_world = sample_system\<rparr>", OF surjective_pairing]
  by (simp add: sample_report_def)

end
