(* ===== verification/Go_Float.thy ===== *)
theory Go_Float
  imports Complex_Main Prelude "HOL-Library.Word"
begin

text \<open>
  Go's \<open>float64\<close>: the finite values are rationals, the result of an operation is the exact one rounded
  to the nearest value of 53 significant bits, ties to even, as IEEE 754 has it. Zero has no sign: no
  modelled code divides by zero or looks at the sign of one.
\<close>

section \<open>Rounding\<close>

fun log2_nat :: "nat \<Rightarrow> nat" where
  "log2_nat n = (if n < 2 then 0 else Suc (log2_nat (n div 2)))"

declare log2_nat.simps [simp del]

lemma log2_nat_bounds: "0 < n \<Longrightarrow> 2 ^ log2_nat n \<le> n \<and> n < 2 ^ Suc (log2_nat n)"
proof (induction n rule: log2_nat.induct)
  case (1 n)
  show ?case
  proof (cases "n < 2")
    case True
    then show ?thesis using "1.prems" by (simp add: log2_nat.simps [of n])
  next
    case False
    then have "2 ^ log2_nat (n div 2) \<le> n div 2 \<and> n div 2 < 2 ^ Suc (log2_nat (n div 2))"
      using "1.IH" by simp
    then show ?thesis using False by (simp add: log2_nat.simps [of n]) linarith
  qed
qed

lemma log2_int_bounds:
  assumes "0 < n"
  shows "2 ^ log2_nat (nat n) \<le> n \<and> n < 2 ^ Suc (log2_nat (nat n))"
proof -
  obtain m where m: "n = int m" "0 < m" using assms by (rule pos_int_cases)
  have "int (2 ^ log2_nat m) \<le> int m" "int m < int (2 ^ Suc (log2_nat m))"
    using log2_nat_bounds [OF m(2)] by (simp_all only: of_nat_le_iff of_nat_less_iff)
  then show ?thesis by (simp add: m)
qed

text \<open>The exponent of the leading bit of a positive rational.\<close>

definition exponent :: "rat \<Rightarrow> int" where
  "exponent x = (case quotient_of x of (n, d) \<Rightarrow>
     (let e = int (log2_nat (nat n)) - int (log2_nat (nat d)) in if 2 powi e \<le> x then e else e - 1))"

lemma exponent_bounds:
  assumes "0 < x"
  shows "2 powi exponent x \<le> x" "x < 2 powi (exponent x + 1)"
proof -
  obtain n d where q: "quotient_of x = (n, d)" by fastforce
  have d: "0 < d" and x: "x = of_int n / of_int d"
    using quotient_of_denom_pos [OF q] quotient_of_div [OF q] by auto
  have n: "0 < n" using assms d by (simp add: x zero_less_divide_iff)
  define a where "a = log2_nat (nat n)"
  define b where "b = log2_nat (nat d)"
  have bn: "2 ^ a \<le> n" "n < 2 ^ Suc a" and bd: "2 ^ b \<le> d" "d < 2 ^ Suc b"
    using log2_int_bounds n d unfolding a_def b_def by blast+
  have rn: "(2::rat) ^ a \<le> of_int n" "of_int n < (2::rat) ^ Suc a"
    using bn by (metis of_int_le_iff of_int_numeral of_int_power, metis of_int_less_iff of_int_numeral of_int_power)
  have rd: "(2::rat) ^ b \<le> of_int d" "of_int d < (2::rat) ^ Suc b"
    using bd by (metis of_int_le_iff of_int_numeral of_int_power, metis of_int_less_iff of_int_numeral of_int_power)
  have pos: "(0::rat) < of_int d" using d by simp
  have upper: "x < 2 powi (int a - int b + 1)"
  proof -
    have "x < 2 ^ Suc a / of_int d" using rn pos by (simp add: x divide_strict_right_mono)
    also have "\<dots> \<le> 2 ^ Suc a / 2 ^ b" using rd by (simp add: frac_le)
    also have "\<dots> = 2 powi (int a - int b + 1)" by (simp add: power_int_diff power_int_add)
    finally show ?thesis .
  qed
  have lower: "2 powi (int a - int b - 1) < x"
  proof -
    have "2 powi (int a - int b - 1) = (2 ^ a / 2 ^ Suc b :: rat)" by (simp add: power_int_diff)
    also have "\<dots> < 2 ^ a / of_int d" using rd pos by (simp add: frac_less2)
    also have "\<dots> \<le> x" using rn pos by (simp add: x divide_right_mono)
    finally show ?thesis .
  qed
  have e: "exponent x = (if 2 powi (int a - int b) \<le> x then int a - int b else int a - int b - 1)"
    by (simp add: exponent_def q a_def b_def Let_def)
  show "2 powi exponent x \<le> x" using lower by (simp add: e less_imp_le)
  show "x < 2 powi (exponent x + 1)" using upper by (auto simp: e)
qed

lemma exponent_mono: "0 < x \<Longrightarrow> x \<le> y \<Longrightarrow> exponent x \<le> exponent y"
proof (rule ccontr)
  assume xy: "0 < x" "x \<le> y" "\<not> exponent x \<le> exponent y"
  have "y < 2 powi (exponent y + 1)" using exponent_bounds(2) [of y] xy by simp
  also have "\<dots> \<le> 2 powi exponent x" using xy by (intro power_int_increasing) auto
  also have "\<dots> \<le> x" using exponent_bounds(1) xy by simp
  finally show False using xy by simp
qed

text \<open>The nearest integer, the even one of two.\<close>

definition round_even :: "rat \<Rightarrow> int" where
  "round_even x = (let f = \<lfloor>x\<rfloor>; r = x - of_int f in
     if r < 1/2 then f else if 1/2 < r then f + 1 else if even f then f else f + 1)"

lemma round_even_int [simp]: "round_even (of_int k) = k"
  by (simp add: round_even_def)

lemma round_even_near: "x - 1/2 \<le> of_int (round_even x)" "of_int (round_even x) \<le> x + 1/2"
  by (simp_all add: round_even_def Let_def) linarith+

lemma round_even_mono:
  assumes "x \<le> y"
  shows "round_even x \<le> round_even y"
proof (cases "\<lfloor>x\<rfloor> = \<lfloor>y\<rfloor>")
  case True
  then show ?thesis using assms by (auto simp: round_even_def Let_def)
next
  case False
  then have "\<lfloor>x\<rfloor> + 1 \<le> \<lfloor>y\<rfloor>" using floor_mono [OF assms] by simp
  moreover have "round_even x \<le> \<lfloor>x\<rfloor> + 1" "\<lfloor>y\<rfloor> \<le> round_even y" by (simp_all add: round_even_def Let_def)
  ultimately show ?thesis by simp
qed

lemma of_int_pow:
  "k \<le> 2 ^ n \<Longrightarrow> (of_int k :: rat) \<le> 2 ^ n"
  "k < 2 ^ n \<Longrightarrow> (of_int k :: rat) < 2 ^ n"
  by (metis of_int_le_iff of_int_numeral of_int_power) (metis of_int_less_iff of_int_numeral of_int_power)

text \<open>A positive rational to 53 bits: the quantum is that of its exponent, at least the smallest subnormal.\<close>

definition quantum :: "rat \<Rightarrow> rat" where
  "quantum x = 2 powi (max (exponent x) (-1022) - 52)"

definition round_pos :: "rat \<Rightarrow> rat" where
  "round_pos x = of_int (round_even (x / quantum x)) * quantum x"

lemma quantum_pos [simp]: "0 < quantum x" "quantum x \<noteq> 0"
  by (simp_all add: quantum_def)

lemma round_pos_exact:
  assumes "x / quantum x = of_int k"
  shows "round_pos x = x"
proof -
  have "round_pos x = x / quantum x * quantum x" by (simp add: round_pos_def assms)
  then show ?thesis by simp
qed

lemma round_pos_mono:
  assumes "0 < x" "x \<le> y"
  shows "round_pos x \<le> round_pos y"
proof (cases "quantum x = quantum y")
  case True
  have "x / quantum y \<le> y / quantum y" using assms by (simp add: divide_right_mono less_imp_le)
  then show ?thesis using True round_even_mono by (simp add: round_pos_def)
next
  case False
  define a where "a = max (exponent x) (-1022)"
  define b where "b = max (exponent y) (-1022)"
  have q: "quantum x = 2 powi (a - 52)" "quantum y = 2 powi (b - 52)" by (simp_all add: quantum_def a_def b_def)
  have ab: "a + 1 \<le> b"
    using exponent_mono [OF assms] False unfolding q
    by (cases "exponent x = exponent y") (auto simp: a_def b_def max_def split: if_splits)
  then have b: "b = exponent y" by (auto simp: b_def a_def max_def split: if_splits)
  have "x < 2 powi (exponent x + 1)" using exponent_bounds(2) assms by blast
  also have "\<dots> \<le> 2 powi (a + 1)" by (intro power_int_increasing) (auto simp: a_def)
  also have "\<dots> = 2 ^ 53 * quantum x" by (simp add: q power_int_add power_int_diff)
  finally have "x / quantum x \<le> of_int (2 ^ 53)" by (simp add: field_simps)
  then have "round_even (x / quantum x) \<le> 2 ^ 53" using round_even_mono round_even_int by metis
  then have "round_pos x \<le> 2 ^ 53 * quantum x" by (simp add: round_pos_def)
  also have "\<dots> = 2 powi (a + 1)" by (simp add: q power_int_add power_int_diff)
  also have "\<dots> \<le> 2 powi b" using ab by (intro power_int_increasing) auto
  also have "\<dots> = 2 ^ 52 * quantum y" by (simp add: q power_int_diff)
  also have "\<dots> \<le> round_pos y"
  proof -
    have "2 powi b \<le> y" using exponent_bounds(1) [of y] assms by (simp add: b)
    then have "of_int (2 ^ 52) \<le> y / quantum y" by (simp add: q power_int_diff field_simps)
    then have "2 ^ 52 \<le> round_even (y / quantum y)" using round_even_mono round_even_int by metis
    then show ?thesis by (simp add: round_pos_def)
  qed
  finally show ?thesis .
qed

text \<open>Between a power of two and the next, rounding moves a value by at most one part in \<open>2 ^ 53\<close>.\<close>

lemma round_pos_near:
  assumes "0 < x" "-1022 \<le> exponent x"
  shows "x * (1 - 1 / 2 ^ 53) \<le> round_pos x" "round_pos x \<le> x * (1 + 1 / 2 ^ 53)"
proof -
  have q: "quantum x = 2 powi exponent x / 2 ^ 52" using assms by (simp add: quantum_def power_int_diff)
  then have qx: "quantum x / 2 \<le> x / 2 ^ 53" using exponent_bounds(1) [OF assms(1)] by simp
  have "(x / quantum x - 1/2) * quantum x \<le> round_pos x" "round_pos x \<le> (x / quantum x + 1/2) * quantum x"
    unfolding round_pos_def by (intro mult_right_mono round_even_near; simp add: less_imp_le)+
  then have "x - quantum x / 2 \<le> round_pos x" "round_pos x \<le> x + quantum x / 2"
    by (simp_all add: algebra_simps)
  with qx show "x * (1 - 1 / 2 ^ 53) \<le> round_pos x" "round_pos x \<le> x * (1 + 1 / 2 ^ 53)"
    by (simp_all add: algebra_simps)
qed

lemma round_pos_int:
  assumes "0 < k" "k \<le> 2 ^ 53"
  shows "round_pos (of_int k) = of_int k"
proof -
  define e where "e = exponent (of_int k)"
  have k: "2 powi e \<le> (of_int k :: rat)" "of_int k < (2 :: rat) powi (e + 1)"
    using exponent_bounds [of "of_int k"] assms by (simp_all add: e_def)
  have "(2::rat) powi 0 \<le> of_int k" using assms by simp
  then have "(2::rat) powi 0 < 2 powi (e + 1)" using k(2) by simp
  then have e0: "0 \<le> e" using power_int_increasing [of "e + 1" 0 "2::rat"] by (cases "0 \<le> e") auto
  have "(2::rat) powi e \<le> 2 ^ 53" using k(1) assms(2) by (metis of_int_le_iff of_int_numeral of_int_power order_trans)
  then have e53: "e \<le> 53" using power_int_strict_increasing [of 53 e "2::rat"] by (cases "e \<le> 53") auto
  have q: "quantum (of_int k) = 2 powi (e - 52)" using e0 by (simp add: quantum_def e_def)
  show ?thesis
  proof (cases "e = 53")
    case True
    then have "k = 2 ^ 53" using k(1) assms(2) by simp
    moreover have "quantum (of_int k) = 2" by (simp add: q True)
    ultimately have "of_int k / quantum (of_int k) = of_int (2 ^ 52)" by simp
    then show ?thesis by (rule round_pos_exact)
  next
    case False
    then have "of_int k / quantum (of_int k) = of_int (k * 2 ^ nat (52 - e))"
      using e53 e0 by (simp add: q power_int_diff power_int_def power_diff field_simps)
    then show ?thesis by (rule round_pos_exact)
  qed
qed

section \<open>Values and operations\<close>

datatype float64 = NotANumber | Infinite bool | Finite rat

definition round64 :: "rat \<Rightarrow> float64" where
  "round64 x =
     (if x = 0 then Finite 0
      else let r = round_pos \<bar>x\<bar> in
        if 2 ^ 1024 \<le> r then Infinite (x < 0) else Finite (if x < 0 then - r else r))"

text \<open>Conversions of \<open>uint64\<close> and of \<open>int64\<close>.\<close>

definition f_uint64 :: "64 word \<Rightarrow> float64" where "f_uint64 w = round64 (of_int (uint w))"

definition f_int :: "int \<Rightarrow> float64" where "f_int k = round64 (of_int k)"

fun f_neg :: "float64 \<Rightarrow> float64" where
  "f_neg NotANumber = NotANumber"
| "f_neg (Infinite n) = Infinite (\<not> n)"
| "f_neg (Finite x) = Finite (- x)"

fun f_add :: "float64 \<Rightarrow> float64 \<Rightarrow> float64" where
  "f_add (Finite x) (Finite y) = round64 (x + y)"
| "f_add (Infinite m) (Infinite n) = (if m = n then Infinite m else NotANumber)"
| "f_add (Infinite m) (Finite y) = Infinite m"
| "f_add (Finite x) (Infinite n) = Infinite n"
| "f_add _ _ = NotANumber"

definition f_sub :: "float64 \<Rightarrow> float64 \<Rightarrow> float64" where "f_sub a b = f_add a (f_neg b)"

fun f_mul :: "float64 \<Rightarrow> float64 \<Rightarrow> float64" where
  "f_mul (Finite x) (Finite y) = round64 (x * y)"
| "f_mul (Infinite m) (Infinite n) = Infinite (m \<noteq> n)"
| "f_mul (Infinite m) (Finite y) = (if y = 0 then NotANumber else Infinite (m \<noteq> (y < 0)))"
| "f_mul (Finite x) (Infinite n) = (if x = 0 then NotANumber else Infinite ((x < 0) \<noteq> n))"
| "f_mul _ _ = NotANumber"

fun f_div :: "float64 \<Rightarrow> float64 \<Rightarrow> float64" where
  "f_div (Finite x) (Finite y) =
     (if y \<noteq> 0 then round64 (x / y) else if x = 0 then NotANumber else Infinite (x < 0))"
| "f_div (Infinite m) (Infinite n) = NotANumber"
| "f_div (Infinite m) (Finite y) = Infinite (m \<noteq> (y < 0))"
| "f_div (Finite x) (Infinite n) = Finite 0"
| "f_div _ _ = NotANumber"

text \<open>Comparisons: every one with a NaN is false.\<close>

fun f_le :: "float64 \<Rightarrow> float64 \<Rightarrow> bool" where
  "f_le (Finite x) (Finite y) \<longleftrightarrow> x \<le> y"
| "f_le (Infinite m) (Infinite n) \<longleftrightarrow> m \<or> \<not> n"
| "f_le (Infinite m) (Finite y) \<longleftrightarrow> m"
| "f_le (Finite x) (Infinite n) \<longleftrightarrow> \<not> n"
| "f_le _ _ \<longleftrightarrow> False"

definition f_lt :: "float64 \<Rightarrow> float64 \<Rightarrow> bool" where "f_lt a b \<longleftrightarrow> f_le a b \<and> \<not> f_le b a"

definition f_eq :: "float64 \<Rightarrow> float64 \<Rightarrow> bool" where "f_eq a b \<longleftrightarrow> f_le a b \<and> f_le b a"

text \<open>The builtin \<open>min\<close>.\<close>

definition f_min :: "float64 \<Rightarrow> float64 \<Rightarrow> float64" where
  "f_min a b = (if a = NotANumber \<or> b = NotANumber then NotANumber else if f_le a b then a else b)"

fun f_finite :: "float64 \<Rightarrow> bool" where
  "f_finite (Finite x) = True"
| "f_finite _ = False"

section \<open>Integers and their quotients\<close>

lemma round64_int:
  assumes "0 \<le> k" "k \<le> 2 ^ 53"
  shows "round64 (of_int k) = Finite (of_int k)"
proof (cases "k = 0")
  case False
  have "(of_int k :: rat) \<le> 2 ^ 53" using assms(2) by (metis of_int_le_iff of_int_numeral of_int_power)
  also have "\<dots> < 2 ^ 1024" by (intro power_strict_increasing) auto
  finally show ?thesis using False assms round_pos_int [of k] by (simp add: round64_def)
qed (simp add: round64_def)

lemma f_int_exact: "0 \<le> k \<Longrightarrow> k \<le> 2 ^ 53 \<Longrightarrow> f_int k = Finite (of_int k)"
  by (simp add: f_int_def round64_int)

lemma f_uint64_exact: "uint w \<le> 2 ^ 53 \<Longrightarrow> f_uint64 w = Finite (of_int (uint w))"
  unfolding f_uint64_def by (rule round64_int) simp_all

lemma exponent_ge: "0 < x \<Longrightarrow> 2 powi m \<le> x \<Longrightarrow> m \<le> exponent x"
proof (rule ccontr)
  assume x: "0 < x" "2 powi m \<le> x" "\<not> m \<le> exponent x"
  have "x < 2 powi (exponent x + 1)" using exponent_bounds(2) x by blast
  also have "\<dots> \<le> 2 powi m" using x by (intro power_int_increasing) auto
  finally show False using x by simp
qed

text \<open>A positive value that neither overflows nor is subnormal.\<close>

lemma round64_pos:
  assumes "0 < x" "x \<le> 2 ^ 53"
  shows "round64 x = Finite (round_pos x)"
proof -
  have "round_pos x \<le> round_pos (of_int (2 ^ 53))" using assms by (intro round_pos_mono) simp_all
  also have "\<dots> = 2 ^ 53" using round_pos_int [of "2 ^ 53"] by simp
  also have "\<dots> < 2 ^ 1024" by (intro power_strict_increasing) auto
  finally show ?thesis using assms by (simp add: round64_def)
qed

lemma small_normal:
  assumes "0 < k" "k \<le> 2 ^ 53" "1 / of_int k \<le> (x :: rat)"
  shows "-1022 \<le> exponent x"
proof -
  have k: "0 < (of_int k :: rat)" "(of_int k :: rat) \<le> 2 ^ 53"
    using assms(1) of_int_pow(1) [OF assms(2)] by simp_all
  have "(2 :: rat) powi (- 53) = 1 / 2 ^ 53" by (simp only: power_int_minus power_int_numeral inverse_eq_divide)
  also have "\<dots> \<le> 1 / of_int k" using k by (intro frac_le) simp_all
  also have "\<dots> \<le> x" by (rule assms(3))
  finally have le: "(2 :: rat) powi (- 53) \<le> x" .
  have "0 < 1 / (of_int k :: rat)" using k(1) by simp
  then have "0 < x" using assms(3) by linarith
  from exponent_ge [OF this le] show ?thesis by simp
qed

text \<open>
  Comparing the rounded quotient of two integers with the rounded constant \<open>p/q\<close> is the exact comparison,
  as long as the products stay below \<open>2 ^ 52\<close>.
\<close>

lemma ratio_exact:
  assumes "0 \<le> a" "0 < b" "0 < p" "p \<le> q" "q < 2 ^ 53" "p * b < 2 ^ 52" "a \<le> 2 ^ 53"
  shows "f_le (round64 (of_int p / of_int q)) (f_div (Finite (of_int a)) (Finite (of_int b))) \<longleftrightarrow> p * b \<le> q * a"
proof -
  define x where "x = (of_int a / of_int b :: rat)"
  define t where "t = (of_int p / of_int q :: rat)"
  have q: "0 < q" "q \<le> 2 ^ 53" using assms by simp_all
  have "b \<le> p * b" using mult_right_mono [of 1 p b] assms(2,3) by simp
  then have b: "0 < b" "b < 2 ^ 52" using assms(2,6) by linarith+
  have rq: "0 < (of_int q :: rat)" "0 < (of_int b :: rat)" "0 < (of_int p :: rat)" using q b assms(3) by simp_all
  have t: "0 < t" "t \<le> 1" "1 / of_int q \<le> t"
    using rq assms(3,4) by (simp_all add: t_def divide_right_mono)
  have rt: "round64 t = Finite (round_pos t)" using t by (intro round64_pos) simp_all
  have et: "-1022 \<le> exponent t" using small_normal [OF q t(3)] .
  have near_t: "t * (1 - 1 / 2 ^ 53) \<le> round_pos t" using round_pos_near(1) [OF t(1) et] .
  have div: "f_div (Finite (of_int a)) (Finite (of_int b)) = round64 x" using b by (simp add: x_def)
  have iff: "p * b \<le> q * a \<longleftrightarrow> t \<le> x"
  proof -
    have "t \<le> x \<longleftrightarrow> of_int (p * b) \<le> (of_int (q * a) :: rat)"
      using rq by (simp add: t_def x_def field_simps)
    then show ?thesis by (simp only: of_int_le_iff)
  qed
  show ?thesis
  proof (cases "a = 0")
    case True
    have "0 < t * (1 - 1 / 2 ^ 53)" using t(1) by simp
    then have "0 < round_pos t" using near_t by simp
    moreover have "f_div (Finite (of_int a)) (Finite (of_int b)) = Finite 0"
      using rq by (simp add: div x_def True round64_def)
    moreover have "\<not> p * b \<le> q * a" using True mult_pos_pos [OF assms(3,2)] by simp
    ultimately show ?thesis by (simp add: rt flip: t_def)
  next
    case False
    then have a: "0 < a" using assms(1) by simp
    then have x: "0 < x" "1 / of_int b \<le> x" using rq by (simp_all add: x_def divide_right_mono)
    have "x \<le> of_int a" using a b by (simp add: x_def field_simps)
    also have "\<dots> \<le> 2 ^ 53" using assms(7) by (rule of_int_pow)
    finally have rx: "round64 x = Finite (round_pos x)" using x by (intro round64_pos)
    have ex: "-1022 \<le> exponent x" using small_normal [OF b(1) _ x(2)] b by simp
    have "t \<le> x \<longleftrightarrow> round_pos t \<le> round_pos x"
    proof
      assume "t \<le> x"
      then show "round_pos t \<le> round_pos x" using t(1) by (intro round_pos_mono)
    next
      assume le: "round_pos t \<le> round_pos x"
      show "t \<le> x"
      proof (rule ccontr)
        assume "\<not> t \<le> x"
        then have "q * a + 1 \<le> p * b" using iff by linarith
        then have "(of_int (q * a + 1) :: rat) \<le> of_int (p * b)" by (simp only: of_int_le_iff)
        moreover have "x + 1 / (of_int q * of_int b) = of_int (q * a + 1) / (of_int q * of_int b)"
          using rq by (simp add: x_def add_divide_distrib)
        moreover have "t = of_int (p * b) / (of_int q * of_int b)" using rq by (simp add: t_def)
        ultimately have "x + 1 / (of_int q * of_int b) \<le> t" using rq by (simp only: divide_right_mono mult_pos_pos less_imp_le)
        moreover have "t / 2 ^ 52 < 1 / (of_int q * of_int b)"
        proof -
          have "(of_int (p * b) :: rat) < 2 ^ 52" using assms(6) by (rule of_int_pow)
          then show ?thesis using rq by (simp add: t_def field_simps)
        qed
        ultimately have "x < t * (1 - 1 / 2 ^ 52)" by (simp add: algebra_simps)
        then have "x * (1 + 1 / 2 ^ 53) < t * (1 - 1 / 2 ^ 52) * (1 + 1 / 2 ^ 53)"
          by (intro mult_strict_right_mono) simp_all
        also have "\<dots> = t * ((1 - 1 / 2 ^ 52) * (1 + 1 / 2 ^ 53))" by (rule mult.assoc)
        also have "\<dots> \<le> t * (1 - 1 / 2 ^ 53)" using t(1) by (intro mult_left_mono) simp_all
        finally show False using le near_t round_pos_near(2) [OF x(1) ex] by linarith
      qed
    qed
    then show ?thesis unfolding div rx iff t_def [symmetric] rt by simp
  qed
qed

end
