(* ===== verification/Res_Outcome.thy ===== *)
theory Res_Outcome
  imports Go_Time Go_Float
begin

text \<open>
  \<open>internal/resourceadmission\<close>: the readings of one sampling tick (\<open>sample.go\<close>), the verdict on one
  metric and the sequence of verdicts of a check (\<open>outcome.go\<close>), and the result types of
  \<open>assessment.go\<close>. Byte and time counters are machine words.
\<close>

section \<open>Reasons (\<open>assessment.go\<close>)\<close>

type_synonym reason = string

definition ReasonTargetUnavailable :: reason where "ReasonTargetUnavailable = ''target_unavailable''"
definition ReasonTargetChanged :: reason where "ReasonTargetChanged = ''target_changed''"
definition ReasonScopeUnresolved :: reason where "ReasonScopeUnresolved = ''scope_unresolved''"
definition ReasonCgroupUnsupported :: reason where "ReasonCgroupUnsupported = ''cgroup_unsupported''"
definition ReasonPressureUnavailable :: reason where "ReasonPressureUnavailable = ''pressure_unavailable''"
definition ReasonUnreadable :: reason where "ReasonUnreadable = ''unreadable''"
definition ReasonMalformed :: reason where "ReasonMalformed = ''malformed''"
definition ReasonCounterReset :: reason where "ReasonCounterReset = ''counter_reset''"
definition ReasonNoElapsedTime :: reason where "ReasonNoElapsedTime = ''no_elapsed_time''"
definition ReasonDeadline :: reason where "ReasonDeadline = ''deadline''"
definition ReasonUnsupportedPlatform :: reason where "ReasonUnsupportedPlatform = ''unsupported_platform''"

definition reasonNotApplicable :: reason where "reasonNotApplicable = ''not_applicable''"

lemmas reason_defs = ReasonTargetUnavailable_def ReasonTargetChanged_def ReasonScopeUnresolved_def
  ReasonCgroupUnsupported_def ReasonPressureUnavailable_def ReasonUnreadable_def ReasonMalformed_def
  ReasonCounterReset_def ReasonNoElapsedTime_def ReasonDeadline_def ReasonUnsupportedPlatform_def
  reasonNotApplicable_def

section \<open>Readings (\<open>sample.go\<close>)\<close>

text \<open>
  A reading holds a value when it is ok and a reason when it is not; no code sets both, and none reads
  the value of one that is not ok.
\<close>

datatype 'a reading = Observed 'a | Unobserved reason

definition notApplicable :: "'a reading" where "notApplicable = Unobserved reasonNotApplicable"

fun ok_reading :: "'a reading \<Rightarrow> bool" where
  "ok_reading (Observed x) = True"
| "ok_reading (Unobserved r) = False"

fun skipped :: "'a reading \<Rightarrow> bool" where
  "skipped (Observed x) = False"
| "skipped (Unobserved r) = (r = reasonNotApplicable)"

fun failure :: "'a reading \<Rightarrow> reason" where
  "failure (Observed x) = ReasonUnreadable"
| "failure (Unobserved r) = (if r = [] then ReasonUnreadable else r)"

record cpu_counters =
  cc_busy :: float64
  cc_total :: float64

datatype memory_source = MemorySourceAvailable | MemorySourceVMPressure | MemorySourceOther nat

record host_memory =
  hm_source :: memory_source
  hm_total :: "64 word"
  hm_available :: "64 word"
  hm_vm :: "32 word"

definition vmPressureNormal :: "32 word" where "vmPressureNormal = 1"
definition vmPressureWarning :: "32 word" where "vmPressureWarning = 2"
definition vmPressureCritical :: "32 word" where "vmPressureCritical = 4"

text \<open>An optional byte limit.\<close>

record byte_limit =
  bl_bytes :: "64 word"
  bl_set :: bool

record level_memory =
  lm_max :: byte_limit
  lm_high :: byte_limit
  lm_working_set :: "64 word"

record level_cpu =
  lc_quota_cpus :: float64
  lc_has_quota :: bool
  lc_cpuset_cpus :: int
  lc_usage_us :: "64 word"

record cgroup_level =
  cg_path :: string
  cg_memory :: "level_memory reading"
  cg_cpu :: "level_cpu reading"

record cgroup_sample =
  cs_path :: string
  cs_psi_stall_us :: "64 word reading"
  cs_levels :: "cgroup_level list"
  cs_hidden_ancestors :: bool

record snapshot =
  sn_at :: go_time
  sn_cpu :: "cpu_counters reading"
  sn_memory :: "host_memory reading"
  sn_cgroup :: "cgroup_sample reading"

section \<open>Verdicts (\<open>outcome.go\<close>)\<close>

datatype outcome_state = OutcomeUnknown | OutcomeClear | OutcomeHot | OutcomeCritical | OutcomeSkipped

record outcome =
  ou_state :: outcome_state
  ou_reason :: reason

definition clearOutcome :: outcome where "clearOutcome = \<lparr>ou_state = OutcomeClear, ou_reason = []\<rparr>"
definition hotOutcome :: outcome where "hotOutcome = \<lparr>ou_state = OutcomeHot, ou_reason = []\<rparr>"
definition criticalOutcome :: outcome where "criticalOutcome = \<lparr>ou_state = OutcomeCritical, ou_reason = []\<rparr>"
definition skippedOutcome :: outcome where "skippedOutcome = \<lparr>ou_state = OutcomeSkipped, ou_reason = []\<rparr>"

definition unknownOutcome :: "reason \<Rightarrow> outcome" where
  "unknownOutcome r = \<lparr>ou_state = OutcomeUnknown, ou_reason = r\<rparr>"

definition boolOutcome :: "bool \<Rightarrow> outcome" where
  "boolOutcome hot = (if hot then hotOutcome else clearOutcome)"

lemma outcome_states [simp]:
  "ou_state clearOutcome = OutcomeClear" "ou_state hotOutcome = OutcomeHot"
  "ou_state criticalOutcome = OutcomeCritical" "ou_state skippedOutcome = OutcomeSkipped"
  "ou_state (unknownOutcome r) = OutcomeUnknown"
  "ou_state (boolOutcome b) = (if b then OutcomeHot else OutcomeClear)"
  by (simp_all add: clearOutcome_def hotOutcome_def criticalOutcome_def skippedOutcome_def
      unknownOutcome_def boolOutcome_def)

text \<open>\<open>anyOf\<close>: the accumulator is its \<open>result\<close>.\<close>

fun any_of :: "outcome \<Rightarrow> outcome list \<Rightarrow> outcome" where
  "any_of result [] = result"
| "any_of result (x # xs) = (case ou_state x of
     OutcomeHot \<Rightarrow> hotOutcome
   | OutcomeUnknown \<Rightarrow> any_of (if ou_state result = OutcomeClear then x else result) xs
   | _ \<Rightarrow> any_of result xs)"

definition anyOf :: "outcome list \<Rightarrow> outcome" where "anyOf xs = any_of clearOutcome xs"

definition allOf :: "outcome \<Rightarrow> outcome \<Rightarrow> outcome" where
  "allOf a b =
     (if ou_state a = OutcomeClear \<and> ou_state b = OutcomeUnknown
      then \<lparr>ou_state = OutcomeClear, ou_reason = ou_reason b\<rparr>
      else if ou_state b = OutcomeClear \<and> ou_state a = OutcomeUnknown
      then \<lparr>ou_state = OutcomeClear, ou_reason = ou_reason a\<rparr>
      else if ou_state a = OutcomeClear \<or> ou_state b = OutcomeClear then clearOutcome
      else if ou_state a = OutcomeUnknown then a
      else if ou_state b = OutcomeUnknown then b
      else hotOutcome)"

section \<open>The sequence of a metric's verdicts (\<open>outcome.go\<close>)\<close>

definition requiredStreak :: int where "requiredStreak = 3"

record track =
  tr_seen :: bool
  tr_streak :: int
  tr_critical :: bool
  tr_sustained :: bool
  tr_baseline_hot :: bool
  tr_unknown :: reason

definition new_track :: track where
  "new_track = \<lparr>tr_seen = False, tr_streak = 0, tr_critical = False, tr_sustained = False,
     tr_baseline_hot = False, tr_unknown = []\<rparr>"

definition track_record :: "outcome \<Rightarrow> track \<Rightarrow> track" where
  "track_record x t =
     (if ou_state x = OutcomeSkipped then t
      else let t = t\<lparr>tr_seen := True, tr_baseline_hot := False\<rparr> in
        (case ou_state x of
           OutcomeCritical \<Rightarrow> t\<lparr>tr_critical := True\<rparr>
         | OutcomeHot \<Rightarrow> (let t = t\<lparr>tr_streak := tr_streak t + 1\<rparr> in
             if tr_streak t \<ge> requiredStreak then t\<lparr>tr_sustained := True\<rparr> else t)
         | OutcomeUnknown \<Rightarrow> t\<lparr>tr_streak := 0, tr_unknown := ou_reason x\<rparr>
         | _ \<Rightarrow> (let t = t\<lparr>tr_streak := 0\<rparr> in
             if ou_reason x \<noteq> [] then t\<lparr>tr_unknown := ou_reason x\<rparr> else t)))"

definition track_baseline :: "outcome \<Rightarrow> track \<Rightarrow> track" where
  "track_baseline x t =
     (if ou_state x = OutcomeHot then t\<lparr>tr_seen := True, tr_baseline_hot := True\<rparr>
      else track_record x t)"

definition track_confirmed :: "track \<Rightarrow> bool" where
  "track_confirmed t \<longleftrightarrow> tr_critical t \<or> tr_sustained t"

definition track_pending :: "track \<Rightarrow> bool" where
  "track_pending t \<longleftrightarrow> \<not> track_confirmed t \<and> (tr_streak t > 0 \<or> tr_baseline_hot t)"

definition track_invalidate :: "reason \<Rightarrow> track \<Rightarrow> track" where
  "track_invalidate r t = (if \<not> tr_seen t then t else new_track\<lparr>tr_seen := True, tr_unknown := r\<rparr>)"

definition track_expire :: "reason \<Rightarrow> track \<Rightarrow> track" where
  "track_expire r t = (if tr_seen t \<and> \<not> track_confirmed t then t\<lparr>tr_unknown := r\<rparr> else t)"

end
