(* ===== verification/Res_Policy.thy ===== *)
theory Res_Policy
  imports Res_Outcome
begin

text \<open>
  \<open>internal/resourceadmission/policy.go\<close>: how one sample or interval of each metric is judged. The
  quotients are those of Go's \<open>float64\<close>.
\<close>

section \<open>Constants\<close>

definition sampleInterval :: int where "sampleInterval = ns_per_second"
definition checkBudget :: int where "checkBudget = 4 * ns_per_second"
definition cpuBusyThreshold :: float64 where "cpuBusyThreshold = round64 (95 / 100)"
definition psiStallThreshold :: float64 where "psiStallThreshold = round64 (1 / 100)"
definition reserveCeiling :: "64 word" where "reserveCeiling = 1073741824"
definition reserveDivisor :: "64 word" where "reserveDivisor = 10"

definition reserveBytes :: "64 word \<Rightarrow> 64 word" where
  "reserveBytes total_bytes = min reserveCeiling (total_bytes div reserveDivisor)"

section \<open>Host memory and CPU\<close>

definition classifyAvailable :: "64 word \<Rightarrow> 64 word \<Rightarrow> outcome" where
  "classifyAvailable total_bytes available =
     (if total_bytes = 0 \<or> available > total_bytes then unknownOutcome ReasonMalformed
      else let reserve = reserveBytes total_bytes in
        if available < reserve div 2 then criticalOutcome
        else if available < reserve then hotOutcome
        else clearOutcome)"

definition classifyVMPressure :: "32 word \<Rightarrow> outcome" where
  "classifyVMPressure level =
     (if level = vmPressureNormal then clearOutcome
      else if level = vmPressureWarning then hotOutcome
      else if level = vmPressureCritical then criticalOutcome
      else unknownOutcome ReasonMalformed)"

definition hostMemoryOutcome :: "host_memory reading \<Rightarrow> outcome" where
  "hostMemoryOutcome r =
     (if skipped r then skippedOutcome
      else case r of
        Unobserved _ \<Rightarrow> unknownOutcome (failure r)
      | Observed m \<Rightarrow> (case hm_source m of
            MemorySourceVMPressure \<Rightarrow> classifyVMPressure (hm_vm m)
          | MemorySourceAvailable \<Rightarrow> classifyAvailable (hm_total m) (hm_available m)
          | _ \<Rightarrow> unknownOutcome ReasonMalformed))"

definition validCounters :: "cpu_counters \<Rightarrow> bool" where
  "validCounters c \<longleftrightarrow> f_finite (cc_busy c) \<and> f_finite (cc_total c)
     \<and> f_le (Finite 0) (cc_busy c) \<and> f_le (cc_busy c) (cc_total c)"

definition hostCPUOutcome :: "cpu_counters reading \<Rightarrow> cpu_counters reading \<Rightarrow> outcome" where
  "hostCPUOutcome prev cur =
     (if skipped cur \<or> skipped prev then skippedOutcome
      else case cur of Unobserved _ \<Rightarrow> unknownOutcome (failure cur) | Observed c \<Rightarrow>
      (case prev of Unobserved _ \<Rightarrow> unknownOutcome (failure prev) | Observed p \<Rightarrow>
       if \<not> validCounters p \<or> \<not> validCounters c then unknownOutcome ReasonMalformed
       else let busy = f_sub (cc_busy c) (cc_busy p); elapsed = f_sub (cc_total c) (cc_total p) in
         if f_lt busy (Finite 0) \<or> f_lt elapsed (Finite 0) then unknownOutcome ReasonCounterReset
         else if f_eq elapsed (Finite 0) then unknownOutcome ReasonNoElapsedTime
         else if f_lt elapsed busy then unknownOutcome ReasonMalformed
         else boolOutcome (f_le cpuBusyThreshold (f_div busy elapsed))))"

section \<open>The target's cgroup\<close>

text \<open>\<open>cgroupPair\<close>: the outcome that ends the judgement, or the two samples to compare.\<close>

definition cgroupPair ::
  "cgroup_sample reading \<Rightarrow> cgroup_sample reading \<Rightarrow> int \<Rightarrow> outcome + cgroup_sample \<times> cgroup_sample" where
  "cgroupPair prev cur elapsed =
     (if skipped cur \<or> skipped prev then Inl skippedOutcome
      else case cur of Unobserved _ \<Rightarrow> Inl (unknownOutcome (failure cur)) | Observed c \<Rightarrow>
      (case prev of Unobserved _ \<Rightarrow> Inl (unknownOutcome (failure prev)) | Observed p \<Rightarrow>
       if cs_path p \<noteq> cs_path c \<or> length (cs_levels p) \<noteq> length (cs_levels c)
       then Inl (unknownOutcome ReasonTargetChanged)
       else if microseconds elapsed \<le> 0 then Inl (unknownOutcome ReasonNoElapsedTime)
       else Inr (p, c)))"

definition withCoverage :: "outcome \<Rightarrow> cgroup_sample \<Rightarrow> outcome" where
  "withCoverage x sample =
     (if cs_hidden_ancestors sample \<and> ou_state x = OutcomeClear \<and> ou_reason x = []
      then x\<lparr>ou_reason := ReasonScopeUnresolved\<rparr> else x)"

definition cpuCapacity :: "level_cpu \<Rightarrow> float64 option" where
  "cpuCapacity c =
     (if lc_has_quota c \<and> lc_cpuset_cpus c > 0
      then Some (f_min (lc_quota_cpus c) (f_int (lc_cpuset_cpus c)))
      else if lc_has_quota c then Some (lc_quota_cpus c)
      else if lc_cpuset_cpus c > 0 then Some (f_int (lc_cpuset_cpus c))
      else None)"

definition levelCPUOutcome :: "level_cpu reading \<Rightarrow> level_cpu reading \<Rightarrow> int \<Rightarrow> outcome" where
  "levelCPUOutcome prev cur elapsed =
     (case cur of Unobserved _ \<Rightarrow> unknownOutcome (failure cur) | Observed c \<Rightarrow>
      (case cpuCapacity c of None \<Rightarrow> clearOutcome | Some capacity \<Rightarrow>
       if f_le capacity (Finite 0) then unknownOutcome ReasonMalformed
       else case prev of Unobserved _ \<Rightarrow> unknownOutcome (failure prev) | Observed p \<Rightarrow>
         if (case cpuCapacity p of None \<Rightarrow> True | Some k \<Rightarrow> \<not> f_eq k capacity)
         then unknownOutcome ReasonTargetChanged
         else if lc_usage_us c < lc_usage_us p then unknownOutcome ReasonCounterReset
         else let used = f_uint64 (lc_usage_us c - lc_usage_us p);
                  available = f_mul (f_int (microseconds elapsed)) capacity
           in boolOutcome (f_le cpuBusyThreshold (f_div used available))))"

definition cgroupCPUOutcome :: "cgroup_sample reading \<Rightarrow> cgroup_sample reading \<Rightarrow> int \<Rightarrow> outcome" where
  "cgroupCPUOutcome prev cur elapsed = (case cgroupPair prev cur elapsed of
     Inl bad \<Rightarrow> bad
   | Inr (p, c) \<Rightarrow> withCoverage
       (anyOf (map2 (\<lambda>before now. levelCPUOutcome (cg_cpu before) (cg_cpu now) elapsed)
          (cs_levels p) (cs_levels c))) c)"

definition headroomLow :: "64 word \<Rightarrow> 64 word \<Rightarrow> bool" where
  "headroomLow limit_bytes working_set \<longleftrightarrow>
     (if working_set < limit_bytes then limit_bytes - working_set else 0) < reserveBytes limit_bytes"

definition levelMemoryOutcome :: "level_memory reading \<Rightarrow> outcome" where
  "levelMemoryOutcome r = (case r of
     Unobserved _ \<Rightarrow> unknownOutcome (failure r)
   | Observed m \<Rightarrow>
       if \<not> bl_set (lm_max m) then clearOutcome
       else boolOutcome (headroomLow (bl_bytes (lm_max m)) (lm_working_set m)))"

definition psiOutcome :: "64 word reading \<Rightarrow> 64 word reading \<Rightarrow> int \<Rightarrow> outcome" where
  "psiOutcome prev cur elapsed =
     (case cur of Unobserved _ \<Rightarrow> unknownOutcome (failure cur) | Observed c \<Rightarrow>
      (case prev of Unobserved _ \<Rightarrow> unknownOutcome (failure prev) | Observed p \<Rightarrow>
       if c < p then unknownOutcome ReasonCounterReset
       else if microseconds elapsed \<le> 0 then unknownOutcome ReasonNoElapsedTime
       else boolOutcome (f_le psiStallThreshold (f_div (f_uint64 (c - p)) (f_int (microseconds elapsed))))))"

definition constrained_level :: "cgroup_level \<Rightarrow> bool" where
  "constrained_level l \<longleftrightarrow> (case cg_memory l of Unobserved _ \<Rightarrow> True | Observed m \<Rightarrow> bl_set (lm_max m))"

definition cgroupMemoryOutcome :: "cgroup_sample reading \<Rightarrow> cgroup_sample reading \<Rightarrow> int \<Rightarrow> outcome" where
  "cgroupMemoryOutcome prev cur elapsed = (case cgroupPair prev cur elapsed of
     Inl bad \<Rightarrow> bad
   | Inr (p, c) \<Rightarrow>
       if \<not> list_ex constrained_level (cs_levels c) then withCoverage clearOutcome c
       else withCoverage
         (allOf (anyOf (map (\<lambda>l. levelMemoryOutcome (cg_memory l)) (cs_levels c)))
            (psiOutcome (cs_psi_stall_us p) (cs_psi_stall_us c) elapsed)) c)"

definition memoryHighNear :: "cgroup_sample reading \<Rightarrow> bool" where
  "memoryHighNear r = (case r of
     Unobserved _ \<Rightarrow> False
   | Observed c \<Rightarrow> list_ex (\<lambda>l. case cg_memory l of
         Unobserved _ \<Rightarrow> False
       | Observed m \<Rightarrow> bl_set (lm_high m) \<and> headroomLow (bl_bytes (lm_high m)) (lm_working_set m))
       (cs_levels c))"

end
