(* ===== verification/Res_Check.thy ===== *)
theory Res_Check
  imports Res_Policy Go_Effects
begin

text \<open>
  \<open>internal/resourceadmission\<close>: the evaluator of one check (\<open>evaluator.go\<close>), its result
  (\<open>assessment.go\<close>) and the checker (\<open>checker.go\<close>). The clock, the observer, the resolver and the two
  contexts of a check are the operations of a \<open>checker_port\<close> over a world.
\<close>

section \<open>The evaluator (\<open>evaluator.go\<close>)\<close>

record evaluator =
  ev_host_cpu :: track
  ev_host_memory :: track
  ev_cgroup_cpu :: track
  ev_cgroup_memory :: track
  ev_memory_high_hit :: bool
  ev_cgroup_path :: string

definition new_evaluator :: evaluator where
  "new_evaluator = \<lparr>ev_host_cpu = new_track, ev_host_memory = new_track, ev_cgroup_cpu = new_track,
     ev_cgroup_memory = new_track, ev_memory_high_hit = False, ev_cgroup_path = []\<rparr>"

definition expect :: "snapshot \<Rightarrow> evaluator \<Rightarrow> evaluator" where
  "expect first e = e\<lparr>
     ev_host_cpu := (ev_host_cpu e)\<lparr>tr_seen := \<not> skipped (sn_cpu first)\<rparr>,
     ev_host_memory := (ev_host_memory e)\<lparr>tr_seen := \<not> skipped (sn_memory first)\<rparr>,
     ev_cgroup_cpu := (ev_cgroup_cpu e)\<lparr>tr_seen := \<not> skipped (sn_cgroup first)\<rparr>,
     ev_cgroup_memory := (ev_cgroup_memory e)\<lparr>tr_seen := \<not> skipped (sn_cgroup first)\<rparr>\<rparr>"

definition note_cgroup :: "snapshot \<Rightarrow> evaluator \<Rightarrow> evaluator" where
  "note_cgroup cur e = (case sn_cgroup cur of
     Unobserved _ \<Rightarrow> e
   | Observed c \<Rightarrow> e\<lparr>
       ev_cgroup_path := (if ev_cgroup_path e = [] then cs_path c else ev_cgroup_path e),
       ev_memory_high_hit := (ev_memory_high_hit e \<or> memoryHighNear (sn_cgroup cur))\<rparr>)"

definition eval_step :: "snapshot option \<Rightarrow> snapshot \<Rightarrow> evaluator \<Rightarrow> evaluator" where
  "eval_step prev cur e = (case prev of
     None \<Rightarrow>
       (let e = expect cur e
        in note_cgroup cur (e\<lparr>ev_host_memory := track_baseline (hostMemoryOutcome (sn_memory cur)) (ev_host_memory e)\<rparr>))
   | Some p \<Rightarrow>
       (let e = note_cgroup cur (e\<lparr>ev_host_memory := track_record (hostMemoryOutcome (sn_memory cur)) (ev_host_memory e)\<rparr>);
            elapsed = time_sub (sn_at cur) (sn_at p)
        in e\<lparr>
          ev_host_cpu := track_record (hostCPUOutcome (sn_cpu p) (sn_cpu cur)) (ev_host_cpu e),
          ev_cgroup_cpu := track_record (cgroupCPUOutcome (sn_cgroup p) (sn_cgroup cur) elapsed) (ev_cgroup_cpu e),
          ev_cgroup_memory :=
            track_record (cgroupMemoryOutcome (sn_cgroup p) (sn_cgroup cur) elapsed) (ev_cgroup_memory e)\<rparr>))"

definition eval_pending :: "evaluator \<Rightarrow> bool" where
  "eval_pending e \<longleftrightarrow> track_pending (ev_host_cpu e) \<or> track_pending (ev_host_memory e)
     \<or> track_pending (ev_cgroup_cpu e) \<or> track_pending (ev_cgroup_memory e)"

definition eval_confirmed :: "evaluator \<Rightarrow> bool" where
  "eval_confirmed e \<longleftrightarrow> track_confirmed (ev_host_cpu e) \<or> track_confirmed (ev_host_memory e)
     \<or> track_confirmed (ev_cgroup_cpu e) \<or> track_confirmed (ev_cgroup_memory e)"

definition eval_expire :: "reason \<Rightarrow> evaluator \<Rightarrow> evaluator" where
  "eval_expire r e = e\<lparr>ev_host_cpu := track_expire r (ev_host_cpu e),
     ev_host_memory := track_expire r (ev_host_memory e),
     ev_cgroup_cpu := track_expire r (ev_cgroup_cpu e),
     ev_cgroup_memory := track_expire r (ev_cgroup_memory e)\<rparr>"

definition invalidateTarget :: "reason \<Rightarrow> evaluator \<Rightarrow> evaluator" where
  "invalidateTarget r e = e\<lparr>ev_cgroup_cpu := track_invalidate r (ev_cgroup_cpu e),
     ev_cgroup_memory := track_invalidate r (ev_cgroup_memory e), ev_memory_high_hit := False\<rparr>"

datatype metric = MetricHostCPU | MetricHostMemory | MetricCgroupCPU | MetricCgroupMemory

datatype basis = BasisSustained | BasisCritical

datatype advisory = AdvisoryMemoryHighNear

record findings =
  fi_pressures :: "(metric \<times> basis) list"
  fi_unavailable :: "(metric \<times> reason) list"
  fi_advisories :: "advisory list"

definition eval_metrics :: "evaluator \<Rightarrow> (metric \<times> track) list" where
  "eval_metrics e = [(MetricHostCPU, ev_host_cpu e), (MetricHostMemory, ev_host_memory e),
     (MetricCgroupCPU, ev_cgroup_cpu e), (MetricCgroupMemory, ev_cgroup_memory e)]"

definition track_pressure :: "metric \<times> track \<Rightarrow> (metric \<times> basis) option" where
  "track_pressure m = (case m of (name, t) \<Rightarrow>
     if tr_critical t then Some (name, BasisCritical)
     else if tr_sustained t then Some (name, BasisSustained) else None)"

definition track_unavailable :: "metric \<times> track \<Rightarrow> (metric \<times> reason) option" where
  "track_unavailable m = (case m of (name, t) \<Rightarrow>
     if \<not> tr_critical t \<and> \<not> tr_sustained t \<and> tr_seen t \<and> tr_unknown t \<noteq> []
     then Some (name, tr_unknown t) else None)"

definition eval_findings :: "evaluator \<Rightarrow> findings" where
  "eval_findings e = \<lparr>
     fi_pressures = List.map_filter track_pressure (eval_metrics e),
     fi_unavailable = List.map_filter track_unavailable (eval_metrics e),
     fi_advisories = (if ev_memory_high_hit e then [AdvisoryMemoryHighNear] else [])\<rparr>"

section \<open>The assessment (\<open>assessment.go\<close>)\<close>

record check_scope =
  sc_target_identity :: string
  sc_cgroup :: string

definition no_scope :: check_scope where "no_scope = \<lparr>sc_target_identity = [], sc_cgroup = []\<rparr>"

record assessment =
  as_built :: bool
  as_observed_at :: go_time
  as_scope :: check_scope
  as_findings :: findings

datatype admission_status = StatusClear | StatusPressure | StatusUnknown

definition NewAssessment :: "go_time \<Rightarrow> check_scope \<Rightarrow> findings \<Rightarrow> assessment" where
  "NewAssessment observed_at scope f =
     \<lparr>as_built = True, as_observed_at = observed_at, as_scope = scope, as_findings = f\<rparr>"

definition no_assessment :: assessment where
  "no_assessment = \<lparr>as_built = False, as_observed_at = zero_time, as_scope = no_scope,
     as_findings = \<lparr>fi_pressures = [], fi_unavailable = [], fi_advisories = []\<rparr>\<rparr>"

definition assessment_status :: "assessment \<Rightarrow> admission_status" where
  "assessment_status a =
     (if \<not> as_built a then StatusUnknown
      else if fi_pressures (as_findings a) \<noteq> [] then StatusPressure
      else if fi_unavailable (as_findings a) \<noteq> [] then StatusUnknown
      else StatusClear)"

definition freshnessWindow :: int where "freshnessWindow = 5 * ns_per_second"

definition Reusable :: "assessment \<Rightarrow> go_time \<Rightarrow> check_scope \<Rightarrow> bool" where
  "Reusable a now current \<longleftrightarrow>
     (let age = time_sub now (as_observed_at a)
      in as_built a \<and> age \<ge> 0 \<and> age \<le> freshnessWindow \<and> as_scope a = current)"

section \<open>The checker (\<open>target.go\<close>, \<open>clock.go\<close>, \<open>observer.go\<close>, \<open>checker.go\<close>)\<close>

record check_target =
  tg_identity :: string
  tg_pid :: int
  tg_cgroup_path :: string

definition target_valid :: "check_target \<Rightarrow> bool" where
  "target_valid t \<longleftrightarrow> tg_identity t \<noteq> [] \<and> (tg_pid t > 0 \<or> tg_cgroup_path t \<noteq> [])"

text \<open>
  What a check calls: the errors of the caller's context and of the one bounded by the check's budget,
  the clock, the observer and, when the caller has one, the resolver.
\<close>

record 'w checker_port =
  cp_caller :: "('w, error option) state"
  cp_mon :: "('w, error option) state"
  cp_now :: "('w, go_time) state"
  cp_sleep :: "int \<Rightarrow> ('w, error option) state"
  cp_uses_target :: bool
  cp_observe :: "check_target option \<Rightarrow> ('w, snapshot) state"
  cp_host_memory :: "('w, host_memory reading) state"
  cp_membership :: "check_target \<Rightarrow> ('w, string reading) state"
  cp_resolver :: "('w, error + check_target) state option"

text \<open>The state of one check: its evaluator, the world, and for the proofs the snapshots it judged.\<close>

record 'w check_run =
  cr_eval :: evaluator
  cr_world :: 'w
  cr_judged :: "snapshot list"

definition outside :: "('w, 'a) state \<Rightarrow> ('w check_run, 'a) state" where
  "outside m = State (\<lambda>s. case run_state m (cr_world s) of (x, w) \<Rightarrow> (x, s\<lparr>cr_world := w\<rparr>))"

definition eval_update :: "(evaluator \<Rightarrow> evaluator) \<Rightarrow> ('w check_run, unit) state" where
  "eval_update f = modify (\<lambda>s. s\<lparr>cr_eval := f (cr_eval s)\<rparr>)"

definition resolve :: "'w checker_port \<Rightarrow> ('w, error + check_target option) state" where
  "resolve p = (case cp_resolver p of
     None \<Rightarrow> State_Monad.return (Inr None)
   | Some call \<Rightarrow> do {
       found \<leftarrow> call;
       stop \<leftarrow> cp_caller p;
       unless_error stop (do {
         (case found of
            Inl e \<Rightarrow> giving None
          | Inr target \<Rightarrow> do {
              over \<leftarrow> cp_mon p;
              giving (if over = None \<and> target_valid target then Some target else None)
            })
       })
     })"

definition stop_check :: "'w checker_port \<Rightarrow> ('w check_run, bool \<times> error option) state" where
  "stop_check p = do {
     caller \<leftarrow> outside (cp_caller p);
     (case caller of
        Some e \<Rightarrow> State_Monad.return (True, Some e)
      | None \<Rightarrow> do {
          over \<leftarrow> outside (cp_mon p);
          if over \<noteq> None
          then do {
            eval_update (eval_expire ReasonDeadline);
            State_Monad.return (True, None)
          }
          else State_Monad.return (False, None)
        })
   }"

definition pause :: "'w checker_port \<Rightarrow> go_time \<Rightarrow> ('w check_run, bool \<times> error option) state" where
  "pause p prev_at = do {
     now \<leftarrow> outside (cp_now p);
     let wait = time_sub (add_ns prev_at sampleInterval) now;
     if wait > 0
     then do {
       slept \<leftarrow> outside (cp_sleep p wait);
       (case slept of
          Some e \<Rightarrow> do {
            r \<leftarrow> stop_check p;
            State_Monad.return (if fst r then (True, snd r) else (True, Some e))
          }
        | None \<Rightarrow> stop_check p)
     }
     else stop_check p
   }"

definition unsampled :: "'w checker_port \<Rightarrow> snapshot" where
  "unsampled p = \<lparr>sn_at = zero_time, sn_cpu = Unobserved ReasonDeadline, sn_memory = Unobserved ReasonDeadline,
     sn_cgroup = (if cp_uses_target p then Unobserved ReasonDeadline else notApplicable)\<rparr>"

text \<open>The loop of \<open>sample\<close>: the first argument counts the ticks left.\<close>

fun sample_ticks ::
  "nat \<Rightarrow> 'w checker_port \<Rightarrow> check_target option \<Rightarrow> snapshot option \<Rightarrow> ('w check_run, error option) state" where
  "sample_ticks 0 p target prev = State_Monad.return None"
| "sample_ticks (Suc n) p target prev = do {
     r \<leftarrow> (case prev of None \<Rightarrow> stop_check p | Some s \<Rightarrow> pause p (sn_at s));
     if fst r then State_Monad.return (snd r)
     else do {
       seen \<leftarrow> outside (cp_observe p target);
       now \<leftarrow> outside (cp_now p);
       let cur = seen\<lparr>sn_at := now\<rparr>;
       r' \<leftarrow> stop_check p;
       if fst r' then State_Monad.return (snd r')
       else do {
         modify (\<lambda>s. s\<lparr>cr_eval := eval_step prev cur (cr_eval s), cr_judged := cr_judged s @ [cur]\<rparr>);
         e \<leftarrow> asks cr_eval;
         if eval_confirmed e \<or> (prev \<noteq> None \<and> \<not> eval_pending e)
         then State_Monad.return None
         else sample_ticks n p target (Some cur)
       }
     }
   }"

definition sample_check :: "'w checker_port \<Rightarrow> check_target option \<Rightarrow> ('w check_run, error option) state" where
  "sample_check p target = do {
     eval_update (expect (unsampled p));
     sample_ticks (nat (requiredStreak + 1)) p target None
   }"

definition criticalPrecheck :: "'w checker_port \<Rightarrow> ('w check_run, error + assessment option) state" where
  "criticalPrecheck p = do {
     memory \<leftarrow> outside (cp_host_memory p);
     stop \<leftarrow> outside (cp_caller p);
     unless_error stop (
       let outcome = hostMemoryOutcome memory in
       if ou_state outcome \<noteq> OutcomeCritical then giving None
       else do {
         eval_update (\<lambda>e. e\<lparr>ev_host_memory := track_record outcome (ev_host_memory e)\<rparr>);
         now \<leftarrow> outside (cp_now p);
         e \<leftarrow> asks cr_eval;
         giving (Some (NewAssessment now no_scope (eval_findings e)))
       })
   }"

definition revalidate :: "'w checker_port \<Rightarrow> check_target \<Rightarrow> ('w check_run, error option) state" where
  "revalidate p earlier = do {
     over \<leftarrow> outside (cp_mon p);
     if over \<noteq> None
     then do {
       eval_update (invalidateTarget ReasonDeadline);
       outside (cp_caller p)
     }
     else do {
       found \<leftarrow> outside (resolve p);
       (case found of
          Inl e \<Rightarrow> State_Monad.return (Some e)
        | Inr now \<Rightarrow> do {
            late \<leftarrow> outside (cp_mon p);
            (if late \<noteq> None then eval_update (invalidateTarget ReasonDeadline)
            else case now of
                None \<Rightarrow> eval_update (invalidateTarget ReasonTargetUnavailable)
              | Some t \<Rightarrow> if t \<noteq> earlier then eval_update (invalidateTarget ReasonTargetChanged)
                          else State_Monad.return ());
            State_Monad.return None
          })
     }
   }"

definition scopeOf :: "check_target \<Rightarrow> string \<Rightarrow> check_scope" where
  "scopeOf target cgroup = \<lparr>sc_target_identity = tg_identity target, sc_cgroup = cgroup\<rparr>"

definition run_scope :: "check_target option \<Rightarrow> evaluator \<Rightarrow> check_scope" where
  "run_scope target e = (case target of None \<Rightarrow> no_scope | Some t \<Rightarrow> scopeOf t (ev_cgroup_path e))"

text \<open>The two halves of \<open>execute\<close> after the precheck: the target, and the samples.\<close>

definition initial_target :: "'w checker_port \<Rightarrow> ('w check_run, error + check_target option) state" where
  "initial_target p =
     (if \<not> cp_uses_target p then giving None
      else do {
        over \<leftarrow> outside (cp_mon p);
        if over \<noteq> None then giving None else outside (resolve p)
      })"

definition measured :: "'w checker_port \<Rightarrow> check_target option \<Rightarrow> ('w check_run, error + assessment) state" where
  "measured p target = do {
     err \<leftarrow> sample_check p target;
     unless_error err (do {
       again \<leftarrow> (case target of None \<Rightarrow> State_Monad.return None | Some t \<Rightarrow> revalidate p t);
       unless_error again (do {
         now \<leftarrow> outside (cp_now p);
         e \<leftarrow> asks cr_eval;
         giving (NewAssessment now (run_scope target e) (eval_findings e))
       })
     })
   }"

definition execute :: "'w checker_port \<Rightarrow> ('w check_run, error + assessment) state" where
  "execute p = attempt (criticalPrecheck p) (\<lambda>early. case early of
       Some a \<Rightarrow> giving a
     | None \<Rightarrow> attempt (initial_target p) (measured p))"

definition new_run :: "'w \<Rightarrow> 'w check_run" where
  "new_run w = \<lparr>cr_eval = new_evaluator, cr_world = w, cr_judged = []\<rparr>"

text \<open>\<open>Check\<close> and \<open>Scope\<close>; the port's \<open>cp_mon\<close> is the context either derives from the caller's.\<close>

definition Check :: "'w checker_port \<Rightarrow> 'w \<Rightarrow> (error + assessment) \<times> 'w check_run" where
  "Check p w = run_state (do {
       stop \<leftarrow> outside (cp_caller p);
       unless_error stop (execute p)
     }) (new_run w)"

definition Scope :: "'w checker_port \<Rightarrow> ('w, error + check_scope) state" where
  "Scope p = do {
     stop \<leftarrow> cp_caller p;
     unless_error stop (
       if \<not> cp_uses_target p then giving no_scope
       else attempt (resolve p) (\<lambda>target. case target of
           None \<Rightarrow> giving no_scope
         | Some t \<Rightarrow> do {
             cgroup \<leftarrow> cp_membership p t;
             late \<leftarrow> cp_caller p;
             unless_error late
               (giving (scopeOf t (case cgroup of Observed path \<Rightarrow> path | Unobserved _ \<Rightarrow> [])))
           }))
   }"

end
