(* ===== verification/Res_Judged.thy ===== *)
theory Res_Judged
  imports Res_Check
begin

text \<open>
  What a check concludes from the snapshots it judged: the verdicts of a metric's track in terms of the
  list of its outcomes, and the evaluator of a check in terms of its snapshots.
\<close>

section \<open>Tracks and lists of outcomes\<close>

text \<open>The outcomes that move the streak, and the length of the run of hot ones at the end of a list.\<close>

definition streak_outcomes :: "outcome list \<Rightarrow> outcome list" where
  "streak_outcomes xs = filter (\<lambda>x. ou_state x \<noteq> OutcomeSkipped \<and> ou_state x \<noteq> OutcomeCritical) xs"

definition hot_run :: "outcome list \<Rightarrow> nat" where
  "hot_run xs = length (takeWhile (\<lambda>x. ou_state x = OutcomeHot) (rev xs))"

lemma hot_run_simps [simp]:
  "hot_run [] = 0"
  "hot_run (xs @ [x]) = (if ou_state x = OutcomeHot then Suc (hot_run xs) else 0)"
  by (simp_all add: hot_run_def)

lemma track_record_fields:
  "tr_critical (track_record x t) \<longleftrightarrow> tr_critical t \<or> ou_state x = OutcomeCritical"
  "tr_sustained (track_record x t) \<longleftrightarrow>
     tr_sustained t \<or> ou_state x = OutcomeHot \<and> requiredStreak \<le> tr_streak t + 1"
  "tr_seen (track_record x t) \<longleftrightarrow> tr_seen t \<or> ou_state x \<noteq> OutcomeSkipped"
  "tr_streak (track_record x t) = (case ou_state x of
     OutcomeHot \<Rightarrow> tr_streak t + 1 | OutcomeSkipped \<Rightarrow> tr_streak t | OutcomeCritical \<Rightarrow> tr_streak t | _ \<Rightarrow> 0)"
  "tr_unknown (track_record x t) = (case ou_state x of
     OutcomeUnknown \<Rightarrow> ou_reason x
   | OutcomeClear \<Rightarrow> (if ou_reason x = [] then tr_unknown t else ou_reason x)
   | _ \<Rightarrow> tr_unknown t)"
  "tr_baseline_hot (track_record x t) \<longleftrightarrow> tr_baseline_hot t \<and> ou_state x = OutcomeSkipped"
  by (cases "ou_state x"; simp add: track_record_def Let_def)+

lemma fold_record_streak:
  "tr_streak (fold track_record xs t)
     = (if \<exists>x \<in> set (streak_outcomes xs). ou_state x \<noteq> OutcomeHot then int (hot_run (streak_outcomes xs))
        else tr_streak t + int (hot_run (streak_outcomes xs)))"
proof (induction xs rule: rev_induct)
  case (snoc x xs)
  then show ?case
    by (cases "ou_state x") (auto simp: track_record_fields streak_outcomes_def)
qed (simp add: streak_outcomes_def)

lemma fold_record_critical:
  "tr_critical (fold track_record xs t) \<longleftrightarrow> tr_critical t \<or> (\<exists>x \<in> set xs. ou_state x = OutcomeCritical)"
  by (induction xs arbitrary: t) (auto simp: track_record_fields)

text \<open>A metric is under sustained pressure exactly when three of its outcomes in a row were hot.\<close>

definition hot_in_a_row :: "nat \<Rightarrow> outcome list \<Rightarrow> bool" where
  "hot_in_a_row n xs \<longleftrightarrow> (\<exists>as hot bs. xs = as @ hot @ bs \<and> length hot = n \<and> (\<forall>x \<in> set hot. ou_state x = OutcomeHot))"

lemma hot_run_suffix:
  "n \<le> hot_run xs \<longleftrightarrow> (\<exists>as hot. xs = as @ hot \<and> length hot = n \<and> (\<forall>x \<in> set hot. ou_state x = OutcomeHot))"
proof
  assume n: "n \<le> hot_run xs"
  define ys where "ys = take n (rev xs)"
  have len: "length ys = n"
    using n length_takeWhile_le [of "\<lambda>x. ou_state x = OutcomeHot" "rev xs"] by (simp add: hot_run_def ys_def)
  have "ys = take n (takeWhile (\<lambda>x. ou_state x = OutcomeHot) (rev xs))"
    using n takeWhile_eq_take [of "\<lambda>x. ou_state x = OutcomeHot" "rev xs"]
    by (metis hot_run_def min.absorb1 take_take ys_def)
  then have "\<forall>x \<in> set ys. ou_state x = OutcomeHot" by (metis in_set_takeD set_takeWhileD)
  moreover have "xs = rev (drop n (rev xs)) @ rev ys" by (simp add: ys_def flip: rev_append)
  ultimately show "\<exists>as hot. xs = as @ hot \<and> length hot = n \<and> (\<forall>x \<in> set hot. ou_state x = OutcomeHot)"
    using len by (metis length_rev set_rev)
next
  assume "\<exists>as hot. xs = as @ hot \<and> length hot = n \<and> (\<forall>x \<in> set hot. ou_state x = OutcomeHot)"
  then obtain as hot where "xs = as @ hot" "length hot = n" "\<forall>x \<in> set hot. ou_state x = OutcomeHot" by blast
  then show "n \<le> hot_run xs" by (simp add: hot_run_def takeWhile_append)
qed

lemma hot_in_a_row_snoc:
  assumes "0 < n"
  shows "hot_in_a_row n (xs @ [x]) \<longleftrightarrow> hot_in_a_row n xs \<or> n \<le> hot_run (xs @ [x])"
proof
  assume "hot_in_a_row n (xs @ [x])"
  then obtain as hot bs where split: "xs @ [x] = as @ hot @ bs" "length hot = n"
      "\<forall>y \<in> set hot. ou_state y = OutcomeHot" by (auto simp: hot_in_a_row_def)
  show "hot_in_a_row n xs \<or> n \<le> hot_run (xs @ [x])"
  proof (cases bs rule: rev_cases)
    case Nil
    then show ?thesis using split by (auto simp: hot_run_suffix simp del: hot_run_simps)
  next
    case (snoc bs' b)
    then have "xs = as @ hot @ bs'" using split(1) by simp
    then show ?thesis using split by (auto simp: hot_in_a_row_def)
  qed
next
  assume "hot_in_a_row n xs \<or> n \<le> hot_run (xs @ [x])"
  then show "hot_in_a_row n (xs @ [x])"
  proof
    assume "hot_in_a_row n xs"
    then show ?thesis unfolding hot_in_a_row_def by (metis append.assoc)
  next
    assume "n \<le> hot_run (xs @ [x])"
    then show ?thesis unfolding hot_run_suffix hot_in_a_row_def by (metis append_Nil2)
  qed
qed

lemma fold_record_sustained:
  assumes "tr_streak t = 0" "\<not> tr_sustained t"
  shows "tr_sustained (fold track_record xs t) \<longleftrightarrow> hot_in_a_row 3 (streak_outcomes xs)"
proof (induction xs rule: rev_induct)
  case Nil
  then show ?case using assms by (simp add: hot_in_a_row_def streak_outcomes_def)
next
  case (snoc x xs)
  have streak: "tr_streak (fold track_record xs t) = int (hot_run (streak_outcomes xs))"
    using assms by (simp add: fold_record_streak)
  show ?case
  proof (cases "ou_state x = OutcomeSkipped \<or> ou_state x = OutcomeCritical")
    case True
    then show ?thesis using snoc by (auto simp: track_record_fields streak_outcomes_def)
  next
    case False
    then have app: "streak_outcomes (xs @ [x]) = streak_outcomes xs @ [x]" by (simp add: streak_outcomes_def)
    show ?thesis
      unfolding app by (subst hot_in_a_row_snoc) (auto simp: track_record_fields snoc streak requiredStreak_def)
  qed
qed

text \<open>A reason, once recorded, stays; it is that of an outcome of the list.\<close>

definition uncovered :: "outcome \<Rightarrow> bool" where
  "uncovered x \<longleftrightarrow> ou_state x = OutcomeUnknown \<or> ou_state x = OutcomeClear \<and> ou_reason x \<noteq> []"

lemma fold_record_unknown:
  assumes "\<forall>x \<in> set xs. ou_state x = OutcomeUnknown \<longrightarrow> ou_reason x \<noteq> []"
  shows "tr_unknown (fold track_record xs t) = [] \<longleftrightarrow> tr_unknown t = [] \<and> (\<forall>x \<in> set xs. \<not> uncovered x)"
  using assms
proof (induction xs rule: rev_induct)
  case (snoc x xs)
  then show ?case
    by (cases "ou_state x") (auto simp: track_record_fields uncovered_def)
qed simp

lemma fold_record_seen:
  "tr_seen (fold track_record xs t) \<longleftrightarrow> tr_seen t \<or> (\<exists>x \<in> set xs. ou_state x \<noteq> OutcomeSkipped)"
  by (induction xs arbitrary: t) (auto simp: track_record_fields)

section \<open>The outcomes of a metric over the snapshots\<close>

fun interval_outcome :: "metric \<Rightarrow> snapshot \<Rightarrow> snapshot \<Rightarrow> outcome" where
  "interval_outcome MetricHostCPU p c = hostCPUOutcome (sn_cpu p) (sn_cpu c)"
| "interval_outcome MetricHostMemory p c = hostMemoryOutcome (sn_memory c)"
| "interval_outcome MetricCgroupCPU p c =
     cgroupCPUOutcome (sn_cgroup p) (sn_cgroup c) (time_sub (sn_at c) (sn_at p))"
| "interval_outcome MetricCgroupMemory p c =
     cgroupMemoryOutcome (sn_cgroup p) (sn_cgroup c) (time_sub (sn_at c) (sn_at p))"

fun metric_skipped :: "metric \<Rightarrow> snapshot \<Rightarrow> bool" where
  "metric_skipped MetricHostCPU s = skipped (sn_cpu s)"
| "metric_skipped MetricHostMemory s = skipped (sn_memory s)"
| "metric_skipped MetricCgroupCPU s = skipped (sn_cgroup s)"
| "metric_skipped MetricCgroupMemory s = skipped (sn_cgroup s)"

fun metric_track :: "metric \<Rightarrow> evaluator \<Rightarrow> track" where
  "metric_track MetricHostCPU e = ev_host_cpu e"
| "metric_track MetricHostMemory e = ev_host_memory e"
| "metric_track MetricCgroupCPU e = ev_cgroup_cpu e"
| "metric_track MetricCgroupMemory e = ev_cgroup_memory e"

definition intervals :: "metric \<Rightarrow> snapshot list \<Rightarrow> outcome list" where
  "intervals m snaps = map2 (interval_outcome m) snaps (tl snaps)"

lemma intervals_simps [simp]:
  "intervals m [] = []"
  "intervals m [s] = []"
  "intervals m (s # s' # ss) = interval_outcome m s s' # intervals m (s' # ss)"
  by (simp_all add: intervals_def)

lemma intervals_snoc: "snaps \<noteq> [] \<Longrightarrow> intervals m (snaps @ [s]) = intervals m snaps @ [interval_outcome m (last snaps) s]"
proof (induction snaps)
  case (Cons a ss)
  then show ?case by (cases ss) auto
qed simp

lemma length_intervals [simp]: "length (intervals m snaps) = length snaps - 1"
  by (simp add: intervals_def)

text \<open>Every outcome that is unknown has a reason.\<close>

definition reasoned :: "outcome \<Rightarrow> bool" where
  "reasoned x \<longleftrightarrow> (ou_state x = OutcomeUnknown \<longrightarrow> ou_reason x \<noteq> [])"

lemma reasoned_simps [simp]:
  "reasoned clearOutcome" "reasoned hotOutcome" "reasoned criticalOutcome" "reasoned skippedOutcome"
  "reasoned (boolOutcome b)" "reasoned (unknownOutcome r) \<longleftrightarrow> r \<noteq> []"
  "failure x \<noteq> []"
  by (simp_all add: reasoned_def unknownOutcome_def) (cases x; simp add: reason_defs)

lemma reasoned_anyOf: "list_all reasoned xs \<Longrightarrow> reasoned x \<Longrightarrow> reasoned (any_of x xs)"
  by (induction xs arbitrary: x) (simp_all split: outcome_state.split)

lemma reasoned_allOf: "reasoned a \<Longrightarrow> reasoned b \<Longrightarrow> reasoned (allOf a b)"
  by (auto simp: allOf_def reasoned_def)

lemma reasoned_coverage: "reasoned x \<Longrightarrow> reasoned (withCoverage x c)"
  by (auto simp: withCoverage_def reasoned_def)

lemma reasoned_pair: "cgroupPair p c t = Inl x \<Longrightarrow> reasoned x"
  by (auto simp: cgroupPair_def reason_defs split: reading.splits if_splits)

lemma reasoned_levels: "reasoned (levelCPUOutcome p c t)" "reasoned (levelMemoryOutcome r)" "reasoned (psiOutcome a b t)"
  by (simp_all add: levelCPUOutcome_def levelMemoryOutcome_def psiOutcome_def Let_def reason_defs
      split: reading.split option.split)

lemma reasoned_interval: "reasoned (interval_outcome m p c)"
proof (cases m)
  case MetricHostCPU
  then show ?thesis by (simp add: hostCPUOutcome_def Let_def reason_defs split: reading.split)
next
  case MetricHostMemory
  then show ?thesis
    by (simp add: hostMemoryOutcome_def classifyAvailable_def classifyVMPressure_def Let_def reason_defs
        split: reading.split memory_source.split)
next
  case MetricCgroupCPU
  then show ?thesis
    by (auto simp: cgroupCPUOutcome_def anyOf_def list_all_iff reasoned_levels reasoned_pair
        intro!: reasoned_coverage reasoned_anyOf split: sum.split)
next
  case MetricCgroupMemory
  then show ?thesis
    by (auto simp: cgroupMemoryOutcome_def anyOf_def list_all_iff reasoned_levels reasoned_pair
        intro!: reasoned_coverage reasoned_anyOf reasoned_allOf split: sum.split)
qed

section \<open>The evaluator after a list of snapshots\<close>

text \<open>The track a metric starts with at the baseline: seen unless skipped, and for host memory the sample.\<close>

definition baseline_track :: "metric \<Rightarrow> snapshot \<Rightarrow> track" where
  "baseline_track m s = (let t = new_track\<lparr>tr_seen := \<not> metric_skipped m s\<rparr> in
     if m = MetricHostMemory then track_baseline (hostMemoryOutcome (sn_memory s)) t else t)"

definition judged_track :: "metric \<Rightarrow> snapshot list \<Rightarrow> track" where
  "judged_track m snaps = fold track_record (intervals m snaps) (baseline_track m (hd snaps))"

definition follows :: "evaluator \<Rightarrow> snapshot list \<Rightarrow> bool" where
  "follows e snaps \<longleftrightarrow> (\<forall>m. metric_track m e = judged_track m snaps)"

text \<open>An evaluator that has only registered metrics, among them the host's CPU.\<close>

definition unjudged :: "evaluator \<Rightarrow> bool" where
  "unjudged e \<longleftrightarrow> tr_seen (ev_host_cpu e) \<and> (\<forall>m. \<exists>seen. metric_track m e = new_track\<lparr>tr_seen := seen\<rparr>)"

lemma note_cgroup_tracks [simp]: "metric_track m (note_cgroup s e) = metric_track m e"
  by (cases m) (simp_all add: note_cgroup_def split: reading.split)

lemma step_first:
  assumes "unjudged e"
  shows "follows (eval_step None s e) [s]"
proof -
  have "metric_track m (eval_step None s e) = judged_track m [s]" for m
  proof -
    obtain seen where "metric_track m e = new_track\<lparr>tr_seen := seen\<rparr>" using assms by (auto simp: unjudged_def)
    then show ?thesis
      by (cases m) (simp_all add: eval_step_def expect_def judged_track_def baseline_track_def Let_def
          note_cgroup_def split: reading.split)
  qed
  then show ?thesis by (simp add: follows_def)
qed

lemma step_next:
  assumes "follows e snaps" "snaps \<noteq> []"
  shows "follows (eval_step (Some (last snaps)) s e) (snaps @ [s])"
proof -
  have tracks: "ev_host_cpu e = judged_track MetricHostCPU snaps" "ev_host_memory e = judged_track MetricHostMemory snaps"
      "ev_cgroup_cpu e = judged_track MetricCgroupCPU snaps" "ev_cgroup_memory e = judged_track MetricCgroupMemory snaps"
    using assms(1) unfolding follows_def by (metis metric_track.simps)+
  have "metric_track m (eval_step (Some (last snaps)) s e) = judged_track m (snaps @ [s])" for m
    using assms(2)
    by (cases m) (simp_all add: eval_step_def tracks judged_track_def intervals_snoc Let_def
        note_cgroup_def split: reading.split)
  then show ?thesis by (simp add: follows_def)
qed

end
