(* ===== verification/Res_Loop.thy ===== *)
theory Res_Loop
  imports Res_Judged
begin

text \<open>
  The sampling loop of a check: how each of its calls can end, and what the evaluator is when sampling
  is over.
\<close>

section \<open>The calls of the loop\<close>

lemma run_outside [simp]:
  "run_state (outside m) r = (case run_state m (cr_world r) of (x, w) \<Rightarrow> (x, r\<lparr>cr_world := w\<rparr>))"
  by (simp add: outside_def)

lemma run_eval_update [simp]: "run_state (eval_update f) r = ((), r\<lparr>cr_eval := f (cr_eval r)\<rparr>)"
  by (simp add: eval_update_def)

text \<open>An error the caller's context has at some moment.\<close>

definition caller_error :: "'w checker_port \<Rightarrow> error \<Rightarrow> bool" where
  "caller_error p e \<longleftrightarrow> (\<exists>w w'. run_state (cp_caller p) w = (Some e, w'))"

lemma caller_errorI: "run_state (cp_caller p) w = (Some e, w') \<Longrightarrow> caller_error p e"
  by (auto simp: caller_error_def)

text \<open>
  What a sleeping clock owes the check: it fails only when the context of the check has ended, unless
  the caller's context has.
\<close>

definition sleep_ends_with_context :: "'w checker_port \<Rightarrow> bool" where
  "sleep_ends_with_context p \<longleftrightarrow> (\<forall>w d e w' w''.
     run_state (cp_sleep p d) w = (Some e, w') \<and> run_state (cp_caller p) w' = (None, w'')
     \<longrightarrow> fst (run_state (cp_mon p) w'') \<noteq> None)"

text \<open>How \<open>stop\<close> and \<open>pause\<close> leave the run.\<close>

definition stops :: "'w checker_port \<Rightarrow> 'w check_run \<Rightarrow> bool \<times> error option \<Rightarrow> 'w check_run \<Rightarrow> bool" where
  "stops p r x r' \<longleftrightarrow> cr_judged r' = cr_judged r \<and>
     (case x of
        (True, Some e) \<Rightarrow> sleep_ends_with_context p \<longrightarrow> caller_error p e
      | (True, None) \<Rightarrow> cr_eval r' = eval_expire ReasonDeadline (cr_eval r)
      | (False, err) \<Rightarrow> err = None \<and> cr_eval r' = cr_eval r)"

lemma stops_frame [simp]: "stops p (r\<lparr>cr_world := w\<rparr>) x r' \<longleftrightarrow> stops p r x r'"
  by (cases x) (simp add: stops_def split: bool.split option.split)

lemma stops_same:
  "stops p r1 x r' \<Longrightarrow> cr_judged r1 = cr_judged r \<Longrightarrow> cr_eval r1 = cr_eval r \<Longrightarrow> stops p r x r'"
  by (cases x) (simp add: stops_def split: bool.splits option.splits)

lemma run_stop_check:
  assumes "run_state (stop_check p) r = (x, r')"
  shows "cr_judged r' = cr_judged r \<and>
    (case x of
       (True, Some e) \<Rightarrow> caller_error p e
     | (True, None) \<Rightarrow> cr_eval r' = eval_expire ReasonDeadline (cr_eval r)
     | (False, err) \<Rightarrow> err = None \<and> cr_eval r' = cr_eval r)"
  using assms by (auto simp: stop_check_def caller_error_def split: prod.splits option.splits if_splits bool.splits)

lemma stop_check_stops: "run_state (stop_check p) r = (x, r') \<Longrightarrow> stops p r x r'"
  using run_stop_check [of p r x r'] by (auto simp: stops_def split: prod.splits bool.splits option.splits)

lemma stop_after_failed_sleep:
  assumes "run_state (cp_sleep p d) w = (Some e, cr_world r)" "sleep_ends_with_context p"
  shows "fst (fst (run_state (stop_check p) r))"
  using assms unfolding sleep_ends_with_context_def
  by (fastforce simp: stop_check_def split: prod.splits option.splits)

lemma pause_stops:
  assumes "run_state (pause p at_time) r = (x, r')"
  shows "stops p r x r'"
proof -
  obtain now w1 where now: "run_state (cp_now p) (cr_world r) = (now, w1)" by fastforce
  define d where "d = time_sub (add_ns at_time sampleInterval) now"
  show ?thesis
  proof (cases "0 < d")
    case False
    then have "run_state (stop_check p) (r\<lparr>cr_world := w1\<rparr>) = (x, r')"
      using assms by (simp add: pause_def now Let_def d_def)
    from stop_check_stops [OF this] show ?thesis by simp
  next
    case True
    obtain slept w2 where slept: "run_state (cp_sleep p d) w1 = (slept, w2)" by fastforce
    obtain y r2 where y: "run_state (stop_check p) (r\<lparr>cr_world := w2\<rparr>) = (y, r2)" by fastforce
    have y_stops: "stops p r y r2" using stop_check_stops [OF y] by simp
    show ?thesis
    proof (cases slept)
      case None
      then show ?thesis using assms True y y_stops
        by (simp add: pause_def now Let_def slept flip: d_def)
    next
      case (Some e)
      have xr: "x = (if fst y then (True, snd y) else (True, Some e))" "r' = r2"
        using assms True y Some by (simp_all add: pause_def now Let_def slept split: if_splits flip: d_def)
      show ?thesis
      proof (cases "fst y")
        case True
        then show ?thesis using y_stops xr by (cases y) simp
      next
        case False
        moreover have "\<not> sleep_ends_with_context p"
          using stop_after_failed_sleep [of p d w1 e "r\<lparr>cr_world := w2\<rparr>"] slept Some y False by auto
        ultimately show ?thesis using y_stops xr by (auto simp: stops_def split: prod.splits bool.splits)
      qed
    qed
  qed
qed

section \<open>The loop\<close>

text \<open>How sampling ends: with an error, cut short, or with a verdict on the snapshots judged.\<close>

definition expired :: "evaluator \<Rightarrow> snapshot list \<Rightarrow> bool" where
  "expired e snaps \<longleftrightarrow> (\<exists>e'. e = eval_expire ReasonDeadline e' \<and> (if snaps = [] then unjudged e' else follows e' snaps))"

definition settled_samples :: "evaluator \<Rightarrow> snapshot list \<Rightarrow> bool" where
  "settled_samples e snaps \<longleftrightarrow> follows e snaps \<and> snaps \<noteq> [] \<and> (eval_confirmed e \<or> 2 \<le> length snaps)"

definition sampling_ends :: "'w checker_port \<Rightarrow> error option \<Rightarrow> 'w check_run \<Rightarrow> bool" where
  "sampling_ends p res r \<longleftrightarrow> length (cr_judged r) \<le> 4 \<and>
     (case res of
        Some e \<Rightarrow> sleep_ends_with_context p \<longrightarrow> caller_error p e
      | None \<Rightarrow> expired (cr_eval r) (cr_judged r) \<or> settled_samples (cr_eval r) (cr_judged r))"

definition sampled :: "snapshot option \<Rightarrow> 'w check_run \<Rightarrow> bool" where
  "sampled prev r \<longleftrightarrow> (case prev of
     None \<Rightarrow> cr_judged r = [] \<and> unjudged (cr_eval r)
   | Some s \<Rightarrow> cr_judged r \<noteq> [] \<and> s = last (cr_judged r) \<and> follows (cr_eval r) (cr_judged r))"

lemma stopped_sampling:
  assumes "stops p r (True, err) r'" "sampled prev r" "length (cr_judged r) \<le> 4"
  shows "sampling_ends p err r'"
  using assms by (auto simp: stops_def sampling_ends_def expired_def sampled_def split: option.splits)

lemma sample_ticks_end:
  assumes "run_state (sample_ticks n p target prev) r = (res, r')" "sampled prev r"
    "length (cr_judged r) + n = 4"
  shows "sampling_ends p res r'"
  using assms
proof (induction n arbitrary: prev r)
  case 0
  then show ?case
    by (auto simp: sampling_ends_def sampled_def settled_samples_def split: option.splits)
next
  case (Suc n)
  obtain x r1 where x: "run_state (case prev of None \<Rightarrow> stop_check p | Some s \<Rightarrow> pause p (sn_at s)) r = (x, r1)"
    by fastforce
  have x_stops: "stops p r x r1"
  proof (cases prev)
    case None
    then show ?thesis using x stop_check_stops [of p r x r1] by simp
  next
    case (Some s)
    then show ?thesis using x pause_stops [of p "sn_at s" r x r1] by simp
  qed
  show ?case
  proof (cases "fst x")
    case True
    then have "res = snd x" "r' = r1" using Suc.prems(1) x by simp_all
    then show ?thesis using stopped_sampling [of p r "snd x" r1 prev] x_stops True Suc.prems by (cases x) simp
  next
    case False
    then have r1: "cr_judged r1 = cr_judged r" "cr_eval r1 = cr_eval r"
      using x_stops by (auto simp: stops_def split: prod.splits bool.splits)
    obtain seen w2 where seen: "run_state (cp_observe p target) (cr_world r1) = (seen, w2)" by fastforce
    obtain now w3 where now: "run_state (cp_now p) w2 = (now, w3)" by fastforce
    define cur where "cur = seen\<lparr>sn_at := now\<rparr>"
    obtain y r4 where y: "run_state (stop_check p) (r1\<lparr>cr_world := w3\<rparr>) = (y, r4)" by fastforce
    have "stops p r1 y r4" using stop_check_stops [OF y] by simp
    then have y_stops: "stops p r y r4" using r1 by (rule stops_same)
    show ?thesis
    proof (cases "fst y")
      case True
      then have "res = snd y" "r' = r4" using Suc.prems(1) x False seen now y by (simp_all add: Let_def)
      then show ?thesis using stopped_sampling [of p r "snd y" r4 prev] y_stops True Suc.prems by (cases y) simp
    next
      case y_false: False
      then have r4: "cr_judged r4 = cr_judged r" "cr_eval r4 = cr_eval r"
        using y_stops by (auto simp: stops_def split: prod.splits bool.splits)
      define r5 where "r5 = r4\<lparr>cr_eval := eval_step prev cur (cr_eval r4), cr_judged := cr_judged r4 @ [cur]\<rparr>"
      have r5: "cr_judged r5 = cr_judged r @ [cur]" "follows (cr_eval r5) (cr_judged r @ [cur])"
        using Suc.prems(2) step_first [of "cr_eval r" cur] step_next [of "cr_eval r" "cr_judged r" cur]
        by (auto simp: r5_def r4 sampled_def split: option.splits)
      have step: "run_state (sample_ticks (Suc n) p target prev) r =
          (if eval_confirmed (cr_eval r5) \<or> prev \<noteq> None \<and> \<not> eval_pending (cr_eval r5)
           then (None, r5) else run_state (sample_ticks n p target (Some cur)) r5)"
        using x False seen now y y_false by (cases prev) (simp_all add: Let_def r5_def flip: cur_def)
      show ?thesis
      proof (cases "eval_confirmed (cr_eval r5) \<or> prev \<noteq> None \<and> \<not> eval_pending (cr_eval r5)")
        case True
        then have res: "res = None" "r' = r5" using Suc.prems(1) step by simp_all
        have "eval_confirmed (cr_eval r5) \<or> 2 \<le> length (cr_judged r5)"
          using True Suc.prems(2) by (cases "cr_judged r") (auto simp: r5 sampled_def split: option.splits)
        then show ?thesis using Suc.prems(3) by (auto simp: res sampling_ends_def settled_samples_def r5)
      next
        case False
        then have "run_state (sample_ticks n p target (Some cur)) r5 = (res, r')"
          using Suc.prems(1) unfolding step by (simp only: if_False)
        moreover have "sampled (Some cur) r5" by (simp add: sampled_def r5)
        ultimately show ?thesis using Suc.IH Suc.prems(3) by (simp add: r5)
      qed
    qed
  qed
qed

section \<open>The whole check\<close>

lemma resolve_error: "run_state (resolve p) w = (Inl e, w') \<Longrightarrow> caller_error p e"
  by (auto simp: resolve_def unless_error_def caller_error_def split: option.splits prod.splits sum.splits if_splits)

lemma sample_check_ends:
  assumes "run_state (sample_check p target) r = (res, r')" "cr_eval r = new_evaluator" "cr_judged r = []"
  shows "sampling_ends p res r'"
proof -
  define r1 where "r1 = r\<lparr>cr_eval := expect (unsampled p) (cr_eval r)\<rparr>"
  have tracks: "\<exists>seen. metric_track m (cr_eval r1) = new_track\<lparr>tr_seen := seen\<rparr>" for m
    using assms(2) by (cases m) (auto simp: r1_def expect_def new_evaluator_def)
  then have "unjudged (cr_eval r1)"
    using assms(2) by (simp add: unjudged_def r1_def expect_def unsampled_def reason_defs)
  then have "sampled None r1" using assms(3) by (simp add: sampled_def r1_def)
  moreover have "run_state (sample_ticks 4 p target None) r1 = (res, r')"
    using assms(1) by (simp add: sample_check_def requiredStreak_def r1_def)
  ultimately show ?thesis using sample_ticks_end assms(3) by (fastforce simp: r1_def)
qed

lemma revalidate_ends:
  assumes "run_state (revalidate p t) r = (res, r')"
  shows "cr_judged r' = cr_judged r \<and> (case res of
      Some e \<Rightarrow> caller_error p e
    | None \<Rightarrow> cr_eval r' = cr_eval r \<or> (\<exists>reason. reason \<noteq> [] \<and> cr_eval r' = invalidateTarget reason (cr_eval r)))"
  using assms resolve_error [of p]
  by (auto simp: revalidate_def caller_error_def reason_defs split: prod.splits option.splits if_splits sum.splits)

definition critical_reading :: "'w checker_port \<Rightarrow> bool" where
  "critical_reading p \<longleftrightarrow> (\<exists>w memory w'. run_state (cp_host_memory p) w = (memory, w')
     \<and> ou_state (hostMemoryOutcome memory) = OutcomeCritical)"

definition precheck_assessment :: "'w checker_port \<Rightarrow> findings \<Rightarrow> bool" where
  "precheck_assessment p f \<longleftrightarrow>
     f = \<lparr>fi_pressures = [(MetricHostMemory, BasisCritical)], fi_unavailable = [], fi_advisories = []\<rparr> \<and> critical_reading p"

text \<open>An assessment is the precheck's or that of the sampled evaluator, possibly without its target.\<close>

definition sampled_assessment :: "findings \<Rightarrow> snapshot list \<Rightarrow> bool" where
  "sampled_assessment f snaps \<longleftrightarrow> (\<exists>e e'. (expired e snaps \<or> settled_samples e snaps)
     \<and> (e' = e \<or> (\<exists>reason. reason \<noteq> [] \<and> e' = invalidateTarget reason e)) \<and> f = eval_findings e')"

definition check_ends :: "'w checker_port \<Rightarrow> error + assessment \<Rightarrow> 'w check_run \<Rightarrow> bool" where
  "check_ends p res r \<longleftrightarrow> length (cr_judged r) \<le> 4 \<and> (case res of
     Inl e \<Rightarrow> sleep_ends_with_context p \<longrightarrow> caller_error p e
   | Inr a \<Rightarrow> as_built a
       \<and> (cr_judged r = [] \<and> precheck_assessment p (as_findings a) \<or> sampled_assessment (as_findings a) (cr_judged r)))"

lemma measured_ends:
  assumes "run_state (measured p target) r = (res, r')" "cr_eval r = new_evaluator" "cr_judged r = []"
  shows "check_ends p res r'"
proof -
  obtain err r1 where samples: "run_state (sample_check p target) r = (err, r1)" by fastforce
  have ends: "sampling_ends p err r1" using sample_check_ends [OF samples assms(2,3)] .
  show ?thesis
  proof (cases err)
    case (Some e)
    then have "res = Inl e" "r' = r1" using assms(1) samples by (simp_all add: measured_def unless_error_def)
    then show ?thesis using ends Some by (simp add: check_ends_def sampling_ends_def)
  next
    case None
    define again where "again = (case target of None \<Rightarrow> State_Monad.return None | Some t \<Rightarrow> revalidate p t)"
    obtain err' r2 where again: "run_state again r1 = (err', r2)" by fastforce
    have r2: "cr_judged r2 = cr_judged r1 \<and> (case err' of
        Some e \<Rightarrow> caller_error p e
      | None \<Rightarrow> cr_eval r2 = cr_eval r1 \<or> (\<exists>reason. reason \<noteq> [] \<and> cr_eval r2 = invalidateTarget reason (cr_eval r1)))"
    proof (cases target)
      case None
      then show ?thesis using again by (simp add: again_def)
    next
      case (Some t)
      then show ?thesis using again revalidate_ends [of p t r1 err' r2] by (simp add: again_def)
    qed
    show ?thesis
    proof (cases err')
      case (Some e)
      then have "res = Inl e" "r' = r2"
        using assms(1) samples None again by (simp_all add: measured_def unless_error_def flip: again_def)
      then show ?thesis using r2 ends Some by (simp add: check_ends_def sampling_ends_def)
    next
      case err'_none: None
      obtain now w where now: "run_state (cp_now p) (cr_world r2) = (now, w)" by fastforce
      have "res = Inr (NewAssessment now (run_scope target (cr_eval r2)) (eval_findings (cr_eval r2)))"
          "r' = r2\<lparr>cr_world := w\<rparr>"
        using assms(1) samples None again err'_none now
        by (simp_all add: measured_def unless_error_def flip: again_def)
      then show ?thesis using r2 ends None err'_none
        by (auto simp: check_ends_def sampling_ends_def sampled_assessment_def NewAssessment_def)
    qed
  qed
qed

lemma criticalPrecheck_ends:
  assumes "run_state (criticalPrecheck p) r = (res, r')" "cr_eval r = new_evaluator" "cr_judged r = []"
  shows "case res of
      Inl e \<Rightarrow> caller_error p e \<and> cr_judged r' = []
    | Inr None \<Rightarrow> cr_eval r' = new_evaluator \<and> cr_judged r' = []
    | Inr (Some a) \<Rightarrow> cr_judged r' = [] \<and> as_built a \<and> precheck_assessment p (as_findings a)"
proof -
  obtain memory w1 where memory: "run_state (cp_host_memory p) (cr_world r) = (memory, w1)" by fastforce
  have "eval_findings (new_evaluator\<lparr>ev_host_memory := track_record x new_track\<rparr>)
      = \<lparr>fi_pressures = [(MetricHostMemory, BasisCritical)], fi_unavailable = [], fi_advisories = []\<rparr>"
    if "ou_state x = OutcomeCritical" for x
    using that by (simp add: eval_findings_def eval_metrics_def track_pressure_def track_unavailable_def
        map_filter_simps new_evaluator_def new_track_def track_record_def)
  moreover have "critical_reading p" if "ou_state (hostMemoryOutcome memory) = OutcomeCritical"
    using that memory unfolding critical_reading_def by blast
  ultimately show ?thesis
    using assms memory
    by (auto simp: criticalPrecheck_def unless_error_def Let_def precheck_assessment_def
        NewAssessment_def new_evaluator_def intro: caller_errorI split: prod.splits option.splits if_splits)
qed

theorem Check_ends:
  assumes "Check p w = (res, r)"
  shows "check_ends p res r"
proof -
  obtain stop w0 where stop: "run_state (cp_caller p) w = (stop, w0)" by fastforce
  define r0 where "r0 = (new_run w)\<lparr>cr_world := w0\<rparr>"
  have r0: "cr_eval r0 = new_evaluator" "cr_judged r0 = []" by (simp_all add: r0_def new_run_def)
  show ?thesis
  proof (cases stop)
    case (Some e)
    then have "res = Inl e" "r = r0" using assms stop by (auto simp: Check_def unless_error_def r0_def new_run_def)
    then show ?thesis using stop Some r0 by (auto simp: check_ends_def caller_error_def)
  next
    case None
    then have run: "run_state (execute p) r0 = (res, r)"
      using assms stop by (simp add: Check_def unless_error_def r0_def new_run_def)
    obtain early r1 where early: "run_state (criticalPrecheck p) r0 = (early, r1)" by fastforce
    note pre = criticalPrecheck_ends [OF early r0]
    show ?thesis
    proof (cases early)
      case (Inl e)
      then show ?thesis using run early pre by (auto simp: execute_def run_attempt check_ends_def)
    next
      case (Inr found)
      show ?thesis
      proof (cases found)
        case (Some a)
        then show ?thesis using run early pre Inr by (auto simp: execute_def run_attempt check_ends_def)
      next
        case found_none: None
        then have r1: "cr_eval r1 = new_evaluator" "cr_judged r1 = []" using pre Inr by simp_all
        obtain target r2 where target: "run_state (initial_target p) r1 = (target, r2)" by fastforce
        have r2: "cr_eval r2 = new_evaluator" "cr_judged r2 = []" "\<And>e. target = Inl e \<Longrightarrow> caller_error p e"
          using target r1 resolve_error [of p]
          by (auto simp: initial_target_def split: if_splits prod.splits)
        show ?thesis
        proof (cases target)
          case (Inl e)
          then show ?thesis using run early Inr found_none target r2
            by (auto simp: execute_def run_attempt check_ends_def)
        next
          case Inr_t: (Inr t)
          have "run_state (measured p t) r2 = (res, r)"
            using run early Inr found_none target Inr_t by (simp add: execute_def run_attempt)
          then show ?thesis using measured_ends r2 by blast
        qed
      qed
    qed
  qed
qed

end
