(* ===== verification/Res_Verdict.thy ===== *)
theory Res_Verdict
  imports Res_Loop
begin

text \<open>
  What the findings of a check say about the snapshots it judged.
\<close>

section \<open>Findings and tracks\<close>

lemma pressures_iff:
  "(m, b) \<in> set (fi_pressures (eval_findings e)) \<longleftrightarrow>
     (if tr_critical (metric_track m e) then b = BasisCritical
      else tr_sustained (metric_track m e) \<and> b = BasisSustained)"
  by (cases m) (auto simp: eval_findings_def eval_metrics_def track_pressure_def map_filter_simps split: option.splits)

lemma no_pressures_iff: "fi_pressures (eval_findings e) = [] \<longleftrightarrow> (\<forall>m. \<not> track_confirmed (metric_track m e))"
proof -
  have "fi_pressures (eval_findings e) = [] \<longleftrightarrow> (\<forall>m b. (m, b) \<notin> set (fi_pressures (eval_findings e)))"
    by (metis empty_iff empty_set eq_fst_iff last_in_set)
  then show ?thesis unfolding pressures_iff track_confirmed_def by metis
qed

lemma no_unavailable_iff:
  "fi_unavailable (eval_findings e) = [] \<longleftrightarrow> (\<forall>m. track_unavailable (m, metric_track m e) = None)"
proof -
  have "fi_unavailable (eval_findings e) = [] \<longleftrightarrow> (\<forall>x \<in> set (eval_metrics e). track_unavailable x = None)"
    by (simp add: eval_findings_def List.map_filter_def filter_empty_conv del: not_None_eq)
  also have "\<dots> \<longleftrightarrow> (\<forall>m. track_unavailable (m, metric_track m e) = None)"
  proof (intro iffI allI)
    fix m assume "\<forall>x \<in> set (eval_metrics e). track_unavailable x = None"
    then show "track_unavailable (m, metric_track m e) = None" by (cases m) (simp_all add: eval_metrics_def)
  next
    assume "\<forall>m. track_unavailable (m, metric_track m e) = None"
    then show "\<forall>x \<in> set (eval_metrics e). track_unavailable x = None"
      unfolding eval_metrics_def by (metis (no_types, lifting) empty_iff empty_set metric_track.simps set_ConsD)
  qed
  finally show ?thesis .
qed

lemma expire_verdicts [simp]:
  "tr_critical (track_expire r t) = tr_critical t" "tr_sustained (track_expire r t) = tr_sustained t"
  "tr_seen (track_expire r t) = tr_seen t" "track_confirmed (track_expire r t) = track_confirmed t"
  by (simp_all add: track_expire_def track_confirmed_def)

lemma metric_track_expire [simp]: "metric_track m (eval_expire r e) = track_expire r (metric_track m e)"
  by (cases m) (simp_all add: eval_expire_def)

lemma metric_track_invalidate:
  "metric_track m (invalidateTarget r e) =
     (if m = MetricCgroupCPU \<or> m = MetricCgroupMemory then track_invalidate r (metric_track m e) else metric_track m e)"
  by (cases m) (simp_all add: invalidateTarget_def)

lemma invalidate_verdicts:
  "tr_critical (track_invalidate r t) \<Longrightarrow> tr_critical t"
  "tr_sustained (track_invalidate r t) \<Longrightarrow> \<not> tr_critical t \<Longrightarrow> tr_sustained t"
  "tr_seen (track_invalidate r t) = tr_seen t"
  by (auto simp: track_invalidate_def new_track_def split: if_splits)

section \<open>Confirmed pressure\<close>

lemma baseline_track_verdicts:
  "tr_streak (baseline_track m s) = 0" "\<not> tr_sustained (baseline_track m s)"
  "tr_critical (baseline_track m s) \<longleftrightarrow> m = MetricHostMemory \<and> ou_state (hostMemoryOutcome (sn_memory s)) = OutcomeCritical"
  by (auto simp: baseline_track_def track_baseline_def track_record_fields Let_def new_track_def
      split: outcome_state.split)

lemma any_of_not_critical: "ou_state x \<noteq> OutcomeCritical \<Longrightarrow> ou_state (any_of x xs) \<noteq> OutcomeCritical"
  by (induction xs arbitrary: x) (simp_all split: outcome_state.split)

lemma levels_not_critical:
  "ou_state (anyOf xs) \<noteq> OutcomeCritical"
  "ou_state (withCoverage x c) = ou_state x"
  "ou_state (psiOutcome a b t) \<noteq> OutcomeCritical"
  "ou_state (allOf x y) = OutcomeCritical \<Longrightarrow> ou_state x = OutcomeCritical"
  "cgroupPair p q t = Inl z \<Longrightarrow> ou_state z \<noteq> OutcomeCritical"
  using any_of_not_critical [of clearOutcome xs]
  by (auto simp: anyOf_def withCoverage_def psiOutcome_def allOf_def cgroupPair_def
      split: reading.splits if_splits)

lemma not_critical:
  "ou_state (hostCPUOutcome p c) \<noteq> OutcomeCritical"
  "ou_state (cgroupCPUOutcome q d t) \<noteq> OutcomeCritical"
  "ou_state (cgroupMemoryOutcome q d t) \<noteq> OutcomeCritical"
proof -
  show "ou_state (hostCPUOutcome p c) \<noteq> OutcomeCritical"
    by (simp add: hostCPUOutcome_def Let_def split: reading.split)
  show "ou_state (cgroupCPUOutcome q d t) \<noteq> OutcomeCritical"
    by (cases "cgroupPair q d t") (simp_all add: cgroupCPUOutcome_def levels_not_critical split: prod.split)
  have "ou_state (withCoverage (allOf (anyOf xs) y) e) \<noteq> OutcomeCritical" for xs y e
    using levels_not_critical(1,4) by (auto simp: levels_not_critical(2))
  then show "ou_state (cgroupMemoryOutcome q d t) \<noteq> OutcomeCritical"
    by (cases "cgroupPair q d t")
      (simp_all add: cgroupMemoryOutcome_def levels_not_critical(2,5) split: prod.split)
qed

lemma critical_is_memory: "ou_state (interval_outcome m p c) = OutcomeCritical \<Longrightarrow> m = MetricHostMemory"
  by (cases m) (simp_all add: not_critical)

lemma memory_intervals: "x \<in> set (intervals MetricHostMemory snaps) \<Longrightarrow> \<exists>s \<in> set snaps. x = hostMemoryOutcome (sn_memory s)"
  by (induction snaps rule: induct_list012) auto

lemma judged_critical:
  assumes "tr_critical (judged_track m snaps)" "snaps \<noteq> []"
  shows "m = MetricHostMemory \<and> (\<exists>s \<in> set snaps. ou_state (hostMemoryOutcome (sn_memory s)) = OutcomeCritical)"
proof -
  consider "tr_critical (baseline_track m (hd snaps))"
    | x where "x \<in> set (intervals m snaps)" "ou_state x = OutcomeCritical"
    using assms(1) by (auto simp: judged_track_def fold_record_critical)
  then show ?thesis
  proof cases
    case 1
    then show ?thesis using assms(2) by (auto simp: baseline_track_verdicts)
  next
    case 2
    then have m: "m = MetricHostMemory" using critical_is_memory by (auto simp: intervals_def)
    then show ?thesis using 2 memory_intervals by blast
  qed
qed

lemma judged_sustained:
  assumes "tr_sustained (judged_track m snaps)" "length snaps \<le> 4"
  shows "length snaps = 4 \<and> (\<forall>x \<in> set (intervals m snaps). ou_state x = OutcomeHot)"
proof -
  have "hot_in_a_row 3 (streak_outcomes (intervals m snaps))"
    using assms(1) fold_record_sustained [OF baseline_track_verdicts(1,2)] by (simp add: judged_track_def)
  then obtain as hot bs where split: "streak_outcomes (intervals m snaps) = as @ hot @ bs" "length hot = 3"
      "\<forall>x \<in> set hot. ou_state x = OutcomeHot" by (auto simp: hot_in_a_row_def)
  have "length (streak_outcomes (intervals m snaps)) \<le> length (intervals m snaps)"
    unfolding streak_outcomes_def by (rule length_filter_le)
  then have "length as + 3 + length bs \<le> length (intervals m snaps)" "length (intervals m snaps) \<le> 3"
    using split(1,2) assms(2) by simp_all
  then have "length (intervals m snaps) = 3" "length as = 0" "length bs = 0" by linarith+
  then have len: "length (intervals m snaps) = 3" "as = []" "bs = []" by simp_all
  then have "length (streak_outcomes (intervals m snaps)) = length (intervals m snaps)" using split by simp
  then have "streak_outcomes (intervals m snaps) = intervals m snaps"
    unfolding streak_outcomes_def by (metis (mono_tags, lifting) filter_True length_filter_less less_irrefl)
  then show ?thesis using split len assms(2) by auto
qed

lemma unjudged_verdicts: "unjudged e \<Longrightarrow> \<not> tr_critical (metric_track m e) \<and> \<not> tr_sustained (metric_track m e)"
proof -
  assume "unjudged e"
  then obtain seen where "metric_track m e = new_track\<lparr>tr_seen := seen\<rparr>" by (auto simp: unjudged_def)
  then show ?thesis by (simp add: new_track_def)
qed

lemma sampled_pressure:
  assumes "sampled_assessment f snaps" "(m, b) \<in> set (fi_pressures f)"
  shows "snaps \<noteq> [] \<and> (if b = BasisCritical then tr_critical (judged_track m snaps) else tr_sustained (judged_track m snaps))"
proof -
  obtain e e' where e: "expired e snaps \<or> settled_samples e snaps" "f = eval_findings e'"
      "e' = e \<or> (\<exists>reason. reason \<noteq> [] \<and> e' = invalidateTarget reason e)"
    using assms(1) by (auto simp: sampled_assessment_def)
  have "tr_critical (metric_track m e') \<Longrightarrow> tr_critical (metric_track m e)"
      "tr_sustained (metric_track m e') \<Longrightarrow> tr_sustained (metric_track m e)"
    using e(3) by (auto simp: metric_track_invalidate track_invalidate_def new_track_def split: if_splits)
  then have "if b = BasisCritical then tr_critical (metric_track m e) else tr_sustained (metric_track m e)"
    using assms(2) unfolding e(2) pressures_iff by (cases b) (simp_all split: if_splits)
  moreover have "follows e'' snaps \<and> snaps \<noteq> []"
    if "tr_critical (metric_track m e'') \<or> tr_sustained (metric_track m e'')"
       "if snaps = [] then unjudged e'' else follows e'' snaps" for e''
    using that unjudged_verdicts by (cases "snaps = []") auto
  ultimately have verdict: "if b = BasisCritical then tr_critical (metric_track m e) else tr_sustained (metric_track m e)"
    and judged: "\<And>e''. tr_critical (metric_track m e'') \<or> tr_sustained (metric_track m e'') \<Longrightarrow>
        (if snaps = [] then unjudged e'' else follows e'' snaps) \<Longrightarrow> follows e'' snaps \<and> snaps \<noteq> []"
    by blast+
  from e(1) obtain e0 where e0: "if snaps = [] then unjudged e0 else follows e0 snaps"
      "tr_critical (metric_track m e) = tr_critical (metric_track m e0)"
      "tr_sustained (metric_track m e) = tr_sustained (metric_track m e0)"
  proof
    assume "expired e snaps"
    then obtain e0 where "e = eval_expire ReasonDeadline e0" "if snaps = [] then unjudged e0 else follows e0 snaps"
      by (auto simp: expired_def)
    then show ?thesis using that [of e0] by simp
  next
    assume "settled_samples e snaps"
    then show ?thesis using that [of e] by (simp add: settled_samples_def)
  qed
  have "follows e0 snaps \<and> snaps \<noteq> []" using judged [of e0] verdict e0 by (cases b) simp_all
  then show ?thesis using verdict e0 by (cases b) (simp_all add: follows_def)
qed

section \<open>A clear check\<close>

lemma judged_clear:
  assumes "\<not> track_confirmed (judged_track m snaps)" "track_unavailable (m, judged_track m snaps) = None"
  shows "(\<forall>x \<in> set (intervals m snaps). ou_state x \<noteq> OutcomeCritical
      \<and> (tr_seen (judged_track m snaps) \<longrightarrow> \<not> uncovered x))
    \<and> \<not> hot_in_a_row 3 (streak_outcomes (intervals m snaps))"
proof -
  have reasons: "\<forall>x \<in> set (intervals m snaps). ou_state x = OutcomeUnknown \<longrightarrow> ou_reason x \<noteq> []"
    using reasoned_interval by (auto simp: intervals_def reasoned_def)
  have "tr_unknown (judged_track m snaps) = []" if "tr_seen (judged_track m snaps)"
    using assms that by (auto simp: track_unavailable_def track_confirmed_def split: if_splits)
  then have covered: "tr_seen (judged_track m snaps) \<longrightarrow> (\<forall>x \<in> set (intervals m snaps). \<not> uncovered x)"
    unfolding judged_track_def using fold_record_unknown [OF reasons] by blast
  have "\<not> tr_critical (judged_track m snaps)" "\<not> tr_sustained (judged_track m snaps)"
    using assms(1) by (simp_all add: track_confirmed_def)
  then show ?thesis
    using covered fold_record_sustained [OF baseline_track_verdicts(1,2)] fold_record_critical
    unfolding judged_track_def by blast
qed

lemma judged_unseen:
  assumes "\<not> tr_seen (judged_track m snaps)"
  shows "metric_skipped m (hd snaps) \<and> (\<forall>x \<in> set (intervals m snaps). ou_state x = OutcomeSkipped)"
  using assms
  by (auto simp: judged_track_def fold_record_seen baseline_track_def track_baseline_def track_record_fields
      Let_def split: if_splits)

lemma skipped_intervals:
  assumes "\<forall>x \<in> set xs. ou_state x = OutcomeSkipped"
  shows "(\<forall>x \<in> set xs. ou_state x \<noteq> OutcomeCritical \<and> \<not> uncovered x) \<and> \<not> hot_in_a_row 3 (streak_outcomes xs)"
proof -
  have "streak_outcomes xs = []" using assms by (simp add: streak_outcomes_def filter_empty_conv)
  then show ?thesis using assms by (simp add: uncovered_def hot_in_a_row_def)
qed

definition metric_clear :: "metric \<Rightarrow> snapshot list \<Rightarrow> bool" where
  "metric_clear m snaps \<longleftrightarrow>
     (\<forall>x \<in> set (intervals m snaps). ou_state x \<noteq> OutcomeCritical \<and> \<not> uncovered x)
     \<and> \<not> hot_in_a_row 3 (streak_outcomes (intervals m snaps))"

lemma judged_metric_clear:
  assumes "\<not> track_confirmed (judged_track m snaps)" "track_unavailable (m, judged_track m snaps) = None"
  shows "metric_clear m snaps"
  using judged_clear [OF assms] judged_unseen skipped_intervals unfolding metric_clear_def by metis

lemma expired_unavailable:
  "\<not> track_confirmed t \<Longrightarrow> track_unavailable (m, track_expire ReasonDeadline t) = None \<Longrightarrow> \<not> tr_seen t"
  by (auto simp: track_unavailable_def track_expire_def track_confirmed_def reason_defs split: if_splits)

lemma invalidated_unavailable:
  assumes "reason \<noteq> []" "track_unavailable (m, track_invalidate reason t) = None"
  shows "\<not> tr_seen t \<and> track_invalidate reason t = t"
  using assms by (auto simp: track_unavailable_def track_invalidate_def new_track_def split: if_splits)

lemma sampled_clear:
  assumes "sampled_assessment f snaps" "fi_pressures f = []" "fi_unavailable f = []"
  shows "snaps \<noteq> [] \<and> (\<forall>m. (metric_skipped m (hd snaps) \<or> 2 \<le> length snaps) \<and> metric_clear m snaps)"
proof -
  obtain e e' where e: "expired e snaps \<or> settled_samples e snaps" "f = eval_findings e'"
      "e' = e \<or> (\<exists>reason. reason \<noteq> [] \<and> e' = invalidateTarget reason e)"
    using assms(1) by (auto simp: sampled_assessment_def)
  have quiet: "\<not> track_confirmed (metric_track m e')" "track_unavailable (m, metric_track m e') = None" for m
    using assms(2,3) by (simp_all add: e(2) no_pressures_iff no_unavailable_iff)
  have "metric_track m e' = metric_track m e" for m
    using e(3) quiet(2) [of m] invalidated_unavailable by (auto simp: metric_track_invalidate split: if_splits)
  then have quiet: "\<not> track_confirmed (metric_track m e)" "track_unavailable (m, metric_track m e) = None" for m
    using quiet by simp_all
  from e(1) show ?thesis
  proof
    assume "settled_samples e snaps"
    then have settled: "follows e snaps" "snaps \<noteq> []" "eval_confirmed e \<or> 2 \<le> length snaps"
      by (simp_all add: settled_samples_def)
    have "\<not> eval_confirmed e"
      using quiet(1) unfolding eval_confirmed_def by (metis metric_track.simps)
    then show ?thesis
      using settled quiet judged_metric_clear by (auto simp: follows_def)
  next
    assume "expired e snaps"
    then obtain e0 where e0: "e = eval_expire ReasonDeadline e0" "if snaps = [] then unjudged e0 else follows e0 snaps"
      by (auto simp: expired_def)
    have unseen: "\<not> tr_seen (metric_track m e0)" for m
      using quiet [of m] expired_unavailable by (simp add: e0(1))
    have "snaps \<noteq> []" using e0(2) unseen [of MetricHostCPU] by (auto simp: unjudged_def)
    moreover from this have "metric_skipped m (hd snaps) \<and> metric_clear m snaps" for m
      using e0(2) unseen [of m] judged_unseen [of m snaps] skipped_intervals [of "intervals m snaps"]
      by (simp add: follows_def metric_clear_def)
    ultimately show ?thesis by blast
  qed
qed

end
