(* ===== verification/Cgroup_Location.thy ===== *)
theory Cgroup_Location
  imports Go_Text
begin

text \<open>
  \<open>internal/lifetime/scope_linux.go\<close> and \<open>cgroup_location_linux.go\<close>: resolving the text of a process's
  \<open>cgroup\<close> file against a \<open>mountinfo\<close> text to the directory of its version 2 cgroup.
\<close>

record cgroup_mount =
  mo_root :: string
  mo_path :: string

record cgroup_location =
  lo_mount_root :: string
  lo_mount_path :: string
  lo_current_path :: string

definition location_error :: "string \<Rightarrow> error" where "location_error m = Opaque m"

section \<open>The membership\<close>

text \<open>\<open>parseCgroupV2Path\<close>: what one line adds to the path found so far.\<close>

definition membership_line :: "string \<Rightarrow> string \<Rightarrow> error + string" where
  "membership_line path line =
     (let parts = split_cuts 2 CHR '':'' line in
      if length parts \<noteq> 3 \<or> parts ! 0 \<noteq> ''0'' \<or> parts ! 1 \<noteq> [] then Inr path
      else if path \<noteq> [] then Inl (location_error ''/proc cgroup has duplicate v2 entries'')
      else if parts ! 2 = [] \<or> \<not> has_prefix ''/'' (parts ! 2) \<or> contains_char CHR 0x00 (parts ! 2)
      then Inl (location_error ''/proc cgroup v2 path is malformed'')
      else if parts ! 2 = ''/..'' \<or> has_prefix ''/../'' (parts ! 2)
      then Inl (location_error ''/proc cgroup v2 path is outside the cgroup namespace view'')
      else if path_clean (parts ! 2) \<noteq> parts ! 2
      then Inl (location_error ''/proc cgroup v2 path is malformed'')
      else Inr (parts ! 2))"

fun membership_lines :: "string \<Rightarrow> string list \<Rightarrow> error + string" where
  "membership_lines path [] = Inr path"
| "membership_lines path (l # ls) = bind_result (membership_line path l) (\<lambda>path'. membership_lines path' ls)"

definition max_scan_token :: nat where "max_scan_token = 65536"
definition max_mount_token :: nat where "max_mount_token = 1048576"

definition token_too_long :: error where "token_too_long = Opaque ''bufio.Scanner: token too long''"

definition parseCgroupV2Path :: "string \<Rightarrow> error + string" where
  "parseCgroupV2Path data = (case scan_lines max_scan_token data of (ls, complete) \<Rightarrow>
     bind_result (membership_lines [] ls) (\<lambda>path.
       if \<not> complete then Inl token_too_long
       else if path = [] then Inl (location_error ''/proc cgroup has no v2 entry'')
       else Inr path))"

section \<open>The mounts\<close>

fun unescapeMountInfoPath :: "string \<Rightarrow> error + string" where
  "unescapeMountInfoPath [] = Inr []"
| "unescapeMountInfoPath (c # cs) =
     (if c \<noteq> CHR 0x5C then bind_result (unescapeMountInfoPath cs) (\<lambda>s. Inr (c # s))
      else case cs of
        a # b # d # rest \<Rightarrow>
          if [a, b, d] = ''040'' then bind_result (unescapeMountInfoPath rest) (\<lambda>s. Inr (CHR '' '' # s))
          else if [a, b, d] = ''011'' then bind_result (unescapeMountInfoPath rest) (\<lambda>s. Inr (CHR 0x09 # s))
          else if [a, b, d] = ''134'' then bind_result (unescapeMountInfoPath rest) (\<lambda>s. Inr (CHR 0x5C # s))
          else Inl (location_error ''mountinfo path escape is unsupported'')
      | _ \<Rightarrow> Inl (location_error ''mountinfo path escape is truncated''))"

definition mount_separator :: "string list \<Rightarrow> nat option" where
  "mount_separator fs =
     (let n = length (takeWhile (\<lambda>f. f \<noteq> ''-'') fs) in if n < length fs then Some n else None)"

definition mount_line :: "string \<Rightarrow> error + cgroup_mount option" where
  "mount_line line =
     (let fs = Go_Text.fields line in
      case mount_separator fs of None \<Rightarrow> Inr None | Some separator \<Rightarrow>
      if separator < 6 \<or> separator + 1 \<ge> length fs \<or> fs ! (separator + 1) \<noteq> ''cgroup2'' then Inr None
      else bind_result (unescapeMountInfoPath (fs ! 3)) (\<lambda>root.
        bind_result (unescapeMountInfoPath (fs ! 4)) (\<lambda>mount_path.
          if \<not> is_abs root \<or> \<not> is_abs mount_path
          then Inl (location_error ''mountinfo cgroup path is not absolute'')
          else if path_clean root \<noteq> root then Inr None
          else Inr (Some \<lparr>mo_root = root, mo_path = path_clean mount_path\<rparr>))))"

fun mount_lines :: "string list \<Rightarrow> error + cgroup_mount list" where
  "mount_lines [] = Inr []"
| "mount_lines (l # ls) =
     bind_result (mount_line l) (\<lambda>m. bind_result (mount_lines ls) (\<lambda>ms.
       Inr (case m of None \<Rightarrow> ms | Some x \<Rightarrow> x # ms)))"

definition parseMountInfo :: "string \<Rightarrow> error + cgroup_mount list" where
  "parseMountInfo data = (case scan_lines max_mount_token data of (ls, complete) \<Rightarrow>
     bind_result (mount_lines ls) (\<lambda>ms.
       if \<not> complete then Inl token_too_long
       else if ms = [] then Inl (location_error ''mountinfo has no cgroup v2 mount'')
       else Inr ms))"

section \<open>Resolution\<close>

definition relativeCgroupPath :: "string \<Rightarrow> string \<Rightarrow> string option" where
  "relativeCgroupPath root current =
     (if root = ''/'' then Some current
      else if current = root then Some ''/''
      else if has_prefix (root @ ''/'') current then Some (trim_prefix root current)
      else None)"

definition pathWithin :: "string \<Rightarrow> string \<Rightarrow> bool" where
  "pathWithin base target \<longleftrightarrow>
     (let b = path_clean base; t = path_clean target in
      if b = ''/'' then is_abs t else t = b \<or> has_prefix (b @ ''/'') t)"

text \<open>The loop of \<open>resolveCgroupLocation\<close>: its state is the selection and the length of its root.\<close>

definition consider_mount ::
  "string \<Rightarrow> cgroup_mount \<Rightarrow> cgroup_location \<times> int \<Rightarrow> cgroup_location \<times> int" where
  "consider_mount cgroup_path m best =
     (case relativeCgroupPath (mo_root m) cgroup_path of None \<Rightarrow> best | Some relative \<Rightarrow>
      if int (length (mo_root m)) \<le> snd best then best
      else let current = path_clean (filepath_join (mo_path m) relative) in
        if \<not> pathWithin (mo_path m) current then best
        else (\<lparr>lo_mount_root = mo_root m, lo_mount_path = mo_path m, lo_current_path = current\<rparr>,
              int (length (mo_root m))))"

definition no_location :: cgroup_location where
  "no_location = \<lparr>lo_mount_root = [], lo_mount_path = [], lo_current_path = []\<rparr>"

definition resolveCgroupLocation :: "string \<Rightarrow> string \<Rightarrow> error + cgroup_location" where
  "resolveCgroupLocation cgroup_data mount_data =
     bind_result (parseCgroupV2Path cgroup_data) (\<lambda>cgroup_path.
     bind_result (parseMountInfo mount_data) (\<lambda>mounts.
       let best = fold (consider_mount cgroup_path) mounts (no_location, - 1) in
       if snd best < 0 then Inl (location_error ''no cgroup v2 mount contains the current cgroup'')
       else Inr (fst best)))"

text \<open>\<open>ResolveCgroupV2Location\<close>; a failure is its error alone.\<close>

definition ResolveCgroupV2Location :: "string \<Rightarrow> string \<Rightarrow> error + cgroup_location" where
  "ResolveCgroupV2Location cgroup_data mount_data = resolveCgroupLocation cgroup_data mount_data"

section \<open>The mount that is chosen\<close>

text \<open>Where a mount shows a cgroup path, if it does.\<close>

definition shown_at :: "string \<Rightarrow> cgroup_mount \<Rightarrow> cgroup_location option" where
  "shown_at cgroup_path m = (case relativeCgroupPath (mo_root m) cgroup_path of
     None \<Rightarrow> None
   | Some relative \<Rightarrow>
       let current = path_clean (filepath_join (mo_path m) relative) in
       if pathWithin (mo_path m) current
       then Some \<lparr>lo_mount_root = mo_root m, lo_mount_path = mo_path m, lo_current_path = current\<rparr>
       else None)"

lemma shown_at_facts:
  "shown_at path m = Some l \<Longrightarrow>
     lo_mount_root l = mo_root m \<and> lo_mount_path l = mo_path m \<and> pathWithin (lo_mount_path l) (lo_current_path l)"
  by (auto simp: shown_at_def Let_def split: option.splits if_splits)

definition best_mount :: "string \<Rightarrow> cgroup_mount set \<Rightarrow> cgroup_location \<times> int \<Rightarrow> bool" where
  "best_mount path ms best \<longleftrightarrow>
     (\<forall>m \<in> ms. shown_at path m \<noteq> None \<longrightarrow> int (length (mo_root m)) \<le> snd best)
     \<and> (snd best = - 1 \<or> (\<exists>m \<in> ms. shown_at path m = Some (fst best) \<and> snd best = int (length (mo_root m))))"

lemma consider_mount_best:
  assumes "best_mount path ms best"
  shows "best_mount path (insert m ms) (consider_mount path m best)"
proof (cases "shown_at path m")
  case None
  then have "consider_mount path m best = best"
    by (auto simp: shown_at_def consider_mount_def Let_def split: option.splits if_splits)
  then show ?thesis using assms None by (auto simp: best_mount_def)
next
  case (Some l)
  have "consider_mount path m best =
      (if int (length (mo_root m)) \<le> snd best then best else (l, int (length (mo_root m))))"
    using Some by (auto simp: shown_at_def consider_mount_def Let_def split: option.splits if_splits)
  then show ?thesis using assms Some by (force simp: best_mount_def)
qed

lemma fold_consider_best: "best_mount path ms best \<Longrightarrow> best_mount path (ms \<union> set mounts) (fold (consider_mount path) mounts best)"
proof (induction mounts arbitrary: ms best)
  case (Cons m mounts)
  from Cons.IH [OF consider_mount_best [OF Cons.prems, of m]] show ?case by simp
qed simp

lemma membership_line_path:
  "membership_line path line = Inr path' \<Longrightarrow>
     path' = path \<or> has_prefix ''/'' path' \<and> path_clean path' = path' \<and> path' \<noteq> ''/..'' \<and> \<not> has_prefix ''/../'' path'"
  by (auto simp: membership_line_def Let_def split: if_splits)

lemma membership_lines_path:
  "membership_lines path ls = Inr path' \<Longrightarrow>
     path' = path \<or> has_prefix ''/'' path' \<and> path_clean path' = path' \<and> path' \<noteq> ''/..'' \<and> \<not> has_prefix ''/../'' path'"
proof (induction ls arbitrary: path)
  case (Cons l ls)
  then show ?case using membership_line_path by (fastforce simp: bind_result_Inr_iff)
qed simp

lemma parseCgroupV2Path_clean:
  "parseCgroupV2Path data = Inr path \<Longrightarrow>
     has_prefix ''/'' path \<and> path_clean path = path \<and> path \<noteq> ''/..'' \<and> \<not> has_prefix ''/../'' path"
  by (auto simp: parseCgroupV2Path_def bind_result_Inr_iff split: prod.splits if_splits dest: membership_lines_path)

lemma resolved_location:
  assumes "ResolveCgroupV2Location cgroup_data mount_data = Inr l"
  shows "\<exists>path mounts. parseCgroupV2Path cgroup_data = Inr path \<and> parseMountInfo mount_data = Inr mounts
    \<and> (\<exists>m \<in> set mounts. shown_at path m = Some l)
    \<and> (\<forall>m \<in> set mounts. shown_at path m \<noteq> None \<longrightarrow> length (mo_root m) \<le> length (lo_mount_root l))"
proof -
  obtain path mounts where parsed: "parseCgroupV2Path cgroup_data = Inr path" "parseMountInfo mount_data = Inr mounts"
    and l: "\<not> snd (fold (consider_mount path) mounts (no_location, - 1)) < 0"
      "l = fst (fold (consider_mount path) mounts (no_location, - 1))"
    using assms
    by (auto simp: ResolveCgroupV2Location_def resolveCgroupLocation_def bind_result_Inr_iff Let_def split: if_splits)
  have "best_mount path (set mounts) (fold (consider_mount path) mounts (no_location, - 1))"
    using fold_consider_best [of path "{}" "(no_location, - 1)" mounts] by (simp add: best_mount_def)
  then obtain m where m: "m \<in> set mounts" "shown_at path m = Some l"
      "snd (fold (consider_mount path) mounts (no_location, - 1)) = int (length (mo_root m))"
      "\<forall>m' \<in> set mounts. shown_at path m' \<noteq> None \<longrightarrow> length (mo_root m') \<le> length (mo_root m)"
    using l by (auto simp: best_mount_def)
  then show ?thesis using parsed shown_at_facts [OF m(2)] by auto
qed

end
