(* ===== verification/Res_Cgroup.thy ===== *)
theory Res_Cgroup
  imports Res_Check Cgroup_Location Go_Json
begin

text \<open>
  \<open>internal/resourceadmission\<close> on Linux: the texts of the kernel's files (\<open>cgroupparse_linux.go\<close>,
  \<open>native_cpu_linux.go\<close>) and the reader of the target's cgroup and its ancestors
  (\<open>cgroupfs_linux.go\<close>). The file tree at one moment is a parameter.
\<close>

section \<open>Parsers (\<open>cgroupparse_linux.go\<close>)\<close>

datatype file_fault = Malformed | NotExist | OtherFault error

record placement =
  pl_deleted :: bool
  pl_memory_outside :: bool
  pl_cpu_outside :: bool

definition deletedSuffix :: string where "deletedSuffix = '' (deleted)''"

definition place_line :: "string \<Rightarrow> placement \<times> bool \<Rightarrow> placement \<times> bool" where
  "place_line line acc = (case acc of (p, found) \<Rightarrow>
     (let fs = split_cuts 2 CHR '':'' line in
      if length fs \<noteq> 3 then acc
      else if fs ! 0 = ''0'' \<and> fs ! 1 = [] then (p\<lparr>pl_deleted := has_suffix deletedSuffix (fs ! 2)\<rparr>, True)
      else let cs = split_on CHR '','' (fs ! 1) in
        (p\<lparr>pl_memory_outside := (pl_memory_outside p \<or> ''memory'' \<in> set cs),
           pl_cpu_outside := (pl_cpu_outside p \<or> ''cpu'' \<in> set cs \<or> ''cpuacct'' \<in> set cs \<or> ''cpuset'' \<in> set cs)\<rparr>,
         found)))"

definition parsePlacement :: "string \<Rightarrow> reason + placement" where
  "parsePlacement data =
     (case fold place_line (split_on CHR 0x0A data)
        (\<lparr>pl_deleted = False, pl_memory_outside = False, pl_cpu_outside = False\<rparr>, False) of
      (p, found) \<Rightarrow> if found then Inr p else Inl ReasonCgroupUnsupported)"

text \<open>\<open>chain\<close>, for a positive limit: the first argument counts the levels that may still be listed.\<close>

fun chain :: "nat \<Rightarrow> string \<Rightarrow> string \<Rightarrow> string list \<times> bool" where
  "chain 0 dir upmost = ([], False)"
| "chain (Suc n) dir upmost =
     (if dir = upmost \<or> dir = ''.'' then ([dir], True)
      else if n = 0 then ([dir], False)
      else case chain n (path_dir dir) upmost of (ds, whole) \<Rightarrow> (dir # ds, whole))"

definition parseUint :: "string \<Rightarrow> file_fault + 64 word" where
  "parseUint data = (case parse_uint64 (trim_space data) of
     Inl e \<Rightarrow> Inl Malformed | Inr n \<Rightarrow> Inr (of_int n))"

definition no_limit :: byte_limit where "no_limit = \<lparr>bl_bytes = 0, bl_set = False\<rparr>"

definition parseLimit :: "string \<Rightarrow> file_fault + byte_limit" where
  "parseLimit data =
     (if trim_space data = ''max'' then Inr no_limit
      else case parseUint data of
        Inl e \<Rightarrow> Inl e | Inr v \<Rightarrow> Inr \<lparr>bl_bytes = v, bl_set = True\<rparr>)"

fun keyed_line :: "string \<Rightarrow> string list \<Rightarrow> file_fault + 64 word" where
  "keyed_line key [] = Inl Malformed"
| "keyed_line key (l # ls) = (case cut CHR '' '' l of (name, v, found) \<Rightarrow>
     if found \<and> name = key then parseUint v else keyed_line key ls)"

definition keyedValue :: "string \<Rightarrow> string \<Rightarrow> file_fault + 64 word" where
  "keyedValue data key = keyed_line key (split_on CHR 0x0A data)"

definition parseCPUMax :: "string \<Rightarrow> file_fault + float64 option" where
  "parseCPUMax data =
     (let fs = Go_Text.fields data in
      if length fs \<noteq> 2 then Inl Malformed
      else case parseUint (fs ! 1) of Inl e \<Rightarrow> Inl Malformed | Inr period \<Rightarrow>
        if period = 0 then Inl Malformed
        else if fs ! 0 = ''max'' then Inr None
        else case parseUint (fs ! 0) of Inl e \<Rightarrow> Inl e | Inr quota \<Rightarrow>
          Inr (Some (f_div (f_uint64 quota) (f_uint64 period))))"

text \<open>The number of CPUs of one part of a list; Go's \<open>int\<close> wraps at 64 bits.\<close>

definition wrap_int64 :: "int \<Rightarrow> int" where "wrap_int64 i = signed_take_bit 63 i"

definition cpu_part :: "string \<Rightarrow> file_fault + int" where
  "cpu_part part = (case cut CHR ''-'' part of (first, final, is_range) \<Rightarrow>
     (case atoi first of Inl e \<Rightarrow> Inl Malformed | Inr low \<Rightarrow>
      if low < 0 then Inl Malformed
      else if \<not> is_range then Inr 1
      else case atoi final of Inl e \<Rightarrow> Inl Malformed | Inr high \<Rightarrow>
        if high < low then Inl Malformed else Inr (high - low + 1)))"

fun cpu_parts :: "int \<Rightarrow> string list \<Rightarrow> file_fault + int" where
  "cpu_parts count [] = Inr count"
| "cpu_parts count (p # ps) = (case cpu_part p of
     Inl e \<Rightarrow> Inl e | Inr n \<Rightarrow> cpu_parts (wrap_int64 (count + n)) ps)"

definition parseCPUSet :: "string \<Rightarrow> file_fault + int" where
  "parseCPUSet data =
     (let cpus = trim_space data in
      if cpus = [] then Inl Malformed else cpu_parts 0 (split_on CHR '','' cpus))"

fun total_field :: "string list \<Rightarrow> string option" where
  "total_field [] = None"
| "total_field (f # fs) = (case cut_prefix ''total='' f of Some v \<Rightarrow> Some v | None \<Rightarrow> total_field fs)"

fun psi_lines :: "string list \<Rightarrow> file_fault + 64 word" where
  "psi_lines [] = Inl Malformed"
| "psi_lines (l # ls) = (case cut_prefix ''some '' l of
     None \<Rightarrow> psi_lines ls
   | Some rest \<Rightarrow> (case total_field (Go_Text.fields rest) of Some v \<Rightarrow> parseUint v | None \<Rightarrow> psi_lines ls))"

definition parsePSISomeTotal :: "string \<Rightarrow> file_fault + 64 word" where
  "parsePSISomeTotal data = psi_lines (split_on CHR 0x0A data)"

section \<open>The host's CPU counters (\<open>native_cpu_linux.go\<close>)\<close>

fun cpu_values :: "string list \<Rightarrow> (64 word list) option" where
  "cpu_values [] = Some []"
| "cpu_values (f # fs) = (case parse_uint64 f of
     Inl e \<Rightarrow> None
   | Inr n \<Rightarrow> (case cpu_values fs of None \<Rightarrow> None | Some vs \<Rightarrow> Some (of_int n # vs)))"

fun checked_sum :: "64 word \<Rightarrow> 64 word list \<Rightarrow> 64 word option" where
  "checked_sum s [] = Some s"
| "checked_sum s (v # vs) = (if s > (- 1) - v then None else checked_sum (s + v) vs)"

text \<open>Absent columns count as zero; those after the eighth are only checked.\<close>

definition parseProcStatCPU :: "string \<Rightarrow> cpu_counters option" where
  "parseProcStatCPU line =
     (let fs = Go_Text.fields line in
      if length fs < 5 \<or> fs ! 0 \<noteq> ''cpu'' then None
      else case cpu_values (tl fs) of None \<Rightarrow> None | Some all_values \<Rightarrow>
        let vs = take 8 (all_values @ replicate 8 0) in
        case checked_sum 0 vs of None \<Rightarrow> None | Some total_ticks \<Rightarrow>
          if total_ticks = 0 then None
          else Some \<lparr>cc_busy = f_uint64 (total_ticks - vs ! 3 - vs ! 4), cc_total = f_uint64 total_ticks\<rparr>)"

text \<open>What opening and reading a file gives; the last case is a fault of the read or of the close.\<close>

datatype opened = Absent | OpenFault error | Contents string | ReadFault error

definition procStatLimit :: nat where "procStatLimit = 4096"

definition readHostCPU :: "opened \<Rightarrow> cpu_counters reading" where
  "readHostCPU file = (case file of
     Contents data \<Rightarrow>
       (case cut CHR 0x0A (take procStatLimit data) of (line, _, found) \<Rightarrow>
        if \<not> found then Unobserved ReasonMalformed
        else case parseProcStatCPU line of
          None \<Rightarrow> Unobserved ReasonMalformed | Some c \<Rightarrow> Observed c)
   | _ \<Rightarrow> Unobserved ReasonUnreadable)"

section \<open>The target's cgroup (\<open>cgroupfs_linux.go\<close>)\<close>

record file_tree =
  ft_open :: "string \<Rightarrow> opened"
  ft_stat :: "string \<Rightarrow> file_fault option"

definition reasonOf :: "file_fault \<Rightarrow> reason" where
  "reasonOf e = (if e = Malformed then ReasonMalformed else ReasonUnreadable)"

definition maxMetadataBytes :: nat where "maxMetadataBytes = 1048576"
definition maxObservedAncestors :: nat where "maxObservedAncestors = 128"

text \<open>\<open>readText\<close>: \<open>None\<close> is an absent file.\<close>

definition readText :: "file_tree \<Rightarrow> string \<Rightarrow> file_fault + string option" where
  "readText fsys name = (case ft_open fsys name of
     Absent \<Rightarrow> Inr None
   | OpenFault e \<Rightarrow> Inl (OtherFault e)
   | ReadFault e \<Rightarrow> Inl (OtherFault e)
   | Contents data \<Rightarrow>
       if length data > maxMetadataBytes then Inl (OtherFault (Opaque ''control record too big''))
       else Inr (Some data))"

record located =
  lc_path :: string
  lc_dir :: string
  lc_top :: string
  lc_hidden :: bool
  lc_memory_outside :: bool
  lc_cpu_outside :: bool

definition valid_path :: "string \<Rightarrow> bool" where
  "valid_path s \<longleftrightarrow> valid_string s
     \<and> (s = ''.'' \<or> list_all (\<lambda>p. p \<noteq> [] \<and> p \<noteq> ''.'' \<and> p \<noteq> ''..'') (split_on CHR ''/'' s))"

definition or_dot :: "string \<Rightarrow> string" where "or_dot s = (if s = [] then ''.'' else s)"

definition place :: "file_tree \<Rightarrow> cgroup_location \<Rightarrow> placement \<Rightarrow> reason + located" where
  "place fsys location p =
     (let dir = or_dot (trim_prefix ''/'' (lo_current_path location));
          upmost = or_dot (trim_prefix ''/'' (lo_mount_path location)) in
      if \<not> valid_path dir \<or> \<not> valid_path upmost then Inl ReasonScopeUnresolved
      else case ft_stat fsys dir of
        Some e \<Rightarrow> Inl (if e = NotExist then ReasonScopeUnresolved else ReasonUnreadable)
      | None \<Rightarrow> Inr \<lparr>lc_path = lo_current_path location, lc_dir = dir, lc_top = upmost,
          lc_hidden = (lo_mount_root location \<noteq> ''/''),
          lc_memory_outside = pl_memory_outside p, lc_cpu_outside = pl_cpu_outside p\<rparr>)"

definition mountinfoFile :: string where "mountinfoFile = ''proc/self/mountinfo''"
definition selfCgroupFile :: string where "selfCgroupFile = ''proc/self/cgroup''"

definition membership_file :: "check_target \<Rightarrow> string" where
  "membership_file target =
     (if tg_pid target > 0 then ''proc/'' @ decimal (tg_pid target) @ ''/cgroup'' else selfCgroupFile)"

definition locate :: "file_tree \<Rightarrow> check_target \<Rightarrow> reason + located" where
  "locate fsys target =
     (case readText fsys (membership_file target) of
        Inl e \<Rightarrow> Inl ReasonUnreadable
      | Inr None \<Rightarrow> Inl ReasonScopeUnresolved
      | Inr (Some membership) \<Rightarrow> (case parsePlacement membership of Inl r \<Rightarrow> Inl r | Inr p \<Rightarrow>
          if tg_pid target > 0 \<and> pl_deleted p then Inl ReasonScopeUnresolved
          else case readText fsys mountinfoFile of
            Inl e \<Rightarrow> Inl ReasonUnreadable
          | Inr None \<Rightarrow> Inl ReasonCgroupUnsupported
          | Inr (Some mounts) \<Rightarrow>
              (case ResolveCgroupV2Location
                  (if tg_pid target > 0 then membership else ''0::'' @ tg_cgroup_path target @ [CHR 0x0A])
                  mounts of
                 Inl e \<Rightarrow> Inl ReasonScopeUnresolved
               | Inr location \<Rightarrow> place fsys location p)))"

definition target_membership :: "file_tree \<Rightarrow> check_target \<Rightarrow> string reading" where
  "target_membership fsys target = (case locate fsys target of
     Inl r \<Rightarrow> Unobserved r | Inr here \<Rightarrow> Observed (lc_path here))"

definition isRealRoot :: "file_tree \<Rightarrow> located \<Rightarrow> bool" where
  "isRealRoot fsys here \<longleftrightarrow> \<not> lc_hidden here \<and> lc_dir here = lc_top here
     \<and> readText fsys (filepath_join (lc_dir here) ''cgroup.events'') = Inr None"

definition psi :: "file_tree \<Rightarrow> located \<Rightarrow> 64 word reading" where
  "psi fsys here =
     (if lc_memory_outside here then Unobserved ReasonCgroupUnsupported
      else let own = readText fsys (filepath_join (lc_dir here) ''memory.pressure'');
               found = (if own = Inr None \<and> isRealRoot fsys here then readText fsys ''proc/pressure/memory'' else own)
        in case found of
          Inr (Some pressure) \<Rightarrow> (case parsePSISomeTotal pressure of
              Inl e \<Rightarrow> Unobserved ReasonMalformed | Inr v \<Rightarrow> Observed v)
        | _ \<Rightarrow> Unobserved ReasonPressureUnavailable)"

definition optionalLimit :: "file_tree \<Rightarrow> string \<Rightarrow> string \<Rightarrow> file_fault + byte_limit" where
  "optionalLimit fsys dir name = (case readText fsys (filepath_join dir name) of
     Inl e \<Rightarrow> Inl e | Inr None \<Rightarrow> Inr no_limit | Inr (Some data) \<Rightarrow> parseLimit data)"

definition requiredUint :: "file_tree \<Rightarrow> string \<Rightarrow> string \<Rightarrow> file_fault + 64 word" where
  "requiredUint fsys dir name = (case readText fsys (filepath_join dir name) of
     Inl e \<Rightarrow> Inl e | Inr None \<Rightarrow> Inl NotExist | Inr (Some data) \<Rightarrow> parseUint data)"

definition requiredKeyed :: "file_tree \<Rightarrow> string \<Rightarrow> string \<Rightarrow> string \<Rightarrow> file_fault + 64 word" where
  "requiredKeyed fsys dir name key = (case readText fsys (filepath_join dir name) of
     Inl e \<Rightarrow> Inl e | Inr None \<Rightarrow> Inl NotExist | Inr (Some data) \<Rightarrow> keyedValue data key)"

definition workingSet :: "64 word \<Rightarrow> 64 word \<Rightarrow> 64 word" where
  "workingSet current inactive = (if inactive \<ge> current then 0 else current - inactive)"

definition levelMemory :: "file_tree \<Rightarrow> string \<Rightarrow> level_memory reading" where
  "levelMemory fsys dir =
     (case optionalLimit fsys dir ''memory.max'' of Inl e \<Rightarrow> Unobserved (reasonOf e) | Inr max_limit \<Rightarrow>
     (case optionalLimit fsys dir ''memory.high'' of Inl e \<Rightarrow> Unobserved (reasonOf e) | Inr high_limit \<Rightarrow>
      if \<not> bl_set max_limit \<and> \<not> bl_set high_limit
      then Observed \<lparr>lm_max = no_limit, lm_high = no_limit, lm_working_set = 0\<rparr>
      else case requiredUint fsys dir ''memory.current'' of Inl e \<Rightarrow> Unobserved (reasonOf e) | Inr current \<Rightarrow>
        (case requiredKeyed fsys dir ''memory.stat'' ''inactive_file'' of
           Inl e \<Rightarrow> Unobserved (reasonOf e)
         | Inr inactive \<Rightarrow> Observed \<lparr>lm_max = max_limit, lm_high = high_limit,
             lm_working_set = workingSet current inactive\<rparr>)))"

definition with_quota :: "float64 option \<Rightarrow> level_cpu \<Rightarrow> level_cpu" where
  "with_quota q c = (case q of None \<Rightarrow> c | Some cpus \<Rightarrow> c\<lparr>lc_quota_cpus := cpus, lc_has_quota := True\<rparr>)"

definition levelCPU :: "file_tree \<Rightarrow> string \<Rightarrow> level_cpu reading" where
  "levelCPU fsys dir =
     (let none = \<lparr>lc_quota_cpus = Finite 0, lc_has_quota = False, lc_cpuset_cpus = 0, lc_usage_us = 0\<rparr> in
      case readText fsys (filepath_join dir ''cpu.max'') of Inl e \<Rightarrow> Unobserved ReasonUnreadable | Inr max_text \<Rightarrow>
      (case (case max_text of None \<Rightarrow> Inr None | Some data \<Rightarrow> parseCPUMax data) of
         Inl e \<Rightarrow> Unobserved ReasonMalformed | Inr quota \<Rightarrow>
      (case readText fsys (filepath_join dir ''cpuset.cpus.effective'') of
         Inl e \<Rightarrow> Unobserved ReasonUnreadable | Inr set_text \<Rightarrow>
      (case (case set_text of None \<Rightarrow> Inr 0 | Some data \<Rightarrow> parseCPUSet data) of
         Inl e \<Rightarrow> Unobserved ReasonMalformed | Inr cpus \<Rightarrow>
       let level = (with_quota quota none)\<lparr>lc_cpuset_cpus := cpus\<rparr> in
       if cpuCapacity level = None then Observed level
       else case requiredKeyed fsys dir ''cpu.stat'' ''usage_usec'' of
         Inl e \<Rightarrow> Unobserved (reasonOf e)
       | Inr usage \<Rightarrow> Observed (level\<lparr>lc_usage_us := usage\<rparr>)))))"

definition sample_level :: "file_tree \<Rightarrow> located \<Rightarrow> string \<Rightarrow> cgroup_level" where
  "sample_level fsys here dir = \<lparr>cg_path = dir,
     cg_memory = (if lc_memory_outside here then Unobserved ReasonCgroupUnsupported else levelMemory fsys dir),
     cg_cpu = (if lc_cpu_outside here then Unobserved ReasonCgroupUnsupported else levelCPU fsys dir)\<rparr>"

definition sample_target :: "file_tree \<Rightarrow> check_target option \<Rightarrow> cgroup_sample reading" where
  "sample_target fsys target = (case target of
     None \<Rightarrow> Unobserved ReasonTargetUnavailable
   | Some t \<Rightarrow> (case locate fsys t of
       Inl r \<Rightarrow> Unobserved r
     | Inr here \<Rightarrow> (case chain maxObservedAncestors (lc_dir here) (lc_top here) of (dirs, whole) \<Rightarrow>
         Observed \<lparr>cs_path = lc_path here, cs_psi_stall_us = psi fsys here,
           cs_levels = map (sample_level fsys here) dirs,
           cs_hidden_ancestors = (lc_hidden here \<or> \<not> whole)\<rparr>)))"

section \<open>The native observer (\<open>native_linux.go\<close>, \<open>observer.go\<close>)\<close>

text \<open>What gopsutil's reading of \<open>/proc/meminfo\<close> gives: nothing, or the total and the available bytes.\<close>

definition readHostMemory :: "(64 word \<times> 64 word) option \<Rightarrow> host_memory reading" where
  "readHostMemory vm = (case vm of
     None \<Rightarrow> Unobserved ReasonUnreadable
   | Some (all_bytes, available) \<Rightarrow> Observed \<lparr>hm_source = MemorySourceAvailable, hm_total = all_bytes,
       hm_available = available, hm_vm = 0\<rparr>)"

definition linux_observe ::
  "file_tree \<Rightarrow> (64 word \<times> 64 word) option \<Rightarrow> check_target option \<Rightarrow> snapshot" where
  "linux_observe fsys vm target = \<lparr>sn_at = zero_time, sn_cpu = readHostCPU (ft_open fsys ''proc/stat''),
     sn_memory = readHostMemory vm, sn_cgroup = sample_target fsys target\<rparr>"

end
