(* ===== verification/Res_Properties.thy ===== *)
theory Res_Properties
  imports Res_Verdict Res_Cgroup
begin

text \<open>
  The properties of the resource check and of the resolution of a cgroup.
\<close>

section \<open>A sample platform\<close>

text \<open>A host without cgroups: its clock, its contexts and its readings follow the number of observations.\<close>

definition sample_host :: "(nat \<Rightarrow> snapshot) \<Rightarrow> nat checker_port" where
  "sample_host snaps = \<lparr>cp_caller = State_Monad.return None, cp_mon = State_Monad.return None,
     cp_now = State (\<lambda>n. (utc_time (int n * ns_per_second), n)),
     cp_sleep = (\<lambda>d. State_Monad.return None), cp_uses_target = False,
     cp_observe = (\<lambda>t. State (\<lambda>n. (snaps n, Suc n))),
     cp_host_memory = State (\<lambda>n. (sn_memory (snaps n), n)),
     cp_membership = (\<lambda>t. State_Monad.return (Observed [])), cp_resolver = None\<rparr>"

definition sample_snapshot :: "64 word \<Rightarrow> snapshot" where
  "sample_snapshot available = \<lparr>sn_at = zero_time, sn_cpu = notApplicable,
     sn_memory = Observed \<lparr>hm_source = MemorySourceAvailable, hm_total = 1000, hm_available = available, hm_vm = 0\<rparr>,
     sn_cgroup = notApplicable\<rparr>"

lemma sample_memory [simp]:
  "hostMemoryOutcome (sn_memory (sample_snapshot 70)) = hotOutcome"
  "hostMemoryOutcome (sn_memory (sample_snapshot 700)) = clearOutcome"
  by (simp_all add: sample_snapshot_def hostMemoryOutcome_def classifyAvailable_def reserveBytes_def
      reserveCeiling_def reserveDivisor_def)

lemma sample_step:
  "eval_step prev (sample_snapshot a\<lparr>sn_at := t\<rparr>) e = (let x = hostMemoryOutcome (sn_memory (sample_snapshot a)) in
     case prev of
       None \<Rightarrow> (expect (sample_snapshot a) e)
         \<lparr>ev_host_memory := track_baseline x (ev_host_memory (expect (sample_snapshot a) e))\<rparr>
     | Some p \<Rightarrow> e\<lparr>ev_host_memory := track_record x (ev_host_memory e)\<rparr>)"
  by (cases prev) (simp_all add: eval_step_def expect_def note_cgroup_def sample_snapshot_def notApplicable_def
      hostCPUOutcome_def cgroupCPUOutcome_def cgroupMemoryOutcome_def cgroupPair_def track_record_def Let_def)

lemma sample_calls:
  "run_state (stop_check (sample_host f)) r = ((False, None), r)"
  "run_state (pause (sample_host f) t) r = ((False, None), r)"
  "run_state (outside (cp_observe (sample_host f) target)) r = (f (cr_world r), r\<lparr>cr_world := Suc (cr_world r)\<rparr>)"
  "run_state (outside (cp_now (sample_host f))) r = (utc_time (int (cr_world r) * ns_per_second), r)"
  by (simp_all add: stop_check_def pause_def sample_host_def Let_def)

lemma clear_reason [simp]: "ou_reason clearOutcome = []"
  by (simp add: clearOutcome_def)

lemmas check_eval =
  sample_check_def requiredStreak_def numeral_eq_Suc sample_calls sample_step new_run_def new_evaluator_def
  expect_def track_baseline_def track_record_def Let_def eval_confirmed_def track_confirmed_def
  eval_pending_def track_pending_def new_track_def unsampled_def

lemma sample_check_start:
  assumes "ou_state (hostMemoryOutcome (sn_memory (f 0))) \<noteq> OutcomeCritical"
  shows "Check (sample_host f) 0 = (case run_state (sample_check (sample_host f) None) (new_run 0) of
     (None, r) \<Rightarrow> (Inr (NewAssessment (utc_time (int (cr_world r) * ns_per_second)) no_scope (eval_findings (cr_eval r))), r)
   | (Some e, r) \<Rightarrow> (Inl e, r))"
proof -
  have "run_state (measured (sample_host f) None) (new_run 0) =
      (case run_state (sample_check (sample_host f) None) (new_run 0) of
         (None, r) \<Rightarrow> (Inr (NewAssessment (utc_time (int (cr_world r) * ns_per_second)) no_scope (eval_findings (cr_eval r))), r)
       | (Some e, r) \<Rightarrow> (Inl e, r))"
    by (simp add: measured_def unless_error_def sample_calls run_scope_def del: run_outside split: prod.split option.split)
  then show ?thesis
    using assms
    by (simp add: Check_def execute_def run_attempt criticalPrecheck_def initial_target_def unless_error_def
        sample_host_def new_run_def Let_def)
qed

section \<open>What a check reports\<close>

text \<open>C23: A check reports sustained pressure of a metric only when it judged all four snapshots and the
  metric was hot over each of the three intervals, and critical pressure only of host memory, when one
  of its readings was critical.\<close>

theorem pressure_is_measured:
  assumes "Check p w = (Inr a, r)" "(m, b) \<in> set (fi_pressures (as_findings a))"
  shows "case b of
      BasisSustained \<Rightarrow> length (cr_judged r) = 4 \<and> (\<forall>x \<in> set (intervals m (cr_judged r)). ou_state x = OutcomeHot)
    | BasisCritical \<Rightarrow> m = MetricHostMemory
        \<and> (critical_reading p \<or> (\<exists>s \<in> set (cr_judged r). ou_state (hostMemoryOutcome (sn_memory s)) = OutcomeCritical))"
proof -
  have len: "length (cr_judged r) \<le> 4"
    and ends: "cr_judged r = [] \<and> precheck_assessment p (as_findings a) \<or> sampled_assessment (as_findings a) (cr_judged r)"
    using Check_ends [OF assms(1)] by (simp_all add: check_ends_def)
  from ends show ?thesis
  proof
    assume "cr_judged r = [] \<and> precheck_assessment p (as_findings a)"
    then show ?thesis using assms(2) by (auto simp: precheck_assessment_def)
  next
    assume "sampled_assessment (as_findings a) (cr_judged r)"
    from sampled_pressure [OF this assms(2)] show ?thesis
      using judged_critical judged_sustained [OF _ len] by (cases b) auto
  qed
qed

theorem pressure_is_measured_witness:
  "\<exists>a r. Check (sample_host (\<lambda>_. sample_snapshot 70)) 0 = (Inr a, r) \<and> length (cr_judged r) = 4"
proof -
  obtain r where r: "run_state (sample_check (sample_host (\<lambda>_. sample_snapshot 70)) None) (new_run 0) = (None, r)"
      "tr_sustained (ev_host_memory (cr_eval r))" "\<not> tr_critical (ev_host_memory (cr_eval r))"
    by (simp add: check_eval del: run_outside)
  then obtain a where a: "Check (sample_host (\<lambda>_. sample_snapshot 70)) 0 = (Inr a, r)"
      "as_findings a = eval_findings (cr_eval r)"
    by (simp add: sample_check_start NewAssessment_def)
  have "(MetricHostMemory, BasisSustained) \<in> set (fi_pressures (as_findings a))"
    using r by (simp add: a(2) pressures_iff)
  from pressure_is_measured [OF a(1) this] show ?thesis using a(1) by auto
qed



text \<open>C25: The only error of a check is one of the caller's context, when a sleeping clock fails only
  after the check's own context has ended: a failing resolver, an unreadable metric and the check's own
  budget never fail it.\<close>

theorem check_errors_are_the_callers:
  assumes "Check p w = (Inl e, r)" "sleep_ends_with_context p"
  shows "\<exists>w1 w2. run_state (cp_caller p) w1 = (Some e, w2)"
  using Check_ends [OF assms(1)] assms(2) by (simp add: check_ends_def caller_error_def)

definition cancelled_host :: "nat checker_port" where
  "cancelled_host = (sample_host (\<lambda>_. sample_snapshot 700))\<lparr>cp_caller := State_Monad.return (Some (Opaque ''canceled''))\<rparr>"

theorem check_errors_are_the_callers_witness:
  "\<exists>w1 w2. run_state (cp_caller cancelled_host) w1 = (Some (Opaque ''canceled''), w2)"
proof -
  have "Check cancelled_host 0 = (Inl (Opaque ''canceled''), new_run 0)"
    by (simp add: Check_def cancelled_host_def unless_error_def new_run_def)
  moreover have "sleep_ends_with_context cancelled_host"
    by (simp add: sleep_ends_with_context_def cancelled_host_def)
  ultimately show ?thesis by (rule check_errors_are_the_callers)
qed

section \<open>The judgement of an interval\<close>

lemma thresholds:
  "cpuBusyThreshold = round64 (of_int 19 / of_int 20)" "psiStallThreshold = round64 (of_int 1 / of_int 100)"
  by (simp_all add: cpuBusyThreshold_def psiStallThreshold_def)

lemma f_sub_exact: "b \<le> a \<Longrightarrow> a - b \<le> 2 ^ 53 \<Longrightarrow> f_sub (Finite (of_int a)) (Finite (of_int b)) = Finite (of_int (a - b))"
  using round64_int [of "a - b"] by (simp add: f_sub_def)

text \<open>The judgement of the host's CPU and of a memory stall, made in floating point, is the exact one
  for counters below the precision: with whole counters that grew, the CPU is hot exactly when at least
  95 percent of the elapsed time was busy, and the target exactly when it stalled for at least one
  percent of the elapsed microseconds.\<close>

theorem judgements_are_exact:
  assumes "0 \<le> b0" "b0 \<le> t0" "b0 \<le> b1" "t0 < t1" "b1 - b0 \<le> t1 - t0" "t1 \<le> 2 ^ 53" "19 * (t1 - t0) < 2 ^ 52"
    and "s0 \<le> s1" "uint s1 \<le> 2 ^ 53" "0 < microseconds d" "microseconds d < 2 ^ 52"
  shows "hostCPUOutcome (Observed \<lparr>cc_busy = f_int b0, cc_total = f_int t0\<rparr>) (Observed \<lparr>cc_busy = f_int b1, cc_total = f_int t1\<rparr>)
      = (if 95 * (t1 - t0) \<le> 100 * (b1 - b0) then hotOutcome else clearOutcome)
    \<and> psiOutcome (Observed s0) (Observed s1) d
      = (if microseconds d \<le> 100 * (uint s1 - uint s0) then hotOutcome else clearOutcome)"
proof
  have ints: "f_int b0 = Finite (of_int b0)" "f_int t0 = Finite (of_int t0)"
      "f_int b1 = Finite (of_int b1)" "f_int t1 = Finite (of_int t1)"
    using assms(1-6) by (simp_all add: f_int_exact)
  have subs: "f_sub (Finite (of_int b1)) (Finite (of_int b0)) = Finite (of_int (b1 - b0))"
      "f_sub (Finite (of_int t1)) (Finite (of_int t0)) = Finite (of_int (t1 - t0))"
    using assms(1-6) by (simp_all add: f_sub_exact del: of_int_diff)
  have "f_le cpuBusyThreshold (f_div (Finite (of_int (b1 - b0))) (Finite (of_int (t1 - t0))))
      \<longleftrightarrow> 19 * (t1 - t0) \<le> 20 * (b1 - b0)"
    unfolding thresholds using assms(1-7) by (intro ratio_exact) simp_all
  also have "\<dots> \<longleftrightarrow> 95 * (t1 - t0) \<le> 100 * (b1 - b0)" by linarith
  finally have judged: "f_le cpuBusyThreshold (f_div (Finite (of_int (b1 - b0))) (Finite (of_int (t1 - t0))))
      \<longleftrightarrow> 95 * (t1 - t0) \<le> 100 * (b1 - b0)" .
  have "b1 \<le> t1" using assms(2,5) by simp
  then show "hostCPUOutcome (Observed \<lparr>cc_busy = f_int b0, cc_total = f_int t0\<rparr>) (Observed \<lparr>cc_busy = f_int b1, cc_total = f_int t1\<rparr>)
      = (if 95 * (t1 - t0) \<le> 100 * (b1 - b0) then hotOutcome else clearOutcome)"
    unfolding ints hostCPUOutcome_def using assms(1-5) judged
    by (simp add: validCounters_def subs f_lt_def f_eq_def boolOutcome_def Let_def del: of_int_diff)
next
  have diff: "uint (s1 - s0) = uint s1 - uint s0" using assms(8) by (simp add: uint_minus_simple_alt word_le_def)
  have small: "uint s1 - uint s0 \<le> 2 ^ 53" using assms(9) uint_ge_0 [of s0] by linarith
  then have "f_uint64 (s1 - s0) = Finite (of_int (uint s1 - uint s0))"
    using f_uint64_exact [of "s1 - s0"] unfolding diff by blast
  moreover have "f_int (microseconds d) = Finite (of_int (microseconds d))" using assms(10,11) by (intro f_int_exact) simp_all
  moreover have "f_le psiStallThreshold (f_div (Finite (of_int (uint s1 - uint s0))) (Finite (of_int (microseconds d))))
      \<longleftrightarrow> 1 * microseconds d \<le> 100 * (uint s1 - uint s0)"
    unfolding thresholds using assms(8-11) small by (intro ratio_exact) (simp_all add: word_le_def)
  ultimately show "psiOutcome (Observed s0) (Observed s1) d
      = (if microseconds d \<le> 100 * (uint s1 - uint s0) then hotOutcome else clearOutcome)"
    using assms(8,10) by (simp add: psiOutcome_def boolOutcome_def linorder_not_less)
qed

theorem judgements_are_exact_witness:
  "hostCPUOutcome (Observed \<lparr>cc_busy = f_int 10, cc_total = f_int 20\<rparr>) (Observed \<lparr>cc_busy = f_int 105, cc_total = f_int 120\<rparr>)
     = hotOutcome \<and> psiOutcome (Observed 0) (Observed 9999) 1000000000 = clearOutcome"
  using judgements_are_exact [of 10 20 105 120 0 9999 1000000000] by (simp add: microseconds_def)

section \<open>The target's cgroup\<close>

definition sample_membership :: string where "sample_membership = ''0::/user.slice/app''"

definition sample_mounts :: string where
  "sample_mounts = ''36 35 0:30 /user.slice /mnt/x rw shared:9 - cgroup2 cgroup2 rw''"

text \<open>C26: A cgroup resolves to a directory inside the mount that shows it, of the mounts that do one with the
  longest root, and only from a clean absolute membership that does not climb out of the visible tree.\<close>

theorem location_is_the_nearest_mount:
  assumes "ResolveCgroupV2Location cgroup_data mount_data = Inr l"
  shows "\<exists>path mounts. parseCgroupV2Path cgroup_data = Inr path \<and> parseMountInfo mount_data = Inr mounts
    \<and> has_prefix ''/'' path \<and> path_clean path = path \<and> path \<noteq> ''/..'' \<and> \<not> has_prefix ''/../'' path
    \<and> pathWithin (lo_mount_path l) (lo_current_path l)
    \<and> (\<exists>m \<in> set mounts. shown_at path m = Some l)
    \<and> (\<forall>m \<in> set mounts. shown_at path m \<noteq> None \<longrightarrow> length (mo_root m) \<le> length (lo_mount_root l))"
  using resolved_location [OF assms] parseCgroupV2Path_clean shown_at_facts by meson

lemma sample_membership_path: "parseCgroupV2Path sample_membership = Inr ''/user.slice/app''"
  by (simp add: parseCgroupV2Path_def sample_membership_def scan_lines_def line_text_def max_scan_token_def
      membership_line_def numeral_2_eq_2 cut_def contains_char_def has_prefix_def path_clean_def is_abs_def Let_def)

lemma sample_mount_fields:
  "Go_Text.fields sample_mounts = [''36'', ''35'', ''0:30'', ''/user.slice'', ''/mnt/x'', ''rw'', ''shared:9'', ''-'',
     ''cgroup2'', ''cgroup2'', ''rw'']"
  by (simp add: Go_Text.fields_def sample_mounts_def split_runes_ascii is_space_def)

lemma sample_mount_list:
  "parseMountInfo sample_mounts = Inr [\<lparr>mo_root = ''/user.slice'', mo_path = ''/mnt/x''\<rparr>]"
proof -
  have "scan_lines max_mount_token sample_mounts = ([sample_mounts], True)"
    by (simp add: scan_lines_def line_text_def max_mount_token_def sample_mounts_def Let_def)
  moreover have "mount_line sample_mounts = Inr (Some \<lparr>mo_root = ''/user.slice'', mo_path = ''/mnt/x''\<rparr>)"
    by (simp add: mount_line_def sample_mount_fields mount_separator_def is_abs_def has_prefix_def path_clean_def Let_def)
  ultimately show ?thesis by (simp add: parseMountInfo_def)
qed

lemma sample_location:
  "ResolveCgroupV2Location sample_membership sample_mounts
     = Inr \<lparr>lo_mount_root = ''/user.slice'', lo_mount_path = ''/mnt/x'', lo_current_path = ''/mnt/x/app''\<rparr>"
  by (simp add: ResolveCgroupV2Location_def resolveCgroupLocation_def sample_membership_path sample_mount_list
      consider_mount_def relativeCgroupPath_def no_location_def has_prefix_def trim_prefix_def filepath_join_def
      path_clean_def is_abs_def pathWithin_def Let_def)

theorem location_is_the_nearest_mount_witness: "pathWithin ''/mnt/x'' ''/mnt/x/app''"
  using location_is_the_nearest_mount [OF sample_location] by (elim exE conjE) simp

end
