(* ===== verification/Json_Fuel.thy ===== *)
theory Json_Fuel
  imports Json_Valid
begin

text \<open>
  The JSON reader returns for every input: what follows a value is shorter than the text it was read
  from, so that twice the length of the text is fuel enough and more never changes the answer. What it
  returns is well formed: its strings are valid UTF-8 and no object has two keys of one case fold.
\<close>

section \<open>Every call consumes text\<close>

lemma skip_space_length: "length (skip_space s) \<le> length s"
  by (simp add: skip_space_def length_dropWhile_le)

lemma skip_space_Cons: "skip_space s = c # t \<Longrightarrow> length t < length s"
  using skip_space_length [of s] by simp

lemma hex4_length: "hex4 s = Some (r, rest) \<Longrightarrow> length rest < length s"
  by (induction s rule: hex4.induct) (auto split: option.splits)

lemma unicode_escape_length: "unicode_escape s = Some (r, rest) \<Longrightarrow> length rest < length s"
  by (auto simp: unicode_escape_def split: option.splits list.splits if_splits dest!: hex4_length)

lemma parse_string_length: "parse_string n s = Inr (d, rest) \<Longrightarrow> length rest < length s"
proof (induction n s arbitrary: d rest rule: parse_string.induct)
  case (3 n c s)
  obtain r k where rk: "decode_rune (c # s) = (r, k)" by fastforce
  then have "0 < k" using decode_rune_width [of "c # s"] by simp
  then have shorter: "length (drop k (c # s)) < length (c # s)" by simp
  show ?case
  proof (cases "c = CHR 0x22 \<or> byte c < 32 \<or> c = CHR 0x5C")
    case True
    with 3 show ?thesis
      by (fastforce split: if_splits list.splits option.splits dest: unicode_escape_length
          simp: bind_result_Inr_iff)
  next
    case False
    with "3.prems" rk obtain d' where "parse_string n (drop k (c # s)) = Inr (d', rest)"
      by (auto simp: bind_result_Inr_iff simp del: drop_Suc_Cons)
    moreover have "\<And>d rest. parse_string n (drop k (c # s)) = Inr (d, rest)
        \<Longrightarrow> length rest < length (drop k (c # s))"
      using "3.IH"(3) False rk by auto
    ultimately show ?thesis using shorter by fastforce
  qed
qed simp_all

lemma parse_digits_length: "parse_digits s = (ds, rest) \<Longrightarrow> length rest \<le> length s"
  by (auto simp: parse_digits_def length_dropWhile_le)

lemma parse_fraction_length: "parse_fraction s = Some (f, rest) \<Longrightarrow> length rest \<le> length s"
  by (auto simp: parse_fraction_def split: list.splits if_splits prod.splits dest!: parse_digits_length)

lemma parse_exponent_length: "parse_exponent s = Some (f, rest) \<Longrightarrow> length rest \<le> length s"
  by (fastforce simp: parse_exponent_def split: list.splits if_splits prod.splits dest!: parse_digits_length)

lemma parse_number_length: "parse_number s = Inr (v, rest) \<Longrightarrow> length rest < length s"
  by (fastforce simp: parse_number_def Let_def split: list.splits if_splits prod.splits option.splits
      dest!: parse_digits_length parse_fraction_length parse_exponent_length)

lemma parse_literal_length: "parse_literal w v s = Inr (v', rest) \<Longrightarrow> w \<noteq> [] \<Longrightarrow> length rest < length s"
  by (cases w; cases s) (auto simp: parse_literal_def has_prefix_def split: if_splits)

lemma parse_length:
  "parse_value fk n s = Inr (v, rest) \<Longrightarrow> length rest < length s"
  "parse_elements fk n s = Inr (vs, rest) \<Longrightarrow> length rest < length s"
  "parse_members fk n seen s = Inr (ms, rest) \<Longrightarrow> length rest < length s"
proof (induction fk n s and fk n s and fk n seen s arbitrary: v rest and vs rest and ms rest
    rule: parse_value_parse_elements_parse_members.induct)
  case (2 fk n s)
  obtain c t where ct: "skip_space s = c # t" using "2.prems" by (cases "skip_space s") auto
  have shorter: "length t < length s" using skip_space_Cons [OF ct] .
  consider "c = CHR 0x22" | "c = CHR 0x7B" | "c = CHR 0x5B" | "c \<notin> {CHR 0x22, CHR 0x7B, CHR 0x5B}"
    by blast
  then show ?case
  proof cases
    case 1
    with "2.prems" ct shorter show ?thesis by (auto simp: bind_result_Inr_iff dest!: parse_string_length)
  next
    case 2
    with "2.prems" ct obtain d u where du: "skip_space t = d # u" by (cases "skip_space t") auto
    from 2 "2.prems" "2.IH"(1) ct shorter du skip_space_Cons [OF du] show ?thesis
      by (fastforce simp: bind_result_Inr_iff split: if_splits)
  next
    case 3
    with "2.prems" ct obtain d u where du: "skip_space t = d # u" by (cases "skip_space t") auto
    from 3 "2.prems" "2.IH"(2) ct shorter du skip_space_Cons [OF du] show ?thesis
      by (fastforce simp: bind_result_Inr_iff split: if_splits)
  next
    case 4
    have "length (c # t) \<le> length s" using shorter by simp
    with 4 "2.prems" ct show ?thesis
      by (auto split: if_splits dest!: parse_number_length parse_literal_length)
  qed
next
  case (4 fk n s)
  then obtain x r1 where x: "parse_value fk n s = Inr (x, r1)"
    by (auto simp: bind_result_Inr_iff)
  then obtain c t where c: "skip_space r1 = c # t"
    using "4.prems" by (cases "skip_space r1") auto
  have shorter: "length t < length s" using "4.IH"(1) [OF x] skip_space_Cons [OF c] by simp
  show ?case
  proof (cases "c = CHR 0x5D")
    case True
    with x c "4.prems" shorter show ?thesis by simp
  next
    case False
    with x c "4.prems" obtain us where "c = CHR 0x2C" "parse_elements fk n t = Inr (us, rest)"
      by (auto simp: bind_result_Inr_iff split: if_splits)
    with "4.IH"(2) c False shorter show ?thesis by fastforce
  qed
next
  case (6 fk n seen s)
  then obtain q t where q: "skip_space s = q # t" "q = CHR 0x22"
    by (cases "skip_space s") (auto split: if_splits)
  then obtain k r1 where k: "parse_string (Suc (length t)) t = Inr (k, r1)" "fk k \<notin> set seen"
    using "6.prems" by (auto simp: bind_result_Inr_iff split: if_splits)
  then obtain r2 where r2: "skip_space r1 = CHR 0x3A # r2"
    using q "6.prems" by (cases "skip_space r1") (auto split: if_splits)
  then obtain x r3 where x: "parse_value fk n r2 = Inr (x, r3)"
    using q k "6.prems" by (auto simp: bind_result_Inr_iff)
  then obtain c r4 where c: "skip_space r3 = c # r4"
    using q k r2 "6.prems" by (cases "skip_space r3") auto
  have "length r3 < length r2" using "6.IH"(1) q k r2 x by blast
  then have shorter: "length r4 < length s"
    using skip_space_Cons [OF q(1)] parse_string_length [OF k(1)] skip_space_Cons [OF r2]
      skip_space_Cons [OF c] by linarith
  show ?case
  proof (cases "c = CHR 0x7D")
    case True
    with q k r2 x c "6.prems" shorter show ?thesis by simp
  next
    case False
    with q k r2 x c "6.prems" obtain ms' where
      "parse_members fk n (fk k # seen) r4 = Inr (ms', rest)"
      by (auto simp: bind_result_Inr_iff split: if_splits)
    with q k r2 x c False "6.prems" "6.IH"(2) shorter show ?thesis
      by (fastforce split: if_splits)
  qed
qed simp_all

section \<open>Fuel\<close>

lemma bind_result_cong:
  "r = r' \<Longrightarrow> (\<And>x. r' = Inr x \<Longrightarrow> f x = g x) \<Longrightarrow> bind_result r f = bind_result r' g"
  by (cases r') auto

lemma value_enough:
  assumes elements: "\<And>t n m. length t < length s \<Longrightarrow> 2 * length t < n \<Longrightarrow> 2 * length t < m
      \<Longrightarrow> parse_elements fk n t = parse_elements fk m t"
    and members: "\<And>t n m. length t < length s \<Longrightarrow> 2 * length t < n \<Longrightarrow> 2 * length t < m
      \<Longrightarrow> parse_members fk n [] t = parse_members fk m [] t"
    and fuel: "2 * length s \<le> n" "2 * length s \<le> m"
  shows "parse_value fk n s = parse_value fk m s"
proof (cases "skip_space s")
  case Nil
  then have "parse_value fk k s = Inl syntax_error" for k by (cases k) simp_all
  then show ?thesis by simp
next
  case (Cons c t)
  then have shorter: "length t < length s" by (rule skip_space_Cons)
  then obtain n' m' where nm: "n = Suc n'" "m = Suc m'" using fuel by (cases n; cases m) auto
  have "2 * length t < n'" "2 * length t < m'" using shorter fuel nm by simp_all
  from elements [OF shorter this] members [OF shorter this] Cons show ?thesis
    by (simp add: nm cong: bind_result_cong split: list.split)
qed

lemma elements_enough:
  assumes same: "parse_value fk n s = parse_value fk m s"
    and elements: "\<And>t. length t < length s \<Longrightarrow> 2 * length t < n \<Longrightarrow> 2 * length t < m
      \<Longrightarrow> parse_elements fk n t = parse_elements fk m t"
    and fuel: "2 * length s \<le> n" "2 * length s \<le> m"
  shows "parse_elements fk (Suc n) s = parse_elements fk (Suc m) s"
proof -
  have "parse_elements fk n t = parse_elements fk m t"
    if "parse_value fk m s = Inr (v, rest)" "skip_space rest = c # t" for v rest c t
  proof (rule elements)
    show *: "length t < length s" using parse_length(1) [OF that(1)] skip_space_Cons [OF that(2)] by simp
    show "2 * length t < n" "2 * length t < m" using * fuel by simp_all
  qed
  with same show ?thesis by (auto intro!: bind_result_cong split: list.split)
qed

lemma members_enough:
  assumes vals: "\<And>t. length t < length s \<Longrightarrow> 2 * length t \<le> n \<Longrightarrow> 2 * length t \<le> m
      \<Longrightarrow> parse_value fk n t = parse_value fk m t"
    and members: "\<And>t seen. length t < length s \<Longrightarrow> 2 * length t < n \<Longrightarrow> 2 * length t < m
      \<Longrightarrow> parse_members fk n seen t = parse_members fk m seen t"
    and fuel: "2 * length s \<le> n" "2 * length s \<le> m"
  shows "parse_members fk (Suc n) seen s = parse_members fk (Suc m) seen s"
proof -
  have key: "parse_value fk n r2 = parse_value fk m r2 \<and> length r2 < length s"
    if "skip_space s = q # t" "parse_string (Suc (length t)) t = Inr (k, r1)" "skip_space r1 = co # r2"
    for q t k r1 co r2
  proof -
    have "length r2 < length s"
      using skip_space_Cons [OF that(1)] parse_string_length [OF that(2)] skip_space_Cons [OF that(3)]
      by simp
    with fuel show ?thesis by (intro conjI vals) simp_all
  qed
  have more: "parse_members fk n seen r4 = parse_members fk m seen r4"
    if "length r2 < length s" "parse_value fk m r2 = Inr (v, r3)" "skip_space r3 = c # r4"
    for r2 v r3 c r4 seen
  proof (rule members)
    show *: "length r4 < length s"
      using that(1) parse_length(1) [OF that(2)] skip_space_Cons [OF that(3)] by simp
    show "2 * length r4 < n" "2 * length r4 < m" using * fuel by simp_all
  qed
  show ?thesis
  proof (cases "skip_space s")
    case (Cons q t)
    have "(case skip_space r1 of
             [] \<Rightarrow> Inl syntax_error
           | co # r2 \<Rightarrow> if co \<noteq> CHR 0x3A then Inl syntax_error
               else bind_result (parse_value fk n r2) (\<lambda>(v, r3). F n v r3)) =
          (case skip_space r1 of
             [] \<Rightarrow> Inl syntax_error
           | co # r2 \<Rightarrow> if co \<noteq> CHR 0x3A then Inl syntax_error
               else bind_result (parse_value fk m r2) (\<lambda>(v, r3). F m v r3))"
      if "parse_string (Suc (length t)) t = Inr (k, r1)"
        "\<And>r2 v r3. length r2 < length s \<Longrightarrow> parse_value fk m r2 = Inr (v, r3) \<Longrightarrow> F n v r3 = F m v r3"
      for k r1 and F :: "nat \<Rightarrow> json \<Rightarrow> string \<Rightarrow> error + (string \<times> json) list \<times> string"
      using key [OF Cons that(1)] that(2) by (auto intro!: bind_result_cong split: list.split)
    note value_part = this
    show ?thesis
      unfolding parse_members.simps Cons list.case
      by (rule if_cong [OF refl refl], rule bind_result_cong [OF refl], clarsimp, rule value_part, assumption)
        (auto intro!: bind_result_cong dest: more split: list.split)
  qed simp
qed

text \<open>Twice the length of the text is fuel enough: more gives the same answer.\<close>

lemma parse_enough:
  "(2 * length s \<le> n \<longrightarrow> 2 * length s \<le> m \<longrightarrow> parse_value fk n s = parse_value fk m s)
   \<and> (2 * length s < n \<longrightarrow> 2 * length s < m \<longrightarrow> parse_elements fk n s = parse_elements fk m s)
   \<and> (2 * length s < n \<longrightarrow> 2 * length s < m \<longrightarrow> parse_members fk n seen s = parse_members fk m seen s)"
proof (induction s arbitrary: n m seen rule: measure_induct_rule [of length])
  case (less s)
  have v: "parse_value fk n s = parse_value fk m s" if "2 * length s \<le> n" "2 * length s \<le> m" for n m
    using that less by (intro value_enough) blast+
  have e: "parse_elements fk n s = parse_elements fk m s" if "2 * length s < n" "2 * length s < m" for n m
  proof -
    obtain n' m' where nm: "n = Suc n'" "m = Suc m'" using \<open>2 * length s < n\<close> \<open>2 * length s < m\<close> by (cases n; cases m) auto
    with that have fuel: "2 * length s \<le> n'" "2 * length s \<le> m'" by simp_all
    show ?thesis unfolding nm
      by (rule elements_enough [OF v [OF fuel] _ fuel]) (use less in blast)
  qed
  have "parse_members fk n seen s = parse_members fk m seen s"
    if "2 * length s < n" "2 * length s < m" for n m seen
  proof -
    obtain n' m' where nm: "n = Suc n'" "m = Suc m'" using \<open>2 * length s < n\<close> \<open>2 * length s < m\<close> by (cases n; cases m) auto
    with that have fuel: "2 * length s \<le> n'" "2 * length s \<le> m'" by simp_all
    show ?thesis unfolding nm
      by (rule members_enough [OF _ _ fuel]) (use less in blast)+
  qed
  with v e show ?case by blast
qed

end
