(* ===== verification/Json_Typed.thy ===== *)
theory Json_Typed
  imports Json_Fuel
begin

text \<open>
  What \<open>ValidateJSONStructure\<close> and \<open>DecodeStrict\<close> accept: a document whose objects have no two keys of
  one case fold, and whose shape is the one the Go type declares.
\<close>

section \<open>Keys\<close>

fun fold_distinct :: "(string \<Rightarrow> string) \<Rightarrow> json \<Rightarrow> bool" where
  "fold_distinct fk (JArr vs) = list_all (fold_distinct fk) vs"
| "fold_distinct fk (JObj ms) =
     (distinct (map (fk \<circ> fst) ms) \<and> list_all (\<lambda>(k, v). fold_distinct fk v) ms)"
| "fold_distinct fk v = True"

lemma parse_number_keys: "parse_number s = Inr (v, rest) \<Longrightarrow> fold_distinct fk v"
  by (auto simp: parse_number_def Let_def split: list.splits if_splits prod.splits option.splits)

lemma parse_literal_keys: "parse_literal w v s = Inr (v', rest) \<Longrightarrow> v' = v"
  by (auto simp: parse_literal_def split: if_splits)

lemma parse_keys:
  "parse_value fk n s = Inr (v, rest) \<Longrightarrow> fold_distinct fk v"
  "parse_elements fk n s = Inr (vs, rest) \<Longrightarrow> list_all (fold_distinct fk) vs"
  "parse_members fk n seen s = Inr (ms, rest) \<Longrightarrow>
     fold_distinct fk (JObj ms) \<and> set (map (fk \<circ> fst) ms) \<inter> set seen = {}"
proof (induction fk n s and fk n s and fk n seen s arbitrary: v rest and vs rest and ms rest
    rule: parse_value_parse_elements_parse_members.induct)
  case (2 fk n s)
  obtain c t where ct: "skip_space s = c # t" using "2.prems" by (cases "skip_space s") auto
  consider "c = CHR 0x22" | "c = CHR 0x7B" | "c = CHR 0x5B" | "c \<notin> {CHR 0x22, CHR 0x7B, CHR 0x5B}"
    by blast
  then show ?case
  proof cases
    case 1
    with "2.prems" ct show ?thesis by (auto simp: bind_result_Inr_iff)
  next
    case 2
    with "2.prems" ct obtain d u where "skip_space t = d # u" by (cases "skip_space t") auto
    with 2 "2.prems" "2.IH"(1) ct show ?thesis by (auto simp: bind_result_Inr_iff split: if_splits)
  next
    case 3
    with "2.prems" ct obtain d u where "skip_space t = d # u" by (cases "skip_space t") auto
    with 3 "2.prems" "2.IH"(2) ct show ?thesis by (auto simp: bind_result_Inr_iff split: if_splits)
  next
    case 4
    with "2.prems" ct show ?thesis
      by (auto split: if_splits dest!: parse_number_keys parse_literal_keys)
  qed
next
  case (4 fk n s)
  then obtain x r1 where x: "parse_value fk n s = Inr (x, r1)"
    by (auto simp: bind_result_Inr_iff)
  then obtain c t where "skip_space r1 = c # t"
    using "4.prems" by (cases "skip_space r1") auto
  with x "4.prems" "4.IH" show ?case
    by (auto simp: bind_result_Inr_iff split: if_splits)
next
  case (6 fk n seen s)
  then obtain q t where q: "skip_space s = q # t" "q = CHR 0x22"
    by (cases "skip_space s") (auto split: if_splits)
  then obtain k r1 where k: "parse_string (Suc (length t)) t = Inr (k, r1)" "fk k \<notin> set seen"
    using "6.prems" by (auto simp: bind_result_Inr_iff split: if_splits)
  then obtain r2 where r2: "skip_space r1 = CHR 0x3A # r2"
    using q "6.prems" by (cases "skip_space r1") (auto split: if_splits)
  then obtain x r3 where x: "parse_value fk n r2 = Inr (x, r3)"
    using q k "6.prems" by (auto simp: bind_result_Inr_iff)
  then obtain c r4 where c: "skip_space r3 = c # r4"
    using q k r2 "6.prems" by (cases "skip_space r3") auto
  have v: "fold_distinct fk x" using "6.IH"(1) q k r2 x by blast
  show ?case
  proof (cases "c = CHR 0x7D")
    case True
    with q k r2 x c "6.prems" have "ms = [(k, x)]" by simp
    with v k(2) show ?thesis by simp
  next
    case False
    with q k r2 x c "6.prems" obtain ms' where ms':
      "parse_members fk n (fk k # seen) r4 = Inr (ms', rest)" "ms = (k, x) # ms'" "c = CHR 0x2C"
      by (auto simp: bind_result_Inr_iff split: if_splits)
    have "fold_distinct fk (JObj ms') \<and> set (map (fk \<circ> fst) ms') \<inter> set (fk k # seen) = {}"
      using "6.IH"(2) q k r2 x c False ms' by blast
    with v k(2) ms'(2) show ?thesis by (auto simp: list_all_iff)
  qed
qed simp_all

section \<open>Shapes\<close>

text \<open>
  A value conforms to the wire shape of a Go type: no null, no unknown member, every required member,
  and every member of the shape its field declares.
\<close>

fun conforms :: "jtype \<Rightarrow> json \<Rightarrow> bool" where
  "conforms ty JNull = False"
| "conforms TScalar v = True"
| "conforms (TSlice ty) v = (case v of JArr vs \<Rightarrow> list_all (conforms ty) vs | _ \<Rightarrow> False)"
| "conforms (TStruct fs) v = (case v of
     JObj ms \<Rightarrow>
       list_all (\<lambda>(k, x). list_ex (\<lambda>(f, omit, ty). f = k \<and> conforms ty x) fs) ms
       \<and> list_all (\<lambda>(f, omit, ty). omit \<or> f \<in> fst ` set ms) fs
   | _ \<Rightarrow> False)"

lemma distinct_fst: "distinct (map (fk \<circ> fst) ms) \<Longrightarrow> distinct (map fst ms)"
  by (auto simp: distinct_map inj_on_def)

lemma remove_field_keys:
  "distinct (map fst ms) \<Longrightarrow> distinct (map fst (remove_field k ms))"
  "set (remove_field k ms) = {m \<in> set ms. fst m \<noteq> k}"
  by (auto simp: distinct_map_filter)

lemma map_of_member:
  "distinct (map fst ms) \<Longrightarrow> map_of ms k = Some v \<Longrightarrow> (l, x) \<in> set ms \<Longrightarrow> l = k \<Longrightarrow> x = v"
  by (metis map_of_is_SomeI option.inject)

lemma validated_conforms:
  "validateJSONType ty v = None \<Longrightarrow> fold_distinct fk v \<Longrightarrow> conforms ty v"
  "validateJSONObject fs ms = None \<Longrightarrow> distinct (map fst ms) \<Longrightarrow> list_all (\<lambda>(k, v). fold_distinct fk v) ms
     \<Longrightarrow> conforms (TStruct fs) (JObj ms)"
  "validateJSONEntries ty vs = None \<Longrightarrow> list_all (fold_distinct fk) vs \<Longrightarrow> list_all (conforms ty) vs"
proof (induction ty v and fs ms and ty vs
    rule: validateJSONType_validateJSONObject_validateJSONEntries.induct)
  case (2 fs ms)
  then show ?case by (auto dest: distinct_fst)
next
  case (8 k omit ty fs ms)
  show ?case
  proof (cases "map_of ms k")
    case None
    then have "k \<notin> fst ` set ms" by (simp add: map_of_eq_None_iff)
    with None 8 show ?thesis by (auto simp: list_all_iff split: if_splits)
  next
    case (Some v)
    with "8.prems"(1) have ok: "validateJSONType ty v = None" "validateJSONObject fs (remove_field k ms) = None"
      by (auto split: option.splits)
    have member: "(k, v) \<in> set ms" using Some by (rule map_of_SomeD)
    with "8.prems"(3) have "fold_distinct fk v" by (auto simp: list_all_iff)
    then have v: "conforms ty v" using "8.IH"(2) Some ok(1) by blast
    have "conforms (TStruct fs) (JObj (remove_field k ms))"
    proof (rule "8.IH"(3) [OF Some ok])
      show "distinct (map fst (remove_field k ms))" by (rule remove_field_keys(1) [OF "8.prems"(2)])
      show "list_all (\<lambda>(k, v). fold_distinct fk v) (remove_field k ms)"
        using "8.prems"(3) by (auto simp: list_all_iff)
    qed
    then have rest: "list_ex (\<lambda>(f, omit, ty). f = l \<and> conforms ty x) fs"
        if "(l, x) \<in> set ms" "l \<noteq> k" for l x
      using that by (auto simp: list_all_iff)
    have all: "list_ex (\<lambda>(f, omit, ty). f = l \<and> conforms ty x) ((k, omit, ty) # fs)"
      if "(l, x) \<in> set ms" for l x
      using rest [OF that] map_of_member [OF "8.prems"(2) Some that] v by (cases "l = k") auto
    have needed: "list_all (\<lambda>(f, omit, ty). omit \<or> f \<in> fst ` set ms) fs"
      using \<open>conforms (TStruct fs) (JObj (remove_field k ms))\<close> by (fastforce simp: list_all_iff)
    have "k \<in> fst ` set ms" using member by force
    with all needed show ?thesis by (auto simp: list_all_iff)
  qed
qed (auto split: option.splits)

lemma ValidateJSONStructure_keys:
  "ValidateJSONStructure data = Inr v \<Longrightarrow> fold_distinct foldJSONKey v"
  by (auto simp: ValidateJSONStructure_def Let_def bind_result_Inr_iff simp del: parse_value.simps
      split: if_splits dest: parse_keys(1))

end
