(* ===== verification/Go_Rfc3339.thy ===== *)
theory Go_Rfc3339
  imports Go_Time Go_Json "HOL-Library.Monad_Syntax"
begin

text \<open>
  \<open>time.Parse(time.RFC3339Nano, s)\<close> and \<open>t.UTC().Format(time.RFC3339Nano)\<close>, the timestamps of the
  durable records. The parser follows the layout \<open>2006-01-02T15:04:05.999999999Z07:00\<close> chunk by chunk:
  an hour may have one digit, a fraction may follow a comma and have any number of digits, of which
  nine count, and an offset may be as large as 24 hours or 60 minutes. The location of the result is not
  kept, because the sources only compare instants and convert to UTC.
\<close>

section \<open>Parsing\<close>

definition digit_value :: "char \<Rightarrow> int" where "digit_value c = of_char c - 48"

text \<open>\<open>getnum\<close>: two digits, or one where the chunk is not fixed.\<close>

definition getnum :: "bool \<Rightarrow> string \<Rightarrow> (int \<times> string) option" where
  "getnum fixed s = (case s of
     [] \<Rightarrow> None
   | a # t \<Rightarrow>
       if \<not> digit a then None
       else if t \<noteq> [] \<and> digit (hd t) then Some (10 * digit_value a + digit_value (hd t), tl t)
       else if fixed then None
       else Some (digit_value a, t))"

definition skip_literal :: "char \<Rightarrow> string \<Rightarrow> string option" where
  "skip_literal c s = (case s of [] \<Rightarrow> None | d # t \<Rightarrow> if d = c then Some t else None)"

definition within :: "int \<Rightarrow> int \<Rightarrow> int \<times> string \<Rightarrow> (int \<times> string) option" where
  "within a b r = (if a \<le> fst r \<and> fst r \<le> b then Some r else None)"

definition parse_year :: "string \<Rightarrow> (int \<times> string) option" where
  "parse_year s =
     (if length s < 4 \<or> \<not> list_all digit (take 4 s) then None
      else Some (digits_value (take 4 s), drop 4 s))"

text \<open>The fraction is optional: text that is none is left for the next chunk.\<close>

definition parse_nanos :: "string \<Rightarrow> int \<times> string" where
  "parse_nanos s = (case s of
     c # d # t \<Rightarrow>
       if (c = CHR ''.'' \<or> c = CHR '','') \<and> digit d then
         (let ds = take 9 (takeWhile digit (d # t))
          in (digits_value ds * 10 ^ (9 - length ds), dropWhile digit (d # t)))
       else (0, s)
   | _ \<Rightarrow> (0, s))"

text \<open>The offset in seconds east of UTC.\<close>

definition parse_offset :: "string \<Rightarrow> (int \<times> string) option" where
  "parse_offset s =
     (if s \<noteq> [] \<and> hd s = CHR ''Z'' then Some (0, tl s)
      else if length s < 6 \<or> s ! 3 \<noteq> CHR '':'' then None
      else do {
        (hh, _) \<leftarrow> Option.bind (getnum True [s ! 1, s ! 2]) (within 0 24);
        (mm, _) \<leftarrow> Option.bind (getnum True [s ! 4, s ! 5]) (within 0 60);
        (if s ! 0 = CHR ''+'' then Some ((hh * 60 + mm) * 60, drop 6 s)
         else if s ! 0 = CHR ''-'' then Some (- ((hh * 60 + mm) * 60), drop 6 s)
         else None)
      })"

definition is_leap :: "int \<Rightarrow> bool" where
  "is_leap y \<longleftrightarrow> y mod 4 = 0 \<and> (y mod 100 \<noteq> 0 \<or> y mod 400 = 0)"

definition days_in :: "int \<Rightarrow> int \<Rightarrow> int" where
  "days_in y m =
     (if m = 2 then (if is_leap y then 29 else 28)
      else if m = 4 \<or> m = 6 \<or> m = 9 \<or> m = 11 then 30 else 31)"

definition civil_ns :: "int \<Rightarrow> int \<Rightarrow> int \<Rightarrow> int \<Rightarrow> int \<Rightarrow> int \<Rightarrow> int \<Rightarrow> int" where
  "civil_ns y m d hh mm ss ns =
     days_from_civil y m d * ns_per_day + ((hh * 60 + mm) * 60 + ss) * ns_per_second + ns"

definition parse_rfc3339 :: "string \<Rightarrow> go_time option" where
  "parse_rfc3339 s = do {
     (y, s) \<leftarrow> parse_year s;
     s \<leftarrow> skip_literal CHR ''-'' s;
     (m, s) \<leftarrow> Option.bind (getnum True s) (within 1 12);
     s \<leftarrow> skip_literal CHR ''-'' s;
     (d, s) \<leftarrow> getnum True s;
     s \<leftarrow> skip_literal CHR ''T'' s;
     (hh, s) \<leftarrow> Option.bind (getnum False s) (within 0 23);
     s \<leftarrow> skip_literal CHR '':'' s;
     (mm, s) \<leftarrow> Option.bind (getnum True s) (within 0 59);
     s \<leftarrow> skip_literal CHR '':'' s;
     (ss, s) \<leftarrow> Option.bind (getnum True s) (within 0 59);
     (let (ns, s) = parse_nanos s in do {
        (offset, s) \<leftarrow> parse_offset s;
        (if s = [] \<and> 1 \<le> d \<and> d \<le> days_in y m
         then Some (utc_time (civil_ns y m d hh mm ss ns - offset * ns_per_second))
         else None)
      })
   }"

definition time_parse :: "string \<Rightarrow> error + go_time" where
  "time_parse s = (case parse_rfc3339 s of
     None \<Rightarrow> Inl (Opaque ''parsing time'') | Some t \<Rightarrow> Inr t)"

section \<open>Formatting\<close>

definition pad_number :: "nat \<Rightarrow> int \<Rightarrow> string" where
  "pad_number w n =
     (let ds = decimal_of_nat (nat \<bar>n\<bar>)
      in (if n < 0 then ''-'' else []) @ replicate (w - length ds) CHR ''0'' @ ds)"

definition trim_zeros :: "string \<Rightarrow> string" where
  "trim_zeros s = rev (dropWhile (\<lambda>c. c = CHR ''0'') (rev s))"

definition nanos_text :: "int \<Rightarrow> string" where
  "nanos_text n = (if n = 0 then [] else CHR ''.'' # trim_zeros (pad_number 9 n))"

definition clock_text :: "int \<Rightarrow> string" where
  "clock_text n =
     (let secs = n div ns_per_second in
      pad_number 2 (secs div 3600) @ CHR '':'' # pad_number 2 (secs div 60 mod 60)
      @ CHR '':'' # pad_number 2 (secs mod 60) @ nanos_text (n mod ns_per_second) @ ''Z'')"

text \<open>\<open>t.UTC().Format(time.RFC3339Nano)\<close>.\<close>

definition format_utc :: "go_time \<Rightarrow> string" where
  "format_utc t =
     (case civil_from_days (t_ns t div ns_per_day) of (y, m, d) \<Rightarrow>
        pad_number 4 y @ CHR ''-'' # pad_number 2 m @ CHR ''-'' # pad_number 2 d
        @ CHR ''T'' # clock_text (t_ns t mod ns_per_day))"

end
