(* ===== verification/Life_Records.thy ===== *)
theory Life_Records
  imports Task_Options Go_Rfc3339
begin

text \<open>
  The durable lifetime records of \<open>internal/task\<close>: \<open>lifetime.go\<close>, \<open>lifetime_custody.go\<close>,
  \<open>lifetime_unlaunched.go\<close>, and the fields and results of an absence from \<open>lifetime_completion.go\<close>.
  The string types keep every string, because the records are read from files; a nil pointer is \<open>None\<close>.
  Encoding a struct of strings and integers does not fail, so a digest is a string.
\<close>

section \<open>Values\<close>

abbreviation LifetimeScopeCgroupV2 :: string where "LifetimeScopeCgroupV2 \<equiv> ''cgroup-v2''"
abbreviation LifetimeScopeProcessGroup :: string where "LifetimeScopeProcessGroup \<equiv> ''process-group''"
abbreviation LifetimeAssuranceExact :: string where "LifetimeAssuranceExact \<equiv> ''exact''"
abbreviation LifetimeAssuranceCooperative :: string where "LifetimeAssuranceCooperative \<equiv> ''cooperative''"
abbreviation LifetimeOwnerTask :: string where "LifetimeOwnerTask \<equiv> ''task''"
abbreviation LifetimeOwnerInspection :: string where "LifetimeOwnerInspection \<equiv> ''inspection''"
abbreviation LifetimeOwnerWorkspace :: string where "LifetimeOwnerWorkspace \<equiv> ''workspace''"
abbreviation LifetimeTerminationCompleted :: string where "LifetimeTerminationCompleted \<equiv> ''completed''"
abbreviation LifetimeTerminationBudget :: string where "LifetimeTerminationBudget \<equiv> ''budget''"
abbreviation LifetimeTerminationRequested :: string where "LifetimeTerminationRequested \<equiv> ''requested''"
abbreviation LifetimeTerminationRecovery :: string where "LifetimeTerminationRecovery \<equiv> ''recovery''"
abbreviation LifetimeTerminationPreviousBoot :: string where "LifetimeTerminationPreviousBoot \<equiv> ''previous-boot''"
abbreviation LifetimeWorkerWaitSuccess :: string where "LifetimeWorkerWaitSuccess \<equiv> ''success''"
abbreviation LifetimeWorkerWaitExitError :: string where "LifetimeWorkerWaitExitError \<equiv> ''exit-error''"
abbreviation LifetimeWorkerWaitError :: string where "LifetimeWorkerWaitError \<equiv> ''wait-error''"
abbreviation LifetimeWorkerWaitNotStarted :: string where "LifetimeWorkerWaitNotStarted \<equiv> ''not-started''"
abbreviation LifetimeWorkerWaitAbsent :: string where "LifetimeWorkerWaitAbsent \<equiv> ''absent''"
abbreviation LifetimeAbsenceExactWorker :: string where "LifetimeAbsenceExactWorker \<equiv> ''exact-worker''"
abbreviation LifetimeAbsencePreviousBoot :: string where "LifetimeAbsencePreviousBoot \<equiv> ''previous-boot''"
abbreviation LifetimeAbsenceUnregisteredDisposed :: string where
  "LifetimeAbsenceUnregisteredDisposed \<equiv> ''unregistered-disposed''"
abbreviation LifetimeUnlaunchedCauseDeadlineExpired :: string where
  "LifetimeUnlaunchedCauseDeadlineExpired \<equiv> ''deadline-expired''"

abbreviation identity_mismatch :: error where "identity_mismatch \<equiv> Leaf ErrIdentityMismatch"

definition LifetimeCustodyPlacementVersion :: int where "LifetimeCustodyPlacementVersion = 1"

record custody_placement =
  cp_version :: int
  cp_pool_root :: string
  cp_pool_id :: string

record intent_record =
  in_schema :: int
  in_root_id :: string
  in_task_id :: string
  in_owner_kind :: string
  in_owner_sha256 :: string
  in_scope_kind :: string
  in_assurance :: string
  in_scope_plan :: string
  in_boot_id :: string
  in_deadline :: string
  in_created_at :: string

record registration_record =
  rg_schema :: int
  rg_root_id :: string
  rg_task_id :: string
  rg_owner_kind :: string
  rg_owner_sha256 :: string
  rg_scope_kind :: string
  rg_assurance :: string
  rg_scope_id :: string
  rg_boot_id :: string
  rg_deadline :: string
  rg_created_at :: string
  rg_custody :: "custody_placement option"

record worker_record =
  wk_schema :: int
  wk_root_id :: string
  wk_task_id :: string
  wk_registration :: string
  wk_pid :: int
  wk_process_start :: string
  wk_boot_id :: string
  wk_started_at :: string

record worker_wait =
  ww_schema :: int
  ww_root_id :: string
  ww_task_id :: string
  ww_registration :: string
  ww_worker :: string
  ww_child_pid :: int
  ww_result :: string
  ww_exit_code :: "int option"
  ww_observed_at :: string
  ww_intent :: string
  ww_proof :: string
  ww_observed_boot :: string

record launch_record =
  la_schema :: int
  la_root_id :: string
  la_task_id :: string
  la_registration :: string
  la_sequence :: "64 word"
  la_pid :: int
  la_process_start :: string
  la_pgid :: int
  la_started_at :: string

record termination_record =
  te_schema :: int
  te_root_id :: string
  te_task_id :: string
  te_registration :: string
  te_launch_count :: "64 word"
  te_launch_set :: string
  te_cause :: string
  te_scope_empty :: bool
  te_observed_at :: string

record unlaunched_record =
  ul_schema :: int
  ul_root_id :: string
  ul_task_id :: string
  ul_owner_kind :: string
  ul_owner_sha256 :: string
  ul_deadline :: string
  ul_cause :: string
  ul_observed_at :: string

section \<open>Encodings\<close>

definition int_json :: "int \<Rightarrow> json" where "int_json n = JNum (decimal n)"

definition custody_json :: "custody_placement \<Rightarrow> json" where
  "custody_json p = JObj
     [(''version'', int_json (cp_version p)), (''pool_root'', JStr (cp_pool_root p)),
      (''pool_id'', JStr (cp_pool_id p))]"

definition intent_json :: "intent_record \<Rightarrow> json" where
  "intent_json r = JObj
     [(''schema_version'', int_json (in_schema r)), (''root_id'', JStr (in_root_id r)),
      (''task_id'', JStr (in_task_id r)), (''owner_kind'', JStr (in_owner_kind r)),
      (''owner_sha256'', JStr (in_owner_sha256 r)), (''scope_kind'', JStr (in_scope_kind r)),
      (''assurance'', JStr (in_assurance r)), (''scope_plan'', JStr (in_scope_plan r)),
      (''boot_id'', JStr (in_boot_id r)), (''deadline'', JStr (in_deadline r)),
      (''created_at'', JStr (in_created_at r))]"

definition registration_json :: "registration_record \<Rightarrow> json" where
  "registration_json r = JObj
     ([(''schema_version'', int_json (rg_schema r)), (''root_id'', JStr (rg_root_id r)),
       (''task_id'', JStr (rg_task_id r)), (''owner_kind'', JStr (rg_owner_kind r)),
       (''owner_sha256'', JStr (rg_owner_sha256 r)), (''scope_kind'', JStr (rg_scope_kind r)),
       (''assurance'', JStr (rg_assurance r)), (''scope_id'', JStr (rg_scope_id r)),
       (''boot_id'', JStr (rg_boot_id r)), (''deadline'', JStr (rg_deadline r)),
       (''created_at'', JStr (rg_created_at r))]
      @ omit_nil ''custody_placement'' custody_json (rg_custody r))"

definition worker_json :: "worker_record \<Rightarrow> json" where
  "worker_json r = JObj
     [(''schema_version'', int_json (wk_schema r)), (''root_id'', JStr (wk_root_id r)),
      (''task_id'', JStr (wk_task_id r)), (''registration_sha256'', JStr (wk_registration r)),
      (''pid'', int_json (wk_pid r)), (''process_start'', JStr (wk_process_start r)),
      (''boot_id'', JStr (wk_boot_id r)), (''started_at'', JStr (wk_started_at r))]"

definition worker_wait_json :: "worker_wait \<Rightarrow> json" where
  "worker_wait_json r = JObj
     ([(''schema_version'', int_json (ww_schema r)), (''root_id'', JStr (ww_root_id r)),
       (''task_id'', JStr (ww_task_id r)), (''registration_sha256'', JStr (ww_registration r))]
      @ omit_empty_string ''worker_sha256'' (ww_worker r)
      @ [(''child_pid'', int_json (ww_child_pid r)), (''result'', JStr (ww_result r))]
      @ omit_nil ''exit_code'' int_json (ww_exit_code r)
      @ [(''observed_at'', JStr (ww_observed_at r))]
      @ omit_empty_string ''intent_sha256'' (ww_intent r)
      @ omit_empty_string ''absence_proof'' (ww_proof r)
      @ omit_empty_string ''observed_boot_id'' (ww_observed_boot r))"

definition launch_json :: "launch_record \<Rightarrow> json" where
  "launch_json r = JObj
     ([(''schema_version'', int_json (la_schema r)), (''root_id'', JStr (la_root_id r)),
       (''task_id'', JStr (la_task_id r)), (''registration_sha256'', JStr (la_registration r)),
       (''sequence'', int_json (uint (la_sequence r))), (''pid'', int_json (la_pid r)),
       (''process_start'', JStr (la_process_start r))]
      @ (if la_pgid r = 0 then [] else [(''pgid'', int_json (la_pgid r))])
      @ [(''started_at'', JStr (la_started_at r))])"

definition json_digest :: "json \<Rightarrow> string" where
  "json_digest v = ComputeSHA256 (MarshalCanonical v)"

abbreviation intent_digest :: "intent_record \<Rightarrow> string" where
  "intent_digest r \<equiv> json_digest (intent_json r)"
abbreviation registration_digest :: "registration_record \<Rightarrow> string" where
  "registration_digest r \<equiv> json_digest (registration_json r)"
abbreviation worker_digest :: "worker_record \<Rightarrow> string" where
  "worker_digest r \<equiv> json_digest (worker_json r)"
abbreviation worker_wait_digest :: "worker_wait \<Rightarrow> string" where
  "worker_wait_digest r \<equiv> json_digest (worker_wait_json r)"

section \<open>Validators\<close>

definition invalid_enum :: "string \<Rightarrow> error" where
  "invalid_enum m = Wrap m (Leaf ErrInvalidEnum)"

definition validLifetimeToken :: "string \<Rightarrow> bool" where
  "validLifetimeToken s \<longleftrightarrow> nonblank s \<and> length s \<le> MaxControlRecordSize"

definition validateTimestamp :: "string \<Rightarrow> error option" where
  "validateTimestamp s = wrap_error ''invalid required RFC3339 timestamp'' (error_of (time_parse s))"

definition validateLifetimeWorkerTimestamp :: "string \<Rightarrow> error option" where
  "validateLifetimeWorkerTimestamp s = (case time_parse s of
     Inl e \<Rightarrow> Some (Wrap ''invalid required RFC3339 timestamp'' e)
   | Inr t \<Rightarrow> require (format_utc t = s)
       (Opaque ''lifetime worker timestamp is not canonical UTC RFC3339Nano''))"

definition validateLifetimeIdentity :: "int \<Rightarrow> string \<Rightarrow> string \<Rightarrow> error option" where
  "validateLifetimeIdentity schema rid tid = first_error
     [require (schema = SchemaVersion) (Wrap ''lifetime schema'' (Leaf ErrUnsupportedSchema)),
      ValidateRootID rid, ValidateTaskID tid]"

definition validateLifetimeOwner :: "string \<Rightarrow> string \<Rightarrow> error option" where
  "validateLifetimeOwner kind sha = first_error
     [require (kind = LifetimeOwnerTask \<or> kind = LifetimeOwnerInspection \<or> kind = LifetimeOwnerWorkspace)
        (invalid_enum ''invalid lifetime owner kind''),
      ValidateSHA256 sha]"

definition validateLifetimeScope :: "string \<Rightarrow> string \<Rightarrow> error option" where
  "validateLifetimeScope kind assurance =
     (if kind = LifetimeScopeCgroupV2 then require (assurance = LifetimeAssuranceExact) identity_mismatch
      else if kind = LifetimeScopeProcessGroup
        then require (assurance = LifetimeAssuranceCooperative) identity_mismatch
      else Some (invalid_enum ''invalid lifetime scope kind''))"

definition ValidateLifetimeCustodyPlacement :: "custody_placement option \<Rightarrow> error option" where
  "ValidateLifetimeCustodyPlacement placement = (case placement of
     None \<Rightarrow> Some (Opaque ''nil lifetime custody placement'')
   | Some p \<Rightarrow> first_error
       [require (cp_version p = LifetimeCustodyPlacementVersion)
          (Wrap ''lifetime custody placement version'' (Leaf ErrUnsupportedSchema)),
        require (IsCanonicalCwd (cp_pool_root p))
          (Wrap ''lifetime custody pool root must be a nonempty, absolute, clean path'' identity_mismatch),
        wrap_error ''lifetime custody pool id'' (ValidateSHA256 (cp_pool_id p))])"

definition ValidateLifetimeRegistrationRecord :: "registration_record option \<Rightarrow> error option" where
  "ValidateLifetimeRegistrationRecord record = (case record of
     None \<Rightarrow> Some (Opaque ''nil lifetime registration'')
   | Some r \<Rightarrow> first_error
       [validateLifetimeIdentity (rg_schema r) (rg_root_id r) (rg_task_id r),
        validateLifetimeOwner (rg_owner_kind r) (rg_owner_sha256 r),
        validateLifetimeScope (rg_scope_kind r) (rg_assurance r),
        require (validLifetimeToken (rg_scope_id r) \<and> validLifetimeToken (rg_boot_id r)) identity_mismatch,
        validateTimestamp (rg_deadline r),
        validateTimestamp (rg_created_at r),
        (if rg_custody r \<noteq> None then ValidateLifetimeCustodyPlacement (rg_custody r) else None)])"

definition ValidateLifetimeIntentRecord :: "intent_record option \<Rightarrow> error option" where
  "ValidateLifetimeIntentRecord record = (case record of
     None \<Rightarrow> Some (Opaque ''nil lifetime intent'')
   | Some r \<Rightarrow> first_error
       [validateLifetimeIdentity (in_schema r) (in_root_id r) (in_task_id r),
        validateLifetimeOwner (in_owner_kind r) (in_owner_sha256 r),
        validateLifetimeScope (in_scope_kind r) (in_assurance r),
        require (validLifetimeToken (in_scope_plan r) \<and> validLifetimeToken (in_boot_id r)) identity_mismatch,
        validateTimestamp (in_deadline r),
        validateTimestamp (in_created_at r)])"

definition ValidateLifetimeLaunchRecord :: "launch_record option \<Rightarrow> error option" where
  "ValidateLifetimeLaunchRecord record = (case record of
     None \<Rightarrow> Some (Opaque ''nil lifetime launch'')
   | Some r \<Rightarrow> first_error
       [validateLifetimeIdentity (la_schema r) (la_root_id r) (la_task_id r),
        ValidateSHA256 (la_registration r),
        require (\<not> (la_sequence r = 0 \<or> la_pid r \<le> 0 \<or> la_pgid r < 0
                   \<or> \<not> validLifetimeToken (la_process_start r))) identity_mismatch,
        validateTimestamp (la_started_at r)])"

definition ValidateLifetimeWorkerRecord :: "worker_record option \<Rightarrow> error option" where
  "ValidateLifetimeWorkerRecord record = (case record of
     None \<Rightarrow> Some (Opaque ''nil lifetime worker'')
   | Some r \<Rightarrow> first_error
       [validateLifetimeIdentity (wk_schema r) (wk_root_id r) (wk_task_id r),
        ValidateSHA256 (wk_registration r),
        require (\<not> (wk_pid r \<le> 0 \<or> \<not> validLifetimeToken (wk_process_start r)
                   \<or> \<not> validLifetimeToken (wk_boot_id r))) identity_mismatch,
        validateLifetimeWorkerTimestamp (wk_started_at r)])"

definition ValidateLifetimeTerminationRecord :: "termination_record option \<Rightarrow> error option" where
  "ValidateLifetimeTerminationRecord record = (case record of
     None \<Rightarrow> Some (Opaque ''nil lifetime termination'')
   | Some r \<Rightarrow> first_error
       [validateLifetimeIdentity (te_schema r) (te_root_id r) (te_task_id r),
        ValidateSHA256 (te_registration r),
        ValidateSHA256 (te_launch_set r),
        require (te_cause r \<in> {LifetimeTerminationCompleted, LifetimeTerminationBudget,
            LifetimeTerminationRequested, LifetimeTerminationRecovery, LifetimeTerminationPreviousBoot})
          (invalid_enum ''invalid lifetime termination cause''),
        require (te_scope_empty r) identity_mismatch,
        validateTimestamp (te_observed_at r)])"

section \<open>Worker completions\<close>

definition validateStartedLifetimeWorkerWait :: "worker_wait \<Rightarrow> error option" where
  "validateStartedLifetimeWorkerWait r = require (\<not> ww_child_pid r \<le> 0) identity_mismatch"

definition LifetimeWorkerWaitProvesNotStarted :: "worker_wait option \<Rightarrow> bool" where
  "LifetimeWorkerWaitProvesNotStarted wait = (case wait of
     None \<Rightarrow> False
   | Some r \<Rightarrow> ww_result r = LifetimeWorkerWaitNotStarted \<and> ww_worker r = [] \<and> ww_child_pid r = 0
       \<and> ww_exit_code r = None)"

definition LifetimeWorkerWaitIsQualified :: "worker_wait option \<Rightarrow> bool" where
  "LifetimeWorkerWaitIsQualified wait = (case wait of
     None \<Rightarrow> False | Some r \<Rightarrow> ww_result r \<noteq> LifetimeWorkerWaitAbsent \<and> ww_worker r \<noteq> [])"

definition LifetimeWorkerWaitProvesAbsence :: "worker_wait option \<Rightarrow> bool" where
  "LifetimeWorkerWaitProvesAbsence wait = (case wait of
     None \<Rightarrow> False | Some r \<Rightarrow> ww_result r = LifetimeWorkerWaitAbsent)"

definition absence_proof_error :: error where
  "absence_proof_error = invalid_enum ''invalid lifetime absence proof''"

definition validateLifetimeWorkerWaitAbsenceFields :: "worker_wait \<Rightarrow> error option" where
  "validateLifetimeWorkerWaitAbsenceFields r =
     (if ww_result r \<noteq> LifetimeWorkerWaitAbsent then
        require (\<not> (ww_intent r \<noteq> [] \<or> ww_proof r \<noteq> [] \<or> ww_observed_boot r \<noteq> [])) identity_mismatch
      else first_error
        [require (\<not> (ww_registration r = [] \<and> ww_intent r = [])) identity_mismatch,
         require (\<not> (ww_registration r \<noteq> [] \<and> ww_intent r \<noteq> [])) identity_mismatch,
         (if ww_registration r \<noteq> [] then ValidateSHA256 (ww_registration r) else None),
         (if ww_intent r \<noteq> [] then ValidateSHA256 (ww_intent r) else None),
         require (validLifetimeToken (ww_observed_boot r)) identity_mismatch,
         require (ww_proof r \<in> {LifetimeAbsenceExactWorker, LifetimeAbsencePreviousBoot,
             LifetimeAbsenceUnregisteredDisposed}) absence_proof_error])"

definition validateLifetimeWorkerWaitAbsenceResult :: "worker_wait \<Rightarrow> error option" where
  "validateLifetimeWorkerWaitAbsenceResult r = first_error
     [require (\<not> (ww_exit_code r \<noteq> None \<or> ww_worker r = [] \<and> ww_child_pid r \<noteq> 0
                 \<or> ww_worker r \<noteq> [] \<and> ww_child_pid r \<le> 0)) identity_mismatch,
      (if ww_proof r = LifetimeAbsenceExactWorker
         then require (\<not> (ww_registration r = [] \<or> ww_worker r = [])) identity_mismatch
       else if ww_proof r = LifetimeAbsencePreviousBoot
         then require (\<not> (ww_intent r \<noteq> [] \<and> ww_worker r \<noteq> [])) identity_mismatch
       else if ww_proof r = LifetimeAbsenceUnregisteredDisposed
         then require (\<not> (ww_intent r = [] \<or> ww_worker r \<noteq> [])) identity_mismatch
       else Some absence_proof_error)]"

definition validateLifetimeWorkerWaitResult :: "worker_wait \<Rightarrow> error option" where
  "validateLifetimeWorkerWaitResult r =
     (if ww_result r = LifetimeWorkerWaitAbsent then validateLifetimeWorkerWaitAbsenceResult r
      else if ww_result r = LifetimeWorkerWaitNotStarted
        then require (LifetimeWorkerWaitProvesNotStarted (Some r)) identity_mismatch
      else if ww_result r = LifetimeWorkerWaitSuccess then first_error
        [validateStartedLifetimeWorkerWait r, require (ww_exit_code r = Some 0) identity_mismatch]
      else if ww_result r = LifetimeWorkerWaitExitError then first_error
        [validateStartedLifetimeWorkerWait r,
         require (\<not> (ww_exit_code r = None \<or> ww_exit_code r = Some 0)) identity_mismatch]
      else if ww_result r = LifetimeWorkerWaitError then validateStartedLifetimeWorkerWait r
      else Some (invalid_enum ''invalid lifetime worker wait result''))"

definition ValidateLifetimeWorkerWaitRecord :: "worker_wait option \<Rightarrow> error option" where
  "ValidateLifetimeWorkerWaitRecord record = (case record of
     None \<Rightarrow> Some (Opaque ''nil lifetime worker wait'')
   | Some r \<Rightarrow> first_error
       [validateLifetimeIdentity (ww_schema r) (ww_root_id r) (ww_task_id r),
        (if ww_result r \<noteq> LifetimeWorkerWaitAbsent then ValidateSHA256 (ww_registration r) else None),
        (if ww_worker r \<noteq> [] then ValidateSHA256 (ww_worker r) else None),
        validateLifetimeWorkerWaitAbsenceFields r,
        validateLifetimeWorkerWaitResult r,
        validateLifetimeWorkerTimestamp (ww_observed_at r)])"

text \<open>What binds a completion to a registration or a worker, and a registration to its intent.\<close>

definition LifetimeWorkerWaitMatchesRegistration ::
  "worker_wait option \<Rightarrow> registration_record option \<Rightarrow> string \<Rightarrow> bool" where
  "LifetimeWorkerWaitMatchesRegistration wait registration digest = (case (wait, registration) of
     (Some w, Some r) \<Rightarrow> ww_root_id w = rg_root_id r \<and> ww_task_id w = rg_task_id r
       \<and> ww_registration w = digest
   | _ \<Rightarrow> False)"

definition LifetimeWorkerWaitMatchesWorker ::
  "worker_wait option \<Rightarrow> worker_record option \<Rightarrow> string \<Rightarrow> bool" where
  "LifetimeWorkerWaitMatchesWorker wait worker digest = (case (wait, worker) of
     (Some w, Some k) \<Rightarrow> ww_worker w \<noteq> [] \<and> ww_worker w = digest \<and> ww_root_id w = wk_root_id k
       \<and> ww_task_id w = wk_task_id k \<and> ww_child_pid w = wk_pid k
   | _ \<Rightarrow> False)"

definition LifetimeIntentMatchesRegistration ::
  "intent_record option \<Rightarrow> registration_record option \<Rightarrow> bool" where
  "LifetimeIntentMatchesRegistration intent registration = (case (intent, registration) of
     (Some i, Some r) \<Rightarrow> in_root_id i = rg_root_id r \<and> in_task_id i = rg_task_id r
       \<and> in_owner_kind i = rg_owner_kind r \<and> in_owner_sha256 i = rg_owner_sha256 r
       \<and> in_scope_kind i = rg_scope_kind r \<and> in_assurance i = rg_assurance r
       \<and> in_boot_id i = rg_boot_id r \<and> in_deadline i = rg_deadline r
   | _ \<Rightarrow> False)"

section \<open>Absent records, owners and unlaunched lifetimes\<close>

definition RecordAbsent :: "error option \<Rightarrow> bool" where
  "RecordAbsent err \<longleftrightarrow>
     \<not> (error_is err ErrIdentityMismatch \<or> error_is err ErrEvidenceFault \<or> error_is err ErrCanceled
        \<or> error_is err ErrDeadlineExceeded)
     \<and> AllErrorCauses err (\<lambda>c. errors_is c ErrNotExist)"

definition LifetimeTaskOwnerSHA256 :: "string \<Rightarrow> string \<Rightarrow> error + string" where
  "LifetimeTaskOwnerSHA256 spec meta =
     check_then (ValidateSHA256 spec) (check_then (ValidateSHA256 meta)
       (Inr (ComputeSHA256 (''delegation-layer:lifetime-owner:task:v1'' @ CHR 0x0A # spec @ CHR 0x0A # meta))))"

definition validateLifetimeUnlaunchedTimestamp :: "string \<Rightarrow> string \<Rightarrow> error + go_time" where
  "validateLifetimeUnlaunchedTimestamp name s =
     (if s = [] \<or> trim_space s \<noteq> s \<or> contains_char CHR 0x00 s then Inl (Opaque (''missing '' @ name))
      else case time_parse s of
        Inl e \<Rightarrow> Inl (Wrap (''invalid '' @ name) e)
      | Inr t \<Rightarrow>
          if format_utc t \<noteq> s then Inl (Opaque (name @ '' is not canonical UTC RFC3339Nano''))
          else if is_zero t then Inl (Wrap (name @ '' is zero'') identity_mismatch)
          else Inr t)"

definition ValidateLifetimeUnlaunchedRecord :: "unlaunched_record option \<Rightarrow> error option" where
  "ValidateLifetimeUnlaunchedRecord record = (case record of
     None \<Rightarrow> Some (Opaque ''nil lifetime unlaunched record'')
   | Some r \<Rightarrow> error_of (
       check_then (validateLifetimeIdentity (ul_schema r) (ul_root_id r) (ul_task_id r)) (
       check_then (validateLifetimeOwner (ul_owner_kind r) (ul_owner_sha256 r)) (
       check_then (require (ul_owner_kind r = LifetimeOwnerWorkspace \<or> ul_owner_kind r = LifetimeOwnerInspection)
         (Leaf ErrInvalidEnum)) (
       check_then (require (ul_cause r = LifetimeUnlaunchedCauseDeadlineExpired)
         (invalid_enum ''invalid lifetime unlaunched cause'')) (
       bind_result (validateLifetimeUnlaunchedTimestamp ''lifetime unlaunched deadline'' (ul_deadline r))
         (\<lambda>deadline.
       bind_result (validateLifetimeUnlaunchedTimestamp ''lifetime unlaunched observed_at'' (ul_observed_at r))
         (\<lambda>observed.
       check_then (require (\<not> before observed deadline)
         (Wrap ''lifetime unlaunched observation precedes deadline'' identity_mismatch)) (Inr ())))))))))"

end
