(* ===== verification/Life_Evidence.thy ===== *)
theory Life_Evidence
  imports Life_Records
begin

text \<open>
  Launch capacity (\<open>lifetime_capacity.go\<close>) and the closure of lifetime evidence
  (\<open>lifetime_completion.go\<close>). The functions that fill an accumulator through a pointer return the new
  accumulator.
\<close>

section \<open>Launch capacity\<close>

definition MaxLifetimeLaunches :: "64 word" where "MaxLifetimeLaunches = 4096"
definition MaxLifetimeLaunchBytes :: int where "MaxLifetimeLaunchBytes = 64 * int MaxControlRecordSize"

record launch_limits =
  ll_count :: "64 word"
  ll_bytes :: int

definition defaultLifetimeLaunchLimits :: launch_limits where
  "defaultLifetimeLaunchLimits = \<lparr>ll_count = MaxLifetimeLaunches, ll_bytes = MaxLifetimeLaunchBytes\<rparr>"

record launch_capacity =
  lc_count :: "64 word"
  lc_bytes :: int
  lc_limits :: "launch_limits option"

definition evidence_fault :: "string \<Rightarrow> error" where
  "evidence_fault m = Wrap m (Leaf ErrEvidenceFault)"

definition addEncoded :: "launch_capacity \<Rightarrow> int \<Rightarrow> error + launch_capacity" where
  "addEncoded c encoded =
     (let limits = (case lc_limits c of None \<Rightarrow> defaultLifetimeLaunchLimits | Some l \<Rightarrow> l) in
      if encoded > int MaxControlRecordSize
        then Inl (evidence_fault ''lifetime launch record exceeds its canonical bytes'')
      else if lc_count c \<ge> ll_count limits then Inl (evidence_fault ''too many lifetime launches'')
      else if encoded > ll_bytes limits - lc_bytes c
        then Inl (evidence_fault ''lifetime launch records exceed their canonical bytes'')
      else Inr (c\<lparr>lc_count := lc_count c + 1, lc_bytes := lc_bytes c + encoded\<rparr>))"

definition capacity_add :: "launch_capacity \<Rightarrow> launch_record \<Rightarrow> error + launch_capacity" where
  "capacity_add c r = addEncoded c (int (length (MarshalCanonical (launch_json r))))"

definition ValidateLifetimeLaunchSequence :: "64 word \<Rightarrow> error option" where
  "ValidateLifetimeLaunchSequence n =
     require (\<not> (n = 0 \<or> n > MaxLifetimeLaunches))
       (evidence_fault ''lifetime launch sequence is outside its namespace'')"

fun add_launches :: "launch_capacity \<Rightarrow> launch_record list \<Rightarrow> error + launch_capacity" where
  "add_launches c [] = Inr c"
| "add_launches c (r # rs) = bind_result (capacity_add c r) (\<lambda>c. add_launches c rs)"

definition new_capacity :: launch_capacity where
  "new_capacity = \<lparr>lc_count = 0, lc_bytes = 0, lc_limits = None\<rparr>"

definition ValidateLifetimeLaunchCapacity :: "launch_record list \<Rightarrow> error option" where
  "ValidateLifetimeLaunchCapacity rs = error_of (add_launches new_capacity rs)"

text \<open>A nil set encodes as an empty array, and both are the empty list.\<close>

definition LifetimeLaunchSetDigest :: "launch_record list \<Rightarrow> string" where
  "LifetimeLaunchSetDigest rs = json_digest (JArr (map launch_json rs))"

section \<open>Evidence\<close>

record evidence =
  ev_intent :: "intent_record option"
  ev_registration :: "registration_record option"
  ev_worker :: "worker_record option"
  ev_wait :: "worker_wait option"
  ev_launches :: "launch_record list"
  ev_termination :: "termination_record option"

record evidence_identity =
  ei_root_id :: string
  ei_task_id :: string

definition identity_set :: "evidence_identity \<Rightarrow> string \<Rightarrow> string \<Rightarrow> error + evidence_identity" where
  "identity_set i rid tid =
     (if ei_root_id i = [] then Inr \<lparr>ei_root_id = rid, ei_task_id = tid\<rparr>
      else if ei_root_id i \<noteq> rid \<or> ei_task_id i \<noteq> tid then Inl identity_mismatch
      else Inr i)"

text \<open>One optional record: it is valid and carries the identity of the records before it.\<close>

definition check_record ::
  "('a option \<Rightarrow> error option) \<Rightarrow> ('a \<Rightarrow> string \<times> string) \<Rightarrow> 'a option \<Rightarrow> evidence_identity
     \<Rightarrow> error + evidence_identity" where
  "check_record valid ids record i = (case record of
     None \<Rightarrow> Inr i
   | Some r \<Rightarrow> check_then (valid (Some r)) (case ids r of (rid, tid) \<Rightarrow> identity_set i rid tid))"

definition validateLifetimeScopeEvidence :: "evidence \<Rightarrow> evidence_identity \<Rightarrow> error + evidence_identity" where
  "validateLifetimeScopeEvidence e i =
     bind_result (check_record ValidateLifetimeIntentRecord (\<lambda>r. (in_root_id r, in_task_id r)) (ev_intent e) i)
       (check_record ValidateLifetimeRegistrationRecord (\<lambda>r. (rg_root_id r, rg_task_id r)) (ev_registration e))"

text \<open>The first argument of the loop is the index of its first launch.\<close>

fun check_launches :: "nat \<Rightarrow> launch_record list \<Rightarrow> evidence_identity \<Rightarrow> error option" where
  "check_launches k [] i = None"
| "check_launches k (r # rs) i = error_of (
     check_then (ValidateLifetimeLaunchRecord (Some r)) (
     check_then (require (la_sequence r = of_nat (k + 1)) identity_mismatch) (
     bind_result (identity_set i (la_root_id r) (la_task_id r)) (\<lambda>i.
     check_then (check_launches (Suc k) rs i) (Inr ())))))"

definition validateLifetimeEvidenceLaunches :: "evidence \<Rightarrow> evidence_identity \<Rightarrow> error option" where
  "validateLifetimeEvidenceLaunches e i = check_launches 0 (ev_launches e) i"

definition validateLifetimeEvidenceRecords :: "evidence \<Rightarrow> error option" where
  "validateLifetimeEvidenceRecords e = error_of (
     bind_result (validateLifetimeScopeEvidence e \<lparr>ei_root_id = [], ei_task_id = []\<rparr>) (\<lambda>i.
     bind_result (check_record ValidateLifetimeWorkerRecord (\<lambda>r. (wk_root_id r, wk_task_id r)) (ev_worker e) i) (\<lambda>i.
     bind_result (check_record ValidateLifetimeWorkerWaitRecord (\<lambda>r. (ww_root_id r, ww_task_id r)) (ev_wait e) i) (\<lambda>i.
     bind_result (check_record ValidateLifetimeTerminationRecord (\<lambda>r. (te_root_id r, te_task_id r))
       (ev_termination e) i) (\<lambda>i.
     check_then (ValidateLifetimeLaunchCapacity (ev_launches e)) (
     check_then (validateLifetimeEvidenceLaunches e i) (Inr ())))))))"

definition validateLifetimeRegisteredEvidenceBindings ::
  "evidence \<Rightarrow> registration_record \<Rightarrow> string \<Rightarrow> error option" where
  "validateLifetimeRegisteredEvidenceBindings e r digest = first_error
     [(case ev_worker e of None \<Rightarrow> None
       | Some w \<Rightarrow> require (\<not> (wk_registration w \<noteq> digest \<or> wk_boot_id w \<noteq> rg_boot_id r)) identity_mismatch),
      first_error (map (\<lambda>l. require (la_registration l = digest) identity_mismatch) (ev_launches e)),
      (case ev_termination e of None \<Rightarrow> None
       | Some t \<Rightarrow> require (te_registration t = digest) identity_mismatch)]"

definition validateLifetimeEvidenceTermination :: "evidence \<Rightarrow> error option" where
  "validateLifetimeEvidenceTermination e = (case ev_termination e of
     None \<Rightarrow> None
   | Some t \<Rightarrow> require (\<not> (te_launch_count t \<noteq> of_nat (length (ev_launches e))
         \<or> te_launch_set t \<noteq> LifetimeLaunchSetDigest (ev_launches e))) identity_mismatch)"

definition validateLifetimeEvidenceBindings :: "evidence \<Rightarrow> error option" where
  "validateLifetimeEvidenceBindings e = first_error
     [require (\<not> (ev_registration e = None
         \<and> (ev_worker e \<noteq> None \<or> ev_launches e \<noteq> [] \<or> ev_termination e \<noteq> None))) identity_mismatch,
      require (\<not> (ev_intent e \<noteq> None \<and> ev_registration e \<noteq> None
         \<and> \<not> LifetimeIntentMatchesRegistration (ev_intent e) (ev_registration e))) identity_mismatch,
      (case ev_registration e of None \<Rightarrow> None
       | Some r \<Rightarrow> validateLifetimeRegisteredEvidenceBindings e r (registration_digest r)),
      validateLifetimeEvidenceTermination e]"

definition validateLifetimeEvidenceFacts :: "evidence \<Rightarrow> error option" where
  "validateLifetimeEvidenceFacts e =
     first_error [validateLifetimeEvidenceRecords e, validateLifetimeEvidenceBindings e]"

section \<open>Bindings of a completion\<close>

definition validateLifetimeNativeCompletionBinding :: "worker_wait \<Rightarrow> evidence \<Rightarrow> error option" where
  "validateLifetimeNativeCompletionBinding w e = (case ev_registration e of
     None \<Rightarrow> Some identity_mismatch
   | Some r \<Rightarrow>
       if \<not> LifetimeWorkerWaitMatchesRegistration (Some w) (Some r) (registration_digest r)
         then Some identity_mismatch
       else if ev_intent e \<noteq> None \<and> \<not> LifetimeIntentMatchesRegistration (ev_intent e) (Some r)
         then Some identity_mismatch
       else (case ev_worker e of
           None \<Rightarrow>
             if LifetimeWorkerWaitProvesNotStarted (Some w)
               then require (ev_launches e = []) identity_mismatch
             else require (\<not> (LifetimeWorkerWaitIsQualified (Some w) \<or> rg_assurance r \<noteq> LifetimeAssuranceExact))
               identity_mismatch
         | Some k \<Rightarrow>
             require (\<not> (wk_registration k \<noteq> registration_digest r \<or> wk_boot_id k \<noteq> rg_boot_id r
               \<or> \<not> LifetimeWorkerWaitMatchesWorker (Some w) (Some k) (worker_digest k))) identity_mismatch))"

definition validateLifetimeExactWorkerAbsenceBinding ::
  "worker_wait \<Rightarrow> termination_record option \<Rightarrow> registration_record option \<Rightarrow> worker_record option \<Rightarrow> error option" where
  "validateLifetimeExactWorkerAbsenceBinding w termination registration worker =
     (case (registration, worker, termination) of
        (Some r, Some k, Some t) \<Rightarrow> first_error
          [require (ww_intent w = []) identity_mismatch,
           require (\<not> (ww_registration w \<noteq> registration_digest r \<or> ww_observed_boot w \<noteq> rg_boot_id r))
             identity_mismatch,
           require (\<not> (wk_boot_id k \<noteq> rg_boot_id r
             \<or> \<not> LifetimeWorkerWaitMatchesWorker (Some w) (Some k) (worker_digest k))) identity_mismatch,
           require (te_cause t \<noteq> LifetimeTerminationPreviousBoot) identity_mismatch]
      | _ \<Rightarrow> Some identity_mismatch)"

definition validateLifetimeRegisteredPreviousBootAbsenceBinding ::
  "worker_wait \<Rightarrow> termination_record option \<Rightarrow> registration_record \<Rightarrow> worker_record option \<Rightarrow> error option" where
  "validateLifetimeRegisteredPreviousBootAbsenceBinding w termination r worker = first_error
     [require (termination \<noteq> None) identity_mismatch,
      require (\<not> (ww_registration w \<noteq> registration_digest r \<or> ww_observed_boot w = rg_boot_id r))
        identity_mismatch,
      (case worker of
         None \<Rightarrow> require (\<not> (ww_worker w \<noteq> [] \<or> ww_child_pid w \<noteq> 0)) identity_mismatch
       | Some k \<Rightarrow> require (\<not> (wk_boot_id k \<noteq> rg_boot_id r
           \<or> \<not> LifetimeWorkerWaitMatchesWorker (Some w) (Some k) (worker_digest k))) identity_mismatch)]"

definition validateLifetimeIntentPreviousBootAbsenceBinding ::
  "worker_wait \<Rightarrow> evidence \<Rightarrow> intent_record option \<Rightarrow> worker_record option \<Rightarrow> error option" where
  "validateLifetimeIntentPreviousBootAbsenceBinding w e intent worker = (case intent of
     None \<Rightarrow> Some identity_mismatch
   | Some i \<Rightarrow> first_error
       [require (\<not> (ww_intent w = [] \<or> ev_termination e \<noteq> None \<or> worker \<noteq> None \<or> ev_launches e \<noteq> []
          \<or> ww_worker w \<noteq> [] \<or> ww_child_pid w \<noteq> 0 \<or> ww_observed_boot w = in_boot_id i)) identity_mismatch,
        require (ww_intent w = intent_digest i) identity_mismatch])"

definition validateLifetimeUnregisteredAbsenceBinding ::
  "worker_wait \<Rightarrow> evidence \<Rightarrow> intent_record option \<Rightarrow> registration_record option \<Rightarrow> worker_record option
     \<Rightarrow> error option" where
  "validateLifetimeUnregisteredAbsenceBinding w e intent registration worker = (case intent of
     None \<Rightarrow> Some identity_mismatch
   | Some i \<Rightarrow> first_error
       [require (\<not> (registration \<noteq> None \<or> worker \<noteq> None \<or> ev_launches e \<noteq> [] \<or> ev_termination e \<noteq> None
          \<or> ww_registration w \<noteq> [] \<or> ww_observed_boot w \<noteq> in_boot_id i)) identity_mismatch,
        require (ww_intent w = intent_digest i) identity_mismatch])"

definition validateLifetimeAbsenceBinding ::
  "worker_wait \<Rightarrow> evidence \<Rightarrow> registration_record option \<Rightarrow> intent_record option \<Rightarrow> worker_record option
     \<Rightarrow> error option" where
  "validateLifetimeAbsenceBinding w e registration intent worker =
     (if registration \<noteq> None \<and> intent \<noteq> None \<and> \<not> LifetimeIntentMatchesRegistration intent registration
        then Some identity_mismatch
      else if ww_proof w = LifetimeAbsenceExactWorker
        then validateLifetimeExactWorkerAbsenceBinding w (ev_termination e) registration worker
      else if ww_proof w = LifetimeAbsencePreviousBoot
        then (case registration of
          Some r \<Rightarrow> validateLifetimeRegisteredPreviousBootAbsenceBinding w (ev_termination e) r worker
        | None \<Rightarrow> validateLifetimeIntentPreviousBootAbsenceBinding w e intent worker)
      else if ww_proof w = LifetimeAbsenceUnregisteredDisposed
        then validateLifetimeUnregisteredAbsenceBinding w e intent registration worker
      else Some absence_proof_error)"

definition ValidateLifetimeCompletionBinding :: "worker_wait option \<Rightarrow> evidence \<Rightarrow> error option" where
  "ValidateLifetimeCompletionBinding record e = (case record of
     None \<Rightarrow> Some (Opaque ''nil lifetime worker completion'')
   | Some w \<Rightarrow> first_error
       [(case ev_wait e of None \<Rightarrow> None
         | Some v \<Rightarrow> require (worker_wait_digest w = worker_wait_digest v) identity_mismatch),
        validateLifetimeEvidenceFacts (e\<lparr>ev_wait := Some w\<rparr>),
        (if ww_result w = LifetimeWorkerWaitAbsent
         then validateLifetimeAbsenceBinding w (e\<lparr>ev_wait := Some w\<rparr>) (ev_registration e) (ev_intent e)
           (ev_worker e)
         else validateLifetimeNativeCompletionBinding w (e\<lparr>ev_wait := Some w\<rparr>))])"

section \<open>Closure\<close>

datatype closure_kind =
    LifetimeClosureOpen
  | LifetimeClosureRegisteredNative
  | LifetimeClosureRegisteredRecovered
  | LifetimeClosureLegacyPreviousBoot
  | LifetimeClosureUnregisteredRecovered

fun Closed :: "closure_kind \<Rightarrow> bool" where
  "Closed LifetimeClosureOpen = False"
| "Closed LifetimeClosureRegisteredNative = True"
| "Closed LifetimeClosureRegisteredRecovered = True"
| "Closed LifetimeClosureLegacyPreviousBoot = True"
| "Closed LifetimeClosureUnregisteredRecovered = True"

definition lifetimeEvidenceFault :: "error \<Rightarrow> error" where
  "lifetimeEvidenceFault err =
     (if errors_is err ErrEvidenceFault then err else Joined [Leaf ErrEvidenceFault, err])"

definition as_fault :: "error option \<Rightarrow> error + 'a \<Rightarrow> error + 'a" where
  "as_fault err r = check_then (map_option lifetimeEvidenceFault err) r"

definition ResolveLifetimeClosure :: "evidence \<Rightarrow> error + closure_kind" where
  "ResolveLifetimeClosure e = as_fault (validateLifetimeEvidenceFacts e) (case ev_wait e of
     Some w \<Rightarrow> as_fault (ValidateLifetimeCompletionBinding (Some w) e)
       (if ww_result w = LifetimeWorkerWaitAbsent then
          (if ev_registration e \<noteq> None then Inr LifetimeClosureRegisteredRecovered
           else Inr LifetimeClosureUnregisteredRecovered)
        else if ev_termination e = None then Inr LifetimeClosureOpen
        else Inr LifetimeClosureRegisteredNative)
   | None \<Rightarrow>
       (case ev_termination e of
          Some t \<Rightarrow>
            if te_cause t = LifetimeTerminationPreviousBoot then
              as_fault (require (ev_registration e \<noteq> None) identity_mismatch)
                (Inr LifetimeClosureLegacyPreviousBoot)
            else Inr LifetimeClosureOpen
        | None \<Rightarrow> Inr LifetimeClosureOpen))"

text \<open>The record of an absence; the Go function also returns the candidate with an error, which no caller uses.\<close>

definition absence_owner :: "evidence \<Rightarrow> error + (worker_wait \<Rightarrow> worker_wait)" where
  "absence_owner e = (case (ev_registration e, ev_intent e) of
     (Some r, _) \<Rightarrow> Inr (\<lambda>w. w\<lparr>ww_root_id := rg_root_id r, ww_task_id := rg_task_id r,
       ww_registration := registration_digest r\<rparr>)
   | (None, Some i) \<Rightarrow> Inr (\<lambda>w. w\<lparr>ww_root_id := in_root_id i, ww_task_id := in_task_id i,
       ww_intent := intent_digest i\<rparr>)
   | (None, None) \<Rightarrow> Inl identity_mismatch)"

definition absence_candidate :: "evidence \<Rightarrow> string \<Rightarrow> string \<Rightarrow> go_time \<Rightarrow> error + worker_wait" where
  "absence_candidate e proof boot at = bind_result (absence_owner e) (\<lambda>owned. Inr (owned
     \<lparr>ww_schema = SchemaVersion, ww_root_id = [], ww_task_id = [], ww_registration = [],
      ww_worker = (case ev_worker e of Some k \<Rightarrow> worker_digest k | None \<Rightarrow> []),
      ww_child_pid = (case ev_worker e of Some k \<Rightarrow> wk_pid k | None \<Rightarrow> 0),
      ww_result = LifetimeWorkerWaitAbsent, ww_exit_code = None,
      ww_observed_at = format_utc at, ww_intent = [], ww_proof = proof, ww_observed_boot = boot\<rparr>))"

definition NewLifetimeWorkerAbsence :: "evidence \<Rightarrow> string \<Rightarrow> string \<Rightarrow> go_time \<Rightarrow> error + worker_wait" where
  "NewLifetimeWorkerAbsence e proof boot at =
     check_then (first_error
       [require (\<not> is_zero at) (Opaque ''lifetime absence observation time is zero''),
        require (ev_wait e = None) identity_mismatch,
        validateLifetimeEvidenceFacts e,
        require (validLifetimeToken boot) identity_mismatch])
     (bind_result (absence_candidate e proof boot at) (\<lambda>w.
        check_then (first_error
          [ValidateLifetimeWorkerWaitRecord (Some w),
           ValidateLifetimeCompletionBinding (Some w) (e\<lparr>ev_wait := Some w\<rparr>)]) (Inr w)))"

end
