(* ===== verification/Life_Closure.thy ===== *)
theory Life_Closure
  imports Life_Evidence Json_Fuel
begin

text \<open>
  What a closure decision of lifetime evidence says about the records, the exact launch capacity, and
  that a recorded absence closes the evidence it was made from.
\<close>

section \<open>Valid records\<close>

lemma ValidateLifetimeTerminationRecord_scope [go_check]:
  "ValidateLifetimeTerminationRecord (Some t) = None \<Longrightarrow> te_scope_empty t"
  by (simp add: ValidateLifetimeTerminationRecord_def first_error_None_iff)

lemma root_id_nonempty: "validateLifetimeIdentity s rid tid = None \<Longrightarrow> rid \<noteq> []"
  by (auto simp: validateLifetimeIdentity_def first_error_None_iff go_check hexPattern_def)

lemma record_root_nonempty:
  "ValidateLifetimeIntentRecord (Some i) = None \<Longrightarrow> in_root_id i \<noteq> []"
  "ValidateLifetimeRegistrationRecord (Some r) = None \<Longrightarrow> rg_root_id r \<noteq> []"
  "ValidateLifetimeWorkerRecord (Some k) = None \<Longrightarrow> wk_root_id k \<noteq> []"
  "ValidateLifetimeWorkerWaitRecord (Some w) = None \<Longrightarrow> ww_root_id w \<noteq> []"
  "ValidateLifetimeTerminationRecord (Some t) = None \<Longrightarrow> te_root_id t \<noteq> []"
  "ValidateLifetimeLaunchRecord (Some l) = None \<Longrightarrow> la_root_id l \<noteq> []"
  by (auto simp: ValidateLifetimeIntentRecord_def ValidateLifetimeRegistrationRecord_def
      ValidateLifetimeWorkerRecord_def ValidateLifetimeWorkerWaitRecord_def
      ValidateLifetimeTerminationRecord_def ValidateLifetimeLaunchRecord_def first_error_None_iff
      dest: root_id_nonempty)

section \<open>One identity\<close>

text \<open>The identities seen so far, and the records that passed: all carry the same one.\<close>

definition identifies :: "evidence_identity \<Rightarrow> string \<times> string \<Rightarrow> bool" where
  "identifies i x \<longleftrightarrow> x = (ei_root_id i, ei_task_id i)"

lemma identity_set_Inr:
  "identity_set i rid tid = Inr j \<Longrightarrow> rid \<noteq> [] \<Longrightarrow>
     identifies j (rid, tid) \<and> ei_root_id j \<noteq> [] \<and> (ei_root_id i \<noteq> [] \<longrightarrow> j = i)"
  by (auto simp: identity_set_def identifies_def split: if_splits)

lemma check_record_Inr:
  assumes "check_record valid ids record i = Inr j"
    and "\<And>r. valid (Some r) = None \<Longrightarrow> fst (ids r) \<noteq> []"
  shows "(ei_root_id i \<noteq> [] \<longrightarrow> j = i) \<and> (ei_root_id j = [] \<longrightarrow> j = i)
    \<and> (\<forall>r. record = Some r \<longrightarrow> valid (Some r) = None \<and> identifies j (ids r) \<and> ei_root_id j \<noteq> [])"
proof (cases "record")
  case (Some r)
  obtain rid tid where ids: "ids r = (rid, tid)" by fastforce
  with assms(1) Some have ok: "valid (Some r) = None" "identity_set i rid tid = Inr j"
    by (auto simp: check_record_def check_then_Inr_iff)
  have "rid \<noteq> []" using assms(2) [OF ok(1)] ids by simp
  from identity_set_Inr [OF ok(2) this] Some ids ok(1) show ?thesis by auto
qed (use assms in \<open>auto simp: check_record_def\<close>)

lemma check_launches_None:
  assumes "check_launches k ls i = None" "n < length ls"
  shows "ValidateLifetimeLaunchRecord (Some (ls ! n)) = None \<and> la_sequence (ls ! n) = of_nat (k + n + 1)
    \<and> (ei_root_id i \<noteq> [] \<longrightarrow> identifies i (la_root_id (ls ! n), la_task_id (ls ! n)))"
  using assms
proof (induction k ls i arbitrary: n rule: check_launches.induct)
  case (2 k r rs i)
  then obtain j where j: "ValidateLifetimeLaunchRecord (Some r) = None" "la_sequence r = of_nat (k + 1)"
      "identity_set i (la_root_id r) (la_task_id r) = Inr j" "check_launches (Suc k) rs j = None"
    by (auto simp: error_of_None_iff go_simps)
  note set = identity_set_Inr [OF j(3) record_root_nonempty(6) [OF j(1)]]
  show ?case
  proof (cases n)
    case 0
    with j set show ?thesis by auto
  next
    case (Suc m)
    with "2.prems" "2.IH" j set show ?thesis by (auto simp: add.assoc)
  qed
qed simp

text \<open>Valid evidence: each record is valid, and one root and task id runs through all of them.\<close>

definition carries :: "string \<times> string \<Rightarrow> ('a \<Rightarrow> string \<times> string) \<Rightarrow> ('a option \<Rightarrow> error option) \<Rightarrow> 'a option \<Rightarrow> bool" where
  "carries x ids valid record \<longleftrightarrow> (\<forall>r. record = Some r \<longrightarrow> valid (Some r) = None \<and> ids r = x)"

definition one_identity :: "string \<times> string \<Rightarrow> evidence \<Rightarrow> bool" where
  "one_identity x e \<longleftrightarrow>
     carries x (\<lambda>r. (in_root_id r, in_task_id r)) ValidateLifetimeIntentRecord (ev_intent e)
   \<and> carries x (\<lambda>r. (rg_root_id r, rg_task_id r)) ValidateLifetimeRegistrationRecord (ev_registration e)
   \<and> carries x (\<lambda>r. (wk_root_id r, wk_task_id r)) ValidateLifetimeWorkerRecord (ev_worker e)
   \<and> carries x (\<lambda>r. (ww_root_id r, ww_task_id r)) ValidateLifetimeWorkerWaitRecord (ev_wait e)
   \<and> carries x (\<lambda>r. (te_root_id r, te_task_id r)) ValidateLifetimeTerminationRecord (ev_termination e)"

lemma check_record_carries:
  assumes "check_record valid ids record i = Inr j" "\<And>r. valid (Some r) = None \<Longrightarrow> fst (ids r) \<noteq> []"
    and "ei_root_id j \<noteq> [] \<Longrightarrow> x = (ei_root_id j, ei_task_id j)"
  shows "carries x ids valid record" "ei_root_id i \<noteq> [] \<Longrightarrow> x = (ei_root_id i, ei_task_id i)"
  using check_record_Inr [OF assms(1,2)] assms(3) by (auto simp: carries_def identifies_def)

lemma records_identity:
  assumes "validateLifetimeEvidenceRecords e = None"
  obtains i where "one_identity (ei_root_id i, ei_task_id i) e" "check_launches 0 (ev_launches e) i = None"
    "ValidateLifetimeLaunchCapacity (ev_launches e) = None"
    "ev_registration e \<noteq> None \<Longrightarrow> ei_root_id i \<noteq> []"
proof -
  let ?i0 = "\<lparr>ei_root_id = [], ei_task_id = []\<rparr>"
  obtain a b c d i where steps:
    "check_record ValidateLifetimeIntentRecord (\<lambda>r. (in_root_id r, in_task_id r)) (ev_intent e) ?i0 = Inr a"
    "check_record ValidateLifetimeRegistrationRecord (\<lambda>r. (rg_root_id r, rg_task_id r)) (ev_registration e) a = Inr b"
    "check_record ValidateLifetimeWorkerRecord (\<lambda>r. (wk_root_id r, wk_task_id r)) (ev_worker e) b = Inr c"
    "check_record ValidateLifetimeWorkerWaitRecord (\<lambda>r. (ww_root_id r, ww_task_id r)) (ev_wait e) c = Inr d"
    "check_record ValidateLifetimeTerminationRecord (\<lambda>r. (te_root_id r, te_task_id r)) (ev_termination e) d = Inr i"
    and rest: "ValidateLifetimeLaunchCapacity (ev_launches e) = None" "check_launches 0 (ev_launches e) i = None"
    using assms
    by (auto simp: validateLifetimeEvidenceRecords_def validateLifetimeScopeEvidence_def
        validateLifetimeEvidenceLaunches_def error_of_None_iff bind_result_Inr_iff check_then_Inr_iff)
  let ?x = "(ei_root_id i, ei_task_id i)"
  note carry = check_record_carries [where x = ?x]
  have t: "carries ?x (\<lambda>r. (te_root_id r, te_task_id r)) ValidateLifetimeTerminationRecord (ev_termination e)"
      "ei_root_id d \<noteq> [] \<Longrightarrow> ?x = (ei_root_id d, ei_task_id d)"
    using carry [OF steps(5)] record_root_nonempty(5) by auto
  have w: "carries ?x (\<lambda>r. (ww_root_id r, ww_task_id r)) ValidateLifetimeWorkerWaitRecord (ev_wait e)"
      "ei_root_id c \<noteq> [] \<Longrightarrow> ?x = (ei_root_id c, ei_task_id c)"
    using carry [OF steps(4) _ t(2)] record_root_nonempty(4) by auto
  have k: "carries ?x (\<lambda>r. (wk_root_id r, wk_task_id r)) ValidateLifetimeWorkerRecord (ev_worker e)"
      "ei_root_id b \<noteq> [] \<Longrightarrow> ?x = (ei_root_id b, ei_task_id b)"
    using carry [OF steps(3) _ w(2)] record_root_nonempty(3) by auto
  have r: "carries ?x (\<lambda>r. (rg_root_id r, rg_task_id r)) ValidateLifetimeRegistrationRecord (ev_registration e)"
      "ei_root_id a \<noteq> [] \<Longrightarrow> ?x = (ei_root_id a, ei_task_id a)"
    using carry [OF steps(2) _ k(2)] record_root_nonempty(2) by auto
  have n: "carries ?x (\<lambda>r. (in_root_id r, in_task_id r)) ValidateLifetimeIntentRecord (ev_intent e)"
    using carry [OF steps(1) _ r(2)] record_root_nonempty(1) by auto
  have "ei_root_id i \<noteq> []" if "ev_registration e \<noteq> None"
    using that r(1) record_root_nonempty(2) by (auto simp: carries_def)
  with t w k r n rest that show ?thesis by (simp add: one_identity_def)
qed

section \<open>Launch capacity\<close>

definition launch_bytes :: "launch_record \<Rightarrow> int" where
  "launch_bytes r = int (length (MarshalCanonical (launch_json r)))"

lemma capacity_add_Inr:
  assumes "lc_limits c = None"
  shows "capacity_add c r = Inr d \<longleftrightarrow>
    launch_bytes r \<le> int MaxControlRecordSize \<and> unat (lc_count c) < 4096
    \<and> lc_bytes c + launch_bytes r \<le> MaxLifetimeLaunchBytes
    \<and> d = c\<lparr>lc_count := lc_count c + 1, lc_bytes := lc_bytes c + launch_bytes r\<rparr>"
proof -
  have "lc_count c < MaxLifetimeLaunches \<longleftrightarrow> unat (lc_count c) < 4096"
    by (simp add: word_less_nat_alt MaxLifetimeLaunches_def)
  with assms show ?thesis
    by (auto simp: capacity_add_def addEncoded_def launch_bytes_def Let_def not_le not_less
        defaultLifetimeLaunchLimits_def)
qed

lemma launch_bytes_nonneg: "0 \<le> sum_list (map launch_bytes ls)"
  by (induction ls) (auto simp: launch_bytes_def)

lemma add_launches_Inr:
  assumes "lc_limits c = None" "unat (lc_count c) \<le> 4096" "lc_bytes c \<le> MaxLifetimeLaunchBytes"
  shows "(\<exists>d. add_launches c ls = Inr d) \<longleftrightarrow>
    unat (lc_count c) + length ls \<le> 4096 \<and> list_all (\<lambda>r. launch_bytes r \<le> int MaxControlRecordSize) ls
    \<and> lc_bytes c + sum_list (map launch_bytes ls) \<le> MaxLifetimeLaunchBytes"
  using assms
proof (induction ls arbitrary: c)
  case (Cons r ls)
  define d where "d = c\<lparr>lc_count := lc_count c + 1, lc_bytes := lc_bytes c + launch_bytes r\<rparr>"
  show ?case
  proof (cases "launch_bytes r \<le> int MaxControlRecordSize \<and> unat (lc_count c) < 4096
      \<and> lc_bytes c + launch_bytes r \<le> MaxLifetimeLaunchBytes")
    case True
    then have add: "capacity_add c r = Inr d" using capacity_add_Inr [OF Cons.prems(1)] d_def by blast
    have count: "unat (lc_count d) = unat (lc_count c) + 1"
      using True by (simp add: d_def unat_word_ariths)
    have "(\<exists>f. add_launches c (r # ls) = Inr f) \<longleftrightarrow> (\<exists>f. add_launches d ls = Inr f)"
      by (simp add: add)
    also have "\<dots> \<longleftrightarrow> unat (lc_count d) + length ls \<le> 4096
        \<and> list_all (\<lambda>r. launch_bytes r \<le> int MaxControlRecordSize) ls
        \<and> lc_bytes d + sum_list (map launch_bytes ls) \<le> MaxLifetimeLaunchBytes"
      using True count Cons.prems(1) by (intro Cons.IH) (auto simp: d_def)
    finally show ?thesis using True count by (simp add: d_def add.assoc)
  next
    case False
    then have "\<not> (\<exists>f. add_launches c (r # ls) = Inr f)"
      using capacity_add_Inr [OF Cons.prems(1), of r] by (auto simp: bind_result_Inr_iff)
    with False launch_bytes_nonneg [of ls] show ?thesis by auto
  qed
qed simp

lemma capacity_exact:
  "ValidateLifetimeLaunchCapacity ls = None \<longleftrightarrow>
     length ls \<le> 4096 \<and> list_all (\<lambda>r. launch_bytes r \<le> int MaxControlRecordSize) ls
     \<and> sum_list (map launch_bytes ls) \<le> MaxLifetimeLaunchBytes"
  unfolding ValidateLifetimeLaunchCapacity_def error_of_None_iff
  by (subst add_launches_Inr) (simp_all add: new_capacity_def MaxLifetimeLaunchBytes_def)

section \<open>Closed evidence\<close>

definition launches_bound :: "registration_record \<Rightarrow> launch_record list \<Rightarrow> bool" where
  "launches_bound r ls \<longleftrightarrow> (\<forall>n < length ls.
     unat (la_sequence (ls ! n)) = n + 1 \<and> la_registration (ls ! n) = registration_digest r
     \<and> la_root_id (ls ! n) = rg_root_id r \<and> la_task_id (ls ! n) = rg_task_id r)"

text \<open>The scope ended empty, and the termination covers every launch and no other.\<close>

definition scope_ended :: "registration_record \<Rightarrow> termination_record \<Rightarrow> launch_record list \<Rightarrow> bool" where
  "scope_ended r t ls \<longleftrightarrow>
     te_scope_empty t \<and> te_registration t = registration_digest r
     \<and> te_root_id t = rg_root_id r \<and> te_task_id t = rg_task_id r
     \<and> unat (te_launch_count t) = length ls \<and> te_launch_set t = LifetimeLaunchSetDigest ls
     \<and> launches_bound r ls"

definition worker_bound :: "registration_record \<Rightarrow> worker_wait \<Rightarrow> worker_record \<Rightarrow> bool" where
  "worker_bound r w k \<longleftrightarrow> wk_registration k = registration_digest r \<and> wk_boot_id k = rg_boot_id r
     \<and> ww_worker w = worker_digest k \<and> ww_child_pid w = wk_pid k"

definition wait_bound :: "registration_record \<Rightarrow> worker_wait \<Rightarrow> bool" where
  "wait_bound r w \<longleftrightarrow> ww_registration w = registration_digest r \<and> ww_root_id w = rg_root_id r
     \<and> ww_task_id w = rg_task_id r"

fun closed_by :: "evidence \<Rightarrow> closure_kind \<Rightarrow> bool" where
  "closed_by e LifetimeClosureOpen = True"
| "closed_by e LifetimeClosureRegisteredNative =
     (case (ev_registration e, ev_termination e, ev_wait e) of
        (Some r, Some t, Some w) \<Rightarrow> scope_ended r t (ev_launches e) \<and> wait_bound r w
          \<and> ww_result w \<noteq> LifetimeWorkerWaitAbsent
          \<and> (case ev_worker e of Some k \<Rightarrow> worker_bound r w k
              | None \<Rightarrow> LifetimeWorkerWaitProvesNotStarted (Some w) \<and> ev_launches e = []
                  \<or> ww_worker w = [] \<and> rg_assurance r = LifetimeAssuranceExact)
      | _ \<Rightarrow> False)"
| "closed_by e LifetimeClosureRegisteredRecovered =
     (case (ev_registration e, ev_termination e, ev_wait e) of
        (Some r, Some t, Some w) \<Rightarrow> scope_ended r t (ev_launches e) \<and> wait_bound r w
          \<and> ww_result w = LifetimeWorkerWaitAbsent
          \<and> (case ev_worker e of Some k \<Rightarrow> worker_bound r w k
              | None \<Rightarrow> ww_worker w = [] \<and> ww_observed_boot w \<noteq> rg_boot_id r)
          \<and> (ww_observed_boot w = rg_boot_id r \<longrightarrow> te_cause t \<noteq> LifetimeTerminationPreviousBoot)
      | _ \<Rightarrow> False)"
| "closed_by e LifetimeClosureLegacyPreviousBoot =
     (case (ev_registration e, ev_termination e) of
        (Some r, Some t) \<Rightarrow> scope_ended r t (ev_launches e) \<and> ev_wait e = None
          \<and> te_cause t = LifetimeTerminationPreviousBoot
      | _ \<Rightarrow> False)"
| "closed_by e LifetimeClosureUnregisteredRecovered =
     (case (ev_intent e, ev_wait e) of
        (Some i, Some w) \<Rightarrow> ev_registration e = None \<and> ev_worker e = None \<and> ev_launches e = []
          \<and> ev_termination e = None \<and> ww_result w = LifetimeWorkerWaitAbsent
          \<and> ww_intent w = intent_digest i \<and> ww_root_id w = in_root_id i \<and> ww_task_id w = in_task_id i
          \<and> (ww_proof w = LifetimeAbsencePreviousBoot \<longleftrightarrow> ww_observed_boot w \<noteq> in_boot_id i)
      | _ \<Rightarrow> False)"

lemma facts_parts:
  assumes "validateLifetimeEvidenceFacts e = None"
  shows "validateLifetimeEvidenceRecords e = None" "validateLifetimeEvidenceBindings e = None"
  using assms by (simp_all add: validateLifetimeEvidenceFacts_def first_error_None_iff)

lemma facts_identity:
  assumes "validateLifetimeEvidenceFacts e = None"
  obtains x where "one_identity x e"
  using records_identity [OF facts_parts(1) [OF assms]] by metis

lemma facts_wait_identity:
  assumes "validateLifetimeEvidenceFacts e = None" "ev_wait e = Some w"
  shows "ev_registration e = Some r \<Longrightarrow> ww_root_id w = rg_root_id r \<and> ww_task_id w = rg_task_id r"
    and "ev_intent e = Some i \<Longrightarrow> ww_root_id w = in_root_id i \<and> ww_task_id w = in_task_id i"
    and "ValidateLifetimeWorkerWaitRecord (Some w) = None"
  using facts_identity [OF assms(1)] assms(2) by (auto simp: one_identity_def carries_def)

lemma small_unat: "n \<le> 4096 \<Longrightarrow> unat (of_nat n :: 64 word) = n"
  by (simp add: unat_of_nat)

lemma facts_launches:
  assumes "validateLifetimeEvidenceFacts e = None" "ev_registration e = Some r"
  shows "launches_bound r (ev_launches e)" "length (ev_launches e) \<le> 4096"
proof -
  obtain i where i: "one_identity (ei_root_id i, ei_task_id i) e" "check_launches 0 (ev_launches e) i = None"
    "ValidateLifetimeLaunchCapacity (ev_launches e) = None" "ei_root_id i \<noteq> []"
    using records_identity [OF facts_parts(1) [OF assms(1)]] assms(2) by (metis option.distinct(1))
  show len: "length (ev_launches e) \<le> 4096" using i(3) by (simp add: capacity_exact)
  have "validateLifetimeRegisteredEvidenceBindings e r (registration_digest r) = None"
    using facts_parts(2) [OF assms(1)] assms(2)
    by (simp add: validateLifetimeEvidenceBindings_def first_error_None_iff)
  then have regs: "\<forall>l \<in> set (ev_launches e). la_registration l = registration_digest r"
    by (simp add: validateLifetimeRegisteredEvidenceBindings_def first_error_None_iff image_subset_iff)
  have id: "rg_root_id r = ei_root_id i" "rg_task_id r = ei_task_id i"
    using i(1) assms(2) by (auto simp: one_identity_def carries_def)
  show "launches_bound r (ev_launches e)"
    unfolding launches_bound_def
  proof (intro allI impI conjI)
    fix n assume n: "n < length (ev_launches e)"
    note l = check_launches_None [OF i(2) n]
    have "n + 1 \<le> 4096" using n len by simp
    then show "unat (la_sequence (ev_launches e ! n)) = n + 1"
      using l by (metis add_0 small_unat)
    show "la_registration (ev_launches e ! n) = registration_digest r" using regs n by simp
    show "la_root_id (ev_launches e ! n) = rg_root_id r" "la_task_id (ev_launches e ! n) = rg_task_id r"
      using l i(4) id by (simp_all add: identifies_def)
  qed
qed

lemma facts_scope:
  assumes "validateLifetimeEvidenceFacts e = None" "ev_registration e = Some r" "ev_termination e = Some t"
  shows "scope_ended r t (ev_launches e)"
proof -
  obtain x where x: "one_identity x e" using facts_identity [OF assms(1)] .
  have b: "validateLifetimeRegisteredEvidenceBindings e r (registration_digest r) = None"
      "validateLifetimeEvidenceTermination e = None"
    using facts_parts(2) [OF assms(1)] assms(2)
    by (simp_all add: validateLifetimeEvidenceBindings_def first_error_None_iff)
  have "unat (of_nat (length (ev_launches e)) :: 64 word) = length (ev_launches e)"
    by (rule small_unat [OF facts_launches(2) [OF assms(1,2)]])
  with b x assms(2,3) facts_launches(1) [OF assms(1,2)] show ?thesis
    by (auto simp: scope_ended_def one_identity_def carries_def validateLifetimeEvidenceTermination_def
        validateLifetimeRegisteredEvidenceBindings_def first_error_None_iff
        dest: ValidateLifetimeTerminationRecord_scope)
qed

lemma facts_unregistered:
  "validateLifetimeEvidenceFacts e = None \<Longrightarrow> ev_registration e = None \<Longrightarrow>
     ev_worker e = None \<and> ev_launches e = [] \<and> ev_termination e = None"
  using facts_parts(2) [of e] by (simp add: validateLifetimeEvidenceBindings_def first_error_None_iff)

lemma facts_worker:
  "validateLifetimeEvidenceFacts e = None \<Longrightarrow> ev_registration e = Some r \<Longrightarrow> ev_worker e = Some k \<Longrightarrow>
     wk_registration k = registration_digest r \<and> wk_boot_id k = rg_boot_id r"
  using facts_parts(2) [of e]
  by (simp add: validateLifetimeEvidenceBindings_def validateLifetimeRegisteredEvidenceBindings_def
      first_error_None_iff)

section \<open>Completions\<close>

lemma binding_parts:
  assumes "ValidateLifetimeCompletionBinding (Some w) e = None" "ev_wait e = Some w"
  shows "validateLifetimeEvidenceFacts e = None"
    and "ww_result w = LifetimeWorkerWaitAbsent \<Longrightarrow>
      validateLifetimeAbsenceBinding w e (ev_registration e) (ev_intent e) (ev_worker e) = None"
    and "ww_result w \<noteq> LifetimeWorkerWaitAbsent \<Longrightarrow> validateLifetimeNativeCompletionBinding w e = None"
proof -
  have same: "e\<lparr>ev_wait := Some w\<rparr> = e" using assms(2) by simp
  show "validateLifetimeEvidenceFacts e = None"
    "ww_result w = LifetimeWorkerWaitAbsent \<Longrightarrow>
      validateLifetimeAbsenceBinding w e (ev_registration e) (ev_intent e) (ev_worker e) = None"
    "ww_result w \<noteq> LifetimeWorkerWaitAbsent \<Longrightarrow> validateLifetimeNativeCompletionBinding w e = None"
    using assms(1) by (simp_all add: ValidateLifetimeCompletionBinding_def first_error_None_iff same)
qed

lemma native_bound:
  assumes "ValidateLifetimeCompletionBinding (Some w) e = None" "ev_wait e = Some w"
    "ww_result w \<noteq> LifetimeWorkerWaitAbsent" "ev_termination e = Some t"
  shows "closed_by e LifetimeClosureRegisteredNative"
proof -
  note b = binding_parts [OF assms(1,2)]
  obtain r where r: "ev_registration e = Some r"
    using b(3) [OF assms(3)] by (auto simp: validateLifetimeNativeCompletionBinding_def split: option.splits)
  show ?thesis
    using b(3) [OF assms(3)] r assms facts_scope [OF b(1) r assms(4)]
    by (auto simp: validateLifetimeNativeCompletionBinding_def wait_bound_def worker_bound_def
        LifetimeWorkerWaitMatchesRegistration_def LifetimeWorkerWaitMatchesWorker_def
        LifetimeWorkerWaitIsQualified_def split: option.splits if_splits)
qed

lemma recovered_bound:
  assumes "ValidateLifetimeCompletionBinding (Some w) e = None" "ev_wait e = Some w"
    "ww_result w = LifetimeWorkerWaitAbsent" "ev_registration e = Some r"
  shows "closed_by e LifetimeClosureRegisteredRecovered"
proof -
  note b = binding_parts [OF assms(1,2)]
  have a: "validateLifetimeAbsenceBinding w e (Some r) (ev_intent e) (ev_worker e) = None"
    using b(2) [OF assms(3)] assms(4) by simp
  then obtain t where t: "ev_termination e = Some t"
    by (auto simp: validateLifetimeAbsenceBinding_def validateLifetimeExactWorkerAbsenceBinding_def
        validateLifetimeRegisteredPreviousBootAbsenceBinding_def first_error_None_iff
        validateLifetimeUnregisteredAbsenceBinding_def split: option.splits if_splits)
  show ?thesis
    using a assms(2-4) t facts_scope [OF b(1) assms(4) t] facts_wait_identity(1) [OF b(1) assms(2,4)]
      facts_worker [OF b(1) assms(4)]
    by (auto simp: validateLifetimeAbsenceBinding_def validateLifetimeExactWorkerAbsenceBinding_def
        validateLifetimeRegisteredPreviousBootAbsenceBinding_def first_error_None_iff wait_bound_def
        worker_bound_def LifetimeWorkerWaitMatchesWorker_def
        validateLifetimeUnregisteredAbsenceBinding_def split: option.splits if_splits)
qed

lemma unregistered_bound:
  assumes "ValidateLifetimeCompletionBinding (Some w) e = None" "ev_wait e = Some w"
    "ww_result w = LifetimeWorkerWaitAbsent" "ev_registration e = None"
  shows "closed_by e LifetimeClosureUnregisteredRecovered"
proof -
  note b = binding_parts [OF assms(1,2)]
  have a: "validateLifetimeAbsenceBinding w e None (ev_intent e) (ev_worker e) = None"
    using b(2) [OF assms(3)] assms(4) by simp
  show ?thesis
    using a assms(2-4) facts_unregistered [OF b(1) assms(4)] facts_wait_identity(2) [OF b(1) assms(2)]
    by (auto simp: validateLifetimeAbsenceBinding_def validateLifetimeExactWorkerAbsenceBinding_def
        validateLifetimeIntentPreviousBootAbsenceBinding_def first_error_None_iff
        validateLifetimeUnregisteredAbsenceBinding_def split: option.splits if_splits)
qed

lemma fault_is [simp]: "errors_is (lifetimeEvidenceFault err) ErrEvidenceFault"
  by (simp add: lifetimeEvidenceFault_def)

lemma as_fault_Inl:
  "as_fault c r = Inl err \<longleftrightarrow> (\<exists>x. c = Some x \<and> err = lifetimeEvidenceFault x) \<or> c = None \<and> r = Inl err"
  by (auto simp: as_fault_def check_then_Inl_iff)

text \<open>What resolving the closure decides, branch by branch.\<close>

lemma closure_decision:
  assumes "ResolveLifetimeClosure e = Inr k"
  shows "validateLifetimeEvidenceFacts e = None \<and> closed_by e k"
proof -
  have facts: "validateLifetimeEvidenceFacts e = None"
    using assms by (auto simp: ResolveLifetimeClosure_def as_fault_def check_then_Inr_iff)
  show ?thesis
  proof (cases "ev_wait e")
    case (Some w)
    have bind: "ValidateLifetimeCompletionBinding (Some w) e = None"
      using assms Some by (auto simp: ResolveLifetimeClosure_def as_fault_def check_then_Inr_iff)
    have k: "k = (if ww_result w = LifetimeWorkerWaitAbsent then
          (if ev_registration e \<noteq> None then LifetimeClosureRegisteredRecovered
           else LifetimeClosureUnregisteredRecovered)
        else if ev_termination e = None then LifetimeClosureOpen else LifetimeClosureRegisteredNative)"
      using assms Some facts bind
      by (simp add: ResolveLifetimeClosure_def as_fault_def split: if_splits)
    show ?thesis
      using facts k native_bound [OF bind Some] recovered_bound [OF bind Some] unregistered_bound [OF bind Some]
      by (auto simp del: closed_by.simps(2-5))
  next
    case None
    then show ?thesis
      using assms facts facts_scope [OF facts]
      by (auto simp: ResolveLifetimeClosure_def as_fault_def check_then_Inr_iff split: option.splits if_splits)
  qed
qed

end
