(* ===== verification/Go_Calendar.thy ===== *)
theory Go_Calendar
  imports Go_Rfc3339
begin

text \<open>
  The civil calendar of \<open>Go_Time\<close>: every day has one date, the date is one the calendar has, and the
  date determines the day. Inside a cycle of 400 years, which starts in March, a day is split into
  centuries, leap cycles and years.
\<close>

lemma quotient_eq: "a = b * k + r \<Longrightarrow> 0 \<le> r \<Longrightarrow> r < b \<Longrightarrow> a div b = (k :: int)"
  by (metis div_pos_pos_trivial div_mult_self4 add.commute add_0 less_le_trans not_less order_less_imp_le)

lemma cycle_year:
  fixes u x e :: int
  assumes "0 \<le> u" "u \<le> 1460" "0 \<le> x" "x \<le> 96" "e = (if x + u < 1460 then 0 else 1)"
  defines "j \<equiv> (u - e) div 365"
  shows "0 \<le> j \<and> j \<le> 3 \<and> 365 * j \<le> u \<and> u \<le> 365 * j + 365 \<and> (u = 365 * j + 365 \<longrightarrow> u = 1460 \<and> j = 3)"
proof (cases "x + u < 1460")
  case True
  then have "u < 1460" "j = u div 365" using assms by auto
  moreover have "365 * (u div 365) + u mod 365 = u" "0 \<le> u mod 365" "u mod 365 < 365" by auto
  ultimately show ?thesis using assms(1) by (intro conjI; linarith)
next
  case False
  then have "1364 \<le> u" "e = 1" using assms by auto
  then have "(u - e) div 365 = 3"
    using assms(2) by (intro quotient_eq [where r = "u - 1096"]) auto
  with \<open>1364 \<le> u\<close> assms(2) show ?thesis unfolding j_def by auto
qed
lemma leap_cycle:
  fixes q c :: int
  assumes "0 \<le> q" "q < 24"
  shows "is_leap (100 * c + 4 * q + 4)"
proof -
  have "(4 * (q + 1) + 100 * c) mod 100 = 4 * (q + 1) mod 100" by simp
  also have "\<dots> = 4 * (q + 1)" using assms by simp
  finally have "(100 * c + 4 * q + 4) mod 100 = 4 * (q + 1)" by (simp add: algebra_simps)
  moreover have "(4 * (25 * c + q + 1)) mod 4 = 0" by simp
  then have "(100 * c + 4 * q + 4) mod 4 = 0" by (simp add: algebra_simps)
  ultimately show ?thesis using assms by (simp add: is_leap_def)
qed
lemma year_of_cycle:
  fixes doe :: int
  assumes "0 \<le> doe" "doe < 146097"
  defines "Y \<equiv> (doe - doe div 1460 + doe div 36524 - doe div 146096) div 365"
  defines "doy \<equiv> doe - (365 * Y + Y div 4 - Y div 100)"
  shows "0 \<le> Y \<and> Y < 400 \<and> 0 \<le> doy \<and> doy \<le> 365 \<and> (doy = 365 \<longrightarrow> is_leap (Y + 1))"
proof (cases "doe = 146096")
  case True
  then have "Y = 399" by (simp add: Y_def)
  with True show ?thesis by (simp add: doy_def is_leap_def)
next
  case False
  define c r where "c = doe div 36524" and "r = doe mod 36524"
  define q u where "q = r div 1461" and "u = r mod 1461"
  have doe': "36524 * c + r = doe" "0 \<le> r" "r < 36524" by (simp_all add: c_def r_def)
  have r: "1461 * q + u = r" "0 \<le> u" "u < 1461" by (simp_all add: q_def u_def)
  have c: "0 \<le> c" "c \<le> 3" using assms(1,2) False doe' by linarith+
  have q: "0 \<le> q" "q \<le> 24" using r doe' by linarith+
  have u: "0 \<le> u" "u \<le> 1460" using r by linarith+
  have doe: "doe = 36524 * c + 1461 * q + u" using doe' r by linarith
  have last: "u < 1460" if "q = 24" using r doe' that by linarith
  define e :: int where "e = (if q + u + 24 * c < 1460 then 0 else 1)"
  define j where "j = (u - e) div 365"
  have "doe div 1460 = 25 * c + q + e"
  proof (rule quotient_eq)
    show "doe = 1460 * (25 * c + q + e) + (q + u + 24 * c - 1460 * e)" using doe by simp
    show "0 \<le> q + u + 24 * c - 1460 * e" "q + u + 24 * c - 1460 * e < 1460" using c q u by (simp_all add: e_def)
  qed
  moreover have "doe div 36524 = c" by (simp add: c_def)
  moreover have "doe div 146096 = 0" using assms(1,2) False by (intro div_pos_pos_trivial) linarith+
  ultimately have "doe - doe div 1460 + doe div 36524 - doe div 146096 = 365 * (100 * c + 4 * q) + (u - e)"
    by (simp add: doe)
  then have Y: "Y = 100 * c + 4 * q + j" by (simp add: Y_def j_def)
  have j: "0 \<le> j" "j \<le> 3" "365 * j \<le> u" "u \<le> 365 * j + 365" "u = 365 * j + 365 \<longrightarrow> u = 1460 \<and> j = 3"
    using cycle_year [of u "q + 24 * c" e] u q c by (simp_all add: e_def j_def algebra_simps)
  have "Y div 4 = 25 * c + q"
  proof (rule quotient_eq)
    show "Y = 4 * (25 * c + q) + j" by (simp add: Y)
    show "0 \<le> j" "j < 4" using j by simp_all
  qed
  moreover have "Y div 100 = c"
  proof (rule quotient_eq)
    show "Y = 100 * c + (4 * q + j)" by (simp add: Y)
    show "0 \<le> 4 * q + j" "4 * q + j < 100" using j q by simp_all
  qed
  ultimately have doy: "doy = u - 365 * j" by (simp add: doy_def doe Y)
  have "is_leap (Y + 1)" if "doy = 365"
  proof -
    have "u = 1460" "j = 3" using j that doy by auto
    then have "q \<noteq> 24" using last by auto
    then have "q < 24" "Y + 1 = 100 * c + 4 * q + 4" using \<open>j = 3\<close> q Y by linarith+
    then show ?thesis using leap_cycle [OF q(1), of c] by (simp only:)
  qed
  moreover have "0 \<le> Y" "Y < 400" "0 \<le> doy" "doy \<le> 365" using doy j Y c q by linarith+
  ultimately show ?thesis by blast
qed

text \<open>Months counted from March have the lengths the formula \<open>(153 * mp + 2) div 5\<close> leaves.\<close>

lemma month_of_day:
  fixes doy :: int
  assumes "0 \<le> doy" "doy \<le> 365"
  defines "mp \<equiv> (5 * doy + 2) div 153"
  defines "d \<equiv> doy - (153 * mp + 2) div 5 + 1"
  shows "0 \<le> mp \<and> mp \<le> 11 \<and> 1 \<le> d \<and> d \<le> (if mp = 11 then (if doy = 365 then 29 else 28)
      else if mp \<in> {1, 3, 6, 8} then 30 else 31)"
proof -
  define z where "z = (5 * doy + 2) mod 153"
  have split: "153 * mp + z = 5 * doy + 2" "0 \<le> z" "z < 153" by (simp_all add: mp_def z_def)
  then have mp: "0 \<le> mp" "mp \<le> 11" using assms(1,2) by linarith+
  then have "mp = 0 \<or> mp = 1 \<or> mp = 2 \<or> mp = 3 \<or> mp = 4 \<or> mp = 5 \<or> mp = 6 \<or> mp = 7 \<or> mp = 8 \<or> mp = 9
      \<or> mp = 10 \<or> mp = 11"
    by arith
  then show ?thesis
    using split assms(1,2) by (elim disjE) (simp_all add: d_def; arith)+
qed

definition civil_date :: "int \<Rightarrow> int \<Rightarrow> int \<Rightarrow> bool" where
  "civil_date y m d \<longleftrightarrow> 1 \<le> m \<and> m \<le> 12 \<and> 1 \<le> d \<and> d \<le> days_in y m"

lemma is_leap_cycle: "is_leap (y + 400 * k) = is_leap y"
proof -
  have "(y + 400 * k) mod 4 = y mod 4" using mod_mult_self2 [of y 4 "100 * k"] by simp
  moreover have "(y + 400 * k) mod 100 = y mod 100" using mod_mult_self2 [of y 100 "4 * k"] by simp
  moreover have "(y + 400 * k) mod 400 = y mod 400" by simp
  ultimately show ?thesis unfolding is_leap_def by (simp only:)
qed

text \<open>The two conversions, in terms of the cycle.\<close>

lemma cycle_parts:
  fixes n :: int
  obtains era Y doy mp where "0 \<le> Y" "Y < 400" "0 \<le> doy" "doy \<le> 365" "doy = 365 \<longrightarrow> is_leap (Y + 1)"
    "n + 719468 = era * 146097 + (365 * Y + Y div 4 - Y div 100 + doy)" "mp = (5 * doy + 2) div 153"
    "civil_from_days n =
      (Y + era * 400 + (if mp < 10 then 0 else 1), if mp < 10 then mp + 3 else mp - 9,
       doy - (153 * mp + 2) div 5 + 1)"
proof -
  define era doe where "era = (n + 719468) div 146097" and "doe = (n + 719468) mod 146097"
  define Y where "Y = (doe - doe div 1460 + doe div 36524 - doe div 146096) div 365"
  define doy where "doy = doe - (365 * Y + Y div 4 - Y div 100)"
  define mp where "mp = (5 * doy + 2) div 153"
  have cycle: "0 \<le> Y \<and> Y < 400 \<and> 0 \<le> doy \<and> doy \<le> 365 \<and> (doy = 365 \<longrightarrow> is_leap (Y + 1))"
    unfolding Y_def doy_def by (rule year_of_cycle) (simp_all add: doe_def)
  have mp: "0 \<le> mp" "mp \<le> 11" using month_of_day [of doy] cycle unfolding mp_def by auto
  have sum: "n + 719468 = era * 146097 + (365 * Y + Y div 4 - Y div 100 + doy)"
    using div_mult_mod_eq [of "n + 719468" 146097] by (simp add: doy_def era_def doe_def)
  have "civil_from_days n = (Y + era * 400 + (if mp < 10 then 0 else 1), if mp < 10 then mp + 3 else mp - 9,
       doy - (153 * mp + 2) div 5 + 1)"
    unfolding civil_from_days_def Let_def era_def [symmetric] doe_def [symmetric]
      Y_def [symmetric] doy_def [symmetric] mp_def [symmetric]
    using mp by (cases "mp < 10") simp_all
  with cycle sum mp_def that show ?thesis by blast
qed

theorem days_from_civil_from_days:
  assumes "civil_from_days n = (y, m, d)"
  shows "days_from_civil y m d = n \<and> civil_date y m d"
proof -
  obtain era Y doy mp where c: "0 \<le> Y" "Y < 400" "0 \<le> doy" "doy \<le> 365" "doy = 365 \<longrightarrow> is_leap (Y + 1)"
    and sum: "n + 719468 = era * 146097 + (365 * Y + Y div 4 - Y div 100 + doy)"
    and mp: "mp = (5 * doy + 2) div 153"
    and parts: "civil_from_days n =
      (Y + era * 400 + (if mp < 10 then 0 else 1), if mp < 10 then mp + 3 else mp - 9,
       doy - (153 * mp + 2) div 5 + 1)"
    by (rule cycle_parts [of n])
  have date: "y = Y + era * 400 + (if mp < 10 then 0 else 1)" "m = (if mp < 10 then mp + 3 else mp - 9)"
      "d = doy - (153 * mp + 2) div 5 + 1"
    using trans [OF assms [symmetric] parts] by (simp_all only: prod.inject)
  note md = month_of_day [OF c(3,4), folded mp, folded date(3)]
  then have range: "0 \<le> mp" "mp \<le> 11" "1 \<le> d" by blast+
  have len: "d \<le> (if mp = 11 then (if doy = 365 then 29 else 28) else if mp \<in> {1, 3, 6, 8} then 30 else 31)"
    using md by blast
  have "(if m \<le> 2 then y - 1 else y) = Y + era * 400" "(if m > 2 then m - 3 else m + 9) = mp"
    using range unfolding date(1,2) by simp_all
  moreover have "(Y + era * 400) div 400 = era" "(Y + era * 400) mod 400 = Y" using c(1,2) by simp_all
  ultimately have "days_from_civil y m d = n"
    using sum unfolding days_from_civil_def Let_def by (simp add: date(3))
  moreover have "civil_date y m d"
  proof -
    have m: "m = 2 \<longleftrightarrow> mp = 11" "m = 4 \<or> m = 6 \<or> m = 9 \<or> m = 11 \<longleftrightarrow> mp \<in> {1, 3, 6, 8}" "1 \<le> m" "m \<le> 12"
      using range unfolding date(2) by auto
    have "is_leap y" if "mp = 11" "doy = 365"
    proof -
      have "y = (Y + 1) + 400 * era" using that by (simp add: date(1))
      then show ?thesis using c(5) that(2) is_leap_cycle by simp
    qed
    then have "d \<le> days_in y m" using len m(1,2) unfolding days_in_def by (cases "mp = 11") (auto split: if_splits)
    then show ?thesis using m range by (simp add: civil_date_def)
  qed
  ultimately show ?thesis ..
qed

end
