(* ===== verification/Go_Stamps.thy ===== *)
theory Go_Stamps
  imports Go_Calendar Json_Roundtrip
begin

text \<open>
  Formatting a UTC instant of the years 0 to 9999 and parsing the text gives the instant back, and a
  text that parsing and formatting leave as it is was formatted from such an instant.
\<close>

section \<open>Padded numbers\<close>

lemma digits_value_append: "digits_value (s @ [c]) = 10 * digits_value s + (of_char c - 48)"
  by (simp add: digits_value_def)

lemma digit_char: "n < 10 \<Longrightarrow> (of_char (char_of (48 + n :: nat)) :: int) = 48 + int n"
  using of_nat_of_char [of "char_of (48 + n)", where 'a = int, symmetric] by simp

lemma digits_value_decimal: "digits_value (decimal_of_nat n) = int n"
proof (induction n rule: decimal_of_nat.induct)
  case (1 n)
  show ?case
  proof (cases "n < 10")
    case True
    then show ?thesis by (simp add: decimal_of_nat.simps [of n] digits_value_def digit_char)
  next
    case False
    have "10 * int (n div 10) + int (n mod 10) = int n"
      using mult_div_mod_eq [of 10 n] by (metis of_nat_add of_nat_mult of_nat_numeral)
    with 1 False show ?thesis by (simp add: decimal_of_nat.simps [of n] digits_value_append digit_char)
  qed
qed

lemma decimal_length: "n < 10 ^ w \<Longrightarrow> 0 < w \<Longrightarrow> length (decimal_of_nat n) \<le> w"
proof (induction n arbitrary: w rule: decimal_of_nat.induct)
  case (1 n)
  show ?case
  proof (cases "n < 10")
    case True
    with 1 show ?thesis by (simp add: decimal_of_nat.simps [of n])
  next
    case False
    then obtain v where "w = Suc v" "0 < v" using "1.prems" by (cases w; cases "w - 1") auto
    with 1 False show ?thesis by (simp add: decimal_of_nat.simps [of n] less_mult_imp_div_less mult.commute)
  qed
qed

lemma short_digits: "list_all digit s \<Longrightarrow> digits_value s < 10 ^ length s"
proof (induction s rule: rev_induct)
  case (snoc c s)
  have "byte c \<le> 57" using snoc.prems by (simp add: digit_def less_eq_char_def)
  then have "(of_char c :: int) \<le> 57" using of_nat_of_char [of c, where 'a = int] by linarith
  moreover have "digits_value s < 10 ^ length s" using snoc by simp
  ultimately show ?case unfolding digits_value_append by simp
qed (simp add: digits_value_def)

lemma digits_value_zeros: "digits_value (replicate k CHR ''0'' @ s) = digits_value s"
  by (induction k) (simp_all add: digits_value_def)

lemma pad_number_digits:
  assumes "0 \<le> n" "n < 10 ^ w" "0 < w"
  shows "length (pad_number w n) = w" "list_all digit (pad_number w n)" "digits_value (pad_number w n) = n"
proof -
  have "nat n < 10 ^ w" using assms by (simp add: nat_less_iff)
  then have "length (decimal_of_nat (nat n)) \<le> w" using assms(3) by (rule decimal_length)
  moreover have "\<not> n < 0" "nat \<bar>n\<bar> = nat n" using assms(1) by simp_all
  moreover have "list_all digit (replicate k CHR ''0'')" for k by (simp add: list_all_iff digit_def)
  ultimately show "length (pad_number w n) = w" "list_all digit (pad_number w n)"
      "digits_value (pad_number w n) = n"
    using assms(1) decimal_of_nat_digits [of "nat n"]
    by (simp_all add: pad_number_def Let_def digits_value_zeros digits_value_decimal)
qed

section \<open>Chunks\<close>

lemma two_digits:
  assumes "0 \<le> n" "n < 100"
  obtains a b where "pad_number 2 n = [a, b]" "digit a" "digit b" "n = 10 * digit_value a + digit_value b"
proof -
  have p: "length (pad_number 2 n) = 2" "list_all digit (pad_number 2 n)" "digits_value (pad_number 2 n) = n"
    using pad_number_digits [of n 2] assms by simp_all
  from p(1) obtain a b where ab: "pad_number 2 n = [a, b]"
    by (auto simp: numeral_2_eq_2 length_Suc_conv)
  have "digits_value [a, b] = 10 * digit_value a + digit_value b"
    by (simp add: digits_value_def digit_value_def)
  with p(2,3) ab show ?thesis by (intro that [of a b]) simp_all
qed

lemma getnum_pad: "0 \<le> n \<Longrightarrow> n < 100 \<Longrightarrow> getnum fixed (pad_number 2 n @ s) = Some (n, s)"
  by (erule (1) two_digits) (simp add: getnum_def)

lemma parse_year_pad: "0 \<le> y \<Longrightarrow> y \<le> 9999 \<Longrightarrow> parse_year (pad_number 4 y @ s) = Some (y, s)"
  using pad_number_digits [of y 4] by (simp add: parse_year_def)

lemma trim_zeros_split: "\<exists>k. s = trim_zeros s @ replicate k CHR ''0''"
proof -
  have "rev s = takeWhile (\<lambda>c. c = CHR ''0'') (rev s) @ dropWhile (\<lambda>c. c = CHR ''0'') (rev s)" by simp
  moreover have "takeWhile (\<lambda>c. c = CHR ''0'') (rev s)
      = replicate (length (takeWhile (\<lambda>c. c = CHR ''0'') (rev s))) CHR ''0''"
    by (rule replicate_eqI) (auto dest: set_takeWhileD)
  ultimately have "rev (rev s) = rev (dropWhile (\<lambda>c. c = CHR ''0'') (rev s))
      @ replicate (length (takeWhile (\<lambda>c. c = CHR ''0'') (rev s))) CHR ''0''"
    by (metis rev_append rev_replicate)
  then show ?thesis unfolding trim_zeros_def by auto
qed

lemma digits_value_shift: "digits_value (s @ replicate k CHR ''0'') = digits_value s * 10 ^ k"
proof (induction k)
  case (Suc k)
  have "s @ replicate (Suc k) CHR ''0'' = (s @ replicate k CHR ''0'') @ [CHR ''0'']"
    by (simp add: replicate_append_same)
  with Suc show ?case by (simp only: digits_value_append) simp
qed simp

lemma parse_nanos_text:
  assumes "0 \<le> n" "n < 1000000000"
  shows "parse_nanos (nanos_text n @ ''Z'') = (n, ''Z'')"
proof (cases "n = 0")
  case True
  then show ?thesis by (simp add: nanos_text_def parse_nanos_def)
next
  case False
  define p where "p = pad_number 9 n"
  have p: "length p = 9" "list_all digit p" "digits_value p = n"
    using pad_number_digits [of n 9] assms by (simp_all add: p_def)
  obtain k where k: "p = trim_zeros p @ replicate k CHR ''0''" using trim_zeros_split by blast
  define ds where "ds = trim_zeros p"
  have ds: "list_all digit ds" "length ds + k = 9" "digits_value ds * 10 ^ k = n"
    using p k by (metis ds_def list_all_append, metis ds_def length_append length_replicate,
        metis ds_def digits_value_shift)
  have "ds \<noteq> []" using ds(3) False by (auto simp: digits_value_def)
  then obtain a t where a: "ds = a # t" "digit a" "list_all digit t" using ds(1) by (cases ds) auto
  have "\<not> digit CHR ''Z''" by (simp add: digit_def)
  then have "takeWhile digit (a # t @ ''Z'') = ds" "dropWhile digit (a # t @ ''Z'') = ''Z''"
    using a by (simp_all add: list_all_iff)
  moreover have "take 9 ds = ds" "9 - length ds = k" using ds(2) by simp_all
  ultimately show ?thesis
    using False a(2) ds(3) unfolding nanos_text_def p_def [symmetric] ds_def [symmetric] parse_nanos_def
    by (simp add: a(1) Let_def)
qed

section \<open>Whole timestamps\<close>

lemma within_in: "a \<le> n \<Longrightarrow> n \<le> b \<Longrightarrow> within a b (n, s) = Some (n, s)"
  by (simp add: within_def)

text \<open>A time of day in nanoseconds, split into its fields.\<close>

lemma clock_fields:
  assumes "0 \<le> n" "n < ns_per_day"
  defines "secs \<equiv> n div ns_per_second"
  shows "0 \<le> secs div 3600" "secs div 3600 \<le> 23" "0 \<le> secs div 60 mod 60" "secs div 60 mod 60 \<le> 59"
    "0 \<le> secs mod 60" "secs mod 60 \<le> 59" "0 \<le> n mod ns_per_second" "n mod ns_per_second < 1000000000"
    "((secs div 3600 * 60 + secs div 60 mod 60) * 60 + secs mod 60) * ns_per_second + n mod ns_per_second = n"
proof -
  have secs: "0 \<le> secs" "secs < 86400"
    using assms by (simp_all add: secs_def ns_per_second_def ns_per_day_def pos_imp_zdiv_nonneg_iff)
  then show "0 \<le> secs div 3600" "secs div 3600 \<le> 23" by simp_all
  show "0 \<le> secs div 60 mod 60" "0 \<le> secs mod 60" by simp_all
  have "secs div 60 mod 60 < 60" "secs mod 60 < 60" by simp_all
  then show "secs div 60 mod 60 \<le> 59" "secs mod 60 \<le> 59" by linarith+
  show "0 \<le> n mod ns_per_second" "n mod ns_per_second < 1000000000" by (simp_all add: ns_per_second_def)
  have "secs div 3600 = secs div 60 div 60" by (simp flip: zdiv_zmult2_eq)
  then have "(secs div 3600 * 60 + secs div 60 mod 60) * 60 + secs mod 60 = secs" by simp
  then show "((secs div 3600 * 60 + secs div 60 mod 60) * 60 + secs mod 60) * ns_per_second
      + n mod ns_per_second = n"
    by (simp only: secs_def div_mult_mod_eq)
qed

lemma parse_chunks:
  assumes "0 \<le> y" "y \<le> 9999" "1 \<le> m" "m \<le> 12" "1 \<le> d" "d \<le> days_in y m"
    and "0 \<le> hh" "hh \<le> 23" "0 \<le> mm" "mm \<le> 59" "0 \<le> ss" "ss \<le> 59" "0 \<le> ns" "ns < 1000000000"
  shows "parse_rfc3339 (pad_number 4 y @ CHR ''-'' # pad_number 2 m @ CHR ''-'' # pad_number 2 d
        @ CHR ''T'' # pad_number 2 hh @ CHR '':'' # pad_number 2 mm @ CHR '':'' # pad_number 2 ss
        @ nanos_text ns @ ''Z'') = Some (utc_time (civil_ns y m d hh mm ss ns))"
proof -
  have "0 \<le> d" "d < 100" using assms(5,6) by (simp_all add: days_in_def split: if_splits)
  moreover have "parse_offset ''Z'' = Some (0, [])" by (simp add: parse_offset_def)
  ultimately show ?thesis
    using assms unfolding parse_rfc3339_def
    by (simp add: parse_year_pad skip_literal_def getnum_pad within_in parse_nanos_text)
qed

lemma parse_format:
  assumes "0 \<le> year_of t" "year_of t \<le> 9999"
  shows "parse_rfc3339 (format_utc t) = Some (utc_time (t_ns t))"
proof -
  obtain y m d where ymd: "civil_from_days (t_ns t div ns_per_day) = (y, m, d)" by (cases "civil_from_days (t_ns t div ns_per_day)")
  have y: "0 \<le> y" "y \<le> 9999" using assms ymd by (simp_all add: year_of_def)
  have day: "days_from_civil y m d = t_ns t div ns_per_day" "1 \<le> m" "m \<le> 12" "1 \<le> d" "d \<le> days_in y m"
    using days_from_civil_from_days [OF ymd] by (simp_all add: civil_date_def)
  define n where "n = t_ns t mod ns_per_day"
  have n: "0 \<le> n" "n < ns_per_day" by (simp_all add: n_def ns_per_day_def)
  define secs where "secs = n div ns_per_second"
  note f = clock_fields [OF n, folded secs_def]
  have chunks: "format_utc t = pad_number 4 y @ CHR ''-'' # pad_number 2 m @ CHR ''-'' # pad_number 2 d
        @ CHR ''T'' # pad_number 2 (secs div 3600) @ CHR '':'' # pad_number 2 (secs div 60 mod 60)
        @ CHR '':'' # pad_number 2 (secs mod 60) @ nanos_text (n mod ns_per_second) @ ''Z''"
    by (simp only: format_utc_def ymd clock_text_def Let_def prod.case n_def secs_def append_assoc append_Cons)
  have "civil_ns y m d (secs div 3600) (secs div 60 mod 60) (secs mod 60) (n mod ns_per_second)
      = t_ns t div ns_per_day * ns_per_day + n"
    unfolding civil_ns_def day(1) by (subst f(9) [symmetric]) (simp only: add.assoc)
  then have "civil_ns y m d (secs div 3600) (secs div 60 mod 60) (secs mod 60) (n mod ns_per_second) = t_ns t"
    by (simp only: n_def div_mult_mod_eq)
  with parse_chunks [OF y day(2-5) f(1-8)] show ?thesis by (simp only: chunks)
qed

text \<open>A year outside the four digits is not read back.\<close>

lemma parse_other_year:
  assumes "y < 0 \<or> 9999 < y"
  shows "parse_rfc3339 (pad_number 4 y @ s) = None"
proof -
  have "parse_year (pad_number 4 y @ s) = None \<or>
      (\<exists>v c u. parse_year (pad_number 4 y @ s) = Some (v, c # u) \<and> digit c)"
  proof (cases "y < 0")
    case True
    then show ?thesis by (simp add: parse_year_def pad_number_def Let_def digit_def)
  next
    case False
    define ds where "ds = decimal_of_nat (nat y)"
    have ds: "list_all digit ds" "digits_value ds = y"
      using decimal_of_nat_digits [of "nat y"] False by (simp_all add: ds_def digits_value_decimal)
    have "4 < length ds"
    proof (rule ccontr)
      assume "\<not> 4 < length ds"
      then have "(10 :: int) ^ length ds \<le> 10 ^ 4" by (intro power_increasing) simp_all
      with short_digits [OF ds(1)] ds(2) assms False show False by simp
    qed
    then have "pad_number 4 y = ds" using False by (simp add: pad_number_def Let_def flip: ds_def)
    moreover obtain c u where "drop 4 ds = c # u" "digit c"
      using \<open>4 < length ds\<close> ds(1) by (metis drop_eq_Nil list.exhaust list.pred_inject(2) list_all_append
          append_take_drop_id not_le)
    ultimately show ?thesis
      using ds(1) \<open>4 < length ds\<close> by (auto simp: parse_year_def)
  qed
  then show ?thesis
    by (auto simp: parse_rfc3339_def skip_literal_def digit_def)
qed

theorem stamp_canonical:
  "(\<exists>t. parse_rfc3339 s = Some t \<and> format_utc t = s) \<longleftrightarrow>
   (\<exists>n. 0 \<le> year_of (utc_time n) \<and> year_of (utc_time n) \<le> 9999 \<and> s = format_utc (utc_time n))"
proof
  assume "\<exists>t. parse_rfc3339 s = Some t \<and> format_utc t = s"
  then obtain t where t: "parse_rfc3339 s = Some t" "format_utc t = s" by blast
  obtain y m d where ymd: "civil_from_days (t_ns t div ns_per_day) = (y, m, d)" by (cases "civil_from_days (t_ns t div ns_per_day)")
  then have year: "year_of t = y" by (simp add: year_of_def)
  obtain rest where "format_utc t = pad_number 4 y @ rest" by (simp add: format_utc_def ymd)
  then have "0 \<le> y \<and> y \<le> 9999"
    using parse_other_year [of y rest] t by (metis not_less option.distinct(1))
  moreover have "format_utc t = format_utc (utc_time (t_ns t))" "year_of t = year_of (utc_time (t_ns t))"
    by (simp_all add: format_utc_def year_of_def)
  ultimately show "\<exists>n. 0 \<le> year_of (utc_time n) \<and> year_of (utc_time n) \<le> 9999 \<and> s = format_utc (utc_time n)"
    using t(2) year by metis
next
  assume "\<exists>n. 0 \<le> year_of (utc_time n) \<and> year_of (utc_time n) \<le> 9999 \<and> s = format_utc (utc_time n)"
  then show "\<exists>t. parse_rfc3339 s = Some t \<and> format_utc t = s" using parse_format by fastforce
qed

end
