(* ===== verification/Task_Properties.thy ===== *)
theory Task_Properties
  imports Json_Typed Life_Closure Go_Stamps
begin

text \<open>
  The properties of the JSON reader and of lifetime evidence, with a sample registration whose worker
  succeeded.
\<close>

section \<open>Sample evidence\<close>

definition sample_stamp :: string where "sample_stamp = ''2026-01-02T03:04:05Z''"
definition sample_instant :: go_time where "sample_instant = utc_time 1767323045000000000"
definition sample_root :: string where "sample_root = replicate 32 CHR ''a''"
definition sample_task :: string where "sample_task = replicate 32 CHR ''b''"
definition sample_owner :: string where "sample_owner = replicate 64 CHR ''c''"

definition sample_intent :: intent_record where
  "sample_intent = \<lparr>in_schema = 1, in_root_id = sample_root, in_task_id = sample_task,
     in_owner_kind = ''task'', in_owner_sha256 = sample_owner, in_scope_kind = ''cgroup-v2'',
     in_assurance = ''exact'', in_scope_plan = ''plan'', in_boot_id = ''boot'',
     in_deadline = sample_stamp, in_created_at = sample_stamp\<rparr>"

definition sample_registration :: registration_record where
  "sample_registration = \<lparr>rg_schema = 1, rg_root_id = sample_root, rg_task_id = sample_task,
     rg_owner_kind = ''task'', rg_owner_sha256 = sample_owner, rg_scope_kind = ''cgroup-v2'',
     rg_assurance = ''exact'', rg_scope_id = ''scope'', rg_boot_id = ''boot'',
     rg_deadline = sample_stamp, rg_created_at = sample_stamp, rg_custody = None\<rparr>"

definition sample_worker :: worker_record where
  "sample_worker = \<lparr>wk_schema = 1, wk_root_id = sample_root, wk_task_id = sample_task,
     wk_registration = registration_digest sample_registration, wk_pid = 7, wk_process_start = ''9'',
     wk_boot_id = ''boot'', wk_started_at = sample_stamp\<rparr>"

definition sample_wait :: worker_wait where
  "sample_wait = \<lparr>ww_schema = 1, ww_root_id = sample_root, ww_task_id = sample_task,
     ww_registration = registration_digest sample_registration, ww_worker = worker_digest sample_worker,
     ww_child_pid = 7, ww_result = LifetimeWorkerWaitSuccess, ww_exit_code = Some 0,
     ww_observed_at = sample_stamp, ww_intent = [], ww_proof = [], ww_observed_boot = []\<rparr>"

definition sample_termination :: termination_record where
  "sample_termination = \<lparr>te_schema = 1, te_root_id = sample_root, te_task_id = sample_task,
     te_registration = registration_digest sample_registration, te_launch_count = 0,
     te_launch_set = LifetimeLaunchSetDigest [], te_cause = LifetimeTerminationCompleted,
     te_scope_empty = True, te_observed_at = sample_stamp\<rparr>"

definition sample_evidence :: evidence where
  "sample_evidence = \<lparr>ev_intent = Some sample_intent, ev_registration = Some sample_registration,
     ev_worker = Some sample_worker, ev_wait = Some sample_wait, ev_launches = [],
     ev_termination = Some sample_termination\<rparr>"

lemma sample_times:
  "time_parse sample_stamp = Inr sample_instant" "format_utc sample_instant = sample_stamp"
  by code_simp+

lemma lifetime_ids: "hexPattern sample_root" "hexPattern sample_task" "hex64Pattern sample_owner" "sample_root \<noteq> []"
  by (simp_all add: sample_root_def sample_task_def sample_owner_def hexPattern_def hex64Pattern_def
      lower_hex_def digit_def list_all_iff)

lemma digest_text: "hex64Pattern (json_digest v)" "json_digest v \<noteq> []"
proof -
  show "hex64Pattern (json_digest v)"
    using ComputeSHA256_valid unfolding json_digest_def ValidateSHA256_None .
  then show "json_digest v \<noteq> []" by (auto simp: hex64Pattern_def)
qed

lemma sample_tokens: "validLifetimeToken ''plan'' \<and> validLifetimeToken ''scope'' \<and> validLifetimeToken ''boot''
    \<and> validLifetimeToken ''9'' \<and> validLifetimeToken ''next''"
  by (simp add: validLifetimeToken_def nonblank_def trim_space_def split_runes_ascii is_space_def
      contains_char_def MaxControlRecordSize_def)

lemmas sample_defs = sample_intent_def sample_registration_def sample_worker_def sample_wait_def
  sample_termination_def

lemmas sample_facts = sample_times lifetime_ids digest_text sample_tokens

lemmas record_checks = ValidateLifetimeIntentRecord_def ValidateLifetimeRegistrationRecord_def
  ValidateLifetimeWorkerRecord_def ValidateLifetimeWorkerWaitRecord_def ValidateLifetimeTerminationRecord_def
  validateLifetimeIdentity_def validateLifetimeOwner_def validateLifetimeScope_def validateTimestamp_def
  validateLifetimeWorkerTimestamp_def SchemaVersion_def validateLifetimeWorkerWaitAbsenceFields_def
  validateLifetimeWorkerWaitResult_def validateStartedLifetimeWorkerWait_def
  validateLifetimeWorkerWaitAbsenceResult_def

lemma sample_records:
  "ValidateLifetimeIntentRecord (Some sample_intent) = None"
  "ValidateLifetimeRegistrationRecord (Some sample_registration) = None"
  "ValidateLifetimeWorkerRecord (Some sample_worker) = None"
  "ValidateLifetimeWorkerWaitRecord (Some sample_wait) = None"
  "ValidateLifetimeTerminationRecord (Some sample_termination) = None"
  by (simp_all add: record_checks go_check first_error_None_iff sample_facts LifetimeLaunchSetDigest_def,
      simp_all add: sample_defs sample_facts LifetimeLaunchSetDigest_def)

lemma sample_matches:
  "LifetimeIntentMatchesRegistration (Some sample_intent) (Some sample_registration)"
  "LifetimeWorkerWaitMatchesRegistration (Some sample_wait) (Some sample_registration)
     (registration_digest sample_registration)"
  "LifetimeWorkerWaitMatchesWorker (Some sample_wait) (Some sample_worker) (worker_digest sample_worker)"
  by (simp_all add: LifetimeIntentMatchesRegistration_def LifetimeWorkerWaitMatchesRegistration_def
      LifetimeWorkerWaitMatchesWorker_def digest_text sample_wait_def sample_intent_def sample_registration_def,
      simp_all add: sample_worker_def)

lemma sample_capacity: "ValidateLifetimeLaunchCapacity [] = None"
  by (simp add: ValidateLifetimeLaunchCapacity_def)

lemma sample_identities:
  "in_root_id sample_intent = sample_root" "in_task_id sample_intent = sample_task"
  "rg_root_id sample_registration = sample_root" "rg_task_id sample_registration = sample_task"
  "wk_root_id sample_worker = sample_root" "wk_task_id sample_worker = sample_task"
  "ww_root_id sample_wait = sample_root" "ww_task_id sample_wait = sample_task"
  "te_root_id sample_termination = sample_root" "te_task_id sample_termination = sample_task"
  by (simp_all add: sample_defs)

lemma sample_bindings:
  "wk_registration sample_worker = registration_digest sample_registration"
  "wk_boot_id sample_worker = rg_boot_id sample_registration"
  "te_registration sample_termination = registration_digest sample_registration"
  "te_launch_count sample_termination = 0" "te_launch_set sample_termination = LifetimeLaunchSetDigest []"
  "ww_result sample_wait = LifetimeWorkerWaitSuccess"
  by (simp_all add: sample_termination_def sample_wait_def, simp_all add: sample_worker_def sample_registration_def)

lemmas evidence_checks = validateLifetimeEvidenceFacts_def validateLifetimeEvidenceRecords_def
  validateLifetimeScopeEvidence_def check_record_def identity_set_def validateLifetimeEvidenceLaunches_def
  validateLifetimeEvidenceBindings_def validateLifetimeRegisteredEvidenceBindings_def
  validateLifetimeEvidenceTermination_def



section \<open>Lifetime evidence\<close>



text \<open>Evidence that does not hold together is always reported as an evidence fault, with the
  cause kept, and is therefore never taken for an absent record.\<close>

theorem closure_errors_are_faults:
  assumes "ResolveLifetimeClosure e = Inl err"
  shows "errors_is err ErrEvidenceFault \<and> \<not> RecordAbsent (Some err)"
proof -
  have "errors_is err ErrEvidenceFault"
    using assms by (auto simp: ResolveLifetimeClosure_def as_fault_Inl split: option.splits if_splits)
  then show ?thesis by (simp add: RecordAbsent_def)
qed

theorem closure_errors_are_faults_witness:
  "errors_is (Joined [Leaf ErrEvidenceFault, identity_mismatch]) ErrEvidenceFault
   \<and> \<not> RecordAbsent (Some (Joined [Leaf ErrEvidenceFault, identity_mismatch]))"
proof (rule closure_errors_are_faults)
  show "ResolveLifetimeClosure (sample_evidence\<lparr>ev_registration := None\<rparr>)
      = Inl (Joined [Leaf ErrEvidenceFault, identity_mismatch])"
    by (simp add: ResolveLifetimeClosure_def as_fault_def evidence_checks sample_evidence_def sample_records
        sample_identities lifetime_ids(4) sample_capacity lifetimeEvidenceFault_def require_def)
qed

text \<open>C28: An absence that the factory builds closes the evidence it was built from, as recovered with
  or without a registration, and is a valid record.\<close>

theorem recorded_absence_closes:
  assumes "NewLifetimeWorkerAbsence e proof boot at = Inr w"
  shows "ValidateLifetimeWorkerWaitRecord (Some w) = None
    \<and> ResolveLifetimeClosure (e\<lparr>ev_wait := Some w\<rparr>) = Inr (if ev_registration e = None
        then LifetimeClosureUnregisteredRecovered else LifetimeClosureRegisteredRecovered)"
proof -
  let ?e = "e\<lparr>ev_wait := Some w\<rparr>"
  have checks: "absence_candidate e proof boot at = Inr w" "ValidateLifetimeWorkerWaitRecord (Some w) = None"
    "ValidateLifetimeCompletionBinding (Some w) ?e = None"
    using assms by (auto simp: NewLifetimeWorkerAbsence_def go_simps)
  have "ww_result w = LifetimeWorkerWaitAbsent"
    using checks(1) by (auto simp: absence_candidate_def absence_owner_def bind_result_Inr_iff
        split: option.splits)
  moreover have "validateLifetimeEvidenceFacts ?e = None"
    using binding_parts(1) [OF checks(3)] by simp
  ultimately show ?thesis using checks by (simp add: ResolveLifetimeClosure_def as_fault_def)
qed

definition absent_evidence :: evidence where
  "absent_evidence = sample_evidence\<lparr>ev_wait := None\<rparr>"

definition sample_absence :: worker_wait where
  "sample_absence = \<lparr>ww_schema = 1, ww_root_id = sample_root, ww_task_id = sample_task,
     ww_registration = registration_digest sample_registration, ww_worker = worker_digest sample_worker,
     ww_child_pid = 7, ww_result = LifetimeWorkerWaitAbsent, ww_exit_code = None,
     ww_observed_at = sample_stamp, ww_intent = [], ww_proof = LifetimeAbsencePreviousBoot,
     ww_observed_boot = ''next''\<rparr>"

lemma sample_absence_record:
  "ValidateLifetimeWorkerWaitRecord (Some sample_absence) = None"
  by (simp add: record_checks go_check first_error_None_iff sample_facts,
      simp add: sample_absence_def sample_facts)

lemma absent_evidence_facts:
  "validateLifetimeEvidenceFacts absent_evidence = None"
  "validateLifetimeEvidenceFacts (absent_evidence\<lparr>ev_wait := Some sample_absence\<rparr>) = None"
  by (simp_all add: evidence_checks first_error_None_iff absent_evidence_def sample_evidence_def sample_records
      sample_identities lifetime_ids(4) sample_bindings sample_matches sample_capacity sample_absence_record)
    (simp_all add: sample_absence_def)

lemma sample_absence_bound:
  "ValidateLifetimeCompletionBinding (Some sample_absence) (absent_evidence\<lparr>ev_wait := Some sample_absence\<rparr>) = None"
proof -
  have "LifetimeWorkerWaitMatchesWorker (Some sample_absence) (Some sample_worker) (worker_digest sample_worker)"
    by (simp add: LifetimeWorkerWaitMatchesWorker_def sample_absence_def digest_text) (simp add: sample_worker_def)
  moreover have "ww_observed_boot sample_absence \<noteq> rg_boot_id sample_registration"
      "ww_registration sample_absence = registration_digest sample_registration"
      "ww_proof sample_absence = LifetimeAbsencePreviousBoot" "ww_result sample_absence = LifetimeWorkerWaitAbsent"
    by (simp_all add: sample_absence_def) (simp add: sample_registration_def)
  ultimately show ?thesis
    by (simp add: ValidateLifetimeCompletionBinding_def first_error_None_iff absent_evidence_facts
        validateLifetimeAbsenceBinding_def validateLifetimeRegisteredPreviousBootAbsenceBinding_def,
        simp add: absent_evidence_def sample_evidence_def sample_matches sample_bindings
          validateLifetimeRegisteredPreviousBootAbsenceBinding_def)
qed

lemma sample_absence_made:
  "NewLifetimeWorkerAbsence absent_evidence LifetimeAbsencePreviousBoot ''next'' sample_instant = Inr sample_absence"
proof -
  have "absence_candidate absent_evidence LifetimeAbsencePreviousBoot ''next'' sample_instant = Inr sample_absence"
    by (simp add: absence_candidate_def absence_owner_def absent_evidence_def sample_evidence_def sample_facts
        sample_absence_def sample_identities SchemaVersion_def) (simp add: sample_worker_def)
  moreover have "\<not> is_zero sample_instant" by (simp add: is_zero_def sample_instant_def zero_time_def)
  ultimately show ?thesis
    by (simp add: NewLifetimeWorkerAbsence_def first_error_None_iff absent_evidence_facts sample_tokens
        sample_absence_record sample_absence_bound check_then_def)
      (simp add: absent_evidence_def)
qed

theorem recorded_absence_closes_witness:
  "ResolveLifetimeClosure (absent_evidence\<lparr>ev_wait := Some sample_absence\<rparr>)
     = Inr LifetimeClosureRegisteredRecovered"
  using recorded_absence_closes [OF sample_absence_made] by (simp add: absent_evidence_def sample_evidence_def)

text \<open>C29: A set of launch records is accepted exactly when it has at most 4096 records, none of whose
  canonical encodings is longer than one mebibyte, and all of them together take at most 64 mebibytes.\<close>

theorem launch_capacity_is_exact:
  "ValidateLifetimeLaunchCapacity ls = None \<longleftrightarrow>
     length ls \<le> 4096 \<and> list_all (\<lambda>r. launch_bytes r \<le> 1048576) ls
     \<and> sum_list (map launch_bytes ls) \<le> 67108864"
  using capacity_exact [of ls] by (simp add: MaxControlRecordSize_def MaxLifetimeLaunchBytes_def)

text \<open>C32: The timestamps a worker record accepts are exactly the texts of the instants of the years 0
  to 9999 in their one UTC form: no other spelling of an instant passes.\<close>

theorem worker_stamps_are_canonical:
  "validateLifetimeWorkerTimestamp s = None \<longleftrightarrow>
     (\<exists>n. 0 \<le> year_of (utc_time n) \<and> year_of (utc_time n) \<le> 9999 \<and> s = format_utc (utc_time n))"
  using stamp_canonical [of s]
  by (auto simp: validateLifetimeWorkerTimestamp_def time_parse_def split: option.splits)

section \<open>Strict decoding\<close>


text \<open>C30: What strict decoding passes to the typed decoder is well typed: a value of the shape the Go
  type declares, with no null, no unknown and no missing member, whose strings are valid UTF-8 and whose
  objects have no two keys of one case fold.\<close>

theorem strict_decoding_is_typed:
  assumes "DecodeStrict ty typed data = Inr x"
  shows "\<exists>v. typed v = Inr x \<and> conforms ty v \<and> json_text v \<and> fold_distinct foldJSONKey v"
proof -
  obtain v where v: "ValidateJSONStructure data = Inr v" "validateJSONType ty v = None"
    and r: "(case typed v of Inl e \<Rightarrow> Inl (Wrap ''decoding strict json'' e) | Inr x \<Rightarrow> Inr x) = Inr x"
    using assms by (auto simp: DecodeStrict_def bind_result_Inr_iff check_then_Inr_iff)
  have "typed v = Inr x" using r by (cases "typed v") simp_all
  have "fold_distinct foldJSONKey v" using v(1) by (rule ValidateJSONStructure_keys)
  then show ?thesis
    using \<open>typed v = Inr x\<close> validated_conforms(1) [OF v(2)] ValidateJSONStructure_text [OF v(1)] by blast
qed

theorem strict_decoding_is_typed_witness:
  "\<exists>v. string_member ''a'' v = Inr ''b'' \<and> conforms (TStruct [(''a'', False, TScalar)]) v \<and> json_text v
     \<and> fold_distinct foldJSONKey v"
proof (rule strict_decoding_is_typed)
  let ?v = "JObj [(''a'', JStr ''b'')]"
  have "valid_string ''a''" "valid_string ''b''" by (simp_all add: valid_string_ascii is_ascii_def)
  then have "ValidateJSONStructure (MarshalCanonical ?v) = Inr ?v"
    by (intro ValidateJSONStructure_canonical)
      (simp_all add: document_def MarshalCanonical_def render_string_def split_runes_ascii
        escape_chunk_def MaxControlRecordSize_def)
  then show "DecodeStrict (TStruct [(''a'', False, TScalar)]) (string_member ''a'')
      (MarshalCanonical (JObj [(''a'', JStr ''b'')])) = Inr ''b''"
    by (simp add: DecodeStrict_def string_member_def json_members_def)
qed

end
