(* ===== verification/Inter_State.thy ===== *)
theory Inter_State
  imports Life_Records
begin

text \<open>
  The interaction of a running task: \<open>internal/task/interaction.go\<close>. An event of the journal changes
  the observed state; a refused event leaves it as it was, so the functions return an error or the new
  state. A Go map is an association list with distinct keys.
\<close>

abbreviation ErrInteractionUnavailable :: sentinel where
  "ErrInteractionUnavailable \<equiv> Sentinel ''InteractionUnavailable''"
abbreviation ErrInteractionConflict :: sentinel where
  "ErrInteractionConflict \<equiv> Sentinel ''InteractionConflict''"
abbreviation ErrInteractionClosed :: sentinel where
  "ErrInteractionClosed \<equiv> Sentinel ''InteractionClosed''"
abbreviation ErrInteractionRequest :: sentinel where
  "ErrInteractionRequest \<equiv> Sentinel ''InteractionRequest''"

section \<open>Records\<close>

record interaction_capabilities =
  ca_modes :: "string list"
  ca_clarification :: bool
  ca_steering :: bool

record interaction_question =
  qu_id :: string
  qu_text :: string
  qu_options :: "string list"
  qu_multiple :: bool
  qu_free_text :: bool

record interaction_request =
  iq_id :: string
  iq_turn_id :: string
  iq_questions :: "interaction_question list"
  iq_blocking :: bool

record interaction_message =
  im_id :: string
  im_kind :: string
  im_request_id :: string
  im_turn_id :: string
  im_answers :: "(string \<times> string list) list"
  im_text :: string

record interaction_delivery =
  dv_message_id :: string
  dv_state :: string
  dv_reason :: string

record interaction_event =
  ie_deadline :: string
  ie_sequence :: "64 word"
  ie_kind :: string
  ie_turn_id :: string
  ie_request :: "interaction_request option"
  ie_request_id :: string
  ie_message :: "interaction_message option"
  ie_delivery :: "interaction_delivery option"
  ie_capabilities :: "interaction_capabilities option"

record interaction_state =
  st_deadline :: string
  st_capabilities :: interaction_capabilities
  st_turn_id :: string
  st_pending :: "interaction_request list"
  st_deliveries :: "interaction_delivery list"
  st_cursor :: "64 word"
  st_closed :: bool

text \<open>An event of the given kind with every other field zero, and the state before any event.\<close>

definition plain_event :: "string \<Rightarrow> interaction_event" where
  "plain_event kind = \<lparr>ie_deadline = [], ie_sequence = 0, ie_kind = kind, ie_turn_id = [], ie_request = None,
     ie_request_id = [], ie_message = None, ie_delivery = None, ie_capabilities = None\<rparr>"

definition initial_state :: interaction_state where
  "initial_state = \<lparr>st_deadline = [],
     st_capabilities = \<lparr>ca_modes = [], ca_clarification = False, ca_steering = False\<rparr>,
     st_turn_id = [], st_pending = [], st_deliveries = [], st_cursor = 0, st_closed = False\<rparr>"

section \<open>Messages\<close>

definition validateInteractionSteer :: "interaction_message \<Rightarrow> interaction_state \<Rightarrow> error option" where
  "validateInteractionSteer m s = first_error
     [require (ca_steering (st_capabilities s)) (Leaf ErrInteractionUnavailable),
      require (\<not> (trim_space (im_text m) = [] \<or> length (im_text m) > MaxBriefSize \<or> \<not> valid_string (im_text m)
         \<or> im_request_id m \<noteq> [] \<or> length (im_answers m) \<noteq> 0)) (Leaf ErrInteractionRequest)]"

definition answer_ok :: "interaction_question \<Rightarrow> string \<Rightarrow> error option" where
  "answer_ok q v = require (\<not> (trim_space v = [] \<or> \<not> valid_string v
     \<or> \<not> qu_free_text q \<and> v \<notin> set (qu_options q))) (Wrap ''answer'' (Leaf ErrInteractionRequest))"

definition question_answered :: "(string \<times> string list) list \<Rightarrow> interaction_question \<Rightarrow> error option" where
  "question_answered answers q =
     (let vs = (case map_of answers (qu_id q) of None \<Rightarrow> [] | Some vs \<Rightarrow> vs) in first_error
       (require (\<not> (length vs = 0 \<or> \<not> qu_multiple q \<and> length vs \<noteq> 1)) (Leaf ErrInteractionRequest)
        # map (answer_ok q) vs))"

definition validateInteractionAnswers ::
  "(string \<times> string list) list \<Rightarrow> interaction_question list \<Rightarrow> error option" where
  "validateInteractionAnswers answers questions = first_error
     (require (\<not> (length answers \<noteq> length questions \<or> length answers = 0)) (Leaf ErrInteractionRequest)
      # map (question_answered answers) questions)"

definition ValidateInteractionMessage :: "interaction_message \<Rightarrow> interaction_state \<Rightarrow> error option" where
  "ValidateInteractionMessage m s = first_error
     [ValidateTaskID (im_id m),
      require (\<not> st_closed s) (Leaf ErrInteractionClosed),
      require (\<not> (im_turn_id m = [] \<or> im_turn_id m \<noteq> st_turn_id s)) (Leaf ErrInteractionUnavailable),
      (if im_kind m = ''steer'' then validateInteractionSteer m s
       else if im_kind m = ''reply'' then
         (if \<not> ca_clarification (st_capabilities s) \<or> im_text m \<noteq> [] then Some (Leaf ErrInteractionUnavailable)
          else case find (\<lambda>r. iq_id r = im_request_id m) (st_pending s) of
            Some r \<Rightarrow> validateInteractionAnswers (im_answers m) (iq_questions r)
          | None \<Rightarrow> Some (Leaf ErrInteractionRequest))
       else Some (Leaf ErrInteractionRequest))]"

section \<open>Events\<close>

fun questions_error :: "string list \<Rightarrow> interaction_question list \<Rightarrow> error option" where
  "questions_error seen [] = None"
| "questions_error seen (q # qs) =
     (if \<not> nonblank (qu_id q) \<or> qu_id q \<in> set seen \<or> \<not> nonblank (qu_text q) \<or> \<not> valid_string (qu_text q)
        then Some (Leaf ErrInteractionRequest)
      else if length (qu_options q) = 0 \<and> \<not> qu_free_text q then Some (Leaf ErrInteractionRequest)
      else questions_error (qu_id q # seen) qs)"

definition validateInteractionQuestions :: "interaction_question list \<Rightarrow> error option" where
  "validateInteractionQuestions qs =
     (if length qs = 0 then Some (Leaf ErrInteractionRequest) else questions_error [] qs)"

definition validInteractionDelivery :: "string \<Rightarrow> string \<Rightarrow> bool" where
  "validInteractionDelivery previous following =
     (if previous = ''queued'' then following = ''unknown'' \<or> following = ''rejected''
      else if previous = ''unknown''
        then following = ''sent'' \<or> following = ''acknowledged'' \<or> following = ''rejected''
      else if previous = ''sent'' then following = ''acknowledged'' \<or> following = ''rejected''
      else False)"

fun update_delivery :: "interaction_delivery \<Rightarrow> interaction_delivery list \<Rightarrow> error + interaction_delivery list" where
  "update_delivery d [] = Inl (Leaf ErrInteractionRequest)"
| "update_delivery d (p # ps) =
     (if dv_message_id p \<noteq> dv_message_id d
        then bind_result (update_delivery d ps) (\<lambda>ps. Inr (p # ps))
      else if \<not> validInteractionDelivery (dv_state p) (dv_state d) then Inl (Leaf ErrInteractionConflict)
      else Inr (d # ps))"

definition applyInteractionDelivery ::
  "interaction_state \<Rightarrow> interaction_delivery option \<Rightarrow> error + interaction_state" where
  "applyInteractionDelivery s delivery = (case delivery of
     None \<Rightarrow> Inl (Leaf ErrInteractionRequest)
   | Some d \<Rightarrow> bind_result (update_delivery d (st_deliveries s)) (\<lambda>ds. Inr (s\<lparr>st_deliveries := ds\<rparr>)))"

definition applyInteractionMessage ::
  "interaction_state \<Rightarrow> interaction_message option \<Rightarrow> error + interaction_state" where
  "applyInteractionMessage s message = (case message of
     None \<Rightarrow> Inl (Leaf ErrInteractionRequest)
   | Some m \<Rightarrow>
       if list_ex (\<lambda>d. dv_message_id d = im_id m) (st_deliveries s) then Inl (Leaf ErrInteractionConflict)
       else check_then (ValidateInteractionMessage m s)
         (Inr (s\<lparr>st_deliveries := st_deliveries s
           @ [\<lparr>dv_message_id = im_id m, dv_state = ''queued'', dv_reason = []\<rparr>]\<rparr>)))"

definition applyInteractionRequest ::
  "interaction_state \<Rightarrow> interaction_request option \<Rightarrow> error + interaction_state" where
  "applyInteractionRequest s request = (case request of
     None \<Rightarrow> Inl (Leaf ErrInteractionRequest)
   | Some r \<Rightarrow>
       if iq_id r = [] \<or> iq_turn_id r = [] \<or> iq_turn_id r \<noteq> st_turn_id s \<or> \<not> ca_clarification (st_capabilities s)
         then Inl (Leaf ErrInteractionRequest)
       else if list_ex (\<lambda>q. iq_id q = iq_id r) (st_pending s) then Inl (Leaf ErrInteractionConflict)
       else check_then (validateInteractionQuestions (iq_questions r))
         (Inr (s\<lparr>st_pending := st_pending s @ [r]\<rparr>)))"

definition close_delivery :: "interaction_delivery \<Rightarrow> interaction_delivery" where
  "close_delivery d = (if dv_state d = ''queued''
     then d\<lparr>dv_state := ''rejected'', dv_reason := ''task interaction ended before delivery''\<rparr> else d)"

definition applyInteractionEvent :: "interaction_state \<Rightarrow> interaction_event \<Rightarrow> error + interaction_state" where
  "applyInteractionEvent s e =
     (if ie_kind e = ''ready'' then
        (case ie_capabilities e of
           None \<Rightarrow> Inl (Leaf ErrInteractionConflict)
         | Some c \<Rightarrow>
             if ie_turn_id e = [] \<or> st_turn_id s \<noteq> [] then Inl (Leaf ErrInteractionConflict)
             else check_then (if ie_deadline e = [] then None else validateTimestamp (ie_deadline e))
               (Inr (s\<lparr>st_turn_id := ie_turn_id e, st_capabilities := c, st_deadline := ie_deadline e\<rparr>)))
      else if ie_kind e = ''request'' then applyInteractionRequest s (ie_request e)
      else if ie_kind e = ''resolved'' then
        (if \<not> list_ex (\<lambda>r. iq_id r = ie_request_id e) (st_pending s) then Inl (Leaf ErrInteractionRequest)
         else Inr (s\<lparr>st_pending := filter (\<lambda>r. iq_id r \<noteq> ie_request_id e) (st_pending s)\<rparr>))
      else if ie_kind e = ''message'' then applyInteractionMessage s (ie_message e)
      else if ie_kind e = ''delivery'' then applyInteractionDelivery s (ie_delivery e)
      else if ie_kind e = ''closed'' then
        Inr (s\<lparr>st_closed := True, st_pending := [], st_deliveries := map close_delivery (st_deliveries s)\<rparr>)
      else Inl (Leaf ErrInteractionRequest))"

definition ApplyInteractionEvent :: "interaction_state \<Rightarrow> interaction_event \<Rightarrow> error + interaction_state" where
  "ApplyInteractionEvent s e =
     (if ie_sequence e \<noteq> st_cursor s + 1 then Inl (Leaf ErrEvidenceFault)
      else if st_closed s then Inl (Leaf ErrInteractionClosed)
      else bind_result (applyInteractionEvent s e) (\<lambda>s. Inr (s\<lparr>st_cursor := ie_sequence e\<rparr>)))"

end
