(* ===== verification/Inter_Journal.thy ===== *)
theory Inter_Journal
  imports Inter_State
begin

text \<open>
  The durable interaction journal of a task: \<open>internal/taskdir/interaction.go\<close>. The directory
  \<open>interaction\<close> holds one create-once file per event, so a journal is the list of its records. What the
  operating system and the rest of the task directory answer during one operation is an argument of the
  operation: locks, reads, the outcome of a commit, and the facts that say whether the task still runs.
  A commit may leave its file visible and still report an error, when a barrier failed.

  Records are read back as they were written: their texts come from JSON and are valid UTF-8.
\<close>

section \<open>Encodings\<close>

definition capabilities_json :: "interaction_capabilities \<Rightarrow> json" where
  "capabilities_json c = JObj
     ((if ca_modes c = [] then [] else [(''supported_modes'', JArr (map JStr (ca_modes c)))])
      @ [(''clarification'', JBool (ca_clarification c)), (''steering'', JBool (ca_steering c))])"

definition question_json :: "interaction_question \<Rightarrow> json" where
  "question_json q = JObj
     ([(''id'', JStr (qu_id q)), (''text'', JStr (qu_text q))]
      @ (if qu_options q = [] then [] else [(''options'', JArr (map JStr (qu_options q)))])
      @ [(''multiple'', JBool (qu_multiple q)), (''free_text'', JBool (qu_free_text q))])"

definition pending_json :: "interaction_request \<Rightarrow> json" where
  "pending_json r = JObj
     [(''id'', JStr (iq_id r)), (''turn_id'', JStr (iq_turn_id r)),
      (''questions'', JArr (map question_json (iq_questions r))), (''blocking'', JBool (iq_blocking r))]"

definition message_json :: "interaction_message \<Rightarrow> json" where
  "message_json m = JObj
     ([(''id'', JStr (im_id m)), (''kind'', JStr (im_kind m))]
      @ omit_empty_string ''request_id'' (im_request_id m)
      @ [(''turn_id'', JStr (im_turn_id m))]
      @ (if im_answers m = [] then []
         else [(''answers'', JObj (map (\<lambda>(k, vs). (k, JArr (map JStr vs))) (sort_key fst (im_answers m))))])
      @ omit_empty_string ''text'' (im_text m))"

definition delivery_json :: "interaction_delivery \<Rightarrow> json" where
  "delivery_json d = JObj
     ([(''message_id'', JStr (dv_message_id d)), (''state'', JStr (dv_state d))]
      @ omit_empty_string ''reason'' (dv_reason d))"

definition event_json :: "interaction_event \<Rightarrow> json" where
  "event_json e = JObj
     (omit_empty_string ''deadline'' (ie_deadline e)
      @ [(''sequence'', int_json (uint (ie_sequence e))), (''kind'', JStr (ie_kind e))]
      @ omit_empty_string ''turn_id'' (ie_turn_id e)
      @ omit_nil ''request'' pending_json (ie_request e)
      @ omit_empty_string ''request_id'' (ie_request_id e)
      @ omit_nil ''message'' message_json (ie_message e)
      @ omit_nil ''delivery'' delivery_json (ie_delivery e)
      @ omit_nil ''capabilities'' capabilities_json (ie_capabilities e))"

text \<open>A state whose deliveries were copied into a new slice: no deliveries are then a nil slice.\<close>

definition snapshot_json :: "interaction_state \<Rightarrow> json" where
  "snapshot_json s = JObj
     (omit_empty_string ''deadline'' (st_deadline s)
      @ [(''capabilities'', capabilities_json (st_capabilities s))]
      @ omit_empty_string ''turn_id'' (st_turn_id s)
      @ [(''pending_requests'', JArr (map pending_json (st_pending s))),
         (''deliveries'', if st_deliveries s = [] then JNull else JArr (map delivery_json (st_deliveries s))),
         (''cursor'', int_json (uint (st_cursor s))), (''closed'', JBool (st_closed s))])"

record interaction_record =
  ir_schema :: int
  ir_root_id :: string
  ir_task_id :: string
  ir_event :: interaction_event

definition record_json :: "interaction_record \<Rightarrow> json" where
  "record_json r = JObj
     [(''schema_version'', int_json (ir_schema r)), (''root_id'', JStr (ir_root_id r)),
      (''task_id'', JStr (ir_task_id r)), (''event'', event_json (ir_event r))]"

definition encoded_length :: "json \<Rightarrow> int" where
  "encoded_length v = int (length (MarshalCanonical v))"

definition record_length :: "interaction_record \<Rightarrow> int" where
  "record_length r = encoded_length (record_json r)"

section \<open>The journal and its surroundings\<close>

definition maxInteractionRecords :: "64 word" where "maxInteractionRecords = 8192"
definition maxInteractionBytes :: int where "maxInteractionBytes = 16 * int MaxControlRecordSize"
definition interactionCloseReserve :: int where "interactionCloseReserve = 512"
definition interactionPageBytes :: int where "interactionPageBytes = int MaxControlRecordSize div 2"
definition interactionStateBytes :: int where "interactionStateBytes = int MaxControlRecordSize div 4"

text \<open>
  \<open>jn_durable\<close> is for the proofs: the number of records that a completed directory barrier made durable.
\<close>

record journal =
  jn_root_id :: string
  jn_task_id :: string
  jn_records :: "interaction_record list"
  jn_durable :: nat

text \<open>The facts of the task directory that \<open>interactionOpen\<close> reads, in its order.\<close>

record task_facts =
  tf_exit :: "error + bool"
  tf_outcome :: "error + bool"
  tf_prepared :: "error + (bool \<times> int)"
  tf_stops :: "error + nat"
  tf_start :: "error + bool"
  tf_released :: "error + bool"
  tf_started :: "error + (string \<times> int)"
  tf_now :: go_time

text \<open>
  A commit of \<open>stageAndCommit\<close>: complete with its barriers, visible with an error of a barrier or of the
  clean-up, or refused.
\<close>

datatype commit_answer = Committed | Left_visible error | Not_committed error

record journal_env =
  je_owned :: "error option"
  je_sealed :: bool
  je_lock :: "error option"
  je_unlock :: "error option"
  je_close :: "error option"
  je_read :: "nat \<Rightarrow> error option"
  je_reread :: "nat \<Rightarrow> error option"
  je_commit :: commit_answer
  je_barrier :: "error option"
  je_evidence :: "error option"
  je_facts :: task_facts

record snapshot_state =
  ss_state :: interaction_state
  ss_bytes :: int

definition empty_snapshot :: snapshot_state where
  "empty_snapshot = \<lparr>ss_state = initial_state, ss_bytes = 0\<rparr>"

text \<open>\<open>interactionRecords\<close>: the argument \<open>k\<close> is the sequence of the next file.\<close>

fun read_records ::
  "(nat \<Rightarrow> error option) \<Rightarrow> journal \<Rightarrow> nat \<Rightarrow> interaction_record list \<Rightarrow> snapshot_state \<Rightarrow> error + snapshot_state" where
  "read_records fault j k [] s = check_then (fault k) (Inr s)"
| "read_records fault j k (r # rs) s = check_then (fault k)
     (let bytes = ss_bytes s + record_length r in
      if bytes > maxInteractionBytes \<or> k > unat maxInteractionRecords then Inl (Leaf ErrControlRecordTooBig)
      else if ir_schema r \<noteq> SchemaVersion \<or> ir_root_id r \<noteq> jn_root_id j \<or> ir_task_id r \<noteq> jn_task_id j
          \<or> ie_sequence (ir_event r) \<noteq> of_nat k
        then Inl identity_mismatch
      else bind_result (ApplyInteractionEvent (ss_state s) (ir_event r)) (\<lambda>st.
        read_records fault j (Suc k) rs \<lparr>ss_state = st, ss_bytes = bytes\<rparr>))"

definition interactionRecords ::
  "(nat \<Rightarrow> error option) \<Rightarrow> journal \<Rightarrow> error + interaction_event list \<times> snapshot_state" where
  "interactionRecords fault j = bind_result (read_records fault j 1 (jn_records j) empty_snapshot)
     (\<lambda>s. Inr (map ir_event (jn_records j), s))"

definition closed_event :: "interaction_state \<Rightarrow> interaction_event" where
  "closed_event s = (plain_event ''closed'')\<lparr>ie_sequence := st_cursor s + 1\<rparr>"

definition snapshot_fits :: "interaction_state \<Rightarrow> error option" where
  "snapshot_fits s =
     require (encoded_length (snapshot_json s) \<le> interactionStateBytes) (Leaf ErrControlRecordTooBig)"

definition validateInteractionSnapshotSize :: "interaction_state \<Rightarrow> error option" where
  "validateInteractionSnapshotSize s =
     (case snapshot_fits s of
        Some e \<Rightarrow> Some e
      | None \<Rightarrow>
          if st_closed s then None
          else case ApplyInteractionEvent s (closed_event s) of
            Inl e \<Rightarrow> Some e
          | Inr s' \<Rightarrow> snapshot_fits s')"

definition journal_record :: "journal \<Rightarrow> interaction_event \<Rightarrow> interaction_record" where
  "journal_record j e = \<lparr>ir_schema = SchemaVersion, ir_root_id = jn_root_id j, ir_task_id = jn_task_id j,
     ir_event = e\<rparr>"

text \<open>The checks of \<open>appendInteraction\<close> and its new record; \<open>s\<close> is the snapshot before the event.\<close>

definition checked_append ::
  "journal \<Rightarrow> snapshot_state \<Rightarrow> interaction_event \<Rightarrow> error + interaction_record" where
  "checked_append j s event =
     (let e = event\<lparr>ie_sequence := st_cursor (ss_state s) + 1\<rparr>; r = journal_record j e in
      bind_result (ApplyInteractionEvent (ss_state s) e) (\<lambda>st.
        check_then (first_error
          [require (record_length r \<le> int MaxControlRecordSize) (Leaf ErrControlRecordTooBig),
           require (record_length r \<le> interactionPageBytes) (Leaf ErrControlRecordTooBig),
           validateInteractionSnapshotSize st,
           (let reserve = (if ie_kind e = ''closed'' then 0 else interactionCloseReserve) in
            require (\<not> (ss_bytes s + record_length r + reserve > maxInteractionBytes
              \<or> st_cursor st > maxInteractionRecords
              \<or> st_cursor st = maxInteractionRecords \<and> ie_kind e \<noteq> ''closed''))
              (Leaf ErrControlRecordTooBig))])
        (Inr r)))"

definition commit_record :: "commit_answer \<Rightarrow> interaction_record \<Rightarrow> journal \<Rightarrow> error option \<times> journal" where
  "commit_record answer r j = (case answer of
     Committed \<Rightarrow> (None, j\<lparr>jn_records := jn_records j @ [r], jn_durable := Suc (length (jn_records j))\<rparr>)
   | Left_visible e \<Rightarrow> (Some e, j\<lparr>jn_records := jn_records j @ [r]\<rparr>)
   | Not_committed e \<Rightarrow> (Some e, j))"

definition appendInteraction ::
  "journal_env \<Rightarrow> journal \<Rightarrow> snapshot_state \<Rightarrow> interaction_event \<Rightarrow> error option \<times> journal" where
  "appendInteraction en j s event = (case checked_append j s event of
     Inl e \<Rightarrow> (Some e, j)
   | Inr r \<Rightarrow> commit_record (je_commit en) r j)"

section \<open>Operations\<close>

text \<open>\<open>withInteraction\<close>: the errors of unlocking and closing are joined to the body's.\<close>

definition locked :: "journal_env \<Rightarrow> journal \<Rightarrow> (error option \<times> journal \<times> 'a) \<Rightarrow> 'a \<Rightarrow> error option \<times> journal \<times> 'a" where
  "locked en j body nothing = (case je_lock en of
     Some e \<Rightarrow> (Some e, j, nothing)
   | None \<Rightarrow> (case body of (err, j', x) \<Rightarrow>
       (errors_join [errors_join [err, je_unlock en], je_close en], j', x)))"

definition runner_error :: "journal_env \<Rightarrow> error option" where
  "runner_error en = first_error [je_owned en, require (\<not> je_sealed en) (Leaf ErrEvidenceFault)]"

definition interactionDeadlineOpen :: "task_facts \<Rightarrow> int \<Rightarrow> interaction_state \<Rightarrow> error option" where
  "interactionDeadlineOpen f budget s = (case tf_started f of
     Inl e \<Rightarrow> Some (if errors_is e ErrNotExist then Leaf ErrInteractionUnavailable else e)
   | Inr (started, diagnostic) \<Rightarrow>
       (case time_parse started of
          Inl e \<Rightarrow> Some e
        | Inr t \<Rightarrow>
            (case (if st_deadline s \<noteq> [] then time_parse (st_deadline s) else Inr (add_ns t (budget - diagnostic))) of
               Inl e \<Rightarrow> Some e
             | Inr deadline \<Rightarrow> require (before (tf_now f) deadline) (Leaf ErrInteractionClosed))))"

definition entry_absent :: "error + bool \<Rightarrow> error \<Rightarrow> error option" where
  "entry_absent answer e = (case answer of Inl x \<Rightarrow> Some x | Inr found \<Rightarrow> require (\<not> found) e)"

definition interactionOpen :: "task_facts \<Rightarrow> interaction_state \<Rightarrow> error option" where
  "interactionOpen f s = (case first_error [entry_absent (tf_exit f) (Leaf ErrInteractionClosed),
       entry_absent (tf_outcome f) (Leaf ErrInteractionClosed)] of
     Some e \<Rightarrow> Some e
   | None \<Rightarrow> (case tf_prepared f of
       Inl e \<Rightarrow> Some e
     | Inr (interactive, budget) \<Rightarrow> first_error
         [require interactive (Leaf ErrInteractionUnavailable),
          (case tf_stops f of Inl e \<Rightarrow> Some e | Inr n \<Rightarrow> require (\<not> n > 0) (Leaf ErrInteractionClosed)),
          (case tf_start f of Inl e \<Rightarrow> Some e | Inr consumed \<Rightarrow> require consumed (Leaf ErrInteractionUnavailable)),
          (case tf_released f of Inl e \<Rightarrow> Some e | Inr released \<Rightarrow> require (\<not> released) (Leaf ErrInteractionClosed)),
          interactionDeadlineOpen f budget s]))"

definition RecordInteraction :: "journal_env \<Rightarrow> interaction_event \<Rightarrow> journal \<Rightarrow> error option \<times> journal" where
  "RecordInteraction en event j = (case runner_error en of
     Some e \<Rightarrow> (Some e, j)
   | None \<Rightarrow> (case locked en j (case interactionRecords (je_read en) j of
         Inl e \<Rightarrow> (Some e, j, ())
       | Inr (_, s) \<Rightarrow> (case appendInteraction en j s event of (err, j') \<Rightarrow> (err, j', ()))) () of
       (err, j', _) \<Rightarrow> (err, j')))"

text \<open>The observed state; on a failed read the source returns what was read so far, which is not used.\<close>

definition InteractionState :: "journal_env \<Rightarrow> journal \<Rightarrow> error + interaction_state" where
  "InteractionState en j = bind_result (interactionRecords (je_read en) j) (\<lambda>(_, s).
     if st_closed (ss_state s) then Inr (ss_state s)
     else case interactionOpen (je_facts en) (ss_state s) of
       None \<Rightarrow> Inr (ss_state s)
     | Some e \<Rightarrow>
         if errors_is e ErrInteractionClosed then Inr ((ss_state s)\<lparr>st_closed := True, st_pending := []\<rparr>)
         else if \<not> errors_is e ErrInteractionUnavailable then Inl e
         else Inr (ss_state s))"

text \<open>
  \<open>InteractionEvents\<close>: the arguments of the loop are the events after \<open>end\<close>, how many the page has and
  their bytes; the page is the events taken.
\<close>

fun page_events :: "nat \<Rightarrow> int \<Rightarrow> interaction_event list \<Rightarrow> interaction_event list" where
  "page_events n bytes [] = []"
| "page_events n bytes (e # es) =
     (let size_e = encoded_length (event_json e) in
      if n \<ge> 100 \<or> n > 0 \<and> bytes + size_e + 1 > interactionPageBytes then []
      else e # page_events (Suc n) (bytes + size_e + 1) es)"

definition InteractionEvents ::
  "journal_env \<Rightarrow> 64 word \<Rightarrow> journal \<Rightarrow> error + interaction_event list \<times> 64 word" where
  "InteractionEvents en start j = bind_result (interactionRecords (je_read en) j) (\<lambda>(events, s).
     if start > st_cursor (ss_state s) then Inl (Leaf ErrInteractionRequest)
     else let page = page_events 0 0 (drop (unat start) events) in Inr (page, start + of_nat (length page)))"

fun interactionReplay ::
  "interaction_message \<Rightarrow> interaction_event list \<Rightarrow> interaction_state \<Rightarrow> (error + interaction_delivery) option" where
  "interactionReplay m [] s = None"
| "interactionReplay m (e # es) s = (case ie_message e of
     None \<Rightarrow> interactionReplay m es s
   | Some x \<Rightarrow>
       if im_id x \<noteq> im_id m then interactionReplay m es s
       else if MarshalCanonical (message_json (m\<lparr>im_turn_id := im_turn_id x\<rparr>)) \<noteq> MarshalCanonical (message_json x)
         then Some (Inl (Leaf ErrInteractionConflict))
       else (case find (\<lambda>d. dv_message_id d = im_id m) (st_deliveries s) of
           Some d \<Rightarrow> Some (Inr d) | None \<Rightarrow> Some (Inl (Leaf ErrEvidenceFault))))"

definition interactionReplyExists :: "interaction_message \<Rightarrow> interaction_event list \<Rightarrow> bool" where
  "interactionReplyExists m es \<longleftrightarrow> im_kind m = ''reply'' \<and>
     list_ex (\<lambda>e. case ie_message e of None \<Rightarrow> False
       | Some x \<Rightarrow> im_kind x = ''reply'' \<and> im_request_id x = im_request_id m) es"

text \<open>A barrier that completes makes every visible record durable.\<close>

definition barrier_journal :: "journal_env \<Rightarrow> journal \<Rightarrow> error option \<times> journal" where
  "barrier_journal en j = (je_barrier en,
     if je_barrier en = None then j\<lparr>jn_durable := length (jn_records j)\<rparr> else j)"

definition no_receipt :: interaction_delivery where
  "no_receipt = \<lparr>dv_message_id = [], dv_state = [], dv_reason = []\<rparr>"

definition submit_body ::
  "journal_env \<Rightarrow> interaction_message \<Rightarrow> journal \<Rightarrow> error option \<times> journal \<times> interaction_delivery" where
  "submit_body en message j = (case interactionRecords (je_read en) j of
     Inl e \<Rightarrow> (Some e, j, no_receipt)
   | Inr (events, s) \<Rightarrow> (case interactionReplay message events (ss_state s) of
       Some (Inl e) \<Rightarrow> (Some e, j, no_receipt)
     | Some (Inr d) \<Rightarrow> (case barrier_journal en j of (err, j') \<Rightarrow> (err, j', d))
     | None \<Rightarrow>
         (let m = message\<lparr>im_turn_id := st_turn_id (ss_state s)\<rparr> in
          case first_error
            [interactionOpen (je_facts en) (ss_state s),
             ValidateInteractionMessage m (ss_state s),
             require (\<not> interactionReplyExists m events) (Leaf ErrInteractionConflict)] of
            Some e \<Rightarrow> (Some e, j, no_receipt)
          | None \<Rightarrow> (case appendInteraction en j s ((plain_event ''message'')\<lparr>ie_message := Some m\<rparr>) of
              (Some e, j') \<Rightarrow> (Some e, j', no_receipt)
            | (None, j') \<Rightarrow> (None, j', \<lparr>dv_message_id = im_id m, dv_state = ''queued'', dv_reason = []\<rparr>)))))"

definition SubmitInteraction ::
  "journal_env \<Rightarrow> interaction_message \<Rightarrow> journal \<Rightarrow> error option \<times> journal \<times> interaction_delivery" where
  "SubmitInteraction en message j = locked en j (submit_body en message j) no_receipt"

text \<open>
  The map of the source holds, for a repeated id, the state of its last delivery; ids do not repeat.
\<close>

definition queued_id :: "interaction_state \<Rightarrow> string \<Rightarrow> bool" where
  "queued_id s i = (case find (\<lambda>d. dv_message_id d = i) (rev (st_deliveries s)) of
     None \<Rightarrow> False | Some d \<Rightarrow> dv_state d = ''queued'')"

fun nextQueuedInteraction :: "interaction_event list \<Rightarrow> interaction_state \<Rightarrow> interaction_message option" where
  "nextQueuedInteraction [] s = None"
| "nextQueuedInteraction (e # es) s = (case ie_message e of
     None \<Rightarrow> nextQueuedInteraction es s
   | Some m \<Rightarrow> if queued_id s (im_id m) then Some m else nextQueuedInteraction es s)"

text \<open>The reason of a rejection is the text of the error, which is not modelled.\<close>

definition attempt_delivery :: "interaction_message \<Rightarrow> interaction_state \<Rightarrow> string \<Rightarrow> interaction_delivery" where
  "attempt_delivery m s reason =
     (if ValidateInteractionMessage m s \<noteq> None
      then \<lparr>dv_message_id = im_id m, dv_state = ''rejected'', dv_reason = reason\<rparr>
      else \<lparr>dv_message_id = im_id m, dv_state = ''unknown'',
            dv_reason = ''delivery attempted; native acknowledgement pending''\<rparr>)"

definition next_body ::
  "journal_env \<Rightarrow> string \<Rightarrow> journal \<Rightarrow> error option \<times> journal \<times> interaction_message option" where
  "next_body en reason j = (case interactionRecords (je_read en) j of
     Inl e \<Rightarrow> (Some e, j, None)
   | Inr (events, s) \<Rightarrow> (case interactionOpen (je_facts en) (ss_state s) of
       Some e \<Rightarrow> (Some e, j, None)
     | None \<Rightarrow>
         if st_closed (ss_state s) then (None, j, None)
         else (case nextQueuedInteraction events (ss_state s) of
             None \<Rightarrow> (None, j, None)
           | Some m \<Rightarrow>
               (let d = attempt_delivery m (ss_state s) reason in
                case appendInteraction en j s ((plain_event ''delivery'')\<lparr>ie_delivery := Some d\<rparr>) of
                  (Some e, j') \<Rightarrow> (Some e, j', None)
                | (None, j') \<Rightarrow> (None, j', if dv_state d \<noteq> ''rejected'' then Some m else None)))))"

definition NextInteraction ::
  "journal_env \<Rightarrow> string \<Rightarrow> journal \<Rightarrow> error option \<times> journal \<times> interaction_message option" where
  "NextInteraction en reason j = (case runner_error en of
     Some e \<Rightarrow> (Some e, j, None)
   | None \<Rightarrow> locked en j (next_body en reason j) None)"

text \<open>\<open>SealInteraction\<close>: the evidence is one line of JSON for each event of the closed journal.\<close>

definition evidence_bytes :: "interaction_event list \<Rightarrow> string" where
  "evidence_bytes es = concat (map (\<lambda>e. MarshalCanonical (event_json e)) es)"

definition seal_body :: "journal_env \<Rightarrow> journal \<Rightarrow> error option \<times> journal \<times> string option" where
  "seal_body en j = (case interactionRecords (je_read en) j of
     Inl e \<Rightarrow> (Some e, j, None)
   | Inr (events, s) \<Rightarrow>
       if st_closed (ss_state s) then (je_evidence en, j, Some (evidence_bytes events))
       else (case appendInteraction en j s (plain_event ''closed'') of
           (Some e, j') \<Rightarrow> (Some e, j', None)
         | (None, j') \<Rightarrow> (case interactionRecords (je_reread en) j' of
             Inl e \<Rightarrow> (Some e, j', None)
           | Inr (events', _) \<Rightarrow> (je_evidence en, j', Some (evidence_bytes events')))))"

definition SealInteraction :: "journal_env \<Rightarrow> journal \<Rightarrow> error option \<times> journal \<times> string option" where
  "SealInteraction en j = (case runner_error en of
     Some e \<Rightarrow> (Some e, j, None)
   | None \<Rightarrow> locked en j (seal_body en j) None)"

end
