(* ===== verification/Inter_Invariant.thy ===== *)
theory Inter_Invariant
  imports Inter_Journal
begin

text \<open>
  What holds of every interaction state and of every journal that the operations build: deliveries only
  advance, the state agrees with the messages of the journal, and a journal reads back as it was built.
\<close>

section \<open>Deliveries only advance\<close>

definition delivery_states :: "string set" where
  "delivery_states = {''queued'', ''unknown'', ''sent'', ''acknowledged'', ''rejected''}"

text \<open>An older and a newer list of deliveries: the older ones are still there, and none is queued again.\<close>

definition later :: "interaction_delivery \<Rightarrow> interaction_delivery \<Rightarrow> bool" where
  "later d d' \<longleftrightarrow> dv_message_id d' = dv_message_id d \<and> (dv_state d' = ''queued'' \<longrightarrow> dv_state d = ''queued'')"

definition moves_on :: "interaction_delivery list \<Rightarrow> interaction_delivery list \<Rightarrow> bool" where
  "moves_on ds ds' \<longleftrightarrow> (\<exists>new old. ds' = old @ new \<and> list_all2 later ds old)"

lemma later_refl [simp]: "later d d" by (simp add: later_def)

lemma later_trans: "later a b \<Longrightarrow> later b c \<Longrightarrow> later a c" by (auto simp: later_def)

lemma list_all2_later_refl [simp]: "list_all2 later ds ds"
  by (rule list_all2_refl) simp

lemma moves_onI: "list_all2 later ds old \<Longrightarrow> moves_on ds (old @ new)"
  by (auto simp: moves_on_def)

lemma moves_on_refl [simp]: "moves_on ds ds"
  using moves_onI [OF list_all2_later_refl, of ds "[]"] by simp

lemma moves_on_append [simp]: "moves_on ds (ds @ new)"
  by (rule moves_onI [OF list_all2_later_refl])

lemma moves_on_trans:
  assumes "moves_on a b" "moves_on b c"
  shows "moves_on a c"
proof -
  obtain n1 o1 where b: "b = o1 @ n1" "list_all2 later a o1" using assms(1) by (auto simp: moves_on_def)
  obtain n2 o2 where c: "c = o2 @ n2" "list_all2 later b o2" using assms(2) by (auto simp: moves_on_def)
  then obtain p q where pq: "o2 = p @ q" "list_all2 later o1 p" "list_all2 later n1 q"
    using b(1) by (auto simp: list_all2_append1)
  have "list_all2 later a p" using list_all2_trans [OF later_trans b(2) pq(2)] .
  then show ?thesis using c(1) pq(1) by (auto simp: moves_on_def)
qed

lemma moves_on_ids: "moves_on ds ds' \<Longrightarrow> \<exists>new. map dv_message_id ds' = map dv_message_id ds @ new"
  by (auto simp: moves_on_def later_def list_all2_conv_all_nth intro!: nth_equalityI)

definition settled :: "string \<Rightarrow> interaction_delivery list \<Rightarrow> bool" where
  "settled i ds \<longleftrightarrow> (\<exists>d \<in> set ds. dv_message_id d = i \<and> dv_state d \<noteq> ''queued'')"

lemma moves_on_settled: "moves_on ds ds' \<Longrightarrow> settled i ds \<Longrightarrow> settled i ds'"
  by (force simp: moves_on_def settled_def later_def list_all2_conv_all_nth in_set_conv_nth)

lemma update_delivery_Inr:
  assumes "update_delivery d ds = Inr ds'"
  shows "list_all2 later ds ds'" "settled (dv_message_id d) ds'"
    "set ds \<subseteq> {x. dv_state x \<in> delivery_states} \<Longrightarrow> set ds' \<subseteq> {x. dv_state x \<in> delivery_states}"
proof -
  have "list_all2 later ds ds' \<and> settled (dv_message_id d) ds' \<and>
    (set ds \<subseteq> {x. dv_state x \<in> delivery_states} \<longrightarrow> set ds' \<subseteq> {x. dv_state x \<in> delivery_states})"
    using assms
  proof (induction d ds arbitrary: ds' rule: update_delivery.induct)
    case (2 d p ps)
    show ?case
    proof (cases "dv_message_id p = dv_message_id d")
      case True
      then have "validInteractionDelivery (dv_state p) (dv_state d)" "ds' = d # ps"
        using "2.prems" by (auto split: if_splits)
      then have "ds' = d # ps" "later p d" "dv_state d \<noteq> ''queued''" "dv_state d \<in> delivery_states"
        using True by (auto simp: validInteractionDelivery_def later_def delivery_states_def split: if_splits)
      then show ?thesis by (auto simp: settled_def)
    next
      case False
      with 2 show ?thesis by (fastforce simp: bind_result_Inr_iff settled_def)
    qed
  qed simp
  then show "list_all2 later ds ds'" "settled (dv_message_id d) ds'"
    "set ds \<subseteq> {x. dv_state x \<in> delivery_states} \<Longrightarrow> set ds' \<subseteq> {x. dv_state x \<in> delivery_states}" by auto
qed

section \<open>States and events\<close>

definition event_message :: "interaction_event \<Rightarrow> interaction_message list" where
  "event_message e = (if ie_kind e = ''message'' then case ie_message e of None \<Rightarrow> [] | Some m \<Rightarrow> [m] else [])"

definition admitted :: "interaction_event list \<Rightarrow> interaction_message list" where
  "admitted es = concat (map event_message es)"

definition pending_ok :: "interaction_state \<Rightarrow> bool" where
  "pending_ok s \<longleftrightarrow> distinct (map iq_id (st_pending s)) \<and>
     (\<forall>r \<in> set (st_pending s). iq_turn_id r = st_turn_id s \<and> validateInteractionQuestions (iq_questions r) = None)"

definition state_ok :: "interaction_message list \<Rightarrow> interaction_state \<Rightarrow> bool" where
  "state_ok ms s \<longleftrightarrow>
     map dv_message_id (st_deliveries s) = map im_id ms \<and> distinct (map im_id ms)
     \<and> set (st_deliveries s) \<subseteq> {x. dv_state x \<in> delivery_states} \<and> pending_ok s
     \<and> (st_pending s \<noteq> [] \<longrightarrow> st_turn_id s \<noteq> [])
     \<and> (st_closed s \<longrightarrow> st_pending s = [] \<and> \<not> list_ex (\<lambda>d. dv_state d = ''queued'') (st_deliveries s))"

lemma initial_ok: "state_ok [] initial_state"
  by (simp add: state_ok_def initial_state_def pending_ok_def)

text \<open>The branches of an event that was applied.\<close>

lemma list_all2_later_ids: "list_all2 later ds ds' \<Longrightarrow> map dv_message_id ds' = map dv_message_id ds"
  by (auto simp: later_def list_all2_conv_all_nth intro!: nth_equalityI)

lemma later_close: "list_all2 later ds (map close_delivery ds)"
  by (auto simp: list_all2_conv_all_nth later_def close_delivery_def)

lemma close_not_queued: "dv_state (close_delivery d) \<noteq> ''queued''"
  by (simp add: close_delivery_def)

lemma close_states: "dv_state d \<in> delivery_states \<Longrightarrow> dv_state (close_delivery d) \<in> delivery_states"
  by (auto simp: close_delivery_def delivery_states_def)

lemma applied_event:
  assumes "applyInteractionEvent s e = Inr s'" "\<not> st_closed s" "state_ok ms s"
  shows "state_ok (ms @ event_message e) s' \<and> moves_on (st_deliveries s) (st_deliveries s')
    \<and> (st_closed s' \<longleftrightarrow> ie_kind e = ''closed'')"
proof -
  consider "ie_kind e = ''ready''" | "ie_kind e = ''request''" | "ie_kind e = ''resolved''"
    | "ie_kind e = ''message''" | "ie_kind e = ''delivery''" | "ie_kind e = ''closed''"
    using assms(1) by (auto simp: applyInteractionEvent_def split: if_splits)
  then show ?thesis
  proof cases
    case 1
    with assms show ?thesis
      by (auto simp: applyInteractionEvent_def state_ok_def pending_ok_def event_message_def check_then_Inr_iff
          split: option.splits if_splits)
  next
    case 2
    with assms show ?thesis
      by (auto simp: applyInteractionEvent_def applyInteractionRequest_def state_ok_def pending_ok_def
          event_message_def check_then_Inr_iff list_ex_iff split: option.splits if_splits) blast
  next
    case 3
    with assms show ?thesis
      by (auto simp: applyInteractionEvent_def state_ok_def pending_ok_def event_message_def
          distinct_map_filter split: if_splits)
  next
    case 4
    then obtain m where m: "ie_message e = Some m" "\<not> list_ex (\<lambda>d. dv_message_id d = im_id m) (st_deliveries s)"
        "s' = s\<lparr>st_deliveries := st_deliveries s @ [\<lparr>dv_message_id = im_id m, dv_state = ''queued'', dv_reason = []\<rparr>]\<rparr>"
      using assms(1) by (auto simp: applyInteractionEvent_def applyInteractionMessage_def check_then_Inr_iff
          split: option.splits if_splits)
    have "im_id m \<notin> set (map im_id ms)"
    proof -
      have "im_id m \<notin> set (map dv_message_id (st_deliveries s))" using m(2) by (auto simp: list_ex_iff)
      moreover have "map dv_message_id (st_deliveries s) = map im_id ms" using assms(3) by (simp add: state_ok_def)
      ultimately show ?thesis by argo
    qed
    with 4 m assms(2,3) show ?thesis
      by (auto simp: state_ok_def pending_ok_def event_message_def delivery_states_def)
  next
    case 5
    then obtain d ds where d: "ie_delivery e = Some d" "update_delivery d (st_deliveries s) = Inr ds"
        "s' = s\<lparr>st_deliveries := ds\<rparr>"
      using assms(1) by (auto simp: applyInteractionEvent_def applyInteractionDelivery_def bind_result_Inr_iff
          split: option.splits)
    note u = update_delivery_Inr [OF d(2)]
    have "map dv_message_id ds = map dv_message_id (st_deliveries s)" using list_all2_later_ids [OF u(1)] .
    moreover have "moves_on (st_deliveries s) ds" using u(1) by (auto simp: moves_on_def)
    ultimately show ?thesis
      using 5 d(3) u(3) assms(2,3) by (auto simp: state_ok_def pending_ok_def event_message_def)
  next
    case 6
    then have s': "s' = s\<lparr>st_closed := True, st_pending := [], st_deliveries := map close_delivery (st_deliveries s)\<rparr>"
      using assms(1) by (simp add: applyInteractionEvent_def)
    have "moves_on (st_deliveries s) (map close_delivery (st_deliveries s))"
      using later_close by (auto simp: moves_on_def)
    moreover have "map dv_message_id (st_deliveries s') = map im_id ms"
      using list_all2_later_ids [OF later_close, of "st_deliveries s"] assms(3) s'
      by (simp add: state_ok_def del: map_map)
    moreover have "set (st_deliveries s') \<subseteq> {x. dv_state x \<in> delivery_states}"
        "\<not> list_ex (\<lambda>d. dv_state d = ''queued'') (st_deliveries s')"
      using assms(3) s' close_states close_not_queued by (auto simp: state_ok_def list_ex_iff)
    ultimately show ?thesis
      using 6 s' assms(3) by (simp add: state_ok_def pending_ok_def event_message_def)
  qed
qed

lemma applied:
  assumes "ApplyInteractionEvent s e = Inr s'" "state_ok ms s"
  shows "state_ok (ms @ event_message e) s'" "moves_on (st_deliveries s) (st_deliveries s')"
    "st_closed s' \<longleftrightarrow> ie_kind e = ''closed''" "\<not> st_closed s" "st_cursor s' = st_cursor s + 1"
    "ie_sequence e = st_cursor s + 1"
proof -
  obtain u where u: "ie_sequence e = st_cursor s + 1" "\<not> st_closed s" "applyInteractionEvent s e = Inr u"
      "s' = u\<lparr>st_cursor := ie_sequence e\<rparr>"
    using assms(1) by (auto simp: ApplyInteractionEvent_def bind_result_Inr_iff split: if_splits)
  note a = applied_event [OF u(3,2) assms(2)]
  show "ie_sequence e = st_cursor s + 1" "\<not> st_closed s" "st_cursor s' = st_cursor s + 1" using u by simp_all
  show "state_ok (ms @ event_message e) s'" "moves_on (st_deliveries s) (st_deliveries s')"
    "st_closed s' \<longleftrightarrow> ie_kind e = ''closed''"
    using a u(4) by (simp_all add: state_ok_def pending_ok_def)
qed

section \<open>Built journals\<close>

text \<open>
  The records a journal gets from checked appends, with the snapshot after them. \<open>j\<close> gives the root and
  task of the records.
\<close>

inductive built :: "journal \<Rightarrow> interaction_record list \<Rightarrow> snapshot_state \<Rightarrow> bool" for j :: journal where
  built_Nil: "built j [] empty_snapshot"
| built_snoc: "built j rs s \<Longrightarrow> checked_append j s e = Inr r \<Longrightarrow>
    ApplyInteractionEvent (ss_state s) (ir_event r) = Inr st \<Longrightarrow>
    built j (rs @ [r]) \<lparr>ss_state = st, ss_bytes = ss_bytes s + record_length r\<rparr>"

lemma checked_append_Inr:
  assumes "checked_append j s event = Inr r"
  obtains st where "r = journal_record j (event\<lparr>ie_sequence := st_cursor (ss_state s) + 1\<rparr>)"
    "ApplyInteractionEvent (ss_state s) (ir_event r) = Inr st"
    "validateInteractionSnapshotSize st = None" "ie_kind (ir_event r) = ie_kind event"
    "st_cursor st \<le> maxInteractionRecords"
    "ss_bytes s + record_length r + (if ie_kind event = ''closed'' then 0 else interactionCloseReserve)
      \<le> maxInteractionBytes"
    "ie_kind event \<noteq> ''closed'' \<Longrightarrow> st_cursor st \<noteq> maxInteractionRecords"
  using assms
  by (auto simp: checked_append_def Let_def go_simps not_less journal_record_def)

text \<open>What reading and appending know of a built journal.\<close>

definition closable :: "snapshot_state \<Rightarrow> bool" where
  "closable s \<longleftrightarrow> validateInteractionSnapshotSize (ss_state s) = None
     \<and> (\<not> st_closed (ss_state s) \<longrightarrow> ss_bytes s + interactionCloseReserve \<le> maxInteractionBytes
         \<and> st_cursor (ss_state s) < maxInteractionRecords)"

definition snapshot_ok :: "interaction_record list \<Rightarrow> snapshot_state \<Rightarrow> bool" where
  "snapshot_ok rs s \<longleftrightarrow>
     state_ok (admitted (map ir_event rs)) (ss_state s) \<and> unat (st_cursor (ss_state s)) = length rs
     \<and> length rs \<le> 8192 \<and> ss_bytes s = sum_list (map record_length rs) \<and> ss_bytes s \<le> maxInteractionBytes
     \<and> (st_closed (ss_state s) \<longleftrightarrow> rs \<noteq> [] \<and> ie_kind (ir_event (last rs)) = ''closed'')"

lemma unat_cursor: "unat c = n \<Longrightarrow> n < 8192 \<Longrightarrow> unat (c + 1 :: 64 word) = n + 1"
  by (simp add: unat_word_ariths)

lemma record_length_nonneg: "0 \<le> record_length r"
  by (simp add: record_length_def encoded_length_def)

lemma built_ok: "built j rs s \<Longrightarrow> snapshot_ok rs s"
proof (induction rule: built.induct)
  case built_Nil
  then show ?case
    using initial_ok by (simp add: snapshot_ok_def empty_snapshot_def admitted_def maxInteractionBytes_def)
      (simp add: initial_state_def)
next
  case (built_snoc rs s e r st)
  obtain st' where c: "ApplyInteractionEvent (ss_state s) (ir_event r) = Inr st'"
    "st_cursor st' \<le> maxInteractionRecords"
    "ss_bytes s + record_length r + (if ie_kind e = ''closed'' then 0 else interactionCloseReserve)
      \<le> maxInteractionBytes"
    by (rule checked_append_Inr [OF built_snoc.hyps(2)]) blast
  then have st: "st_cursor st \<le> maxInteractionRecords" using built_snoc.hyps(3) by simp
  note a = applied [OF built_snoc.hyps(3)]
  have ok: "state_ok (admitted (map ir_event rs)) (ss_state s)" "unat (st_cursor (ss_state s)) = length rs"
      "length rs \<le> 8192" "ss_bytes s = sum_list (map record_length rs)"
    using built_snoc.IH by (simp_all add: snapshot_ok_def)
  have "unat (st_cursor st) \<le> 8192"
    using st by (simp add: word_le_nat_alt maxInteractionRecords_def)
  moreover have "unat (st_cursor st) = length rs + 1"
  proof (cases "length rs = 8192")
    case True
    then show ?thesis using a(5) [OF ok(1)] ok(2) by (simp add: unat_word_ariths)
  next
    case False
    then show ?thesis using a(5) [OF ok(1)] unat_cursor [OF ok(2)] ok(3) by simp
  qed
  ultimately show ?case
    using a(1,3) [OF ok(1)] ok(4) c(3)
    by (simp add: snapshot_ok_def admitted_def interactionCloseReserve_def split: if_splits)
qed

end
