(* ===== verification/Inter_Runs.thy ===== *)
theory Inter_Runs
  imports Inter_Invariant
begin

text \<open>
  Runs of the journal's operations, with crashes between them. A crash loses entries from the end of the
  journal, but none that a directory barrier made durable.
\<close>

section \<open>Reading back\<close>

abbreviation no_fault :: "nat \<Rightarrow> error option" where
  "no_fault \<equiv> \<lambda>_. None"

lemma read_no_fault:
  "read_records fault j k rs s = Inr s' \<Longrightarrow> read_records no_fault j k rs s = Inr s'"
  by (induction rs arbitrary: k s)
    (auto simp: check_then_Inr_iff bind_result_Inr_iff Let_def split: if_splits)

lemma read_snoc:
  "read_records no_fault j k (rs @ [r]) s =
     bind_result (read_records no_fault j k rs s) (read_records no_fault j (k + length rs) [r])"
proof (induction rs arbitrary: k s)
  case Nil
  then show ?case by simp
next
  case (Cons a rs)
  then show ?case
    by (auto simp: check_then_def Let_def bind_result_def split: sum.splits)
qed

lemma read_built: "built j rs s \<Longrightarrow> read_records no_fault j 1 rs empty_snapshot = Inr s"
proof (induction rule: built.induct)
  case built_Nil
  then show ?case by (simp add: check_then_def)
next
  case (built_snoc rs s e r st)
  have ok: "snapshot_ok (rs @ [r]) \<lparr>ss_state = st, ss_bytes = ss_bytes s + record_length r\<rparr>"
    using built_ok built.built_snoc [OF built_snoc.hyps] by blast
  have "ss_bytes s + record_length r \<le> maxInteractionBytes" "Suc (length rs) \<le> 8192"
    using ok by (simp_all add: snapshot_ok_def)
  moreover have "ir_schema r = SchemaVersion \<and> ir_root_id r = jn_root_id j \<and> ir_task_id r = jn_task_id j"
    by (rule checked_append_Inr [OF built_snoc.hyps(2)]) (simp add: journal_record_def)
  moreover have "ie_sequence (ir_event r) = of_nat (Suc (length rs))"
  proof -
    have "unat (st_cursor (ss_state s)) = length rs"
      using built_ok [OF built_snoc.hyps(1)] by (simp add: snapshot_ok_def)
    then have "st_cursor (ss_state s) = of_nat (length rs)" by (metis of_nat_unat ucast_id unsigned_word_eqI)
    then show ?thesis
      using built_snoc.hyps(3) by (auto simp: ApplyInteractionEvent_def split: if_splits)
  qed
  ultimately show ?case
    using built_snoc.IH built_snoc.hyps(3)
    by (simp add: read_snoc check_then_def Let_def maxInteractionRecords_def)
qed

lemma records_read:
  "built j (jn_records j) s \<Longrightarrow> interactionRecords no_fault j = Inr (map ir_event (jn_records j), s)"
  using read_built by (simp add: interactionRecords_def)

lemma records_built:
  assumes "built j (jn_records j) s" "interactionRecords fault j = Inr (events, s')"
  shows "s' = s" "events = map ir_event (jn_records j)"
proof -
  have "read_records fault j 1 (jn_records j) empty_snapshot = Inr s'" "events = map ir_event (jn_records j)"
    using assms(2) by (auto simp: interactionRecords_def bind_result_Inr_iff)
  then show "s' = s" "events = map ir_event (jn_records j)"
    using read_no_fault [of fault] read_built [OF assms(1)] by simp_all
qed

lemma built_unique: "built j rs s \<Longrightarrow> built j rs s' \<Longrightarrow> s' = s"
  using read_built [of j rs s] read_built [of j rs s'] by simp

lemma built_prefix:
  "built j rs s \<Longrightarrow> n \<le> length rs \<Longrightarrow>
    \<exists>s0. built j (take n rs) s0 \<and> moves_on (st_deliveries (ss_state s0)) (st_deliveries (ss_state s))"
proof (induction arbitrary: n rule: built.induct)
  case built_Nil
  then show ?case using built.built_Nil moves_on_refl by (metis take_Nil)
next
  case (built_snoc rs s e r st)
  have adv: "moves_on (st_deliveries (ss_state s)) (st_deliveries st)"
    using applied(2) [OF built_snoc.hyps(3)] built_ok [OF built_snoc.hyps(1)] by (auto simp: snapshot_ok_def)
  show ?case
  proof (cases "n = Suc (length rs)")
    case True
    then show ?thesis using built.built_snoc [OF built_snoc.hyps] by fastforce
  next
    case False
    then have n: "n \<le> length rs" using built_snoc.prems by simp
    obtain s0 where "built j (take n rs) s0" "moves_on (st_deliveries (ss_state s0)) (st_deliveries (ss_state s))"
      using built_snoc.IH [OF n] by blast
    then show ?thesis using moves_on_trans [OF _ adv] n by auto
  qed
qed

definition same_task :: "journal \<Rightarrow> journal \<Rightarrow> bool" where
  "same_task j j' \<longleftrightarrow> jn_root_id j' = jn_root_id j \<and> jn_task_id j' = jn_task_id j"

lemma built_same_task: "built j rs s \<Longrightarrow> same_task j j' \<Longrightarrow> built j' rs s"
proof (induction rule: built.induct)
  case (built_snoc rs s e r st)
  then have "checked_append j' s e = Inr r"
    by (simp add: checked_append_def journal_record_def same_task_def)
  then show ?case using built_snoc by (auto intro: built.built_snoc)
qed (rule built.built_Nil)

section \<open>What an operation does to a journal\<close>

text \<open>
  An operation keeps the records, or appends one that was checked against the snapshot of the journal. The
  records that a barrier covered are still covered.
\<close>

definition enlarges :: "journal \<Rightarrow> journal \<Rightarrow> bool" where
  "enlarges j j' \<longleftrightarrow> same_task j j' \<and> jn_durable j \<le> jn_durable j' \<and> jn_durable j' \<le> length (jn_records j')
     \<and> (jn_records j' = jn_records j
        \<or> (\<exists>s event r. built j (jn_records j) s \<and> checked_append j s event = Inr r
             \<and> jn_records j' = jn_records j @ [r]))"

definition journal_ok :: "journal \<Rightarrow> bool" where
  "journal_ok j \<longleftrightarrow> (\<exists>s. built j (jn_records j) s) \<and> jn_durable j \<le> length (jn_records j)"

lemma enlarges_refl: "journal_ok j \<Longrightarrow> enlarges j j"
  by (simp add: enlarges_def same_task_def journal_ok_def)

lemma appendInteraction_enlarges:
  assumes "journal_ok j" "built j (jn_records j) s" "appendInteraction en j s event = (err, j')"
  shows "enlarges j j'"
    "err = None \<Longrightarrow> (\<exists>r. checked_append j s event = Inr r \<and> jn_records j' = jn_records j @ [r]
       \<and> jn_durable j' = length (jn_records j'))"
  using assms
  by (auto simp: appendInteraction_def commit_record_def enlarges_def same_task_def journal_ok_def
      split: sum.splits commit_answer.splits)

lemma enlarges_ok:
  assumes "journal_ok j" "enlarges j j'"
  shows "journal_ok j'"
proof -
  have "\<exists>s. built j (jn_records j') s"
  proof (cases "jn_records j' = jn_records j")
    case True
    then show ?thesis using assms(1) by (auto simp: journal_ok_def)
  next
    case False
    then obtain s event r where r: "built j (jn_records j) s" "checked_append j s event = Inr r"
        "jn_records j' = jn_records j @ [r]"
      using assms(2) by (auto simp: enlarges_def)
    obtain st where "ApplyInteractionEvent (ss_state s) (ir_event r) = Inr st"
      by (rule checked_append_Inr [OF r(2)])
    then show ?thesis using built.built_snoc [OF r(1,2)] r(3) by metis
  qed
  then obtain s where "built j (jn_records j') s" by blast
  then have "built j' (jn_records j') s" using assms(2) built_same_task by (simp add: enlarges_def)
  then show ?thesis using assms(2) by (auto simp: journal_ok_def enlarges_def)
qed

text \<open>The common parts of the operations.\<close>

lemma locked_cases:
  assumes "locked en j body nothing = (err, j', x)"
  obtains "je_lock en \<noteq> None" "err \<noteq> None" "j' = j" "x = nothing"
  | e where "je_lock en = None" "body = (e, j', x)" "err = errors_join [errors_join [e, je_unlock en], je_close en]"
proof (cases "je_lock en")
  case None
  then show ?thesis using assms that(2) by (auto simp: locked_def split: prod.splits)
next
  case (Some e)
  then have "err = Some e \<and> j' = j \<and> x = nothing" using assms by (auto simp: locked_def)
  then show ?thesis using Some that(1) by simp
qed

lemma interactionRecords_ok:
  assumes "journal_ok j" "interactionRecords fault j = Inr (events, s)"
  shows "built j (jn_records j) s" "events = map ir_event (jn_records j)"
proof -
  obtain s' where s': "built j (jn_records j) s'" using assms(1) by (auto simp: journal_ok_def)
  show "built j (jn_records j) s" "events = map ir_event (jn_records j)"
    using s' records_built [OF s' assms(2)] by simp_all
qed

lemma locked_enlarges:
  assumes "locked en j body nothing = (err, j', x)" "journal_ok j" "\<And>e j' x. body = (e, j', x) \<Longrightarrow> enlarges j j'"
  shows "enlarges j j'"
  by (rule locked_cases [OF assms(1)]) (use assms(2,3) enlarges_refl in auto)

lemma barrier_enlarges: "journal_ok j \<Longrightarrow> barrier_journal en j = (err, j') \<Longrightarrow> enlarges j j'"
  by (auto simp: barrier_journal_def enlarges_def same_task_def journal_ok_def)

lemma RecordInteraction_enlarges:
  assumes "journal_ok j" "RecordInteraction en event j = (err, j')"
  shows "enlarges j j'"
proof (cases "runner_error en")
  case (Some e)
  then show ?thesis using assms enlarges_refl by (simp add: RecordInteraction_def)
next
  case None
  let ?body = "case interactionRecords (je_read en) j of
         Inl e \<Rightarrow> (Some e, j, ())
       | Inr (_, s) \<Rightarrow> (case appendInteraction en j s event of (err, j') \<Rightarrow> (err, j', ()))"
  have "locked en j ?body () = (err, j', ())"
    using None assms(2) by (auto simp: RecordInteraction_def split: prod.splits)
  then show ?thesis
    by (rule locked_enlarges [OF _ assms(1)])
      (auto split: sum.splits prod.splits intro: enlarges_refl appendInteraction_enlarges(1)
        dest: interactionRecords_ok(1) [OF assms(1)] simp: assms(1))
qed

lemma submit_body_enlarges:
  assumes "journal_ok j" "submit_body en m j = (err, j', d)"
  shows "enlarges j j'"
  using assms interactionRecords_ok [OF assms(1)]
  by (auto simp: submit_body_def Let_def intro: enlarges_refl barrier_enlarges appendInteraction_enlarges(1)
      split: sum.splits prod.splits option.splits)

lemma SubmitInteraction_enlarges:
  assumes "journal_ok j" "SubmitInteraction en m j = (err, j', d)"
  shows "enlarges j j'"
  using locked_enlarges [OF assms(2) [unfolded SubmitInteraction_def] assms(1)] submit_body_enlarges [OF assms(1)]
  by blast

lemma next_body_enlarges:
  assumes "journal_ok j" "next_body en reason j = (err, j', d)"
  shows "enlarges j j'"
  using assms interactionRecords_ok [OF assms(1)]
  by (auto simp: next_body_def Let_def intro: enlarges_refl appendInteraction_enlarges(1)
      split: sum.splits prod.splits option.splits if_splits)

lemma NextInteraction_enlarges:
  assumes "journal_ok j" "NextInteraction en reason j = (err, j', d)"
  shows "enlarges j j'"
proof (cases "runner_error en")
  case None
  then show ?thesis
    using locked_enlarges [OF _ assms(1) next_body_enlarges [OF assms(1)]] assms(2)
    by (simp add: NextInteraction_def)
qed (use assms enlarges_refl in \<open>simp add: NextInteraction_def\<close>)

lemma seal_body_enlarges:
  assumes "journal_ok j" "seal_body en j = (err, j', d)"
  shows "enlarges j j'"
  using assms interactionRecords_ok [OF assms(1)]
  by (auto simp: seal_body_def Let_def intro: enlarges_refl appendInteraction_enlarges(1)
      split: sum.splits prod.splits option.splits if_splits)

lemma SealInteraction_enlarges:
  assumes "journal_ok j" "SealInteraction en j = (err, j', d)"
  shows "enlarges j j'"
proof (cases "runner_error en")
  case None
  then show ?thesis
    using locked_enlarges [OF _ assms(1) seal_body_enlarges [OF assms(1)]] assms(2)
    by (simp add: SealInteraction_def)
qed (use assms enlarges_refl in \<open>simp add: SealInteraction_def\<close>)

section \<open>Runs\<close>

datatype journal_op =
    Submit journal_env interaction_message
  | Next journal_env string
  | Record journal_env interaction_event
  | Seal journal_env
  | Crash nat

definition new_journal :: "string \<Rightarrow> string \<Rightarrow> journal" where
  "new_journal root task = \<lparr>jn_root_id = root, jn_task_id = task, jn_records = [], jn_durable = 0\<rparr>"

definition crash_journal :: "nat \<Rightarrow> journal \<Rightarrow> journal" where
  "crash_journal n j =
     j\<lparr>jn_records := take (max (jn_durable j) (length (jn_records j) - n)) (jn_records j)\<rparr>"

text \<open>One operation; the ids are those of the messages it hands to the provider.\<close>

fun journal_step :: "journal_op \<Rightarrow> journal \<Rightarrow> journal \<times> string list" where
  "journal_step (Submit en m) j = (case SubmitInteraction en m j of (_, j', _) \<Rightarrow> (j', []))"
| "journal_step (Next en reason) j = (case NextInteraction en reason j of
     (_, j', None) \<Rightarrow> (j', []) | (_, j', Some m) \<Rightarrow> (j', [im_id m]))"
| "journal_step (Record en event) j = (case RecordInteraction en event j of (_, j') \<Rightarrow> (j', []))"
| "journal_step (Seal en) j = (case SealInteraction en j of (_, j', _) \<Rightarrow> (j', []))"
| "journal_step (Crash n) j = (crash_journal n j, [])"

fun journal_run :: "journal_op list \<Rightarrow> journal \<Rightarrow> journal \<times> string list" where
  "journal_run [] j = (j, [])"
| "journal_run (op # ops) j = (case journal_step op j of (j', ids) \<Rightarrow>
     (case journal_run ops j' of (j'', later_ids) \<Rightarrow> (j'', ids @ later_ids)))"

lemma new_journal_ok: "journal_ok (new_journal root task)"
  using built.built_Nil by (auto simp: journal_ok_def new_journal_def)

lemma crash_ok:
  assumes "journal_ok j"
  shows "journal_ok (crash_journal n j)"
proof -
  let ?n = "max (jn_durable j) (length (jn_records j) - n)"
  obtain s where "built j (jn_records j) s" "jn_durable j \<le> length (jn_records j)"
    using assms by (auto simp: journal_ok_def)
  moreover from this have "?n \<le> length (jn_records j)" by simp
  ultimately obtain s0 where "built j (take ?n (jn_records j)) s0" using built_prefix by blast
  then have "built (crash_journal n j) (take ?n (jn_records j)) s0"
    by (rule built_same_task) (simp add: same_task_def crash_journal_def)
  then show ?thesis using \<open>jn_durable j \<le> _\<close> by (auto simp: journal_ok_def crash_journal_def)
qed

text \<open>Every step but a crash keeps or enlarges the journal.\<close>

lemma journal_step_cases:
  assumes "journal_ok j" "journal_step op j = (j', ids)"
  obtains "enlarges j j'" | n where "op = Crash n" "j' = crash_journal n j" "ids = []"
  using assms
  by (cases op) (auto split: prod.splits option.splits dest: SubmitInteraction_enlarges NextInteraction_enlarges
      RecordInteraction_enlarges SealInteraction_enlarges)

lemma journal_step_ok: "journal_ok j \<Longrightarrow> journal_step op j = (j', ids) \<Longrightarrow> journal_ok j'"
  using journal_step_cases [of j op j' ids] enlarges_ok [of j j'] crash_ok [of j] by metis

lemma journal_run_ok: "journal_ok j \<Longrightarrow> journal_ok (fst (journal_run ops j))"
proof (induction ops arbitrary: j)
  case (Cons op ops)
  then show ?case using journal_step_ok by (auto split: prod.splits) (metis fst_conv)
qed simp

lemma journal_step_same_task: "journal_ok j \<Longrightarrow> journal_step op j = (j', ids) \<Longrightarrow> same_task j j'"
  by (erule (1) journal_step_cases) (auto simp: enlarges_def same_task_def crash_journal_def)

lemma journal_run_same_task: "journal_ok j \<Longrightarrow> same_task j (fst (journal_run ops j))"
proof (induction ops arbitrary: j)
  case (Cons op ops)
  obtain j' ids where step: "journal_step op j = (j', ids)" by fastforce
  have "same_task j j'" "journal_ok j'"
    using journal_step_same_task [OF Cons.prems step] journal_step_ok [OF Cons.prems step] by simp_all
  then show ?case using Cons.IH [of j'] step by (auto simp: same_task_def split: prod.splits)
qed (simp add: same_task_def)

section \<open>Facts that last\<close>

text \<open>
  A fact about a journal and its snapshot that later records never undo. Once it holds of the durable
  records, it holds after every step, crashes included.
\<close>

locale lasting_fact =
  fixes holds :: "interaction_record list \<Rightarrow> snapshot_state \<Rightarrow> bool"
  assumes lasts: "built j rs s \<Longrightarrow> built j (take n rs) s0 \<Longrightarrow> holds (take n rs) s0 \<Longrightarrow> holds rs s"
begin

definition durably :: "journal \<Rightarrow> bool" where
  "durably j \<longleftrightarrow> (\<exists>s. built j (take (jn_durable j) (jn_records j)) s
     \<and> holds (take (jn_durable j) (jn_records j)) s)"

lemma durably_now: "durably j \<Longrightarrow> built j (jn_records j) s \<Longrightarrow> holds (jn_records j) s"
  using lasts by (auto simp: durably_def)

lemma durably_built:
  "built j (jn_records j) s \<Longrightarrow> holds (jn_records j) s \<Longrightarrow> jn_durable j = length (jn_records j) \<Longrightarrow> durably j"
  by (auto simp: durably_def)

lemma durably_enlarges:
  assumes "durably j" "journal_ok j" "enlarges j j'"
  shows "durably j'"
proof -
  obtain s where s: "built j' (jn_records j') s" "jn_durable j' \<le> length (jn_records j')"
    using enlarges_ok [OF assms(2,3)] by (auto simp: journal_ok_def)
  obtain s' where s': "built j' (take (jn_durable j') (jn_records j')) s'" using built_prefix [OF s] by blast
  obtain s0 where s0: "built j (take (jn_durable j) (jn_records j)) s0"
      "holds (take (jn_durable j) (jn_records j)) s0"
    using assms(1) by (auto simp: durably_def)
  have "take (jn_durable j) (take (jn_durable j') (jn_records j')) = take (jn_durable j) (jn_records j)"
    using assms(2,3) by (auto simp: enlarges_def journal_ok_def)
  moreover have "built j' (take (jn_durable j) (jn_records j)) s0"
    using built_same_task [OF s0(1)] assms(3) by (simp add: enlarges_def)
  ultimately have "holds (take (jn_durable j') (jn_records j')) s'"
    using lasts [OF s', of "jn_durable j" s0] s0(2) by simp
  then show ?thesis using s' by (auto simp: durably_def)
qed

lemma durably_crash:
  assumes "durably j" "journal_ok j"
  shows "durably (crash_journal n j)"
proof -
  have "same_task j (crash_journal n j)" by (simp add: same_task_def crash_journal_def)
  moreover have "take (jn_durable j) (jn_records (crash_journal n j)) = take (jn_durable j) (jn_records j)"
    by (simp add: crash_journal_def min_def)
  ultimately show ?thesis
    using assms(1) built_same_task by (fastforce simp: durably_def crash_journal_def)
qed

lemma durably_step: "durably j \<Longrightarrow> journal_ok j \<Longrightarrow> journal_step op j = (j', ids) \<Longrightarrow> durably j'"
  using journal_step_cases [of j op j' ids] durably_enlarges [of j j'] durably_crash [of j] by metis

lemma durably_run: "durably j \<Longrightarrow> journal_ok j \<Longrightarrow> durably (fst (journal_run ops j))"
proof (induction ops arbitrary: j)
  case (Cons op ops)
  obtain j' ids where step: "journal_step op j = (j', ids)" by fastforce
  then show ?case
    using Cons.IH [of j'] durably_step [OF Cons.prems step] journal_step_ok [OF Cons.prems(2) step]
    by (auto split: prod.splits)
qed simp

end

end
