(* ===== verification/Inter_Closing.thy ===== *)
theory Inter_Closing
  imports Inter_Runs Go_Stamps
begin

text \<open>
  Every journal keeps enough room to close: the record of the closing event fits the reserve, and the state
  after it fits a response.
\<close>

section \<open>Lengths of encodings\<close>

definition plain_char :: "char \<Rightarrow> bool" where
  "plain_char c \<longleftrightarrow> 32 \<le> byte c \<and> byte c < 127 \<and> byte c \<notin> {34, 38, 60, 62, 92}"

lemma render_plain: "list_all plain_char s \<Longrightarrow> length (render_string s) = length s + 2"
proof -
  assume "list_all plain_char s"
  then have "length (concat (map escape_chunk (split_runes s))) = length s"
  proof (induction s)
    case (Cons c s)
    then have "plain_char c" by simp
    then have "split_runes (c # s) = (byte c, [c]) # split_runes s"
        "escape_chunk (byte c, [c]) = [c]"
      by (simp_all add: split_runes_ascii escape_chunk_def plain_char_def rune_error_def)
    with Cons show ?case by simp
  qed simp
  then show ?thesis by (simp add: render_string_def)
qed

lemma length_render_member: "length (render_string k @ CHR 0x3A # render v)
    = length (render_string k) + Suc (length (render v))"
  by simp

lemma length_join_comma: "length (join_comma xs) = sum_list (map length xs) + (length xs - 1)"
  by (induction xs rule: join_comma.induct) auto

text \<open>The length of an object is that of its members.\<close>

definition member_length :: "string \<times> json \<Rightarrow> nat" where
  "member_length m = length (render_string (fst m)) + length (render (snd m)) + 1"

lemma render_object_length:
  "length (render (JObj ms)) = sum_list (map member_length ms) + (length ms - 1) + 2"
proof -
  have "(length \<circ> (\<lambda>(k, v). render_string k @ CHR 0x3A # render v)) = member_length"
    by (auto simp: member_length_def)
  then show ?thesis by (simp add: length_join_comma)
qed

lemma lower_hex_plain: "lower_hex c \<Longrightarrow> plain_char c"
  by (auto simp: lower_hex_def digit_def plain_char_def less_eq_char_def)

lemma plain_names:
  "list_all plain_char ''schema_version''" "list_all plain_char ''root_id''" "list_all plain_char ''task_id''"
  "list_all plain_char ''event''" "list_all plain_char ''sequence''" "list_all plain_char ''kind''"
  "list_all plain_char ''closed''" "list_all plain_char ''capabilities''" "list_all plain_char ''clarification''"
  "list_all plain_char ''steering''" "list_all plain_char ''pending_requests''"
  "list_all plain_char ''deliveries''" "list_all plain_char ''cursor''"
  by (simp_all add: plain_char_def)

lemmas render_names = plain_names [THEN render_plain]

lemma member_length_Pair: "member_length (k, v) = length (render_string k) + length (render v) + 1"
  by (simp add: member_length_def)

lemma cursor_length: "length (decimal (uint (c :: 64 word))) \<le> 20"
proof -
  have "unat c < 2 ^ LENGTH(64)" by (rule unsigned_less)
  then have "nat (uint c) < 10 ^ 20" by simp
  then have "length (decimal_of_nat (nat (uint c))) \<le> 20" by (rule decimal_length) simp
  then show ?thesis by (simp add: decimal_def)
qed

lemma closed_event_json:
  "event_json (closed_event s) = JObj [(''sequence'', int_json (uint (st_cursor s + 1))), (''kind'', JStr ''closed'')]"
  by (simp add: event_json_def closed_event_def plain_event_def omit_empty_string_def omit_nil_def)

lemma closed_record_fits:
  assumes "hexPattern (jn_root_id j)" "hexPattern (jn_task_id j)"
  shows "record_length (journal_record j (closed_event s)) \<le> interactionCloseReserve"
proof -
  have ids: "length (render_string (jn_root_id j)) = 34" "length (render_string (jn_task_id j)) = 34"
    using assms lower_hex_plain 
    by (auto simp: hexPattern_def list_all_iff render_plain)
  have "length (render (event_json (closed_event s))) \<le> 60"
    using cursor_length [of "st_cursor s + 1"]
    by (simp add: closed_event_json render_object_length member_length_Pair render_names int_json_def
        del: render.simps(6))
  then have "length (render (record_json (journal_record j (closed_event s)))) \<le> 300"
    by (simp add: record_json_def journal_record_def render_object_length member_length_Pair render_names
        ids int_json_def SchemaVersion_def decimal_def decimal_of_nat.simps del: render.simps(6))
  then show ?thesis
    by (simp add: record_length_def encoded_length_def MarshalCanonical_def interactionCloseReserve_def)
qed

section \<open>Room to close\<close>

lemma closing_applies:
  assumes "\<not> st_closed s"
  obtains st where "ApplyInteractionEvent s (closed_event s) = Inr st" "st_closed st"
    "st_cursor st = st_cursor s + 1"
  using assms that
  by (simp add: ApplyInteractionEvent_def applyInteractionEvent_def closed_event_def plain_event_def)

lemma empty_snapshot_fits:
  assumes "st_deadline s = []" "st_capabilities s = st_capabilities initial_state" "st_turn_id s = []"
    "st_pending s = []" "st_deliveries s = []"
  shows "snapshot_fits s = None"
proof -
  have capabilities: "capabilities_json (st_capabilities s)
      = JObj [(''clarification'', JBool False), (''steering'', JBool False)]"
    by (simp add: assms capabilities_json_def initial_state_def)
  have "length (render (capabilities_json (st_capabilities s))) \<le> 60"
    unfolding capabilities
    by (simp add: render_object_length member_length_Pair render_names del: render.simps(6))
  moreover have "snapshot_json s = JObj [(''capabilities'', capabilities_json (st_capabilities s)),
      (''pending_requests'', JArr []), (''deliveries'', JNull), (''cursor'', int_json (uint (st_cursor s))),
      (''closed'', JBool (st_closed s))]"
    by (simp add: snapshot_json_def assms omit_empty_string_def)
  ultimately have "length (render (snapshot_json s)) \<le> 200"
    using cursor_length [of "st_cursor s"]
    by (simp add: render_object_length member_length_Pair render_names int_json_def del: render.simps(6))
  then show ?thesis
    by (simp add: snapshot_fits_def encoded_length_def MarshalCanonical_def interactionStateBytes_def
        MaxControlRecordSize_def)
qed

lemma initial_fits: "validateInteractionSnapshotSize initial_state = None"
proof -
  have "ApplyInteractionEvent initial_state (closed_event initial_state)
      = Inr (initial_state\<lparr>st_closed := True, st_cursor := 1\<rparr>)"
    by (simp add: ApplyInteractionEvent_def applyInteractionEvent_def closed_event_def plain_event_def
        initial_state_def)
  moreover have "snapshot_fits initial_state = None"
    by (rule empty_snapshot_fits) (simp_all add: initial_state_def)
  moreover have "snapshot_fits (initial_state\<lparr>st_closed := True, st_cursor := 1\<rparr>) = None"
    by (rule empty_snapshot_fits) (simp_all add: initial_state_def)
  ultimately show ?thesis by (simp add: validateInteractionSnapshotSize_def)
qed

lemma built_closable: "built j rs s \<Longrightarrow> closable s"
proof (induction rule: built.induct)
  case built_Nil
  then show ?case
    using initial_fits
    by (simp add: closable_def empty_snapshot_def maxInteractionBytes_def interactionCloseReserve_def
        MaxControlRecordSize_def maxInteractionRecords_def)
      (simp add: initial_state_def)
next
  case (built_snoc rs s e r st)
  obtain st' where c: "ApplyInteractionEvent (ss_state s) (ir_event r) = Inr st'"
      "validateInteractionSnapshotSize st' = None" "ie_kind (ir_event r) = ie_kind e"
      "st_cursor st' \<le> maxInteractionRecords"
      "ss_bytes s + record_length r + (if ie_kind e = ''closed'' then 0 else interactionCloseReserve)
        \<le> maxInteractionBytes"
      "ie_kind e \<noteq> ''closed'' \<Longrightarrow> st_cursor st' \<noteq> maxInteractionRecords"
    by (rule checked_append_Inr [OF built_snoc.hyps(2)]) blast
  then have st: "st' = st" using built_snoc.hyps(3) by simp
  have "st_closed st \<longleftrightarrow> ie_kind e = ''closed''"
    using applied(3) [OF built_snoc.hyps(3)] built_ok [OF built_snoc.hyps(1)] c(3) by (auto simp: snapshot_ok_def)
  then show ?case using c(2,4-6) st by (auto simp: closable_def split: if_splits)
qed

lemma closing_append:
  assumes "built j rs s" "\<not> st_closed (ss_state s)" "hexPattern (jn_root_id j)" "hexPattern (jn_task_id j)"
  shows "checked_append j s (plain_event ''closed'') = Inr (journal_record j (closed_event (ss_state s)))"
proof -
  have cl: "closable s" by (rule built_closable [OF assms(1)])
  obtain st where st: "ApplyInteractionEvent (ss_state s) (closed_event (ss_state s)) = Inr st" "st_closed st"
      "st_cursor st = st_cursor (ss_state s) + 1"
    by (rule closing_applies [OF assms(2)])
  have fits: "validateInteractionSnapshotSize st = None"
    using cl st assms(2) by (simp add: closable_def validateInteractionSnapshotSize_def split: option.splits)
  have len: "record_length (journal_record j (closed_event (ss_state s))) \<le> 512"
    using closed_record_fits [OF assms(3,4)] by (simp add: interactionCloseReserve_def)
  have room: "ss_bytes s + 512 \<le> maxInteractionBytes" "st_cursor (ss_state s) < maxInteractionRecords"
    using cl assms(2) by (simp_all add: closable_def interactionCloseReserve_def)
  have cursor: "st_cursor st \<le> maxInteractionRecords"
    using room(2) st(3) by (simp add: inc_le)
  have kind: "ie_kind (closed_event (ss_state s)) = ''closed''" by (simp add: closed_event_def plain_event_def)
  show ?thesis
    using st(1) fits len room(1) cursor kind
    by (simp add: checked_append_def Let_def closed_event_def [symmetric] interactionPageBytes_def
        MaxControlRecordSize_def not_less)
qed

end
