(* ===== verification/Inter_Sample.thy ===== *)
theory Inter_Sample
  imports Inter_Closing
begin

text \<open>A task with a running provider, and a message that it accepts: the inputs of the witnesses.\<close>

section \<open>Bounds of encodings\<close>

lemma split_runes_chunk: "(r, bs) \<in> set (split_runes s) \<Longrightarrow> bs \<noteq> []"
proof (induction s rule: split_runes.induct)
  case (1 s)
  show ?case
  proof (cases "s = []")
    case False
    then show ?thesis using 1 decode_rune_width [OF False] by (auto simp: split_runes_nonempty)
  qed (use 1 in simp)
qed

lemma escape_chunk_bound: "bs \<noteq> [] \<Longrightarrow> length (escape_chunk (r, bs)) \<le> 6 * length bs"
  by (cases bs) (auto simp: escape_chunk_def)

lemma render_string_bound: "length (render_string s) \<le> 6 * length s + 2"
proof -
  have "length (concat (map escape_chunk cs)) \<le> 6 * length (concat (map snd cs))"
    if "\<forall>(r, bs) \<in> set cs. bs \<noteq> []" for cs
    using that
  proof (induction cs)
    case (Cons c cs)
    then show ?case using escape_chunk_bound [of "snd c" "fst c"] by (cases c) auto
  qed simp
  moreover have "\<forall>(r, bs) \<in> set (split_runes s). bs \<noteq> []" using split_runes_chunk by blast
  ultimately show ?thesis by (fastforce simp: render_string_def split_runes_concat)
qed

fun json_bound :: "json \<Rightarrow> nat" where
  "json_bound JNull = 4"
| "json_bound (JBool b) = 5"
| "json_bound (JNum n) = length n"
| "json_bound (JStr s) = 6 * length s + 2"
| "json_bound (JArr vs) = 2 + length vs + sum_list (map json_bound vs)"
| "json_bound (JObj ms) = 2 + sum_list (map (\<lambda>(k, v). 6 * length k + 4 + json_bound v) ms)"

lemma render_bound: "length (render v) \<le> json_bound v"
proof (induction v rule: json_bound.induct)
  case (5 vs)
  then have "sum_list (map (length \<circ> render) vs) \<le> sum_list (map json_bound vs)"
    by (intro sum_list_mono) simp
  then show ?case by (simp add: length_join_comma)
next
  case (6 ms)
  have "sum_list (map member_length ms) + length ms
      \<le> sum_list (map (\<lambda>(k, v). 6 * length k + 4 + json_bound v) ms)"
    using 6
  proof (induction ms)
    case (Cons m ms)
    obtain k v where m: "m = (k, v)" by fastforce
    have "length (render v) \<le> json_bound v" using Cons.prems m by (metis list.set_intros(1))
    then have "member_length m + 1 \<le> 6 * length k + 4 + json_bound v"
      using render_string_bound [of k] by (simp add: m member_length_def)
    moreover have "sum_list (map member_length ms) + length ms
        \<le> sum_list (map (\<lambda>(k, v). 6 * length k + 4 + json_bound v) ms)"
      by (rule Cons.IH) (rule Cons.prems [OF list.set_intros(2)])
    ultimately show ?case by (simp only: list.map sum_list.Cons list.size m prod.case)
  qed simp
  then show ?case by (simp add: render_object_length del: render.simps)
qed (use render_string_bound in simp_all)

lemma encoded_length_bound: "encoded_length v \<le> int (json_bound v) + 1"
  using render_bound [of v] by (simp add: encoded_length_def MarshalCanonical_def)

lemma snapshot_fits_bound: "json_bound (snapshot_json s) \<le> 100000 \<Longrightarrow> snapshot_fits s = None"
  using encoded_length_bound [of "snapshot_json s"]
  by (simp add: snapshot_fits_def interactionStateBytes_def MaxControlRecordSize_def)

text \<open>An append far below every limit.\<close>

lemma small_append:
  assumes "ApplyInteractionEvent (ss_state s) (e\<lparr>ie_sequence := st_cursor (ss_state s) + 1\<rparr>) = Inr st"
    "ApplyInteractionEvent st (closed_event st) = Inr st'" "\<not> st_closed st" "ie_kind e \<noteq> ''closed''"
    "json_bound (record_json (journal_record j (e\<lparr>ie_sequence := st_cursor (ss_state s) + 1\<rparr>))) \<le> 100000"
    "json_bound (snapshot_json st) \<le> 100000" "json_bound (snapshot_json st') \<le> 100000"
    "ss_bytes s \<le> 1000000" "st_cursor st < 8192"
  shows "checked_append j s e = Inr (journal_record j (e\<lparr>ie_sequence := st_cursor (ss_state s) + 1\<rparr>))"
    "record_length (journal_record j (e\<lparr>ie_sequence := st_cursor (ss_state s) + 1\<rparr>)) \<le> 100001"
proof -
  let ?r = "journal_record j (e\<lparr>ie_sequence := st_cursor (ss_state s) + 1\<rparr>)"
  show len: "record_length ?r \<le> 100001"
    using encoded_length_bound [of "record_json ?r"] assms(5) by (simp add: record_length_def)
  have "validateInteractionSnapshotSize st = None"
    using assms(2,3) snapshot_fits_bound [OF assms(6)] snapshot_fits_bound [OF assms(7)]
    by (simp add: validateInteractionSnapshotSize_def)
  then show "checked_append j s e = Inr ?r"
    using assms(1,4,8,9) len less_imp_le [OF assms(9)] less_imp_neq [OF assms(9)]
    by (auto simp: not_less checked_append_def Let_def interactionPageBytes_def maxInteractionBytes_def
        interactionCloseReserve_def MaxControlRecordSize_def maxInteractionRecords_def)
qed

section \<open>The sample\<close>

definition journal_root :: string where "journal_root = replicate 32 CHR ''a''"
definition journal_task :: string where "journal_task = replicate 32 CHR ''b''"

lemma journal_ids: "hexPattern journal_root" "hexPattern journal_task"
  by (simp_all add: hexPattern_def journal_root_def journal_task_def list_all_iff lower_hex_def digit_def
      less_eq_char_def)

definition journal_started :: string where "journal_started = ''2026-01-02T03:04:05Z''"

definition journal_facts :: task_facts where
  "journal_facts = \<lparr>tf_exit = Inr False, tf_outcome = Inr False, tf_prepared = Inr (True, 3600000000000),
     tf_stops = Inr 0, tf_start = Inr True, tf_released = Inr False, tf_started = Inr (journal_started, 0),
     tf_now = (case time_parse journal_started of Inr t \<Rightarrow> t | Inl _ \<Rightarrow> utc_time 0)\<rparr>"

definition calm_env :: journal_env where
  "calm_env = \<lparr>je_owned = None, je_sealed = False, je_lock = None, je_unlock = None, je_close = None,
     je_read = no_fault, je_reread = no_fault, je_commit = Committed, je_barrier = None, je_evidence = None,
     je_facts = journal_facts\<rparr>"

lemma journal_started_parses: "\<exists>t. time_parse journal_started = Inr t"
proof -
  have "(case time_parse journal_started of Inr t \<Rightarrow> True | Inl _ \<Rightarrow> False)" by code_simp
  then show ?thesis by (auto split: sum.splits)
qed

lemma calm_open: "st_deadline s = [] \<Longrightarrow> interactionOpen journal_facts s = None"
  using journal_started_parses
  by (auto simp: interactionOpen_def interactionDeadlineOpen_def journal_facts_def entry_absent_def before_def
      add_ns_def)

definition ready_event :: interaction_event where
  "ready_event = (plain_event ''ready'')\<lparr>ie_turn_id := ''turn'',
     ie_capabilities := Some \<lparr>ca_modes = [], ca_clarification = True, ca_steering = True\<rparr>\<rparr>"

definition steer_message :: interaction_message where
  "steer_message = \<lparr>im_id = journal_root, im_kind = ''steer'', im_request_id = [], im_turn_id = [],
     im_answers = [], im_text = ''go''\<rparr>"

definition ready_state :: interaction_state where
  "ready_state = \<lparr>st_deadline = [],
     st_capabilities = \<lparr>ca_modes = [], ca_clarification = True, ca_steering = True\<rparr>,
     st_turn_id = ''turn'', st_pending = [], st_deliveries = [], st_cursor = 1, st_closed = False\<rparr>"

definition ready_record :: interaction_record where
  "ready_record = \<lparr>ir_schema = SchemaVersion, ir_root_id = journal_root, ir_task_id = journal_task,
     ir_event = ready_event\<lparr>ie_sequence := 1\<rparr>\<rparr>"

definition ready_journal :: journal where
  "ready_journal = \<lparr>jn_root_id = journal_root, jn_task_id = journal_task, jn_records = [ready_record],
     jn_durable = 1\<rparr>"

lemmas encodings = record_json_def event_json_def snapshot_json_def capabilities_json_def message_json_def
  delivery_json_def omit_empty_string_def omit_nil_def int_json_def

lemma decimal_lengths: "length (decimal 1) = 1" "length (decimal 2) = 1" "length (decimal 3) = 1"
  by (simp_all add: decimal_def decimal_of_nat.simps)

lemma id_lengths: "length journal_root = 32" "length journal_task = 32"
  by (simp_all add: journal_root_def journal_task_def)

lemma ready_applies:
  "ApplyInteractionEvent initial_state (ready_event\<lparr>ie_sequence := 1\<rparr>) = Inr ready_state"
  by (simp add: ApplyInteractionEvent_def applyInteractionEvent_def ready_event_def plain_event_def
      initial_state_def ready_state_def)

lemma ready_appends:
  "checked_append (new_journal journal_root journal_task) empty_snapshot ready_event = Inr ready_record"
  "record_length ready_record \<le> 100001"
proof -
  let ?j = "new_journal journal_root journal_task"
  have c: "st_cursor (ss_state empty_snapshot) + 1 = 1" "ss_state empty_snapshot = initial_state"
    by (simp_all add: empty_snapshot_def initial_state_def)
  have r: "journal_record ?j (ready_event\<lparr>ie_sequence := 1\<rparr>) = ready_record"
    by (simp add: journal_record_def new_journal_def ready_record_def)
  have closing: "ApplyInteractionEvent ready_state (closed_event ready_state)
      = Inr (ready_state\<lparr>st_closed := True, st_cursor := 2\<rparr>)"
    by (simp add: ApplyInteractionEvent_def applyInteractionEvent_def closed_event_def plain_event_def
        ready_state_def)
  have "json_bound (record_json ready_record) \<le> 100000"
    by (simp add: encodings ready_record_def ready_event_def plain_event_def SchemaVersion_def decimal_lengths
        id_lengths)
  moreover have "json_bound (snapshot_json ready_state) \<le> 100000"
    by (simp add: encodings ready_state_def decimal_lengths)
  moreover have "json_bound (snapshot_json (ready_state\<lparr>st_closed := True, st_cursor := 2\<rparr>)) \<le> 100000"
    by (simp add: encodings ready_state_def decimal_lengths)
  ultimately show "checked_append ?j empty_snapshot ready_event = Inr ready_record"
      "record_length ready_record \<le> 100001"
    using small_append [of empty_snapshot ready_event ready_state _ ?j] ready_applies closing c r
    by (simp_all add: ready_state_def ready_event_def plain_event_def empty_snapshot_def)
qed

lemma ready_run: "fst (journal_run [Record calm_env ready_event] (new_journal journal_root journal_task)) = ready_journal"
  using ready_appends(1)
  by (simp add: RecordInteraction_def runner_error_def calm_env_def locked_def errors_join_None_iff
      interactionRecords_def new_journal_def appendInteraction_def commit_record_def ready_journal_def
      split: prod.splits)

definition steer_sent :: interaction_message where
  "steer_sent = steer_message\<lparr>im_turn_id := ''turn''\<rparr>"

definition steer_record :: interaction_record where
  "steer_record = \<lparr>ir_schema = SchemaVersion, ir_root_id = journal_root, ir_task_id = journal_task,
     ir_event = (plain_event ''message'')\<lparr>ie_message := Some steer_sent, ie_sequence := 2\<rparr>\<rparr>"

definition steer_state :: interaction_state where
  "steer_state = ready_state\<lparr>st_deliveries := [\<lparr>dv_message_id = journal_root, dv_state = ''queued'',
     dv_reason = []\<rparr>], st_cursor := 2\<rparr>"

lemma go_text: "trim_space ''go'' = ''go''" "valid_string ''go''"
  by (simp_all add: trim_space_def valid_string_def split_runes_ascii is_space_def rune_error_def)

lemma steer_valid: "ValidateInteractionMessage steer_sent ready_state = None"
  using journal_ids go_text
  by (simp add: ValidateInteractionMessage_def validateInteractionSteer_def steer_sent_def steer_message_def
      ready_state_def ValidateTaskID_def MaxBriefSize_def)

lemma steer_appends:
  "checked_append ready_journal \<lparr>ss_state = ready_state, ss_bytes = record_length ready_record\<rparr>
     ((plain_event ''message'')\<lparr>ie_message := Some steer_sent\<rparr>) = Inr steer_record"
proof -
  let ?s = "\<lparr>ss_state = ready_state, ss_bytes = record_length ready_record\<rparr>"
  let ?e = "(plain_event ''message'')\<lparr>ie_message := Some steer_sent\<rparr>"
  let ?c = "steer_state\<lparr>st_closed := True, st_deliveries := map close_delivery (st_deliveries steer_state), st_cursor := 3\<rparr>"
  have c: "st_cursor ready_state + 1 = 2" by (simp add: ready_state_def)
  have r: "journal_record ready_journal (?e\<lparr>ie_sequence := 2\<rparr>) = steer_record"
    by (simp add: journal_record_def ready_journal_def steer_record_def)
  have "ApplyInteractionEvent ready_state (?e\<lparr>ie_sequence := 2\<rparr>) = Inr steer_state"
    using steer_valid c
    by (simp add: ApplyInteractionEvent_def applyInteractionEvent_def applyInteractionMessage_def plain_event_def)
      (simp add: ready_state_def steer_state_def steer_sent_def steer_message_def)
  moreover have "ApplyInteractionEvent steer_state (closed_event steer_state) = Inr ?c"
    by (simp add: ApplyInteractionEvent_def applyInteractionEvent_def closed_event_def plain_event_def
        ready_state_def steer_state_def)
  moreover have "json_bound (record_json steer_record) \<le> 100000"
    by (simp add: encodings steer_record_def steer_sent_def steer_message_def plain_event_def SchemaVersion_def
        decimal_lengths id_lengths)
  moreover have "json_bound (snapshot_json steer_state) \<le> 100000"
    by (simp add: encodings steer_state_def ready_state_def decimal_lengths id_lengths)
  moreover have "json_bound (snapshot_json ?c) \<le> 100000"
    by (simp add: encodings steer_state_def ready_state_def close_delivery_def decimal_lengths id_lengths)
  ultimately show ?thesis
    using small_append(1) [of ?s ?e steer_state ?c ready_journal] ready_appends(2) c r
    by (simp add: steer_state_def ready_state_def plain_event_def)
qed

text \<open>The message is accepted.\<close>

lemma steer_submitted:
  "SubmitInteraction calm_env steer_message ready_journal
     = (None, ready_journal\<lparr>jn_records := [ready_record, steer_record], jn_durable := 2\<rparr>,
        \<lparr>dv_message_id = journal_root, dv_state = ''queued'', dv_reason = []\<rparr>)"
proof -
  let ?s = "\<lparr>ss_state = ready_state, ss_bytes = record_length ready_record\<rparr>"
  let ?j = "new_journal journal_root journal_task"
  have "built ?j [ready_record] ?s"
    using built.built_snoc [OF built.built_Nil ready_appends(1)] ready_applies
    by (simp add: ready_record_def empty_snapshot_def)
  then have "built ready_journal (jn_records ready_journal) ?s"
    using built_same_task [of ?j "[ready_record]" ?s ready_journal]
    by (simp add: same_task_def new_journal_def ready_journal_def)
  then have read: "interactionRecords no_fault ready_journal = Inr ([ready_event\<lparr>ie_sequence := 1\<rparr>], ?s)"
    using records_read [of ready_journal ?s] by (simp add: ready_journal_def ready_record_def)
  have message: "steer_message\<lparr>im_turn_id := st_turn_id ready_state\<rparr> = steer_sent"
    by (simp add: steer_sent_def ready_state_def)
  have none: "ie_message ready_event = None" by (simp add: ready_event_def plain_event_def)
  let ?e = "(plain_event ''message'')\<lparr>ie_message := Some steer_sent\<rparr>"
  let ?j' = "ready_journal\<lparr>jn_records := [ready_record, steer_record], jn_durable := 2\<rparr>"
  have append: "appendInteraction calm_env ready_journal ?s ?e = (None, ?j')"
    using steer_appends by (simp add: appendInteraction_def commit_record_def calm_env_def ready_journal_def)
  have env: "je_read calm_env = no_fault" "je_facts calm_env = journal_facts" by (simp_all add: calm_env_def)
  have kind: "im_kind steer_sent = ''steer''" "im_id steer_sent = journal_root"
    by (simp_all add: steer_sent_def steer_message_def)
  have opened: "interactionOpen journal_facts ready_state = None"
    by (rule calm_open) (simp add: ready_state_def)
  have "submit_body calm_env steer_message ready_journal
     = (None, ?j', \<lparr>dv_message_id = journal_root, dv_state = ''queued'', dv_reason = []\<rparr>)"
    using read none message append steer_valid kind opened
    by (simp add: submit_body_def env Let_def interactionReplyExists_def)
  then show ?thesis by (simp add: SubmitInteraction_def locked_def calm_env_def errors_join_None_iff)
qed

end
