(* ===== verification/Inter_Properties.thy ===== *)
theory Inter_Properties
  imports Inter_Sample
begin

text \<open>
  The properties of the interaction journal over every run of its operations, with failures of the operating
  system at every point where the code meets one, and crashes between the operations.
\<close>

section \<open>Deliveries\<close>

lemma nextQueued_Some: "nextQueuedInteraction es s = Some m \<Longrightarrow> queued_id s (im_id m)"
  by (induction es) (auto split: option.splits if_splits)

lemma queued_not_settled:
  assumes "queued_id s i" "distinct (map dv_message_id (st_deliveries s))"
  shows "\<not> settled i (st_deliveries s)"
proof -
  obtain d where "find (\<lambda>d. dv_message_id d = i) (rev (st_deliveries s)) = Some d" "dv_state d = ''queued''"
    using assms(1) by (auto simp: queued_id_def split: option.splits)
  then have "d \<in> set (st_deliveries s)" "dv_message_id d = i"
    by (auto simp: find_Some_iff) (metis nth_mem rev_nth set_rev length_rev)
  then show ?thesis
    using assms(2) \<open>dv_state d = ''queued''\<close> by (auto simp: settled_def distinct_map dest: inj_onD)
qed

lemma delivery_settles:
  assumes "checked_append j s ((plain_event ''delivery'')\<lparr>ie_delivery := Some d\<rparr>) = Inr r"
    "ApplyInteractionEvent (ss_state s) (ir_event r) = Inr st"
  shows "settled (dv_message_id d) (st_deliveries st)"
proof -
  have r: "ir_event r = (plain_event ''delivery'')\<lparr>ie_delivery := Some d, ie_sequence := st_cursor (ss_state s) + 1\<rparr>"
    by (rule checked_append_Inr [OF assms(1)]) (simp add: journal_record_def)
  show ?thesis
    using assms(2) update_delivery_Inr(2) unfolding r
    by (auto simp: ApplyInteractionEvent_def applyInteractionEvent_def applyInteractionDelivery_def
        plain_event_def bind_result_Inr_iff split: if_splits)
qed

text \<open>What has been handed out is settled in the durable part of the journal.\<close>

definition settled_all :: "string set \<Rightarrow> interaction_record list \<Rightarrow> snapshot_state \<Rightarrow> bool" where
  "settled_all ids rs s \<longleftrightarrow> (\<forall>i \<in> ids. settled i (st_deliveries (ss_state s)))"

lemma built_moves_on:
  assumes "built j rs s" "built j (take n rs) s0"
  shows "moves_on (st_deliveries (ss_state s0)) (st_deliveries (ss_state s))"
proof (cases "n \<le> length rs")
  case True
  then show ?thesis using built_prefix [OF assms(1)] built_unique [OF assms(2)] by metis
next
  case False
  then have "s0 = s" using assms built_unique [OF assms(1)] by simp
  then show ?thesis by simp
qed

interpretation handed_out: lasting_fact "settled_all ids" for ids
  by unfold_locales (use built_moves_on moves_on_settled in \<open>fastforce simp: settled_all_def\<close>)

text \<open>A message handed out was not settled before, and is settled and durable afterwards.\<close>

lemma next_body_hands_out:
  assumes "journal_ok j" "next_body en reason j = (err, j', Some m)"
  shows "enlarges j j'" "jn_durable j' = length (jn_records j')"
    "\<exists>s. built j (jn_records j) s \<and> \<not> settled (im_id m) (st_deliveries (ss_state s))"
    "\<exists>s'. built j' (jn_records j') s' \<and> settled (im_id m) (st_deliveries (ss_state s'))"
proof -
  obtain events s d where n: "interactionRecords (je_read en) j = Inr (events, s)"
      "nextQueuedInteraction events (ss_state s) = Some m" "d = attempt_delivery m (ss_state s) reason"
      "appendInteraction en j s ((plain_event ''delivery'')\<lparr>ie_delivery := Some d\<rparr>) = (None, j')"
    using assms(2) by (auto simp: next_body_def Let_def split: sum.splits prod.splits option.splits if_splits)
  note b = interactionRecords_ok(1) [OF assms(1) n(1)]
  show "enlarges j j'" by (rule appendInteraction_enlarges(1) [OF assms(1) b n(4)])
  obtain r where r: "checked_append j s ((plain_event ''delivery'')\<lparr>ie_delivery := Some d\<rparr>) = Inr r"
      "jn_records j' = jn_records j @ [r]" "jn_durable j' = length (jn_records j')"
    using appendInteraction_enlarges(2) [OF assms(1) b n(4)] by auto
  show "jn_durable j' = length (jn_records j')" by (rule r(3))
  have "distinct (map dv_message_id (st_deliveries (ss_state s)))"
    using built_ok [OF b] by (simp add: snapshot_ok_def state_ok_def)
  then show "\<exists>s. built j (jn_records j) s \<and> \<not> settled (im_id m) (st_deliveries (ss_state s))"
    using b queued_not_settled nextQueued_Some [OF n(2)] by blast
  obtain st where st: "ApplyInteractionEvent (ss_state s) (ir_event r) = Inr st"
    by (rule checked_append_Inr [OF r(1)])
  have "dv_message_id d = im_id m" using n(3) by (simp add: attempt_delivery_def)
  then have "settled (im_id m) (st_deliveries st)" using delivery_settles [OF r(1) st] by simp
  moreover have "built j' (jn_records j') \<lparr>ss_state = st, ss_bytes = ss_bytes s + record_length r\<rparr>"
    using built_same_task [OF built.built_snoc [OF b r(1) st]] \<open>enlarges j j'\<close> r(2) by (simp add: enlarges_def)
  ultimately show "\<exists>s'. built j' (jn_records j') s' \<and> settled (im_id m) (st_deliveries (ss_state s'))"
    by fastforce
qed

lemma NextInteraction_hands_out:
  assumes "NextInteraction en reason j = (err, j', Some m)"
  obtains e where "next_body en reason j = (e, j', Some m)"
  using assms locked_cases [of en j "next_body en reason j" None err j' "Some m"]
  by (auto simp: NextInteraction_def split: option.splits)

lemma journal_step_hands_out:
  assumes "journal_ok j" "handed_out.durably ids j" "journal_step op j = (j', new)"
  shows "journal_ok j' \<and> handed_out.durably (ids \<union> set new) j' \<and> set new \<inter> ids = {} \<and> distinct new"
proof (cases "new = []")
  case True
  then show ?thesis
    using journal_step_ok [OF assms(1,3)] handed_out.durably_step [OF assms(2,1,3)] by simp
next
  case False
  then obtain en reason err m where m: "NextInteraction en reason j = (err, j', Some m)" "new = [im_id m]"
    using assms(3) by (cases op) (auto split: prod.splits option.splits)
  obtain e where e: "next_body en reason j = (e, j', Some m)" by (rule NextInteraction_hands_out [OF m(1)])
  note n = next_body_hands_out [OF assms(1) e]
  obtain s' where s': "built j' (jn_records j') s'" "settled (im_id m) (st_deliveries (ss_state s'))"
    using n(4) by blast
  have "settled_all ids (jn_records j') s'"
    using handed_out.durably_now [OF handed_out.durably_step [OF assms(2,1,3)] s'(1)] .
  then have "handed_out.durably (ids \<union> set new) j'"
    using handed_out.durably_built [OF s'(1)] s'(2) n(2) m(2) by (simp add: settled_all_def)
  moreover have "im_id m \<notin> ids"
    using n(3) handed_out.durably_now [OF assms(2)] by (auto simp: settled_all_def)
  ultimately show ?thesis using journal_step_ok [OF assms(1,3)] m(2) by simp
qed

lemma journal_run_hands_out:
  assumes "journal_ok j" "handed_out.durably ids j"
  shows "distinct (snd (journal_run ops j)) \<and> set (snd (journal_run ops j)) \<inter> ids = {}"
  using assms
proof (induction ops arbitrary: j ids)
  case (Cons op ops)
  obtain j' new where step: "journal_step op j = (j', new)" by fastforce
  note h = journal_step_hands_out [OF Cons.prems step]
  have "distinct (snd (journal_run ops j')) \<and> set (snd (journal_run ops j')) \<inter> (ids \<union> set new) = {}"
    using Cons.IH h by blast
  then show ?case using h step by (auto split: prod.splits)
qed simp

text \<open>C33: the interaction journal hands a message to the provider at most once. In every run of submissions,
  deliveries, recorded events, seals and crashes of a task, whatever the locks, reads, commits and task
  facts answer, the ids of the messages that \<open>NextInteraction\<close> returns are distinct: a message is recorded
  as attempted, durably, before it is returned, and an attempted message is never queued again.
\<close>

theorem messages_delivered_at_most_once:
  "distinct (snd (journal_run ops (new_journal root task)))"
proof -
  have "handed_out.durably {} (new_journal root task)"
    using built.built_Nil by (auto simp: handed_out.durably_def settled_all_def new_journal_def)
  then show ?thesis using journal_run_hands_out [OF new_journal_ok] by blast
qed

section \<open>Reading back\<close>


section \<open>Submissions\<close>

text \<open>The first message of the journal with an id, which a submission of that id is compared with.\<close>

definition has_message :: "string \<Rightarrow> interaction_event \<Rightarrow> bool" where
  "has_message i e \<longleftrightarrow> (case ie_message e of None \<Rightarrow> False | Some x \<Rightarrow> im_id x = i)"

definition first_message :: "string \<Rightarrow> interaction_event list \<Rightarrow> interaction_message option" where
  "first_message i es = (case find (has_message i) es of None \<Rightarrow> None | Some e \<Rightarrow> ie_message e)"

definition same_message :: "interaction_message \<Rightarrow> interaction_message \<Rightarrow> bool" where
  "same_message m x \<longleftrightarrow>
     MarshalCanonical (message_json (m\<lparr>im_turn_id := im_turn_id x\<rparr>)) = MarshalCanonical (message_json x)"

definition delivery_of :: "string \<Rightarrow> interaction_state \<Rightarrow> interaction_delivery option" where
  "delivery_of i s = find (\<lambda>d. dv_message_id d = i) (st_deliveries s)"


lemma find_appended: "find P (xs @ ys) = (case find P xs of None \<Rightarrow> find P ys | Some x \<Rightarrow> Some x)"
  by (induction xs) auto

lemma find_has_message: "find (has_message i) es = Some e \<Longrightarrow> \<exists>x. ie_message e = Some x \<and> im_id x = i"
  by (auto simp: find_Some_iff has_message_def split: option.splits)

lemma first_message_append:
  "first_message i (es @ es') = (case first_message i es of None \<Rightarrow> first_message i es' | Some x \<Rightarrow> Some x)"
  by (auto simp: first_message_def find_appended split: option.splits dest: find_has_message)

lemma delivery_of_iff: "delivery_of i s \<noteq> None \<longleftrightarrow> i \<in> set (map dv_message_id (st_deliveries s))"
  by (auto simp: delivery_of_def find_None_iff image_iff)

definition accepted :: "interaction_message \<Rightarrow> interaction_record list \<Rightarrow> snapshot_state \<Rightarrow> bool" where
  "accepted m rs s \<longleftrightarrow> (\<exists>x. first_message (im_id m) (map ir_event rs) = Some x \<and> same_message m x)
     \<and> delivery_of (im_id m) (ss_state s) \<noteq> None"

lemma accepted_lasts:
  assumes "built j rs s" "built j (take n rs) s0" "accepted m (take n rs) s0"
  shows "accepted m rs s"
proof -
  have "map ir_event rs = map ir_event (take n rs) @ map ir_event (drop n rs)"
    by (metis append_take_drop_id map_append)
  then have "first_message (im_id m) (map ir_event rs)
      = (case first_message (im_id m) (map ir_event (take n rs)) of
           None \<Rightarrow> first_message (im_id m) (map ir_event (drop n rs)) | Some x \<Rightarrow> Some x)"
    by (simp only: first_message_append)
  moreover obtain new where "map dv_message_id (st_deliveries (ss_state s))
      = map dv_message_id (st_deliveries (ss_state s0)) @ new"
    using moves_on_ids [OF built_moves_on [OF assms(1,2)]] by blast
  ultimately show ?thesis
    using assms(3) unfolding accepted_def delivery_of_iff by auto
qed

interpretation accepted: lasting_fact "accepted m" for m
  by unfold_locales (rule accepted_lasts)









section \<open>Closing\<close>



end
