(* ===== verification/Pub_Records.thy ===== *)
theory Pub_Records
  imports Life_Records
begin

text \<open>
  The records a publication is decided from: predicate references and identities
  (\<open>request_types.go\<close>, \<open>configuration.go\<close>), artifact declarations (\<open>launch_files.go\<close>), accounting
  (\<open>usage.go\<close>), diagnostics (\<open>recheck.go\<close>), and the seal and outcome with their validators
  (\<open>types.go\<close>). A 64-bit integer of a record is an \<open>int\<close>; a nil pointer is \<open>None\<close>.
\<close>

abbreviation ErrInvalidDiagnostic :: sentinel where "ErrInvalidDiagnostic \<equiv> Sentinel ''InvalidDiagnostic''"
abbreviation ErrInvalidRecheck :: sentinel where "ErrInvalidRecheck \<equiv> Sentinel ''InvalidRecheck''"

section \<open>Predicate references and runtime identities\<close>

record predicate_ref =
  pd_adapter :: string
  pd_mode :: string
  pd_version :: string
  pd_sha256 :: string

definition predicate_equal :: "predicate_ref \<Rightarrow> predicate_ref \<Rightarrow> bool" where
  "predicate_equal p q \<longleftrightarrow> pd_adapter p = pd_adapter q \<and> pd_mode p = pd_mode q \<and> pd_version p = pd_version q
     \<and> pd_sha256 p = pd_sha256 q"

definition predicate_json :: "predicate_ref \<Rightarrow> json" where
  "predicate_json p = JObj [(''adapter'', JStr (pd_adapter p)), (''mode'', JStr (pd_mode p)),
     (''version'', JStr (pd_version p)), (''sha256'', JStr (pd_sha256 p))]"

definition ValidatePredicateRef :: "predicate_ref \<Rightarrow> error option" where
  "ValidatePredicateRef p = first_error
     [ValidateProvider (pd_adapter p),
      require (pd_mode p \<noteq> []) (Opaque ''missing predicate mode''),
      ValidateMode (pd_mode p),
      require (nonblank (pd_version p)) (Opaque ''missing predicate version''),
      ValidateSHA256 (pd_sha256 p)]"

record runtime_identity =
  ru_executable :: string
  ru_version :: string
  ru_sha256 :: string

definition validateProviderRuntimeVersion :: "string \<Rightarrow> error option" where
  "validateProviderRuntimeVersion v = first_error
     [require (nonblank v) (Opaque ''provider runtime version must not be blank''),
      require (valid_string v) (Opaque ''provider runtime version must be valid UTF-8''),
      require (\<not> contains_control v) (Opaque ''provider runtime version contains control characters'')]"

definition ValidateProviderRuntimeIdentity :: "runtime_identity \<Rightarrow> error option" where
  "ValidateProviderRuntimeIdentity i =
     (if i = \<lparr>ru_executable = [], ru_version = [], ru_sha256 = []\<rparr> then None
      else first_error
        [require (is_abs (ru_executable i) \<and> path_clean (ru_executable i) = ru_executable i)
           (Opaque ''provider runtime executable must be a resolved absolute path''),
         (if ru_version i \<noteq> [] then validateProviderRuntimeVersion (ru_version i) else None),
         (if ru_sha256 i \<noteq> []
          then wrap_error ''provider runtime executable digest'' (ValidateSHA256 (ru_sha256 i)) else None)])"

definition ValidateProviderRuntimeEvidenceIdentity :: "runtime_identity \<Rightarrow> error option" where
  "ValidateProviderRuntimeEvidenceIdentity i = first_error
     [ValidateProviderRuntimeIdentity i,
      require (\<not> (ru_executable i \<noteq> [] \<and> length (ru_version i) > MaxProviderRuntimeEvidenceVersionBytes))
        (Wrap ''provider runtime version exceeds terminal evidence bound'' (Leaf ErrControlRecordTooBig))]"

section \<open>Artifacts\<close>

definition MaxOutputArtifacts :: nat where "MaxOutputArtifacts = 16"
definition MaxInputFiles :: nat where "MaxInputFiles = 16"
definition MaxInputBytes :: nat where "MaxInputBytes = 64 * 1024"
definition OutputWriterProcessExitEOF :: string where
  "OutputWriterProcessExitEOF = ''process-exit-eof-v1''"

definition artifact_first :: "char \<Rightarrow> bool" where
  "artifact_first c \<longleftrightarrow> CHR ''a'' \<le> c \<and> c \<le> CHR ''z'' \<or> digit c"

definition artifactNamePattern :: "string \<Rightarrow> bool" where
  "artifactNamePattern s \<longleftrightarrow> (case s of [] \<Rightarrow> False
     | c # t \<Rightarrow> artifact_first c \<and> length t \<le> 127
         \<and> list_all (\<lambda>x. artifact_first x \<or> x \<in> {CHR ''.'', CHR ''_'', CHR ''-''}) t)"

definition ValidateArtifactName :: "string \<Rightarrow> error option" where
  "ValidateArtifactName s = require
     (\<not> (\<not> artifactNamePattern s \<or> s = ''stdout'' \<or> s = ''stderr'' \<or> has_prefix ''stage.'' s))
     (Opaque ''invalid task artifact name'')"

record input_file =
  if_name :: string
  if_argument_index :: int
  if_content :: string

record output_artifact =
  oa_name :: string
  oa_argument_index :: int

fun check_inputs :: "nat \<Rightarrow> input_file list \<Rightarrow> error option" where
  "check_inputs bytes [] = None"
| "check_inputs bytes (f # fs) = first_error
     [ValidateArtifactName (if_name f),
      require (if_argument_index f \<ge> 0) (Opaque ''input file has a negative argument index''),
      require (valid_string (if_content f)) (Opaque ''input file contains invalid UTF-8''),
      require (bytes + length (if_content f) \<le> MaxInputBytes) (Opaque ''input file content exceeds the limit''),
      check_inputs (bytes + length (if_content f)) fs]"

text \<open>Sorting with distinct names has one result; with equal names the call fails.\<close>

definition NormalizeInputFiles :: "input_file list \<Rightarrow> error + input_file list" where
  "NormalizeInputFiles fs = check_then (first_error
     [require (length fs \<le> MaxInputFiles) (Opaque ''input file count exceeds the limit''),
      check_inputs 0 fs,
      require (distinct (map if_name fs)) (Opaque ''duplicate input file name'')])
     (Inr (sort_key if_name fs))"

definition check_output :: "output_artifact \<Rightarrow> error option" where
  "check_output a = first_error
     [ValidateArtifactName (oa_name a),
      require (oa_argument_index a \<ge> 0) (Opaque ''output artifact has a negative argument index'')]"

definition NormalizeOutputArtifacts :: "output_artifact list \<Rightarrow> error + output_artifact list" where
  "NormalizeOutputArtifacts as = check_then (first_error
     [require (length as \<le> MaxOutputArtifacts) (Opaque ''output artifact count exceeds the limit''),
      first_error (map check_output as),
      require (distinct (map oa_name as)) (Opaque ''duplicate output artifact name'')])
     (Inr (sort_key oa_name as))"

definition ValidateOutputWriterContract :: "string \<Rightarrow> error option" where
  "ValidateOutputWriterContract c = require (\<not> (c \<noteq> [] \<and> c \<noteq> OutputWriterProcessExitEOF))
     (Opaque ''unsupported output writer contract'')"

definition ValidateOutputArtifacts :: "output_artifact list \<Rightarrow> string \<Rightarrow> error option" where
  "ValidateOutputArtifacts as c = first_error
     [ValidateOutputWriterContract c,
      (case NormalizeOutputArtifacts as of
         Inl e \<Rightarrow> Some e
       | Inr normalized \<Rightarrow> first_error
           [require (\<not> (length normalized = 0 \<and> c \<noteq> []))
              (Opaque ''output writer contract requires at least one output artifact''),
            require (\<not> (length normalized > 0 \<and> c \<noteq> OutputWriterProcessExitEOF))
              (Opaque ''output artifacts require the process-exit-eof-v1 writer contract'')])]"

text \<open>The two loops over names and argument indices, as one over both lists.\<close>

fun binding_error :: "string list \<Rightarrow> int list \<Rightarrow> (string \<times> int) list \<Rightarrow> error option" where
  "binding_error names indices [] = None"
| "binding_error names indices ((n, i) # bs) =
     (if n \<in> set names then Some (Opaque ''input/output artifact name shadows'')
      else if i \<in> set indices then Some (Opaque ''argv index is shared'')
      else binding_error (n # names) (i # indices) bs)"

definition ValidateInputOutputBindings :: "input_file list \<Rightarrow> output_artifact list \<Rightarrow> error option" where
  "ValidateInputOutputBindings ins outs = error_of
     (bind_result (NormalizeInputFiles ins) (\<lambda>ni. bind_result (NormalizeOutputArtifacts outs) (\<lambda>no.
        check_then (binding_error [] []
          (map (\<lambda>f. (if_name f, if_argument_index f)) ni @ map (\<lambda>a. (oa_name a, oa_argument_index a)) no))
          (Inr ()))))"

definition CompareInputFiles :: "input_file list \<Rightarrow> input_file list \<Rightarrow> bool" where
  "CompareInputFiles l r \<longleftrightarrow> list_all2 (\<lambda>a b. if_name a = if_name b
     \<and> if_argument_index a = if_argument_index b \<and> if_content a = if_content b) l r"

definition CompareOutputArtifacts :: "output_artifact list \<Rightarrow> output_artifact list \<Rightarrow> bool" where
  "CompareOutputArtifacts l r \<longleftrightarrow> l = r"

definition validateCanonicalInputFiles :: "input_file list \<Rightarrow> error option" where
  "validateCanonicalInputFiles fs = (case NormalizeInputFiles fs of
     Inl e \<Rightarrow> Some e
   | Inr normalized \<Rightarrow> require (CompareInputFiles fs normalized)
       (Opaque ''input files must be strictly sorted by name''))"

definition validateCanonicalOutputArtifacts :: "output_artifact list \<Rightarrow> error option" where
  "validateCanonicalOutputArtifacts as = (case NormalizeOutputArtifacts as of
     Inl e \<Rightarrow> Some e
   | Inr normalized \<Rightarrow> require (CompareOutputArtifacts as normalized)
       (Opaque ''output artifacts must be strictly sorted by name''))"

section \<open>Accounting\<close>

definition usageNumber :: "string \<Rightarrow> bool" where
  "usageNumber s \<longleftrightarrow> (case parse_number s of Inr (_, []) \<Rightarrow> True | _ \<Rightarrow> False)"

definition not_exponent :: "char \<Rightarrow> bool" where
  "not_exponent c \<longleftrightarrow> c \<noteq> CHR ''e'' \<and> c \<noteq> CHR ''E''"

definition usageNumberHasNonzeroMagnitude :: "string \<Rightarrow> bool" where
  "usageNumberHasNonzeroMagnitude s \<longleftrightarrow>
     list_ex (\<lambda>c. c \<noteq> CHR ''0'' \<and> c \<noteq> CHR ''.'')
       (takeWhile not_exponent (if has_prefix ''-'' s then drop 1 s else s))"

text \<open>
  \<open>strconv.ParseFloat\<close> on a text of the grammar: the magnitude is \<open>m * 10 ^ e\<close> for the digits \<open>m\<close> of the
  mantissa, and the call fails exactly when it rounds to infinity, from half a unit above the largest
  finite value on.
\<close>

definition mantissa :: "string \<Rightarrow> string" where
  "mantissa s = takeWhile not_exponent (if has_prefix ''-'' s then drop 1 s else s)"

definition mantissa_value :: "string \<Rightarrow> int" where
  "mantissa_value s = digits_value (filter digit (mantissa s))"

definition fraction_places :: "string \<Rightarrow> int" where
  "fraction_places s = int (length (dropWhile (\<lambda>c. c \<noteq> CHR ''.'') (mantissa s)) - 1)"

definition exponent_value :: "string \<Rightarrow> int" where
  "exponent_value s = (case dropWhile not_exponent s of
     [] \<Rightarrow> 0
   | _ # t \<Rightarrow> (case t of [] \<Rightarrow> 0
       | c # u \<Rightarrow> if c = CHR ''-'' then - digits_value u else if c = CHR ''+'' then digits_value u
           else digits_value t))"

definition float_limit :: int where "float_limit = 2 ^ 1024 - 2 ^ 970"

definition float_overflows :: "string \<Rightarrow> bool" where
  "float_overflows s \<longleftrightarrow>
     (let m = mantissa_value s; e = exponent_value s - fraction_places s in
      m \<noteq> 0 \<and> (e > 400 \<or> e \<ge> 0 \<and> m * 10 ^ nat e \<ge> float_limit
        \<or> e < 0 \<and> e > - 400 \<and> m \<ge> float_limit * 10 ^ nat (- e)))"

definition validateUsageNumber :: "string option \<Rightarrow> error option" where
  "validateUsageNumber number = (case number of
     None \<Rightarrow> None
   | Some s \<Rightarrow> first_error
       [require (\<not> (length s = 0 \<or> length s > 128 \<or> \<not> usageNumber s)) (Opaque ''invalid usage number''),
        require (\<not> (has_prefix ''-'' s \<and> usageNumberHasNonzeroMagnitude s))
          (Opaque ''usage number must be finite and nonnegative''),
        require (\<not> float_overflows s) (Opaque ''usage number must be finite and nonnegative'')])"

record usage_metadata =
  us_scope :: string
  us_source :: string
  us_reliability :: string
  us_input_tokens :: "int option"
  us_output_tokens :: "int option"
  us_thinking_tokens :: "int option"
  us_total_tokens :: "int option"
  us_cache_read_tokens :: "int option"
  us_num_turns :: "int option"
  us_duration_seconds :: "string option"
  us_model :: "string option"
  us_cache_creation_tokens :: "int option"
  us_estimated_cost :: "string option"

definition usage_model_ok :: "string option \<Rightarrow> bool" where
  "usage_model_ok model \<longleftrightarrow> (case model of None \<Rightarrow> True
     | Some m \<Rightarrow> \<not> (trim_space m = [] \<or> trim_space m \<noteq> m \<or> contains_char CHR 0x00 m \<or> \<not> valid_string m))"

definition usage_counter_ok :: "int option \<Rightarrow> error option" where
  "usage_counter_ok c = (case c of None \<Rightarrow> None | Some n \<Rightarrow> require (\<not> n < 0) (Opaque ''negative usage counter''))"

definition ValidateUsageMetadata :: "usage_metadata \<Rightarrow> error option" where
  "ValidateUsageMetadata v = first_error
     [require (us_scope v \<in> {''task'', ''conversation-cumulative'', ''main-agent'', ''whole-tree'', ''unknown''})
        (Opaque ''invalid usage scope''),
      require (us_source v \<in> {''provider-envelope'', ''provider-event''}) (Opaque ''invalid usage source''),
      require (us_reliability v \<in> {''reported'', ''unreliable'', ''unknown''})
        (Opaque ''invalid usage reliability''),
      require (usage_model_ok (us_model v)) (Opaque ''invalid usage model''),
      first_error (map usage_counter_ok [us_input_tokens v, us_output_tokens v, us_thinking_tokens v,
        us_total_tokens v, us_cache_read_tokens v, us_cache_creation_tokens v, us_num_turns v]),
      validateUsageNumber (us_duration_seconds v),
      validateUsageNumber (us_estimated_cost v)]"

definition ValidateUsageMetadataList :: "usage_metadata list \<Rightarrow> error option" where
  "ValidateUsageMetadataList vs = first_error (map (\<lambda>v. wrap_error ''usage'' (ValidateUsageMetadata v)) vs)"

section \<open>Diagnostics\<close>

record output_diagnostic =
  dg_code :: string
  dg_message :: string
  dg_field :: string
  dg_event :: "64 word"
  dg_offset :: int

definition MaxOutputDiagnostics :: nat where "MaxOutputDiagnostics = 32"
definition MaxDiagnosticCodeBytes :: nat where "MaxDiagnosticCodeBytes = 64"
definition MaxDiagnosticMessageBytes :: nat where "MaxDiagnosticMessageBytes = 512"
definition MaxDiagnosticFieldBytes :: nat where "MaxDiagnosticFieldBytes = 128"

definition validDiagnosticText :: "string \<Rightarrow> nat \<Rightarrow> bool \<Rightarrow> bool" where
  "validDiagnosticText s limit requireNonblank =
     (if length s = 0 \<or> length s > limit \<or> \<not> valid_string s then \<not> requireNonblank \<and> s = []
      else if requireNonblank \<and> trim_space s = [] then False
      else \<not> contains_control s)"

definition ValidateOutputDiagnostic :: "output_diagnostic \<Rightarrow> error option" where
  "ValidateOutputDiagnostic d = first_error
     [require (validDiagnosticText (dg_code d) MaxDiagnosticCodeBytes True)
        (Wrap ''code'' (Leaf ErrInvalidDiagnostic)),
      require (validDiagnosticText (dg_message d) MaxDiagnosticMessageBytes True)
        (Wrap ''message'' (Leaf ErrInvalidDiagnostic)),
      require (\<not> (dg_field d \<noteq> [] \<and> \<not> validDiagnosticText (dg_field d) MaxDiagnosticFieldBytes True))
        (Wrap ''field'' (Leaf ErrInvalidDiagnostic)),
      require (\<not> dg_offset d < 0) (Wrap ''negative offset'' (Leaf ErrInvalidDiagnostic))]"

definition ValidateOutputDiagnostics :: "output_diagnostic list \<Rightarrow> error option" where
  "ValidateOutputDiagnostics ds = first_error
     (require (length ds \<le> MaxOutputDiagnostics) (Wrap ''too many diagnostics'' (Leaf ErrInvalidDiagnostic))
      # map (\<lambda>d. case ValidateOutputDiagnostic d of None \<Rightarrow> None
          | Some e \<Rightarrow> Some (Joined [Leaf ErrInvalidDiagnostic, e])) ds)"

end
