(* ===== verification/Pub_Reduce.thy ===== *)
theory Pub_Reduce
  imports Pub_Records
begin

text \<open>
  The seal and the outcome of a task, and the decision of its publication: \<open>types.go\<close>, \<open>reducer.go\<close>,
  \<open>predicate.go\<close>, \<open>interpretation.go\<close> and \<open>recheck.go\<close> of \<open>internal/task\<close>.
\<close>

abbreviation VerdictCommitted :: string where "VerdictCommitted \<equiv> ''committed''"
abbreviation VerdictRejected :: string where "VerdictRejected \<equiv> ''rejected''"
abbreviation InvocationStarted :: string where "InvocationStarted \<equiv> ''started''"
abbreviation InvocationStartFailed :: string where "InvocationStartFailed \<equiv> ''start_failed''"

section \<open>The seal\<close>

record raw_entry =
  re_path :: string
  re_size :: int
  re_sha256 :: string

definition raw_entry_json :: "raw_entry \<Rightarrow> json" where
  "raw_entry_json e = JObj [(''path'', JStr (re_path e)), (''size'', int_json (re_size e)),
     (''sha256'', JStr (re_sha256 e))]"

definition evidence_error :: "error option \<Rightarrow> error option" where
  "evidence_error e = map_option (\<lambda>x. Joined [Leaf ErrEvidenceFault, x]) e"

definition validateRawEntry :: "raw_entry \<Rightarrow> error option" where
  "validateRawEntry e = (let name = drop 4 (re_path e) in first_error
     [require (\<not> (\<not> has_prefix ''raw/'' (re_path e) \<or> re_size e < 0))
        (Wrap ''invalid raw entry path or size'' (Leaf ErrEvidenceFault)),
      (if name \<noteq> ''stdout'' \<and> name \<noteq> ''stderr'' then evidence_error (ValidateArtifactName name) else None),
      evidence_error (ValidateSHA256 (re_sha256 e))])"

fun check_manifest :: "string option \<Rightarrow> raw_entry list \<Rightarrow> error option" where
  "check_manifest previous [] = None"
| "check_manifest previous (e # es) = first_error
     [validateRawEntry e,
      (case previous of None \<Rightarrow> None | Some p \<Rightarrow> require (p < re_path e)
         (Wrap ''raw manifest paths are not strictly sorted and unique'' (Leaf ErrEvidenceFault))),
      check_manifest (Some (re_path e)) es]"

definition ValidateRawManifest :: "raw_entry list \<Rightarrow> string \<Rightarrow> error option" where
  "ValidateRawManifest es sha = first_error
     [require (\<not> (length es < 2 \<or> length es > MaxOutputArtifacts + 2))
        (Wrap ''invalid raw manifest entry count'' (Leaf ErrEvidenceFault)),
      check_manifest None es,
      require (''raw/stdout'' \<in> set (map re_path es) \<and> ''raw/stderr'' \<in> set (map re_path es))
        (Wrap ''raw/stderr and raw/stdout are required'' (Leaf ErrEvidenceFault)),
      require (ComputeSHA256 (MarshalCanonical (JArr (map raw_entry_json es))) = sha)
        (Wrap ''manifest digest mismatch'' (Leaf ErrEvidenceFault))]"

record exit_record =
  xt_schema :: int
  xt_root_id :: string
  xt_task_id :: string
  xt_spec_sha256 :: string
  xt_meta_sha256 :: string
  xt_invocation_state :: string
  xt_exit_code :: int
  xt_error :: string
  xt_predicate :: predicate_ref
  xt_manifest :: "raw_entry list"
  xt_manifest_sha256 :: string
  xt_closed_at :: string
  xt_runtime :: runtime_identity

definition validateExitObservation :: "exit_record \<Rightarrow> error option" where
  "validateExitObservation r = first_error
     [require (\<not> (xt_exit_code r < - 1 \<or> xt_exit_code r > 255))
        (Opaque ''exit code must be an observed process exit status''),
      require (\<not> (xt_invocation_state r = InvocationStartFailed \<and> \<not> nonblank (xt_error r)))
        (Opaque ''start failure requires a captured error''),
      validateTimestamp (xt_closed_at r)]"

definition ValidateProviderExitRecord :: "exit_record option \<Rightarrow> error option" where
  "ValidateProviderExitRecord record = (case record of
     None \<Rightarrow> Some (Opaque ''nil provider.exit record'')
   | Some r \<Rightarrow> first_error
       [require (xt_schema r = SchemaVersion) (Wrap ''provider.exit schema version'' (Leaf ErrUnsupportedSchema)),
        ValidateRootID (xt_root_id r),
        ValidateTaskID (xt_task_id r),
        wrap_error ''provider.exit spec_sha256'' (ValidateSHA256 (xt_spec_sha256 r)),
        wrap_error ''provider.exit meta_sha256'' (ValidateSHA256 (xt_meta_sha256 r)),
        require (\<not> (xt_invocation_state r \<noteq> InvocationStarted \<and> xt_invocation_state r \<noteq> InvocationStartFailed))
          (Wrap ''invalid invocation state'' (Leaf ErrInvalidEnum)),
        ValidateSHA256 (xt_manifest_sha256 r),
        ValidateRawManifest (xt_manifest r) (xt_manifest_sha256 r),
        ValidatePredicateRef (xt_predicate r),
        wrap_error ''provider.exit runtime identity'' (ValidateProviderRuntimeEvidenceIdentity (xt_runtime r)),
        validateExitObservation r])"

section \<open>The outcome\<close>

record payload_descriptor =
  py_basename :: string
  py_length :: int
  py_sha256 :: string

record outcome_record =
  ot_schema :: int
  ot_root_id :: string
  ot_task_id :: string
  ot_spec_sha256 :: string
  ot_meta_sha256 :: string
  ot_verdict :: string
  ot_evidence_sha256 :: string
  ot_predicate :: predicate_ref
  ot_payload :: payload_descriptor
  ot_usage :: "usage_metadata list"
  ot_diagnostics :: "output_diagnostic list"

definition ValidatePayloadDescriptor :: "payload_descriptor \<Rightarrow> error option" where
  "ValidatePayloadDescriptor p = first_error
     [require (\<not> (py_basename p \<noteq> ''result.txt'' \<and> py_basename p \<noteq> ''publish.reject''))
        (Wrap ''invalid payload basename'' (Leaf ErrInvariantFault)),
      require (\<not> py_length p \<le> 0) (Wrap ''payload must be nonempty'' (Leaf ErrInvariantFault)),
      wrap_error ''payload sha256'' (ValidateSHA256 (py_sha256 p))]"

definition validateOutcomePayload :: "outcome_record \<Rightarrow> error option" where
  "validateOutcomePayload r = first_error
     [wrap_error ''outcome.json payload'' (ValidatePayloadDescriptor (ot_payload r)),
      require (\<not> (ot_verdict r = VerdictCommitted \<and> py_basename (ot_payload r) \<noteq> ''result.txt''))
        (Wrap ''committed outcome must have payload basename result.txt'' (Leaf ErrInvariantFault)),
      require (\<not> (ot_verdict r = VerdictRejected \<and> py_basename (ot_payload r) \<noteq> ''publish.reject''))
        (Wrap ''rejected outcome must have payload basename publish.reject'' (Leaf ErrInvariantFault))]"

definition ValidateOutcomeRecord :: "outcome_record option \<Rightarrow> error option" where
  "ValidateOutcomeRecord record = (case record of
     None \<Rightarrow> Some (Opaque ''nil outcome record'')
   | Some r \<Rightarrow> first_error
       [require (ot_schema r = SchemaVersion) (Wrap ''outcome.json schema version'' (Leaf ErrUnsupportedSchema)),
        ValidateRootID (ot_root_id r),
        ValidateTaskID (ot_task_id r),
        wrap_error ''outcome.json spec_sha256'' (ValidateSHA256 (ot_spec_sha256 r)),
        wrap_error ''outcome.json meta_sha256'' (ValidateSHA256 (ot_meta_sha256 r)),
        require (\<not> (ot_verdict r \<noteq> VerdictCommitted \<and> ot_verdict r \<noteq> VerdictRejected))
          (Wrap ''invalid verdict'' (Leaf ErrInvalidEnum)),
        wrap_error ''outcome.json evidence_sha256'' (ValidateSHA256 (ot_evidence_sha256 r)),
        ValidatePredicateRef (ot_predicate r),
        ValidateUsageMetadataList (ot_usage r),
        ValidateOutputDiagnostics (ot_diagnostics r),
        validateOutcomePayload r])"

text \<open>Comparison of outcomes: an absent list and an empty one are equal, as lists are here.\<close>

definition CompareOutcomes :: "outcome_record option \<Rightarrow> outcome_record option \<Rightarrow> bool" where
  "CompareOutcomes x y = (case (x, y) of
     (Some a, Some b) \<Rightarrow>
       ot_schema a = ot_schema b \<and> ot_root_id a = ot_root_id b \<and> ot_task_id a = ot_task_id b
       \<and> ot_spec_sha256 a = ot_spec_sha256 b \<and> ot_meta_sha256 a = ot_meta_sha256 b
       \<and> ot_verdict a = ot_verdict b \<and> ot_evidence_sha256 a = ot_evidence_sha256 b
       \<and> predicate_equal (ot_predicate a) (ot_predicate b) \<and> ot_payload a = ot_payload b
       \<and> ot_usage a = ot_usage b \<and> ot_diagnostics a = ot_diagnostics b
   | _ \<Rightarrow> x = None \<and> y = None)"

section \<open>Publication\<close>

definition validateOutcomeIdentity :: "outcome_record \<Rightarrow> string \<Rightarrow> string \<Rightarrow> string \<Rightarrow> string \<Rightarrow> error option" where
  "validateOutcomeIdentity r root task spec meta = first_error
     [require (\<not> (root \<noteq> [] \<and> ot_root_id r \<noteq> root)) (Wrap ''root ID mismatch'' identity_mismatch),
      require (\<not> (task \<noteq> [] \<and> ot_task_id r \<noteq> task)) (Wrap ''task ID mismatch'' identity_mismatch),
      require (\<not> (spec \<noteq> [] \<and> ot_spec_sha256 r \<noteq> spec)) (Wrap ''spec digest mismatch'' identity_mismatch),
      require (\<not> (meta \<noteq> [] \<and> ot_meta_sha256 r \<noteq> meta)) (Wrap ''meta digest mismatch'' identity_mismatch)]"

definition ReducePublicationWithIdentity ::
  "outcome_record option \<Rightarrow> bool \<Rightarrow> int \<Rightarrow> string \<Rightarrow> exit_record option
     \<Rightarrow> string \<Rightarrow> string \<Rightarrow> string \<Rightarrow> string \<Rightarrow> publication \<times> error option" where
  "ReducePublicationWithIdentity outcome payload_exists payload_length payload_sha seal root task spec meta =
     (case outcome of
        Some r \<Rightarrow>
          (case first_error
             [ValidateOutcomeRecord outcome,
              validateOutcomeIdentity r root task spec meta,
              require (\<not> (\<not> payload_exists \<or> py_length (ot_payload r) \<noteq> payload_length
                  \<or> py_sha256 (ot_payload r) \<noteq> payload_sha)) (Leaf ErrInvariantFault)] of
             Some e \<Rightarrow> (PublicationUnknown, Some e)
           | None \<Rightarrow>
               if ot_verdict r = VerdictCommitted then (PublicationCommitted, None)
               else if ot_verdict r = VerdictRejected then (PublicationRejected, None)
               else (PublicationUnknown, Some (Leaf ErrInvalidEnum)))
      | None \<Rightarrow>
          if seal \<noteq> None then
            (case ValidateProviderExitRecord seal of
               Some e \<Rightarrow> (PublicationUnknown, Some e)
             | None \<Rightarrow> (PublicationPending, None))
          else if payload_exists then (PublicationPending, None)
          else (PublicationUnknown, None))"

definition ReducePublication ::
  "outcome_record option \<Rightarrow> bool \<Rightarrow> int \<Rightarrow> string \<Rightarrow> exit_record option \<Rightarrow> publication \<times> error option" where
  "ReducePublication outcome payload_exists payload_length payload_sha seal =
     ReducePublicationWithIdentity outcome payload_exists payload_length payload_sha seal [] [] [] []"

section \<open>The fixture predicate\<close>

definition fixturePredicateV1Contract :: string where
  \<open>fixturePredicateV1Contract = ''{"adapter":"fixture:test","mode":"read-only","version":"1","raw":["raw/stderr","raw/stdout"],"success":"started,exit_code=0,error=empty,stdout-size>0; preserve every stdout byte","refusals":{"start_failed":"start_failed: <error>","error":"capture_error: <error>","nonzero_exit":"provider_exit: <decimal-exit-code>","empty_stdout":"empty_answer"},"precedence":["start_failed","error","nonzero_exit","empty_stdout","success"]}'' @ [CHR 0x0A]\<close>

definition FixturePredicateRef :: predicate_ref where
  "FixturePredicateRef = \<lparr>pd_adapter = ''fixture:test'', pd_mode = ''read-only'', pd_version = ''1'',
     pd_sha256 = ComputeSHA256 fixturePredicateV1Contract\<rparr>"

record predicate_decision =
  de_verdict :: string
  de_payload_basename :: string
  de_raw_path :: string
  de_payload_content :: string

definition fixtureRefusal :: "exit_record \<Rightarrow> string" where
  "fixtureRefusal r =
     (if xt_invocation_state r = InvocationStartFailed then ''start_failed: '' @ xt_error r
      else if xt_error r \<noteq> [] then ''capture_error: '' @ xt_error r
      else if xt_exit_code r \<noteq> 0 then ''provider_exit: '' @ decimal (xt_exit_code r)
      else if re_size (xt_manifest r ! 1) = 0 then ''empty_answer''
      else [])"

text \<open>The second entry of the manifest exists: a valid manifest has at least two.\<close>

definition EvaluateRegisteredPredicate :: "predicate_ref \<Rightarrow> exit_record option \<Rightarrow> error + predicate_decision" where
  "EvaluateRegisteredPredicate ref seal =
     (if \<not> predicate_equal ref FixturePredicateRef then Inl (Leaf ErrIncompatiblePredicate)
      else case seal of
        None \<Rightarrow> Inl (Leaf ErrNoSeal)
      | Some r \<Rightarrow> check_then (first_error
          [ValidateProviderExitRecord seal,
           require (predicate_equal ref (xt_predicate r)) identity_mismatch])
          (Inr (let reason = fixtureRefusal r in
             if reason \<noteq> [] then \<lparr>de_verdict = VerdictRejected, de_payload_basename = ''publish.reject'',
               de_raw_path = [], de_payload_content = reason\<rparr>
             else \<lparr>de_verdict = VerdictCommitted, de_payload_basename = ''result.txt'',
               de_raw_path = ''raw/stdout'', de_payload_content = []\<rparr>)))"

definition EvaluateFixturePredicate ::
  "exit_record option \<Rightarrow> string \<Rightarrow> error + string \<times> string \<times> string" where
  "EvaluateFixturePredicate seal stdout =
     bind_result (EvaluateRegisteredPredicate FixturePredicateRef seal) (\<lambda>d.
       case seal of None \<Rightarrow> Inl (Leaf ErrNoSeal)
       | Some r \<Rightarrow>
           (let entry = xt_manifest r ! 1 in
            if re_size entry \<noteq> int (length stdout) \<or> re_sha256 entry \<noteq> ComputeSHA256 stdout
              then Inl (Leaf ErrEvidenceFault)
            else Inr (de_verdict d, de_payload_basename d,
              if de_raw_path d \<noteq> [] then stdout else de_payload_content d)))"

section \<open>Interpretations\<close>

record session_identity =
  sn_provider :: string
  sn_conversation_id :: string

record task_interpretation =
  in_verdict :: string
  in_refusal :: string
  in_session :: "session_identity option"
  in_usage :: "usage_metadata list"
  in_diagnostics :: "output_diagnostic list"

definition ValidateSessionIdentity :: "session_identity \<Rightarrow> error option" where
  "ValidateSessionIdentity s =
     require (\<not> (ValidateProvider (sn_provider s) \<noteq> None \<or> \<not> nonblank (sn_conversation_id s))) identity_mismatch"

definition ValidateInterpretation :: "task_interpretation \<Rightarrow> error option" where
  "ValidateInterpretation v = first_error
     [ValidateUsageMetadataList (in_usage v),
      ValidateOutputDiagnostics (in_diagnostics v),
      (case in_session v of None \<Rightarrow> None | Some s \<Rightarrow> ValidateSessionIdentity s),
      (if in_verdict v = VerdictCommitted
         then require (in_refusal v = []) (Opaque ''committed interpretation has refusal'')
       else if in_verdict v = VerdictRejected
         then require (in_refusal v \<noteq> []) (Opaque ''rejected interpretation has empty refusal'')
       else Some (Leaf ErrInvalidEnum))]"

text \<open>
  The registered interpreter of the fixture predicate: \<open>internal/predicate/fixture_v1.go\<close>. \<open>raw\<close> is what
  reading the sealed standard output into the result gives.
\<close>

definition fixture_evaluate :: "exit_record \<Rightarrow> error option \<Rightarrow> task_interpretation \<times> error option" where
  "fixture_evaluate seal raw =
     (case EvaluateRegisteredPredicate FixturePredicateRef (Some seal) of
        Inl e \<Rightarrow> (\<lparr>in_verdict = [], in_refusal = [], in_session = None, in_usage = [], in_diagnostics = []\<rparr>, Some e)
      | Inr d \<Rightarrow> (\<lparr>in_verdict = de_verdict d, in_refusal = de_payload_content d, in_session = None,
            in_usage = [], in_diagnostics = []\<rparr>,
          if de_raw_path d \<noteq> [] then raw else None))"

section \<open>Rechecks\<close>

definition RecheckSchemaVersion :: int where "RecheckSchemaVersion = 1"
abbreviation RecheckStatusRecovered :: string where "RecheckStatusRecovered \<equiv> ''recovered''"
abbreviation RecheckStatusRejected :: string where "RecheckStatusRejected \<equiv> ''rejected''"

record recheck_report =
  rk_schema :: int
  rk_assessment_id :: string
  rk_source_outcome :: string
  rk_source_seal :: string
  rk_source_predicate :: predicate_ref
  rk_source_evidence :: string
  rk_target_predicate :: predicate_ref
  rk_status :: string
  rk_diagnostics :: "output_diagnostic list"
  rk_result :: "payload_descriptor option"

definition recheck_identity_json :: "string \<Rightarrow> string \<Rightarrow> predicate_ref \<Rightarrow> json" where
  "recheck_identity_json outcome seal target = JObj [(''source_outcome_sha256'', JStr outcome),
     (''source_seal_sha256'', JStr seal), (''target_predicate'', predicate_json target)]"

definition validateRecheckIdentity :: "string \<Rightarrow> string \<Rightarrow> predicate_ref \<Rightarrow> error option" where
  "validateRecheckIdentity outcome seal target = first_error
     [wrap_error ''invalid recheck identity source outcome'' (ValidateSHA256 outcome),
      wrap_error ''invalid recheck identity source seal'' (ValidateSHA256 seal),
      wrap_error ''invalid recheck identity target'' (ValidatePredicateRef target)]"

definition RecheckAssessmentID :: "string \<Rightarrow> string \<Rightarrow> predicate_ref \<Rightarrow> error + string" where
  "RecheckAssessmentID outcome seal target = check_then (validateRecheckIdentity outcome seal target)
     (Inr (ComputeSHA256 (MarshalCanonical (recheck_identity_json outcome seal target))))"

definition invalid_recheck :: "error option \<Rightarrow> error option" where
  "invalid_recheck e = map_option (\<lambda>x. Joined [Leaf ErrInvalidRecheck, x]) e"

definition validateRecheckResult :: "recheck_report \<Rightarrow> error option" where
  "validateRecheckResult r =
     (if rk_status r = RecheckStatusRecovered then
        (case rk_result r of
           None \<Rightarrow> Some (Wrap ''recovered report requires result'' (Leaf ErrInvalidRecheck))
         | Some p \<Rightarrow> first_error
             [require (py_basename p = ''result.txt'')
                (Wrap ''recovered report requires result'' (Leaf ErrInvalidRecheck)),
              invalid_recheck (ValidatePayloadDescriptor p)])
      else require (rk_result r = None)
        (Wrap ''rejected report cannot contain result'' (Leaf ErrInvalidRecheck)))"

definition ValidateRecheckReport :: "recheck_report option \<Rightarrow> error option" where
  "ValidateRecheckReport report = (case report of
     None \<Rightarrow> Some (Leaf ErrInvalidRecheck)
   | Some r \<Rightarrow> first_error
       [require (rk_schema r = RecheckSchemaVersion) (Wrap ''schema version'' (Leaf ErrUnsupportedSchema)),
        invalid_recheck (ValidateSHA256 (rk_source_outcome r)),
        invalid_recheck (ValidateSHA256 (rk_source_seal r)),
        invalid_recheck (ValidatePredicateRef (rk_source_predicate r)),
        invalid_recheck (ValidateSHA256 (rk_source_evidence r)),
        invalid_recheck (ValidatePredicateRef (rk_target_predicate r)),
        require (\<not> predicate_equal (rk_source_predicate r) (rk_target_predicate r))
          (Wrap ''target equals source predicate'' (Leaf ErrInvalidRecheck)),
        require (\<not> (rk_status r \<noteq> RecheckStatusRecovered \<and> rk_status r \<noteq> RecheckStatusRejected))
          (Wrap ''invalid status'' (Leaf ErrInvalidRecheck)),
        invalid_recheck (ValidateOutputDiagnostics (rk_diagnostics r)),
        (case RecheckAssessmentID (rk_source_outcome r) (rk_source_seal r) (rk_target_predicate r) of
           Inl e \<Rightarrow> Some e
         | Inr i \<Rightarrow> require (rk_assessment_id r = i)
             (Wrap ''assessment ID mismatch'' (Leaf ErrInvalidRecheck))),
        validateRecheckResult r])"

end
