(* ===== verification/Pub_Properties.thy ===== *)
theory Pub_Properties
  imports Pub_Reduce
begin

text \<open>What a publication decision says about the outcome, and what the fixture predicate decides.\<close>

section \<open>Outcomes\<close>

definition expected :: "string \<Rightarrow> string \<Rightarrow> bool" where
  "expected want got \<longleftrightarrow> want = [] \<or> got = want"

lemma outcome_identity_None:
  "validateOutcomeIdentity r root task spec meta = None \<longleftrightarrow>
     expected root (ot_root_id r) \<and> expected task (ot_task_id r) \<and> expected spec (ot_spec_sha256 r)
     \<and> expected meta (ot_meta_sha256 r)"
  by (auto simp: validateOutcomeIdentity_def expected_def go_simps)

text \<open>An outcome whose payload is the one on disk.\<close>

definition settled_outcome ::
  "outcome_record option \<Rightarrow> bool \<Rightarrow> int \<Rightarrow> string \<Rightarrow> string \<Rightarrow> string \<Rightarrow> string \<Rightarrow> string \<Rightarrow> string \<Rightarrow> string \<Rightarrow> bool" where
  "settled_outcome outcome found size_on_disk digest root task spec meta verdict basename \<longleftrightarrow>
     (\<exists>r. outcome = Some r \<and> ValidateOutcomeRecord (Some r) = None \<and> ot_verdict r = verdict
       \<and> found \<and> py_length (ot_payload r) = size_on_disk \<and> py_sha256 (ot_payload r) = digest
       \<and> 0 < size_on_disk \<and> hex64Pattern digest \<and> py_basename (ot_payload r) = basename
       \<and> expected root (ot_root_id r) \<and> expected task (ot_task_id r) \<and> expected spec (ot_spec_sha256 r)
       \<and> expected meta (ot_meta_sha256 r))"

lemma valid_outcome:
  assumes "ValidateOutcomeRecord (Some r) = None"
  shows "0 < py_length (ot_payload r)" "hex64Pattern (py_sha256 (ot_payload r))"
    "ot_verdict r = VerdictCommitted \<and> py_basename (ot_payload r) = ''result.txt''
      \<or> ot_verdict r = VerdictRejected \<and> py_basename (ot_payload r) = ''publish.reject''"
proof -
  have p: "validateOutcomePayload r = None" "ot_verdict r = VerdictCommitted \<or> ot_verdict r = VerdictRejected"
    using assms by (auto simp: ValidateOutcomeRecord_def go_simps)
  show "0 < py_length (ot_payload r)" "hex64Pattern (py_sha256 (ot_payload r))"
    using p(1) by (auto simp: validateOutcomePayload_def ValidatePayloadDescriptor_def go_simps go_check)
  show "ot_verdict r = VerdictCommitted \<and> py_basename (ot_payload r) = ''result.txt''
      \<or> ot_verdict r = VerdictRejected \<and> py_basename (ot_payload r) = ''publish.reject''"
    using p by (auto simp: validateOutcomePayload_def go_simps)
qed

lemma settled_outcome_iff:
  assumes "verdict = VerdictCommitted \<and> basename = ''result.txt'' \<or> verdict = VerdictRejected \<and> basename = ''publish.reject''"
  shows "settled_outcome (Some r) found n digest root task spec meta verdict basename \<longleftrightarrow>
    ValidateOutcomeRecord (Some r) = None \<and> validateOutcomeIdentity r root task spec meta = None
    \<and> found \<and> py_length (ot_payload r) = n \<and> py_sha256 (ot_payload r) = digest \<and> ot_verdict r = verdict"
  using valid_outcome [of r] assms unfolding settled_outcome_def outcome_identity_None by auto

text \<open>C37: a publication is earned. The reducer answers committed exactly when there is a valid outcome
  record with that verdict, of the expected identity, whose payload \<open>result.txt\<close> is on disk, nonempty, with
  the recorded length and digest; likewise rejected with \<open>publish.reject\<close>; pending exactly when there is no
  outcome yet and either a valid seal, or no seal and a payload; everything else is unknown, and every
  error is.\<close>

theorem publication_is_earned:
  "(ReducePublicationWithIdentity outcome found n digest seal root task spec meta = (PublicationCommitted, None)
      \<longleftrightarrow> settled_outcome outcome found n digest root task spec meta VerdictCommitted ''result.txt'')
   \<and> (ReducePublicationWithIdentity outcome found n digest seal root task spec meta = (PublicationRejected, None)
      \<longleftrightarrow> settled_outcome outcome found n digest root task spec meta VerdictRejected ''publish.reject'')
   \<and> (ReducePublicationWithIdentity outcome found n digest seal root task spec meta = (PublicationPending, None)
      \<longleftrightarrow> outcome = None \<and> (ValidateProviderExitRecord seal = None \<or> seal = None \<and> found))
   \<and> (fst (ReducePublicationWithIdentity outcome found n digest seal root task spec meta) = PublicationUnknown
      \<or> snd (ReducePublicationWithIdentity outcome found n digest seal root task spec meta) = None)"
proof (cases outcome)
  case None
  then show ?thesis
    by (auto simp: ReducePublicationWithIdentity_def settled_outcome_def ValidateProviderExitRecord_def
        split: option.splits)
next
  case (Some r)
  have verdicts: "ot_verdict r = VerdictCommitted \<or> ot_verdict r = VerdictRejected"
    if "ValidateOutcomeRecord (Some r) = None"
    using valid_outcome(3) [OF that] by blast
  show ?thesis
    unfolding Some settled_outcome_iff [of VerdictCommitted "''result.txt''", simplified]
      settled_outcome_iff [of VerdictRejected "''publish.reject''", simplified]
    using verdicts
    by (auto simp: ReducePublicationWithIdentity_def first_error_Cons require_def split: option.splits)
qed

section \<open>Manifests\<close>

lemma check_manifest_None:
  assumes "check_manifest previous es = None"
  shows "sorted_wrt (<) (map re_path es)" "\<forall>p. previous = Some p \<longrightarrow> list_all (\<lambda>e. p < re_path e) es"
    "list_all (\<lambda>e. validateRawEntry e = None) es"
proof -
  have "sorted_wrt (<) (map re_path es) \<and> (\<forall>p. previous = Some p \<longrightarrow> list_all (\<lambda>e. p < re_path e) es)
      \<and> list_all (\<lambda>e. validateRawEntry e = None) es"
    using assms
  proof (induction es arbitrary: previous)
    case (Cons e es)
    have parts: "validateRawEntry e = None" "check_manifest (Some (re_path e)) es = None"
        "\<And>p. previous = Some p \<Longrightarrow> p < re_path e"
      using Cons.prems by (auto simp: go_simps split: option.splits)
    note ih = Cons.IH [OF parts(2)]
    have "list_all (\<lambda>x. p < re_path x) es" if "previous = Some p" for p
      using ih parts(3) [OF that] by (auto simp: list_all_iff intro: order.strict_trans)
    then show ?case using ih parts by (auto simp: list_all_iff)
  qed simp
  then show "sorted_wrt (<) (map re_path es)" "\<forall>p. previous = Some p \<longrightarrow> list_all (\<lambda>e. p < re_path e) es"
    "list_all (\<lambda>e. validateRawEntry e = None) es" by auto
qed

lemma valid_manifest:
  assumes "ValidateRawManifest es sha = None"
  shows "sorted_wrt (<) (map re_path es)" "{''raw/stdout'', ''raw/stderr''} \<subseteq> set (map re_path es)"
    "2 \<le> length es" "length es \<le> 18"
  using assms check_manifest_None [of None es]
  by (auto simp: ValidateRawManifest_def go_simps MaxOutputArtifacts_def not_less)

lemma streams_only:
  assumes "ValidateRawManifest es sha = None" "length es = 2"
  shows "re_path (es ! 0) = ''raw/stderr''" "re_path (es ! 1) = ''raw/stdout''"
proof -
  obtain a b where es: "es = [a, b]" using assms(2) by (auto simp: numeral_2_eq_2 length_Suc_conv)
  have "re_path a < re_path b" "{''raw/stdout'', ''raw/stderr''} \<subseteq> {re_path a, re_path b}"
    using valid_manifest(1,2) [OF assms(1)] by (simp_all add: es)
  then have "(re_path a = ''raw/stdout'' \<or> re_path b = ''raw/stdout'')
      \<and> (re_path a = ''raw/stderr'' \<or> re_path b = ''raw/stderr'')" "re_path a < re_path b" by auto
  moreover have "\<not> ''raw/stdout'' < ''raw/stderr''" "''raw/stdout'' \<noteq> ''raw/stderr''" by simp_all
  ultimately have "re_path a = ''raw/stderr'' \<and> re_path b = ''raw/stdout''" by metis
  then show "re_path (es ! 0) = ''raw/stderr''" "re_path (es ! 1) = ''raw/stdout''" by (simp_all add: es)
qed

section \<open>The fixture predicate\<close>

text \<open>The decision that \<open>fixturePredicateV1Contract\<close> describes, in terms of the standard output itself.\<close>

definition contract_decision :: "string \<Rightarrow> string \<Rightarrow> int \<Rightarrow> string \<Rightarrow> string \<times> string \<times> string" where
  "contract_decision invocation failure exit_code stdout =
     (if invocation = InvocationStartFailed
        then (VerdictRejected, ''publish.reject'', ''start_failed: '' @ failure)
      else if failure \<noteq> [] then (VerdictRejected, ''publish.reject'', ''capture_error: '' @ failure)
      else if exit_code \<noteq> 0 then (VerdictRejected, ''publish.reject'', ''provider_exit: '' @ decimal exit_code)
      else if stdout = [] then (VerdictRejected, ''publish.reject'', ''empty_answer'')
      else (VerdictCommitted, ''result.txt'', stdout))"

lemma predicate_equal_refl [simp]: "predicate_equal p p"
  by (simp add: predicate_equal_def)

text \<open>C38: the fixture predicate follows its contract on a seal of the two streams. When a valid seal of the
  fixture names only standard error and standard output, and its entry of standard output has the length
  and digest of the bytes given, the evaluation returns the contract's verdict, file and payload, and
  the payload is never empty.\<close>

theorem fixture_follows_contract:
  assumes "ValidateProviderExitRecord (Some seal) = None" "xt_predicate seal = FixturePredicateRef"
    "length (xt_manifest seal) = 2" "entry \<in> set (xt_manifest seal)" "re_path entry = ''raw/stdout''"
    "re_size entry = int (length stdout)" "re_sha256 entry = ComputeSHA256 stdout"
  shows "EvaluateFixturePredicate (Some seal) stdout
      = Inr (contract_decision (xt_invocation_state seal) (xt_error seal) (xt_exit_code seal) stdout)
    \<and> snd (snd (contract_decision (xt_invocation_state seal) (xt_error seal) (xt_exit_code seal) stdout)) \<noteq> []"
proof -
  have m: "ValidateRawManifest (xt_manifest seal) (xt_manifest_sha256 seal) = None"
    using assms(1) by (auto simp: ValidateProviderExitRecord_def go_simps)
  note paths = streams_only [OF m assms(3)]
  obtain a b where ab: "xt_manifest seal = [a, b]"
    using assms(3) by (auto simp: numeral_2_eq_2 length_Suc_conv)
  then have entry: "xt_manifest seal ! 1 = entry" using assms(4,5) paths by auto
  have "fixtureRefusal seal = (if fst (contract_decision (xt_invocation_state seal) (xt_error seal) (xt_exit_code seal) stdout)
      = VerdictCommitted then [] else
      snd (snd (contract_decision (xt_invocation_state seal) (xt_error seal) (xt_exit_code seal) stdout)))"
    using entry assms(6) by (simp add: fixtureRefusal_def contract_decision_def)
  then show ?thesis
    using assms(1,2,6,7) entry
    by (auto simp: EvaluateFixturePredicate_def EvaluateRegisteredPredicate_def contract_decision_def Let_def)
qed

section \<open>Samples\<close>

definition sample_manifest :: "raw_entry list \<Rightarrow> raw_entry list" where
  "sample_manifest extra = extra @ [\<lparr>re_path = ''raw/stderr'', re_size = 0, re_sha256 = ComputeSHA256 []\<rparr>,
     \<lparr>re_path = ''raw/stdout'', re_size = 2, re_sha256 = ComputeSHA256 ''ok''\<rparr>]"

definition sample_exit :: "raw_entry list \<Rightarrow> exit_record" where
  "sample_exit extra = \<lparr>xt_schema = SchemaVersion, xt_root_id = replicate 32 CHR ''a'',
     xt_task_id = replicate 32 CHR ''b'', xt_spec_sha256 = ComputeSHA256 ''s'', xt_meta_sha256 = ComputeSHA256 ''m'',
     xt_invocation_state = InvocationStarted, xt_exit_code = 0, xt_error = [], xt_predicate = FixturePredicateRef,
     xt_manifest = sample_manifest extra,
     xt_manifest_sha256 = ComputeSHA256 (MarshalCanonical (JArr (map raw_entry_json (sample_manifest extra)))),
     xt_closed_at = ''2026-01-02T03:04:05Z'',
     xt_runtime = \<lparr>ru_executable = [], ru_version = [], ru_sha256 = []\<rparr>\<rparr>"

lemma fixture_reference_valid: "ValidatePredicateRef FixturePredicateRef = None"
proof -
  have "ValidateProvider ''fixture:test'' = None" "ValidateMode ''read-only'' = None" "nonblank ''1''"
    by code_simp+
  then show ?thesis by (simp add: ValidatePredicateRef_def FixturePredicateRef_def)
qed

lemma sample_closed_at: "validateTimestamp ''2026-01-02T03:04:05Z'' = None"
  by code_simp

lemma sample_exit_valid:
  assumes "ValidateRawManifest (sample_manifest extra) (xt_manifest_sha256 (sample_exit extra)) = None"
  shows "ValidateProviderExitRecord (Some (sample_exit extra)) = None"
proof -
  have "hexPattern (replicate 32 CHR ''a'')" "hexPattern (replicate 32 CHR ''b'')"
    by (simp_all add: hexPattern_def list_all_iff lower_hex_def digit_def less_eq_char_def)
  then show ?thesis
    using assms fixture_reference_valid sample_closed_at
    by (simp add: ValidateProviderExitRecord_def sample_exit_def ValidateRootID_def ValidateTaskID_def
        wrap_error_def ValidateProviderRuntimeEvidenceIdentity_def ValidateProviderRuntimeIdentity_def
        validateExitObservation_def)
qed

lemma stream_entry_ok:
  "validateRawEntry \<lparr>re_path = ''raw/stdout'', re_size = int n, re_sha256 = ComputeSHA256 d\<rparr> = None"
  "validateRawEntry \<lparr>re_path = ''raw/stderr'', re_size = int n, re_sha256 = ComputeSHA256 d\<rparr> = None"
  "validateRawEntry \<lparr>re_path = ''raw/interaction'', re_size = int n, re_sha256 = ComputeSHA256 d\<rparr> = None"
  by (simp_all add: validateRawEntry_def has_prefix_def evidence_error_def ValidateArtifactName_def
      artifactNamePattern_def artifact_first_def less_eq_char_def)

lemma sample_manifest_valid:
  "ValidateRawManifest (sample_manifest []) (xt_manifest_sha256 (sample_exit [])) = None"
  using stream_entry_ok(1) [of 2 "''ok''"] stream_entry_ok(2) [of 0 "[]"]
  by (simp add: ValidateRawManifest_def sample_manifest_def sample_exit_def MaxOutputArtifacts_def)

theorem fixture_follows_contract_witness:
  "EvaluateFixturePredicate (Some (sample_exit [])) ''ok'' = Inr (VerdictCommitted, ''result.txt'', ''ok'')"
  using fixture_follows_contract [OF sample_exit_valid [OF sample_manifest_valid],
      of "\<lparr>re_path = ''raw/stdout'', re_size = 2, re_sha256 = ComputeSHA256 ''ok''\<rparr>" "''ok''"]
  by (simp add: sample_exit_def sample_manifest_def contract_decision_def)

text \<open>
  With a third entry that sorts before the streams, such as the journal of an interactive task, the second
  entry is standard error: a valid seal of a successful run whose answer is not empty is then refused as
  an empty answer.
\<close>

lemma extra_evidence_is_misjudged:
  "\<exists>seal. ValidateProviderExitRecord (Some seal) = None \<and> xt_predicate seal = FixturePredicateRef
     \<and> xt_invocation_state seal = InvocationStarted \<and> xt_exit_code seal = 0 \<and> xt_error seal = []
     \<and> \<lparr>re_path = ''raw/stdout'', re_size = 2, re_sha256 = ComputeSHA256 ''ok''\<rparr> \<in> set (xt_manifest seal)
     \<and> EvaluateRegisteredPredicate FixturePredicateRef (Some seal)
         = Inr \<lparr>de_verdict = VerdictRejected, de_payload_basename = ''publish.reject'', de_raw_path = [],
             de_payload_content = ''empty_answer''\<rparr>"
proof -
  let ?extra = "[\<lparr>re_path = ''raw/interaction'', re_size = 3, re_sha256 = ComputeSHA256 ''log''\<rparr>]"
  have "ValidateRawManifest (sample_manifest ?extra) (xt_manifest_sha256 (sample_exit ?extra)) = None"
    using stream_entry_ok(1) [of 2 "''ok''"] stream_entry_ok(2) [of 0 "[]"] stream_entry_ok(3) [of 3 "''log''"]
    by (simp add: ValidateRawManifest_def sample_manifest_def sample_exit_def MaxOutputArtifacts_def)
  then have "ValidateProviderExitRecord (Some (sample_exit ?extra)) = None" by (rule sample_exit_valid)
  then show ?thesis
    by (intro exI [of _ "sample_exit ?extra"])
      (simp add: EvaluateRegisteredPredicate_def fixtureRefusal_def Let_def, simp add: sample_exit_def
        sample_manifest_def)
qed

section \<open>Artifact bindings\<close>

lemma binding_error_None:
  "binding_error names indices bs = None \<longleftrightarrow>
     distinct (map fst bs) \<and> set (map fst bs) \<inter> set names = {}
     \<and> distinct (map snd bs) \<and> set (map snd bs) \<inter> set indices = {}"
  by (induction names indices bs rule: binding_error.induct) auto

lemma check_inputs_None:
  "check_inputs n fs = None \<longleftrightarrow>
     list_all (\<lambda>f. ValidateArtifactName (if_name f) = None \<and> 0 \<le> if_argument_index f \<and> valid_string (if_content f)) fs
     \<and> (fs = [] \<or> n + sum_list (map (length \<circ> if_content) fs) \<le> MaxInputBytes)"
  by (induction n fs rule: check_inputs.induct) (auto simp: go_simps)

lemma distinct_map_sort:
  "distinct (map g (sort_key f xs) @ ys) \<longleftrightarrow> distinct (map g xs @ ys)"
  "distinct (ys @ map g (sort_key f xs)) \<longleftrightarrow> distinct (ys @ map g xs)"
  by (simp_all add: distinct_map)

text \<open>C39: the declared files of a launch are unambiguous. The check of inputs and outputs succeeds exactly when
  each kind has at most 16 declarations, every name is a safe artifact name, no two declarations of
  either kind share a name or an argument slot, no slot is negative, and the contents of the inputs are
  text of at most 64 KiB together.\<close>

theorem bindings_are_unambiguous:
  "ValidateInputOutputBindings ins outs = None \<longleftrightarrow>
     length ins \<le> 16 \<and> length outs \<le> 16
     \<and> list_all (\<lambda>n. ValidateArtifactName n = None) (map if_name ins @ map oa_name outs)
     \<and> distinct (map if_name ins @ map oa_name outs)
     \<and> distinct (map if_argument_index ins @ map oa_argument_index outs)
     \<and> list_all (\<lambda>i. 0 \<le> i) (map if_argument_index ins @ map oa_argument_index outs)
     \<and> list_all valid_string (map if_content ins)
     \<and> sum_list (map (length \<circ> if_content) ins) \<le> 64 * 1024"
proof -
  let ?bs = "map (\<lambda>f. (if_name f, if_argument_index f)) (sort_key if_name ins)
    @ map (\<lambda>a. (oa_name a, oa_argument_index a)) (sort_key oa_name outs)"
  have inputs: "(\<exists>x. NormalizeInputFiles ins = Inr x) \<longleftrightarrow> length ins \<le> 16 \<and> check_inputs 0 ins = None
      \<and> distinct (map if_name ins)"
    by (auto simp: NormalizeInputFiles_def check_then_Inr_iff go_simps MaxInputFiles_def)
  have outputs: "(\<exists>x. NormalizeOutputArtifacts outs = Inr x) \<longleftrightarrow> length outs \<le> 16
      \<and> list_all (\<lambda>a. ValidateArtifactName (oa_name a) = None \<and> 0 \<le> oa_argument_index a) outs
      \<and> distinct (map oa_name outs)"
    by (auto simp: NormalizeOutputArtifacts_def check_then_Inr_iff go_simps MaxOutputArtifacts_def
        check_output_def first_error_map_None list_all_iff)
  have fst: "map fst ?bs = map if_name (sort_key if_name ins) @ map oa_name (sort_key oa_name outs)" by simp
  have snd: "map snd ?bs = map if_argument_index (sort_key if_name ins)
      @ map oa_argument_index (sort_key oa_name outs)" by simp
  have bindings: "binding_error [] [] ?bs = None \<longleftrightarrow> distinct (map if_name ins @ map oa_name outs)
      \<and> distinct (map if_argument_index ins @ map oa_argument_index outs)"
    unfolding binding_error_None fst snd by (simp only: distinct_map_sort) simp
  have "ValidateInputOutputBindings ins outs = None \<longleftrightarrow> (\<exists>x. NormalizeInputFiles ins = Inr x)
      \<and> (\<exists>x. NormalizeOutputArtifacts outs = Inr x) \<and> binding_error [] [] ?bs = None"
    by (auto simp: ValidateInputOutputBindings_def error_of_None_iff NormalizeInputFiles_def
        NormalizeOutputArtifacts_def bind_result_Inr_iff check_then_Inr_iff)
  also have "\<dots> \<longleftrightarrow> (length ins \<le> 16 \<and> check_inputs 0 ins = None \<and> distinct (map if_name ins))
      \<and> (length outs \<le> 16
        \<and> list_all (\<lambda>a. ValidateArtifactName (oa_name a) = None \<and> 0 \<le> oa_argument_index a) outs
        \<and> distinct (map oa_name outs))
      \<and> distinct (map if_name ins @ map oa_name outs)
      \<and> distinct (map if_argument_index ins @ map oa_argument_index outs)"
    unfolding inputs outputs bindings ..
  finally show ?thesis by (auto simp: check_inputs_None list_all_iff MaxInputBytes_def)
qed

end
